(* ===== verification/Prelude.thy ===== *)
theory Prelude
  imports Main "HOL-Library.Word" "HOL-Library.AList" "HOL-Library.Char_ord"
    "HOL-Library.List_Lexorder" "HOL-Library.Multiset"
begin

text \<open>
  What every component of the development shares: the names of the value types the Go code
  passes around, Go maps as association lists with the laws of their update, single-bit
  tests on 32-bit masks, the pieces of Go's \<^verbatim>\<open>strings\<close> package the code uses, rows of a
  database table as lists, and the interface of a machine that keeps an invariant.

  Go strings are byte strings, so they are HOL's \<open>string\<close>; Go's \<open><\<close> on strings is the
  lexicographic order on bytes, which is what \<^verbatim>\<open>List_Lexorder\<close> over \<^verbatim>\<open>Char_ord\<close> gives. White
  space, in the sense of \<^verbatim>\<open>strings.TrimSpace\<close>, is the ASCII white space.
\<close>

unbundle bit_operations_syntax

named_theorems cap_consts "the constants of the capability registry"

named_theorems map_get "what a lookup returns after a change of a Go map"

named_theorems row_simps "rows of a table after an update or a delete"

type_synonym ident = string

type_synonym timestamp = nat

subsection \<open>Go maps\<close>

text \<open>
  A Go map is an association list. \<open>gget d m k\<close> is the index expression \<^verbatim>\<open>m[k]\<close>: the zero value
  \<open>d\<close> when the key is missing. \<open>gput\<close> is the assignment \<^verbatim>\<open>m[k] = v\<close>. A range loop is a fold over
  the list. \<open>gmap_ok\<close> says that no key occurs twice, which every assignment keeps.
\<close>

definition gget :: "'v \<Rightarrow> ('k \<times> 'v) list \<Rightarrow> 'k \<Rightarrow> 'v" where
  "gget d m k = (case map_of m k of None \<Rightarrow> d | Some v \<Rightarrow> v)"

definition gput :: "('k \<times> 'v) list \<Rightarrow> 'k \<Rightarrow> 'v \<Rightarrow> ('k \<times> 'v) list" where
  "gput m k v = AList.update k v m"

definition gmap_ok :: "('k \<times> 'v) list \<Rightarrow> bool" where
  "gmap_ok m \<longleftrightarrow> distinct (map fst m)"

subsection \<open>Masks\<close>

definition bit32 :: "nat \<Rightarrow> 32 word" where
  "bit32 n = push_bit n 1"

subsection \<open>Strings\<close>

definition has_prefix :: "string \<Rightarrow> string \<Rightarrow> bool" where
  "has_prefix s p \<longleftrightarrow> take (length p) s = p"

definition has_suffix :: "string \<Rightarrow> string \<Rightarrow> bool" where
  "has_suffix s p \<longleftrightarrow> has_prefix (rev s) (rev p)"

definition trim_prefix :: "string \<Rightarrow> string \<Rightarrow> string" where
  "trim_prefix s p = (if has_prefix s p then drop (length p) s else s)"

definition trim_suffix :: "string \<Rightarrow> string \<Rightarrow> string" where
  "trim_suffix s p = (if has_suffix s p then take (length s - length p) s else s)"

definition is_space :: "char \<Rightarrow> bool" where
  "is_space c \<longleftrightarrow> c = CHR '' '' \<or> (9 \<le> (of_char c :: nat) \<and> (of_char c :: nat) \<le> 13)"

definition trim_space :: "string \<Rightarrow> string" where
  "trim_space s = rev (dropWhile is_space (rev (dropWhile is_space s)))"

text \<open>\<^verbatim>\<open>strings.FieldsFunc\<close>: the maximal non-empty runs of bytes that are not separators.\<close>

fun fields_acc :: "(char \<Rightarrow> bool) \<Rightarrow> string \<Rightarrow> string \<Rightarrow> string list" where
  "fields_acc f acc [] = (if acc = [] then [] else [rev acc])"
| "fields_acc f acc (c # cs) =
     (if f c then (if acc = [] then fields_acc f [] cs else rev acc # fields_acc f [] cs)
      else fields_acc f (c # acc) cs)"

definition fields_func :: "(char \<Rightarrow> bool) \<Rightarrow> string \<Rightarrow> string list" where
  "fields_func f s = fields_acc f [] s"

text \<open>\<^verbatim>\<open>strings.Split\<close> on one separator byte: the pieces between the separators, empty ones
  included; the empty string is one empty piece.\<close>

fun split_on :: "char \<Rightarrow> string \<Rightarrow> string list" where
  "split_on sep [] = [[]]"
| "split_on sep (c # cs) =
     (if c = sep then [] # split_on sep cs
      else (case split_on sep cs of [] \<Rightarrow> [[c]] | w # ws \<Rightarrow> (c # w) # ws))"

text \<open>\<^verbatim>\<open>strings.Join\<close>.\<close>

fun join :: "string \<Rightarrow> string list \<Rightarrow> string" where
  "join sep [] = []"
| "join sep [w] = w"
| "join sep (w # v # ws) = w @ sep @ join sep (v # ws)"

text \<open>
  \<^verbatim>\<open>path.Clean\<close>: the path is read element by element; empty elements and \<^verbatim>\<open>.\<close> are dropped,
  \<^verbatim>\<open>..\<close> removes the element before it, is dropped at the root of a rooted path and kept at
  the start of a relative one; the empty result is \<^verbatim>\<open>.\<close> (or \<^verbatim>\<open>/\<close>). The accumulator holds the
  kept elements, last first.
\<close>

fun clean_elems :: "bool \<Rightarrow> string list \<Rightarrow> string list \<Rightarrow> string list" where
  "clean_elems rooted acc [] = rev acc"
| "clean_elems rooted acc (e # es) =
     (if e = [] \<or> e = ''.'' then clean_elems rooted acc es
      else if e = ''..'' then
        (case acc of
           [] \<Rightarrow> clean_elems rooted (if rooted then [] else [''..'']) es
         | a # as \<Rightarrow> if a = ''..'' then clean_elems rooted (''..'' # acc) es
                     else clean_elems rooted as es)
      else clean_elems rooted (e # acc) es)"

definition path_clean :: "string \<Rightarrow> string" where
  "path_clean p =
     (let rooted = has_prefix p ''/'';
          body = join ''/'' (clean_elems rooted [] (split_on (CHR ''/'') p))
      in if rooted then CHR ''/'' # body else if body = [] then ''.'' else body)"

subsection \<open>Text\<close>

text \<open>A newline, an em dash in UTF-8, a name between quotes, and numbers in decimal.\<close>

text \<open>A \<^verbatim>\<open>time.Duration\<close> is a number of nanoseconds in 64 bits.\<close>

definition second :: int where
  "second = 1000000000"

definition wrap64 :: "int \<Rightarrow> int" where
  "wrap64 x = (x + 2 ^ 63) mod 2 ^ 64 - 2 ^ 63"

lemma wrap64_small: "- (2 ^ 63) \<le> x \<Longrightarrow> x < 2 ^ 63 \<Longrightarrow> wrap64 x = x"
  by (simp add: wrap64_def)

definition nl :: string where
  "nl = [CHR 0x0A]"

definition em_dash :: string where
  "em_dash = [CHR 0xE2, CHR 0x80, CHR 0x94]"

definition quoted :: "string \<Rightarrow> string" where
  "quoted s = [CHR 0x22] @ s @ [CHR 0x22]"

fun show_nat :: "nat \<Rightarrow> string" where
  "show_nat n = (if n < 10 then [char_of (48 + n)] else show_nat (n div 10) @ [char_of (48 + n mod 10)])"

definition show_int :: "int \<Rightarrow> string" where
  "show_int i = (if i < 0 then ''-'' @ show_nat (nat (- i)) else show_nat (nat i))"

subsection \<open>Tables\<close>

text \<open>
  A table is the list of its rows. \<open>update_where\<close> is an UPDATE with its WHERE clause,
  \<open>delete_where\<close> a DELETE, \<open>count_where\<close> a SELECT COUNT. Their results are the new table;
  the number of rows an UPDATE affected is \<open>count_where\<close> of its clause.
\<close>

definition update_where :: "('r \<Rightarrow> bool) \<Rightarrow> ('r \<Rightarrow> 'r) \<Rightarrow> 'r list \<Rightarrow> 'r list" where
  "update_where p f rs = map (\<lambda>r. if p r then f r else r) rs"

definition delete_where :: "('r \<Rightarrow> bool) \<Rightarrow> 'r list \<Rightarrow> 'r list" where
  "delete_where p rs = filter (\<lambda>r. \<not> p r) rs"

definition count_where :: "('r \<Rightarrow> bool) \<Rightarrow> 'r list \<Rightarrow> nat" where
  "count_where p rs = length (filter p rs)"

text \<open>\<^verbatim>\<open>ORDER BY key DESC\<close>; rows with equal keys keep the order of the table.\<close>

definition order_desc :: "('r \<Rightarrow> 'k::linorder) \<Rightarrow> 'r list \<Rightarrow> 'r list" where
  "order_desc key rs = rev (sort_key key (rev rs))"

subsection \<open>Go maps: laws\<close>

lemma gget_gput [simp, map_get]: "gget d (gput m k v) k' = (if k' = k then v else gget d m k')"
  by (simp add: gget_def gput_def update_conv')

lemma gget_Nil [simp, map_get]: "gget d [] k = d"
  by (simp add: gget_def)

lemma gget_Cons [map_get]: "gget d ((k, v) # m) k' = (if k' = k then v else gget d m k')"
  by (simp add: gget_def)

lemma gmap_ok_Nil [simp]: "gmap_ok []"
  by (simp add: gmap_ok_def)

lemma gmap_ok_gput [simp]: "gmap_ok m \<Longrightarrow> gmap_ok (gput m k v)"
  by (simp add: gmap_ok_def gput_def distinct_update)

lemma gget_not_key: "k \<notin> fst ` set m \<Longrightarrow> gget d m k = d"
  by (simp add: gget_def map_of_eq_None_iff[symmetric])

lemma gmap_ok_ConsD: "gmap_ok ((k, v) # m) \<Longrightarrow> gmap_ok m \<and> gget d m k = d"
  by (auto simp: gmap_ok_def intro!: gget_not_key)

lemma gput_keys: "fst ` set (gput m k v) = insert k (fst ` set m)"
proof -
  have "dom (map_of (AList.update k v m)) = insert k (dom (map_of m))"
    by (simp add: update_conv')
  then show ?thesis by (simp add: gput_def dom_map_of_conv_image_fst)
qed

text \<open>A range loop that rewrites the entry of each key it meets computes a pointwise result.\<close>

lemma gget_range_loop:
  assumes "gmap_ok m" and g: "\<And>k v acc k'. gget d (g (k, v) acc) k' =
      (if k' = k then h k v (gget d acc k') else gget d acc k')"
  shows "gget d (fold g m acc) k =
    (case map_of m k of None \<Rightarrow> gget d acc k | Some v \<Rightarrow> h k v (gget d acc k))"
  using assms(1)
proof (induction m arbitrary: acc)
  case Nil
  then show ?case by simp
next
  case (Cons e m)
  obtain k0 v0 where e: "e = (k0, v0)" by (cases e)
  from Cons.prems have ok: "gmap_ok m" and k0: "map_of m k0 = None"
    by (auto simp: e gmap_ok_def map_of_eq_None_iff)
  show ?case
    using k0 by (auto simp: e Cons.IH[OF ok] g split: option.splits)
qed

lemma map_of_gput [map_get]: "map_of (gput m k v) = (map_of m)(k \<mapsto> v)"
  by (simp add: gput_def update_conv')

text \<open>A loop that assigns one entry per selected element: what a key is mapped to.\<close>

lemma put_loop_Some:
  assumes "map_of (fold (\<lambda>d m. if P d then gput m (k d) (v d) else m) ds acc) x = Some c"
  shows "map_of acc x = Some c \<or> (\<exists>d \<in> set ds. P d \<and> k d = x \<and> v d = c)"
  using assms
proof (induction ds arbitrary: acc)
  case (Cons d ds)
  from Cons.IH[of "if P d then gput acc (k d) (v d) else acc"] Cons.prems show ?case
    by (auto simp: map_of_gput split: if_splits)
qed simp

lemma put_loop_other:
  "\<forall>d \<in> set ds. P d \<longrightarrow> k d \<noteq> x \<Longrightarrow>
   map_of (fold (\<lambda>d m. if P d then gput m (k d) (v d) else m) ds acc) x = map_of acc x"
  by (induction ds arbitrary: acc) (auto simp: map_of_gput)

lemma put_loop_lookup:
  assumes "distinct (map k (filter P ds))" "d \<in> set ds" "P d"
  shows "map_of (fold (\<lambda>d m. if P d then gput m (k d) (v d) else m) ds acc) (k d) = Some (v d)"
  using assms
proof (induction ds arbitrary: acc)
  case (Cons e ds)
  show ?case
  proof (cases "e = d")
    case True
    with Cons.prems have "\<forall>e \<in> set ds. P e \<longrightarrow> k e \<noteq> k d"
      by (fastforce simp: image_iff)
    with True Cons.prems show ?thesis by (simp add: put_loop_other map_of_gput)
  next
    case False
    with Cons show ?thesis by (auto split: if_splits)
  qed
qed simp

subsection \<open>Masks: laws\<close>

lemma and_eq_self_iff: "(a AND b = a) = (\<forall>n. bit a n \<longrightarrow> bit b n)" for a b :: "32 word"
proof
  assume eq: "a AND b = a"
  show "\<forall>n. bit a n \<longrightarrow> bit b n" using bit_and_iff[of a b] unfolding eq by blast
next
  assume "\<forall>n. bit a n \<longrightarrow> bit b n"
  then show "a AND b = a" by (auto intro!: bit_eqI simp: bit_and_iff)
qed

lemma uint_less_31: "(\<And>n. bit w n \<Longrightarrow> n \<le> 30) \<Longrightarrow> uint w < 2 ^ 31" for w :: "32 word"
proof -
  assume b: "\<And>n. bit w n \<Longrightarrow> n \<le> 30"
  have "take_bit 31 (uint w) = uint w"
    using b by (intro bit_eqI) (fastforce simp: bit_take_bit_iff bit_uint_iff)
  then show ?thesis by (metis take_bit_int_less_exp)
qed

lemma and_bit32_eq_0: "n < 32 \<Longrightarrow> (m AND bit32 n = 0) = (\<not> bit m n)" for m :: "32 word"
  by (simp add: bit32_def and_exp_eq_0_iff_not_bit push_bit_eq_mult flip: push_bit_eq_mult)

lemma bit_or_bit32: "bit (m OR bit32 n) k = (bit m k \<or> (k = n \<and> n < 32))" for m :: "32 word"
  by (auto simp: bit_or_iff bit32_def bit_exp_iff)

lemma bit32_inj: "i < 32 \<Longrightarrow> j < 32 \<Longrightarrow> (bit32 i = bit32 j) = (i = j)"
proof -
  assume "i < 32" "j < 32"
  then have "bit (bit32 i) i" "bit (bit32 j) k = (k = j)" for k
    by (auto simp: bit32_def bit_exp_iff)
  then show ?thesis by metis
qed

subsection \<open>Strings: laws\<close>

lemma has_prefix_append [simp]: "has_prefix (p @ s) p"
  by (simp add: has_prefix_def)

lemma has_prefix_iff: "has_prefix s p = (\<exists>t. s = p @ t)"
  by (metis append_take_drop_id has_prefix_append has_prefix_def)

lemma split_on_not_Nil [simp]: "split_on sep s \<noteq> []"
  by (induction s) (auto split: list.splits)

lemma split_on_join:
  assumes "\<forall>w \<in> set ws. sep \<notin> set w" and "ws \<noteq> []"
  shows "split_on sep (join [sep] ws) = ws"
proof -
  have one: "split_on sep w = [w]" if "sep \<notin> set w" for w
    using that by (induction w) auto
  have app: "split_on sep (w @ sep # s) = w # split_on sep s" if "sep \<notin> set w" for w s
    using that by (induction w) auto
  show ?thesis
    using assms by (induction "[sep]" ws rule: join.induct) (auto simp: one app)
qed

subsection \<open>Tables: laws\<close>

lemma set_delete_where [simp, row_simps]: "set (delete_where p rs) = {r \<in> set rs. \<not> p r}"
  by (auto simp: delete_where_def)

lemma in_update_where [row_simps]:
  "(x \<in> set (update_where p f rs)) = (\<exists>r \<in> set rs. x = (if p r then f r else r))"
  by (auto simp: update_where_def)

lemma list_ex_update_where [row_simps]:
  "list_ex q (update_where p f rs) = list_ex (\<lambda>r. q (if p r then f r else r)) rs"
  by (induction rs) (simp_all add: update_where_def)

lemma list_ex_update_same: "(\<And>r. q (f r) = q r) \<Longrightarrow> list_ex q (update_where p f rs) = list_ex q rs"
  by (simp add: list_ex_update_where if_distrib[of q] cong: if_cong)

lemma count_where_0 [row_simps]: "(count_where p rs = 0) = (\<forall>r \<in> set rs. \<not> p r)"
  by (auto simp: count_where_def filter_empty_conv)

lemma count_where_pos [row_simps]: "(0 < count_where p rs) = (\<exists>r \<in> set rs. p r)"
  using count_where_0[of p rs] by auto

lemma count_where_append [row_simps]: "count_where p (xs @ ys) = count_where p xs + count_where p ys"
  by (simp add: count_where_def)

lemma count_where_single [row_simps]: "count_where p [x] = (if p x then 1 else 0)"
  by (simp add: count_where_def)

lemma map_update_where [row_simps]:
  "(\<And>r. g (f r) = g r) \<Longrightarrow> map g (update_where p f rs) = map g rs"
  by (auto simp: update_where_def)

text \<open>Deleting the rows of one owner and inserting new ones for it, then reading an owner's rows.\<close>

lemma filter_replace_rows:
  assumes "\<And>v. k (f v) = x"
  shows "filter (\<lambda>v. k v = y) (delete_where (\<lambda>v. k v = x) rs @ map f vs) =
    (if y = x then map f vs else filter (\<lambda>v. k v = y) rs)"
proof -
  have "filter (\<lambda>v. k v \<noteq> x \<and> k v = y) rs = (if y = x then [] else filter (\<lambda>v. k v = y) rs)"
    by (induction rs) auto
  then show ?thesis by (simp add: delete_where_def filter_map comp_def assms)
qed

text \<open>The row with a given key, in a table whose key is unique.\<close>

lemma filter_key:
  assumes "distinct (map k rs)" "r \<in> set rs"
  shows "filter (\<lambda>q. k q = k r) rs = [r]"
  using assms
proof (induction rs)
  case (Cons x rs)
  have "filter (\<lambda>q. k q = k x) rs = []" using Cons.prems(1) by (simp add: filter_empty_conv) (metis image_eqI)
  with Cons show ?case by (auto split: if_splits)
qed simp

lemma set_order_desc [simp]: "set (order_desc key rs) = set rs"
  by (simp add: order_desc_def)

lemma length_order_desc [simp]: "length (order_desc key rs) = length rs"
  by (simp add: order_desc_def)

lemma mset_order_desc [simp]: "mset (order_desc key rs) = mset rs"
  by (simp add: order_desc_def)

lemma sorted_order_desc: "sorted_wrt (\<lambda>a b. key b \<le> key a) (order_desc key rs)"
proof -
  have "sorted_wrt (\<lambda>a b. key a \<le> key b) (sort_key key (rev rs))"
    using sorted_sort_key[of key "rev rs"] by (simp add: sorted_map)
  then show ?thesis by (simp add: order_desc_def sorted_wrt_rev)
qed

subsection \<open>Machines that keep an invariant\<close>

text \<open>
  The interface every stateful component offers: a step function over its operations and an
  invariant every step keeps. A client may run any sequence of operations.
\<close>

locale guarded_machine =
  fixes step :: "'s \<Rightarrow> 'op \<Rightarrow> 's"
    and inv :: "'s \<Rightarrow> bool"
  assumes step_inv: "inv s \<Longrightarrow> inv (step s a)"
begin

lemma run_inv: "inv s \<Longrightarrow> inv (foldl step s as)"
  by (induction as arbitrary: s) (auto simp: step_inv)

lemma run_inv_prefix: "inv s \<Longrightarrow> inv (foldl step s (take n as))"
  by (rule run_inv)

end

end
