(* ===== verification/Caps.thy ===== *)
theory Caps
  imports Prelude
begin

text \<open>
  The capability registry and its algebra: \<^verbatim>\<open>internal/caps/caps.go\<close>, \<^verbatim>\<open>scoped.go\<close> and
  \<^verbatim>\<open>cache.go\<close>. A capability is a namespace and one bit of that namespace's 32-bit mask; a set
  is a Go map from namespaces to masks; \<open>AllCaps\<close> is the registry, in the order of the source,
  without the user-facing descriptions. The lookups that the package's \<^verbatim>\<open>init\<close> builds are the
  definitions \<open>areaOf\<close>, \<open>byName\<close>, \<open>byCap\<close>, \<open>Everything\<close>, \<open>EnvScopable\<close> and \<open>viewOf\<close>.
\<close>

section \<open>Types\<close>

type_synonym namespace = string

type_synonym mask = "32 word"

type_synonym cap_set = "(namespace \<times> mask) list"

record cap =
  NS :: namespace
  Bit :: mask

record area =
  area_ns :: namespace
  area_label :: string

datatype mode = ModeView | ModeEdit | ModeStandalone

datatype scope = ScopeGlobal | ScopeEnv

record capdef =
  def_cap :: cap
  def_name :: string
  def_object :: string
  def_mode :: mode
  def_scope :: scope

definition mkdef :: "cap \<Rightarrow> string \<Rightarrow> string \<Rightarrow> mode \<Rightarrow> scope \<Rightarrow> capdef" where
  [cap_consts]: "mkdef c n ob m s =
     \<lparr>def_cap = c, def_name = n, def_object = ob, def_mode = m, def_scope = s\<rparr>"

definition MaxBit :: nat where
  "MaxBit = 30"

section \<open>The registry\<close>

definition NSDocker :: namespace where
  [cap_consts]: "NSDocker = ''docker''"

definition NSDeploy :: namespace where
  [cap_consts]: "NSDeploy = ''deploy''"

definition NSData :: namespace where
  [cap_consts]: "NSData = ''data''"

definition NSObserve :: namespace where
  [cap_consts]: "NSObserve = ''observe''"

definition NSAdmin :: namespace where
  [cap_consts]: "NSAdmin = ''admin''"

definition NSSwarm :: namespace where
  [cap_consts]: "NSSwarm = ''swarm''"

definition NSCerts :: namespace where
  [cap_consts]: "NSCerts = ''certs''"

definition NSKeyrings :: namespace where
  [cap_consts]: "NSKeyrings = ''keyrings''"

definition NSSSHKeys :: namespace where
  [cap_consts]: "NSSSHKeys = ''sshkeys''"

definition NSManifests :: namespace where
  [cap_consts]: "NSManifests = ''manifests''"

definition ContainersView :: cap where
  [cap_consts]: "ContainersView = \<lparr>NS = NSDocker, Bit = bit32 0\<rparr>"

definition ContainersEdit :: cap where
  [cap_consts]: "ContainersEdit = \<lparr>NS = NSDocker, Bit = bit32 1\<rparr>"

definition ContainersExec :: cap where
  [cap_consts]: "ContainersExec = \<lparr>NS = NSDocker, Bit = bit32 2\<rparr>"

definition ImagesView :: cap where
  [cap_consts]: "ImagesView = \<lparr>NS = NSDocker, Bit = bit32 3\<rparr>"

definition ImagesEdit :: cap where
  [cap_consts]: "ImagesEdit = \<lparr>NS = NSDocker, Bit = bit32 4\<rparr>"

definition NetworksView :: cap where
  [cap_consts]: "NetworksView = \<lparr>NS = NSDocker, Bit = bit32 5\<rparr>"

definition NetworksEdit :: cap where
  [cap_consts]: "NetworksEdit = \<lparr>NS = NSDocker, Bit = bit32 6\<rparr>"

definition VolumesView :: cap where
  [cap_consts]: "VolumesView = \<lparr>NS = NSDocker, Bit = bit32 7\<rparr>"

definition VolumesEdit :: cap where
  [cap_consts]: "VolumesEdit = \<lparr>NS = NSDocker, Bit = bit32 8\<rparr>"

definition SystemPrune :: cap where
  [cap_consts]: "SystemPrune = \<lparr>NS = NSDocker, Bit = bit32 9\<rparr>"

definition StacksView :: cap where
  [cap_consts]: "StacksView = \<lparr>NS = NSDeploy, Bit = bit32 0\<rparr>"

definition StacksEdit :: cap where
  [cap_consts]: "StacksEdit = \<lparr>NS = NSDeploy, Bit = bit32 1\<rparr>"

definition RegistriesView :: cap where
  [cap_consts]: "RegistriesView = \<lparr>NS = NSDeploy, Bit = bit32 2\<rparr>"

definition RegistriesEdit :: cap where
  [cap_consts]: "RegistriesEdit = \<lparr>NS = NSDeploy, Bit = bit32 3\<rparr>"

definition GitCredsView :: cap where
  [cap_consts]: "GitCredsView = \<lparr>NS = NSDeploy, Bit = bit32 4\<rparr>"

definition GitCredsEdit :: cap where
  [cap_consts]: "GitCredsEdit = \<lparr>NS = NSDeploy, Bit = bit32 5\<rparr>"

definition VolSourcesView :: cap where
  [cap_consts]: "VolSourcesView = \<lparr>NS = NSDeploy, Bit = bit32 6\<rparr>"

definition VolSourcesEdit :: cap where
  [cap_consts]: "VolSourcesEdit = \<lparr>NS = NSDeploy, Bit = bit32 7\<rparr>"

definition SecretsReveal :: cap where
  [cap_consts]: "SecretsReveal = \<lparr>NS = NSDeploy, Bit = bit32 8\<rparr>"

definition WebhooksView :: cap where
  [cap_consts]: "WebhooksView = \<lparr>NS = NSDeploy, Bit = bit32 9\<rparr>"

definition WebhooksEdit :: cap where
  [cap_consts]: "WebhooksEdit = \<lparr>NS = NSDeploy, Bit = bit32 10\<rparr>"

definition BackupsView :: cap where
  [cap_consts]: "BackupsView = \<lparr>NS = NSData, Bit = bit32 0\<rparr>"

definition BackupsEdit :: cap where
  [cap_consts]: "BackupsEdit = \<lparr>NS = NSData, Bit = bit32 1\<rparr>"

definition BackupsRestore :: cap where
  [cap_consts]: "BackupsRestore = \<lparr>NS = NSData, Bit = bit32 2\<rparr>"

definition BackupsDownload :: cap where
  [cap_consts]: "BackupsDownload = \<lparr>NS = NSData, Bit = bit32 3\<rparr>"

definition StorageView :: cap where
  [cap_consts]: "StorageView = \<lparr>NS = NSData, Bit = bit32 4\<rparr>"

definition StorageEdit :: cap where
  [cap_consts]: "StorageEdit = \<lparr>NS = NSData, Bit = bit32 5\<rparr>"

definition MonitorsView :: cap where
  [cap_consts]: "MonitorsView = \<lparr>NS = NSObserve, Bit = bit32 0\<rparr>"

definition MonitorsEdit :: cap where
  [cap_consts]: "MonitorsEdit = \<lparr>NS = NSObserve, Bit = bit32 1\<rparr>"

definition AuditView :: cap where
  [cap_consts]: "AuditView = \<lparr>NS = NSObserve, Bit = bit32 2\<rparr>"

definition ServicesView :: cap where
  [cap_consts]: "ServicesView = \<lparr>NS = NSSwarm, Bit = bit32 0\<rparr>"

definition ServicesEdit :: cap where
  [cap_consts]: "ServicesEdit = \<lparr>NS = NSSwarm, Bit = bit32 1\<rparr>"

definition NodesEdit :: cap where
  [cap_consts]: "NodesEdit = \<lparr>NS = NSSwarm, Bit = bit32 2\<rparr>"

definition SwarmEdit :: cap where
  [cap_consts]: "SwarmEdit = \<lparr>NS = NSSwarm, Bit = bit32 3\<rparr>"

definition CertsView :: cap where
  [cap_consts]: "CertsView = \<lparr>NS = NSCerts, Bit = bit32 0\<rparr>"

definition CertsEdit :: cap where
  [cap_consts]: "CertsEdit = \<lparr>NS = NSCerts, Bit = bit32 1\<rparr>"

definition KeysView :: cap where
  [cap_consts]: "KeysView = \<lparr>NS = NSCerts, Bit = bit32 2\<rparr>"

definition KeysEdit :: cap where
  [cap_consts]: "KeysEdit = \<lparr>NS = NSCerts, Bit = bit32 3\<rparr>"

definition FleetView :: cap where
  [cap_consts]: "FleetView = \<lparr>NS = NSCerts, Bit = bit32 4\<rparr>"

definition FleetEdit :: cap where
  [cap_consts]: "FleetEdit = \<lparr>NS = NSCerts, Bit = bit32 5\<rparr>"

definition KeyringsView :: cap where
  [cap_consts]: "KeyringsView = \<lparr>NS = NSKeyrings, Bit = bit32 0\<rparr>"

definition KeyringsEdit :: cap where
  [cap_consts]: "KeyringsEdit = \<lparr>NS = NSKeyrings, Bit = bit32 1\<rparr>"

definition SSHKeysView :: cap where
  [cap_consts]: "SSHKeysView = \<lparr>NS = NSSSHKeys, Bit = bit32 0\<rparr>"

definition SSHKeysEdit :: cap where
  [cap_consts]: "SSHKeysEdit = \<lparr>NS = NSSSHKeys, Bit = bit32 1\<rparr>"

definition ManifestsView :: cap where
  [cap_consts]: "ManifestsView = \<lparr>NS = NSManifests, Bit = bit32 0\<rparr>"

definition UsersView :: cap where
  [cap_consts]: "UsersView = \<lparr>NS = NSAdmin, Bit = bit32 0\<rparr>"

definition UsersEdit :: cap where
  [cap_consts]: "UsersEdit = \<lparr>NS = NSAdmin, Bit = bit32 1\<rparr>"

definition RolesView :: cap where
  [cap_consts]: "RolesView = \<lparr>NS = NSAdmin, Bit = bit32 2\<rparr>"

definition RolesEdit :: cap where
  [cap_consts]: "RolesEdit = \<lparr>NS = NSAdmin, Bit = bit32 3\<rparr>"

definition SettingsView :: cap where
  [cap_consts]: "SettingsView = \<lparr>NS = NSAdmin, Bit = bit32 4\<rparr>"

definition SettingsEdit :: cap where
  [cap_consts]: "SettingsEdit = \<lparr>NS = NSAdmin, Bit = bit32 5\<rparr>"

definition ClustersView :: cap where
  [cap_consts]: "ClustersView = \<lparr>NS = NSAdmin, Bit = bit32 6\<rparr>"

definition ClustersEdit :: cap where
  [cap_consts]: "ClustersEdit = \<lparr>NS = NSAdmin, Bit = bit32 7\<rparr>"

definition LoggingView :: cap where
  [cap_consts]: "LoggingView = \<lparr>NS = NSAdmin, Bit = bit32 8\<rparr>"

definition LoggingEdit :: cap where
  [cap_consts]: "LoggingEdit = \<lparr>NS = NSAdmin, Bit = bit32 9\<rparr>"

definition ClustersProvision :: cap where
  [cap_consts]: "ClustersProvision = \<lparr>NS = NSAdmin, Bit = bit32 10\<rparr>"

definition Namespaces :: "area list" where
  "Namespaces =
    [\<lparr>area_ns = NSDocker, area_label = ''Docker''\<rparr>,
     \<lparr>area_ns = NSDeploy, area_label = ''Deployments''\<rparr>,
     \<lparr>area_ns = NSData, area_label = ''Backups''\<rparr>,
     \<lparr>area_ns = NSObserve, area_label = ''Monitoring''\<rparr>,
     \<lparr>area_ns = NSSwarm, area_label = ''Swarm''\<rparr>,
     \<lparr>area_ns = NSCerts, area_label = ''Certificates''\<rparr>,
     \<lparr>area_ns = NSKeyrings, area_label = ''Keyrings''\<rparr>,
     \<lparr>area_ns = NSSSHKeys, area_label = ''SSH keys''\<rparr>,
     \<lparr>area_ns = NSManifests, area_label = ''Manifests''\<rparr>,
     \<lparr>area_ns = NSAdmin, area_label = ''Administration''\<rparr>]"

definition all_docker :: "capdef list" where
  [cap_consts]: "all_docker =
    [mkdef ContainersView ''containers.view'' ''containers'' ModeView ScopeEnv,
     mkdef ContainersEdit ''containers.edit'' ''containers'' ModeEdit ScopeEnv,
     mkdef ContainersExec ''containers.exec'' ''containers'' ModeStandalone ScopeEnv,
     mkdef ImagesView ''images.view'' ''images'' ModeView ScopeEnv,
     mkdef ImagesEdit ''images.edit'' ''images'' ModeEdit ScopeEnv,
     mkdef NetworksView ''networks.view'' ''networks'' ModeView ScopeEnv,
     mkdef NetworksEdit ''networks.edit'' ''networks'' ModeEdit ScopeEnv,
     mkdef VolumesView ''volumes.view'' ''volumes'' ModeView ScopeEnv,
     mkdef VolumesEdit ''volumes.edit'' ''volumes'' ModeEdit ScopeEnv,
     mkdef SystemPrune ''system.prune'' ''system'' ModeStandalone ScopeEnv]"

definition all_deploy :: "capdef list" where
  [cap_consts]: "all_deploy =
    [mkdef StacksView ''stacks.view'' ''stacks'' ModeView ScopeEnv,
     mkdef StacksEdit ''stacks.edit'' ''stacks'' ModeEdit ScopeEnv,
     mkdef RegistriesView ''registries.view'' ''registries'' ModeView ScopeEnv,
     mkdef RegistriesEdit ''registries.edit'' ''registries'' ModeEdit ScopeGlobal,
     mkdef GitCredsView ''gitcreds.view'' ''gitcreds'' ModeView ScopeEnv,
     mkdef GitCredsEdit ''gitcreds.edit'' ''gitcreds'' ModeEdit ScopeGlobal,
     mkdef VolSourcesView ''volsources.view'' ''volsources'' ModeView ScopeEnv,
     mkdef VolSourcesEdit ''volsources.edit'' ''volsources'' ModeEdit ScopeEnv,
     mkdef WebhooksView ''webhooks.view'' ''webhooks'' ModeView ScopeEnv,
     mkdef WebhooksEdit ''webhooks.edit'' ''webhooks'' ModeEdit ScopeEnv,
     mkdef SecretsReveal ''secrets.reveal'' ''secrets'' ModeStandalone ScopeEnv]"

definition all_data :: "capdef list" where
  [cap_consts]: "all_data =
    [mkdef BackupsView ''backups.view'' ''backups'' ModeView ScopeEnv,
     mkdef BackupsEdit ''backups.edit'' ''backups'' ModeEdit ScopeEnv,
     mkdef BackupsRestore ''backups.restore'' ''backups'' ModeStandalone ScopeEnv,
     mkdef BackupsDownload ''backups.download'' ''backups'' ModeStandalone ScopeEnv,
     mkdef StorageView ''storage.view'' ''storage'' ModeView ScopeEnv,
     mkdef StorageEdit ''storage.edit'' ''storage'' ModeEdit ScopeGlobal]"

definition all_observe :: "capdef list" where
  [cap_consts]: "all_observe =
    [mkdef MonitorsView ''monitors.view'' ''monitors'' ModeView ScopeEnv,
     mkdef MonitorsEdit ''monitors.edit'' ''monitors'' ModeEdit ScopeEnv,
     mkdef AuditView ''audit.view'' ''audit'' ModeView ScopeEnv]"

definition all_swarm :: "capdef list" where
  [cap_consts]: "all_swarm =
    [mkdef ServicesView ''services.view'' ''services'' ModeView ScopeEnv,
     mkdef ServicesEdit ''services.edit'' ''services'' ModeEdit ScopeEnv,
     mkdef NodesEdit ''nodes.edit'' ''nodes'' ModeStandalone ScopeEnv,
     mkdef SwarmEdit ''swarm.edit'' ''swarm'' ModeStandalone ScopeEnv]"

definition all_certs :: "capdef list" where
  [cap_consts]: "all_certs =
    [mkdef CertsView ''certs.view'' ''certs'' ModeView ScopeEnv,
     mkdef CertsEdit ''certs.edit'' ''certs'' ModeEdit ScopeGlobal,
     mkdef KeysView ''keys.view'' ''keys'' ModeView ScopeEnv,
     mkdef KeysEdit ''keys.edit'' ''keys'' ModeEdit ScopeGlobal,
     mkdef FleetView ''fleet.view'' ''fleet'' ModeView ScopeEnv,
     mkdef FleetEdit ''fleet.edit'' ''fleet'' ModeEdit ScopeGlobal]"

definition all_keyrings :: "capdef list" where
  [cap_consts]: "all_keyrings =
    [mkdef KeyringsView ''keyrings.view'' ''keyrings'' ModeView ScopeEnv,
     mkdef KeyringsEdit ''keyrings.edit'' ''keyrings'' ModeEdit ScopeGlobal]"

definition all_sshkeys :: "capdef list" where
  [cap_consts]: "all_sshkeys =
    [mkdef SSHKeysView ''sshkeys.view'' ''sshkeys'' ModeView ScopeEnv,
     mkdef SSHKeysEdit ''sshkeys.edit'' ''sshkeys'' ModeEdit ScopeGlobal]"

definition all_manifests :: "capdef list" where
  [cap_consts]: "all_manifests =
    [mkdef ManifestsView ''manifests.view'' ''manifests'' ModeView ScopeGlobal]"

definition all_admin :: "capdef list" where
  [cap_consts]: "all_admin =
    [mkdef UsersView ''users.view'' ''users'' ModeView ScopeGlobal,
     mkdef UsersEdit ''users.edit'' ''users'' ModeEdit ScopeGlobal,
     mkdef RolesView ''roles.view'' ''roles'' ModeView ScopeGlobal,
     mkdef RolesEdit ''roles.edit'' ''roles'' ModeEdit ScopeGlobal,
     mkdef SettingsView ''settings.view'' ''settings'' ModeView ScopeGlobal,
     mkdef SettingsEdit ''settings.edit'' ''settings'' ModeEdit ScopeGlobal,
     mkdef ClustersProvision ''clusters.provision'' ''clusters'' ModeStandalone ScopeGlobal,
     mkdef ClustersView ''clusters.view'' ''clusters'' ModeView ScopeEnv,
     mkdef ClustersEdit ''clusters.edit'' ''clusters'' ModeEdit ScopeGlobal,
     mkdef LoggingView ''logging.view'' ''logging'' ModeView ScopeEnv,
     mkdef LoggingEdit ''logging.edit'' ''logging'' ModeEdit ScopeEnv]"

definition AllCaps :: "capdef list" where
  [cap_consts]: "AllCaps = all_docker @ all_deploy @ all_data @ all_observe @ all_swarm @ all_certs @ all_keyrings @ all_sshkeys @ all_manifests @ all_admin"

section \<open>Lookups built once\<close>

definition or_into :: "cap_set \<Rightarrow> namespace \<Rightarrow> mask \<Rightarrow> cap_set" where
  "or_into s ns m = gput s ns (gget 0 s ns OR m)"

definition areaOf :: "(namespace \<times> area) list" where
  "areaOf = fold (\<lambda>a m. gput m (area_ns a) a) Namespaces []"

definition byName :: "(string \<times> cap) list" where
  "byName = fold (\<lambda>d m. gput m (def_name d) (def_cap d)) AllCaps []"

definition byCap :: "(cap \<times> capdef) list" where
  "byCap = fold (\<lambda>d m. gput m (def_cap d) d) AllCaps []"

definition Everything :: cap_set where
  "Everything = fold (\<lambda>d m. or_into m (NS (def_cap d)) (Bit (def_cap d))) AllCaps []"

definition EnvScopable :: cap_set where
  "EnvScopable =
     fold (\<lambda>d m. if def_scope d = ScopeEnv then or_into m (NS (def_cap d)) (Bit (def_cap d)) else m)
       AllCaps []"

definition viewOf :: "(string \<times> cap) list" where
  "viewOf = fold (\<lambda>d m. if def_mode d = ModeView then gput m (def_object d) (def_cap d) else m) AllCaps []"

section \<open>Sets\<close>

definition cap_IsZero :: "cap \<Rightarrow> bool" where
  "cap_IsZero c \<longleftrightarrow> NS c = [] \<or> Bit c = 0"

definition cap_Name :: "cap \<Rightarrow> string" where
  "cap_Name c = (case map_of byCap c of Some d \<Rightarrow> def_name d | None \<Rightarrow> [])"

definition AreaOf :: "namespace \<Rightarrow> area option" where
  "AreaOf ns = map_of areaOf ns"

definition Has :: "cap_set \<Rightarrow> cap \<Rightarrow> bool" where
  "Has s c = (if cap_IsZero c then False else gget 0 s (NS c) AND Bit c \<noteq> 0)"

definition set_IsZero :: "cap_set \<Rightarrow> bool" where
  "set_IsZero s = list_all (\<lambda>(ns, m). m = 0) s"

definition set_Equal :: "cap_set \<Rightarrow> cap_set \<Rightarrow> bool" where
  "set_Equal s t = list_all (\<lambda>a. gget 0 s (area_ns a) = gget 0 t (area_ns a)) Namespaces"

definition set_Or :: "cap_set \<Rightarrow> cap_set \<Rightarrow> cap_set" where
  "set_Or s t =
     fold (\<lambda>(ns, m) out. or_into out ns m) t (fold (\<lambda>(ns, m) out. or_into out ns m) s [])"

definition set_And :: "cap_set \<Rightarrow> cap_set \<Rightarrow> cap_set" where
  "set_And s t =
     fold (\<lambda>(ns, m) out. let x = m AND gget 0 t ns in if x \<noteq> 0 then gput out ns x else out) s []"

definition set_Clone :: "cap_set \<Rightarrow> cap_set" where
  "set_Clone s = fold (\<lambda>(ns, m) out. gput out ns m) s []"

definition set_With :: "cap_set \<Rightarrow> cap \<Rightarrow> cap_set" where
  "set_With s c = (let out = set_Clone s in if \<not> cap_IsZero c then or_into out (NS c) (Bit c) else out)"

text \<open>The object \<^verbatim>\<open>MarshalJSON\<close> emits, as its list of members; \<^verbatim>\<open>encoding/json\<close> writes the
  members of a map in the order of their keys.\<close>

definition MarshalJSON :: "cap_set \<Rightarrow> (string \<times> nat) list" where
  "MarshalJSON s = sort_key fst
     (fold (\<lambda>(ns, m) out. if m \<noteq> 0 then gput out ns (unat m) else out) s [])"

definition Names :: "cap_set \<Rightarrow> string list" where
  "Names s = map def_name (filter (\<lambda>d. Has s (def_cap d)) AllCaps)"

definition ByName :: "string \<Rightarrow> cap option" where
  "ByName n = map_of byName n"

definition normalize_mask :: "cap_set \<Rightarrow> cap_set" where
  "normalize_mask s =
     fold (\<lambda>(ns, m) out. let v = m AND gget 0 Everything ns in if v \<noteq> 0 then gput out ns v else out)
       s []"

definition add_view :: "capdef \<Rightarrow> cap_set \<Rightarrow> cap_set" where
  "add_view d out =
     (if def_mode d = ModeEdit \<and> Has out (def_cap d)
      then (case map_of viewOf (def_object d) of Some v \<Rightarrow> or_into out (NS v) (Bit v) | None \<Rightarrow> out)
      else out)"

definition Normalize :: "cap_set \<Rightarrow> cap_set" where
  "Normalize s = fold add_view AllCaps (normalize_mask s)"

definition Of :: "cap list \<Rightarrow> cap_set" where
  "Of cs = Normalize (fold (\<lambda>c out. if \<not> cap_IsZero c then or_into out (NS c) (Bit c) else out) cs [])"

fun from_names_loop :: "string list \<Rightarrow> cap_set \<Rightarrow> string list \<Rightarrow> cap_set \<times> string list" where
  "from_names_loop [] out unknown = (out, unknown)"
| "from_names_loop (n # ns) out unknown =
     (let n = trim_space n in
      if n = [] then from_names_loop ns out unknown
      else (case ByName n of
              None \<Rightarrow> from_names_loop ns out (unknown @ [n])
            | Some c \<Rightarrow> from_names_loop ns (or_into out (NS c) (Bit c)) unknown))"

definition SetFromNames :: "string list \<Rightarrow> string + cap_set" where
  "SetFromNames names =
     (let (out, unknown) = from_names_loop names [] [] in
      if unknown \<noteq> [] then Inl (''unknown capabilities: '' @ join '', '' (sort unknown))
      else Inr (Normalize out))"

definition GlobalOnly :: "cap_set \<Rightarrow> cap_set" where
  "GlobalOnly s =
     fold (\<lambda>d out. if def_scope d = ScopeGlobal \<and> Has s (def_cap d)
                   then or_into out (NS (def_cap d)) (Bit (def_cap d)) else out) AllCaps []"

definition IsGlobalOnly :: "cap_set \<Rightarrow> bool" where
  "IsGlobalOnly s = (\<not> set_IsZero (GlobalOnly s))"

section \<open>What a user may do, and where\<close>

record scoped_mask =
  Global :: cap_set
  Env :: "(ident \<times> cap_set) list"

definition sm_Has :: "scoped_mask \<Rightarrow> cap \<Rightarrow> ident \<Rightarrow> bool" where
  "sm_Has s c env =
     (if Has (Global s) c then True
      else if env = [] then False
      else Has (gget [] (Env s) env) c)"

definition sm_HasAnywhere :: "scoped_mask \<Rightarrow> cap \<Rightarrow> bool" where
  "sm_HasAnywhere s c = (if Has (Global s) c then True else list_ex (\<lambda>(id, m). Has m c) (Env s))"

definition sm_Envs :: "scoped_mask \<Rightarrow> ident list" where
  "sm_Envs s = sort (map fst (filter (\<lambda>(id, m). \<not> set_IsZero m) (Env s)))"


section \<open>The registry is well formed\<close>

text \<open>Facts about the registry, by evaluation: what \<^verbatim>\<open>TestCeiling\<close>, \<^verbatim>\<open>TestBitsNeverMove\<close> and
  the golden file test in the repository.\<close>

lemma reg_bits: "d \<in> set AllCaps \<Longrightarrow> \<exists>n \<le> MaxBit. Bit (def_cap d) = bit32 n"
proof -
  assume "d \<in> set AllCaps"
  moreover have "list_all (\<lambda>d. Bit (def_cap d) \<in> set (map bit32 [0..<31])) AllCaps"
    by code_simp
  ultimately have "Bit (def_cap d) \<in> set (map bit32 [0..<31])"
    by (simp add: list_all_iff)
  then obtain n where "n < 31" "Bit (def_cap d) = bit32 n" by auto
  then show ?thesis by (auto simp: MaxBit_def intro!: exI[of _ n])
qed

lemma reg_ns: "d \<in> set AllCaps \<Longrightarrow> NS (def_cap d) \<in> set (map area_ns Namespaces)"
proof -
  have "list_all (\<lambda>d. NS (def_cap d) \<in> set (map area_ns Namespaces)) AllCaps" by code_simp
  then show "d \<in> set AllCaps \<Longrightarrow> ?thesis" by (simp add: list_all_iff)
qed

lemma reg_ns_nonempty: "d \<in> set AllCaps \<Longrightarrow> NS (def_cap d) \<noteq> []"
proof -
  have "list_all (\<lambda>a. area_ns a \<noteq> []) Namespaces" by code_simp
  then show "d \<in> set AllCaps \<Longrightarrow> ?thesis" using reg_ns[of d] by (auto simp: list_all_iff)
qed

lemma reg_caps_distinct: "distinct (map def_cap AllCaps)"
  by code_simp

lemma reg_names_distinct: "distinct (map def_name AllCaps)"
  by code_simp

lemma reg_names_trimmed: "d \<in> set AllCaps \<Longrightarrow> trim_space (def_name d) = def_name d \<and> def_name d \<noteq> []"
proof -
  have "list_all (\<lambda>d. trim_space (def_name d) = def_name d \<and> def_name d \<noteq> []) AllCaps" by code_simp
  then show "d \<in> set AllCaps \<Longrightarrow> ?thesis" by (simp add: list_all_iff)
qed

lemma reg_views_distinct: "distinct (map def_object (filter (\<lambda>d. def_mode d = ModeView) AllCaps))"
  by code_simp

text \<open>Every edit capability has a view capability of the same object, at least as widely
  grantable, and it is the one \<open>viewOf\<close> maps the object to.\<close>

lemma reg_edit_view:
  assumes "d \<in> set AllCaps" "def_mode d = ModeEdit"
  obtains v where "v \<in> set AllCaps" "def_mode v = ModeView" "def_object v = def_object d"
    "map_of viewOf (def_object d) = Some (def_cap v)"
    "def_scope d = ScopeEnv \<Longrightarrow> def_scope v = ScopeEnv"
proof -
  have "list_all (\<lambda>d. def_mode d = ModeEdit \<longrightarrow>
      list_ex (\<lambda>v. def_mode v = ModeView \<and> def_object v = def_object d
        \<and> (def_scope d = ScopeEnv \<longrightarrow> def_scope v = ScopeEnv)) AllCaps) AllCaps"
    by code_simp
  then obtain v where v: "v \<in> set AllCaps" "def_mode v = ModeView" "def_object v = def_object d"
    "def_scope d = ScopeEnv \<longrightarrow> def_scope v = ScopeEnv"
    using assms by (auto simp: list_all_iff list_ex_iff)
  moreover have "map_of viewOf (def_object v) = Some (def_cap v)"
    unfolding viewOf_def by (rule put_loop_lookup[OF reg_views_distinct]) (use v in auto)
  ultimately show ?thesis using that by simp
qed

lemma reg_cap_inj: "d \<in> set AllCaps \<Longrightarrow> e \<in> set AllCaps \<Longrightarrow> def_cap d = def_cap e \<Longrightarrow> d = e"
  using reg_caps_distinct by (auto simp: distinct_map dest: inj_onD)

section \<open>Single capabilities in a set\<close>

lemma Has_bit32:
  assumes "NS c \<noteq> []" "Bit c = bit32 n" "n < 32"
  shows "Has s c = bit (gget 0 s (NS c)) n"
proof -
  have "bit32 n \<noteq> 0" using assms(3) and_bit32_eq_0[of n "bit32 n"]
    by (auto simp: bit32_def bit_exp_iff)
  then show ?thesis using assms by (simp add: Has_def cap_IsZero_def and_bit32_eq_0)
qed

lemma reg_Has:
  assumes "d \<in> set AllCaps"
  obtains n where "n \<le> MaxBit" "n < 32" "Bit (def_cap d) = bit32 n"
    "\<forall>s. Has s (def_cap d) = bit (gget 0 s (NS (def_cap d))) n"
proof -
  from reg_bits[OF assms] obtain n where n: "n \<le> MaxBit" "Bit (def_cap d) = bit32 n" by auto
  then have "n < 32" by (simp add: MaxBit_def)
  with n show ?thesis using Has_bit32[OF reg_ns_nonempty[OF assms] n(2)] that by blast
qed

lemma gget_or_into [simp]:
  "gget 0 (or_into s ns m) ns' = (if ns' = ns then gget 0 s ns OR m else gget 0 s ns')"
  by (simp add: or_into_def)

lemma gmap_ok_or_into [simp]: "gmap_ok s \<Longrightarrow> gmap_ok (or_into s ns m)"
  by (simp add: or_into_def)

lemma Has_or_into:
  assumes "d \<in> set AllCaps" "e \<in> set AllCaps"
  shows "Has (or_into s (NS (def_cap e)) (Bit (def_cap e))) (def_cap d) =
    (Has s (def_cap d) \<or> d = e)"
proof -
  obtain n where "n \<le> MaxBit" and n: "n < 32" "Bit (def_cap d) = bit32 n"
    "\<forall>s. Has s (def_cap d) = bit (gget 0 s (NS (def_cap d))) n" using reg_Has[OF assms(1)] by blast
  obtain k where "k \<le> MaxBit" and k: "k < 32" "Bit (def_cap e) = bit32 k"
    "\<forall>s. Has s (def_cap e) = bit (gget 0 s (NS (def_cap e))) k" using reg_Has[OF assms(2)] by blast
  have "d = e \<longleftrightarrow> NS (def_cap d) = NS (def_cap e) \<and> n = k"
    using reg_cap_inj[OF assms] n(1,2) k(1,2) by (auto simp: bit32_inj intro: cap.equality)
  then show ?thesis by (auto simp: n(3) k(2) bit_or_bit32 k(1))
qed

lemma Has_Nil [simp]: "Has [] c = False"
  by (simp add: Has_def)

text \<open>A loop over the registry that ors in the capabilities selected by \<open>P\<close> yields a set that
  holds exactly those.\<close>

lemma Has_registry_loop:
  assumes "set ds \<subseteq> set AllCaps" "d \<in> set AllCaps"
  shows "Has (fold (\<lambda>e out. if P e then or_into out (NS (def_cap e)) (Bit (def_cap e)) else out) ds acc)
      (def_cap d) = (Has acc (def_cap d) \<or> (d \<in> set ds \<and> P d))"
  using assms
  by (induction ds arbitrary: acc) (auto simp: Has_or_into)

lemma gmap_ok_registry_loop:
  "gmap_ok acc \<Longrightarrow>
   gmap_ok (fold (\<lambda>e out. if P e then or_into out (NS (f e)) (Bit (f e)) else out) ds acc)"
  by (induction ds arbitrary: acc) auto

lemma Everything_alt: "Everything =
    fold (\<lambda>d m. if True then or_into m (NS (def_cap d)) (Bit (def_cap d)) else m) AllCaps []"
  by (simp add: Everything_def)

lemma Has_Everything: "d \<in> set AllCaps \<Longrightarrow> Has Everything (def_cap d)"
  unfolding Everything_alt by (subst Has_registry_loop) auto

lemma Has_EnvScopable: "d \<in> set AllCaps \<Longrightarrow> Has EnvScopable (def_cap d) = (def_scope d = ScopeEnv)"
  unfolding EnvScopable_def by (subst Has_registry_loop) auto

lemma Has_GlobalOnly:
  "d \<in> set AllCaps \<Longrightarrow> Has (GlobalOnly s) (def_cap d) = (def_scope d = ScopeGlobal \<and> Has s (def_cap d))"
  unfolding GlobalOnly_def by (subst Has_registry_loop) auto

section \<open>Set operations are pointwise\<close>

lemma gget_or_loop:
  "gmap_ok s \<Longrightarrow>
   gget 0 (fold (\<lambda>(ns, m) out. or_into out ns m) s acc) ns = gget 0 acc ns OR gget 0 s ns"
  by (subst gget_range_loop[where h = "\<lambda>k v a. a OR v"])
     (auto simp: gget_def[of 0 s] split: option.splits)

lemma gmap_ok_or_loop: "gmap_ok acc \<Longrightarrow> gmap_ok (fold (\<lambda>(ns, m) out. or_into out ns m) s acc)"
  by (induction s arbitrary: acc) (auto split: prod.splits)

lemma gget_Or: "gmap_ok s \<Longrightarrow> gmap_ok t \<Longrightarrow> gget 0 (set_Or s t) ns = gget 0 s ns OR gget 0 t ns"
  by (simp add: set_Or_def gget_or_loop)

lemma gmap_ok_Or: "gmap_ok (set_Or s t)"
  by (simp add: set_Or_def gmap_ok_or_loop)

lemma gget_mask_loop:
  "gmap_ok s \<Longrightarrow> gget 0 (fold (\<lambda>(ns, m) out. let x = m AND w ns in if x \<noteq> 0 then gput out ns x else out) s [])
     ns = gget 0 s ns AND (w ns :: mask)"
proof -
  let ?g = "\<lambda>(ns, m) out. let x = m AND w ns in if x \<noteq> 0 then gput out ns x else out"
  assume ok: "gmap_ok s"
  have "gget 0 (fold ?g s acc) ns =
      (case map_of s ns of None \<Rightarrow> gget 0 acc ns
       | Some v \<Rightarrow> (if v AND w ns \<noteq> 0 then v AND w ns else gget 0 acc ns))" for acc
    by (rule gget_range_loop[OF ok, where h = "\<lambda>k v a. if v AND w k \<noteq> 0 then v AND w k else a"])
       (auto simp: Let_def)
  then show ?thesis by (auto simp: gget_def[of 0 s] split: option.splits)
qed

lemma gmap_ok_mask_loop:
  "gmap_ok acc \<Longrightarrow>
   gmap_ok (fold (\<lambda>(ns, m) out. let x = m AND w ns in if x \<noteq> 0 then gput out ns x else out) s acc)"
  by (induction s arbitrary: acc) (auto simp: Let_def split: prod.splits)

lemma gget_And: "gmap_ok s \<Longrightarrow> gget 0 (set_And s t) ns = gget 0 s ns AND gget 0 t ns"
  unfolding set_And_def by (rule gget_mask_loop)

lemma gmap_ok_And: "gmap_ok (set_And s t)"
  unfolding set_And_def by (rule gmap_ok_mask_loop) simp

lemma gget_normalize_mask: "gmap_ok s \<Longrightarrow> gget 0 (normalize_mask s) ns = gget 0 s ns AND gget 0 Everything ns"
  unfolding normalize_mask_def by (rule gget_mask_loop)

lemma gmap_ok_normalize_mask: "gmap_ok (normalize_mask s)"
  unfolding normalize_mask_def by (rule gmap_ok_mask_loop) simp

lemma set_IsZero_iff: "gmap_ok s \<Longrightarrow> set_IsZero s = (\<forall>ns. gget 0 s ns = 0)"
proof -
  assume ok: "gmap_ok s"
  have "gget 0 s ns = m" if "(ns, m) \<in> set s" for ns m
    using that ok by (simp add: gget_def gmap_ok_def)
  moreover have "gget 0 s ns \<noteq> 0 \<Longrightarrow> \<exists>m. (ns, m) \<in> set s \<and> m \<noteq> 0" for ns
    by (auto simp: gget_def split: option.splits dest: map_of_SomeD)
  ultimately show ?thesis by (fastforce simp: set_IsZero_def list_all_iff)
qed

lemma gmap_ok_Everything: "gmap_ok Everything"
  unfolding Everything_alt by (rule gmap_ok_registry_loop) simp

lemma gmap_ok_GlobalOnly: "gmap_ok (GlobalOnly s)"
  unfolding GlobalOnly_def by (rule gmap_ok_registry_loop) simp

lemma Has_Or:
  assumes "d \<in> set AllCaps" "gmap_ok s" "gmap_ok t"
  shows "Has (set_Or s t) (def_cap d) = (Has s (def_cap d) \<or> Has t (def_cap d))"
proof -
  obtain n where "\<forall>s. Has s (def_cap d) = bit (gget 0 s (NS (def_cap d))) n"
    using reg_Has[OF assms(1)] by blast
  then show ?thesis by (simp add: gget_Or assms bit_or_iff)
qed

lemma Has_And:
  assumes "d \<in> set AllCaps" "gmap_ok s"
  shows "Has (set_And s t) (def_cap d) = (Has s (def_cap d) \<and> Has t (def_cap d))"
proof -
  obtain n where "\<forall>s. Has s (def_cap d) = bit (gget 0 s (NS (def_cap d))) n"
    using reg_Has[OF assms(1)] by blast
  then show ?thesis by (simp add: gget_And assms bit_and_iff)
qed

section \<open>Sets that hold registered bits only\<close>

definition registered_bits :: "cap_set \<Rightarrow> bool" where
  "registered_bits s \<longleftrightarrow> (\<forall>ns. gget 0 s ns AND gget 0 Everything ns = gget 0 s ns)"

lemma registered_bits_iff:
  "registered_bits s = (\<forall>ns n. bit (gget 0 s ns) n \<longrightarrow> bit (gget 0 Everything ns) n)"
  by (simp add: registered_bits_def and_eq_self_iff)

lemma bit_registry_loop:
  assumes "bit (gget 0 (fold (\<lambda>e out. if P e then or_into out (NS (def_cap e)) (Bit (def_cap e)) else out)
      ds acc) ns) n" "set ds \<subseteq> set AllCaps"
  shows "bit (gget 0 acc ns) n \<or> (\<exists>d \<in> set ds. P d \<and> def_cap d = \<lparr>NS = ns, Bit = bit32 n\<rparr> \<and> n < 32)"
  using assms
proof (induction ds arbitrary: acc)
  case Nil
  then show ?case by simp
next
  case (Cons e ds)
  from Cons.prems(2) have e: "e \<in> set AllCaps" by simp
  obtain k where k: "k < 32" "Bit (def_cap e) = bit32 k" using reg_Has[OF e] by blast
  show ?case
    using Cons.IH[of "if P e then or_into acc (NS (def_cap e)) (Bit (def_cap e)) else acc"] Cons.prems k
    by (auto simp: bit_or_bit32 split: if_splits intro: cap.equality)
qed

lemma bit_Everything:
  "bit (gget 0 Everything ns) n = (\<exists>d \<in> set AllCaps. def_cap d = \<lparr>NS = ns, Bit = bit32 n\<rparr> \<and> n < 32)"
proof
  assume "bit (gget 0 Everything ns) n"
  then show "\<exists>d \<in> set AllCaps. def_cap d = \<lparr>NS = ns, Bit = bit32 n\<rparr> \<and> n < 32"
    using bit_registry_loop[of "\<lambda>_. True" AllCaps "[]" ns n] unfolding Everything_alt by auto
next
  assume "\<exists>d \<in> set AllCaps. def_cap d = \<lparr>NS = ns, Bit = bit32 n\<rparr> \<and> n < 32"
  then obtain d where d: "d \<in> set AllCaps" "def_cap d = \<lparr>NS = ns, Bit = bit32 n\<rparr>" "n < 32" by auto
  from Has_Everything[OF d(1)] Has_bit32[of "def_cap d" n Everything] reg_ns_nonempty[OF d(1)] d(2,3)
  show "bit (gget 0 Everything ns) n" by simp
qed

lemma registered_bits_eqI:
  assumes "registered_bits s" "registered_bits t"
    and "\<And>d. d \<in> set AllCaps \<Longrightarrow> Has s (def_cap d) = Has t (def_cap d)"
  shows "gget 0 s ns = gget 0 t ns"
proof (rule bit_eqI)
  fix n assume "possible_bit TYPE(32 word) n"
  show "bit (gget 0 s ns) n = bit (gget 0 t ns) n"
  proof (cases "bit (gget 0 Everything ns) n")
    case True
    then obtain d where d: "d \<in> set AllCaps" "def_cap d = \<lparr>NS = ns, Bit = bit32 n\<rparr>" "n < 32"
      by (auto simp: bit_Everything)
    with reg_ns_nonempty[OF d(1)] have "Has u (def_cap d) = bit (gget 0 u ns) n" for u
      by (subst Has_bit32) auto
    with assms(3)[OF d(1)] show ?thesis by simp
  next
    case False
    with assms(1,2) show ?thesis by (auto simp: registered_bits_iff)
  qed
qed

lemma registered_bits_or_into:
  "registered_bits s \<Longrightarrow> d \<in> set AllCaps \<Longrightarrow> registered_bits (or_into s (NS (def_cap d)) (Bit (def_cap d)))"
proof -
  assume s: "registered_bits s" and d: "d \<in> set AllCaps"
  obtain k where k: "k < 32" "Bit (def_cap d) = bit32 k" using reg_Has[OF d] by blast
  have "bit (gget 0 Everything (NS (def_cap d))) k"
    unfolding bit_Everything using d k by (auto intro!: bexI[of _ d] intro: cap.equality)
  then show ?thesis using s k by (auto simp: registered_bits_iff bit_or_bit32)
qed

section \<open>Normalize\<close>

lemma viewOf_view:
  assumes "map_of viewOf ob = Some c"
  obtains v where "v \<in> set AllCaps" "def_mode v = ModeView" "def_object v = ob" "c = def_cap v"
  using put_loop_Some[of "\<lambda>d. def_mode d = ModeView" def_object def_cap AllCaps "[]" ob c] assms that
  unfolding viewOf_def by auto

lemma Has_add_view:
  assumes "d \<in> set AllCaps"
  shows "Has (add_view e acc) (def_cap d) = (Has acc (def_cap d) \<or>
    (def_mode e = ModeEdit \<and> Has acc (def_cap e) \<and> map_of viewOf (def_object e) = Some (def_cap d)))"
proof (cases "map_of viewOf (def_object e)")
  case None
  then show ?thesis by (simp add: add_view_def)
next
  case (Some c)
  from viewOf_view[OF Some] obtain v where v: "v \<in> set AllCaps" "c = def_cap v" by blast
  with Some show ?thesis
    using reg_cap_inj[OF assms v(1)] by (auto simp: add_view_def Has_or_into[OF assms v(1)])
qed

lemma Has_add_views:
  assumes "set ds \<subseteq> set AllCaps" "d \<in> set AllCaps"
  shows "Has (fold add_view ds acc) (def_cap d) = (Has acc (def_cap d) \<or>
    (\<exists>e \<in> set ds. def_mode e = ModeEdit \<and> Has acc (def_cap e)
       \<and> map_of viewOf (def_object e) = Some (def_cap d)))"
  using assms(1)
proof (induction ds arbitrary: acc)
  case Nil
  then show ?case by simp
next
  case (Cons x ds)
  have edit: "Has (add_view x acc) (def_cap e) = Has acc (def_cap e)"
    if "e \<in> set ds" "def_mode e = ModeEdit" for e
  proof -
    have "map_of viewOf (def_object x) \<noteq> Some (def_cap e)"
    proof
      assume "map_of viewOf (def_object x) = Some (def_cap e)"
      then obtain v where "v \<in> set AllCaps" "def_mode v = ModeView" "def_cap e = def_cap v"
        by (rule viewOf_view)
      with that Cons.prems reg_cap_inj[of e v] show False by auto
    qed
    with Has_add_view[of e x acc] that(1) Cons.prems show ?thesis by auto
  qed
  from Cons.prems Cons.IH[of "add_view x acc"] show ?case
    by (auto simp: Has_add_view[OF assms(2)] edit)
qed

lemma registered_bits_add_views: "registered_bits acc \<Longrightarrow> registered_bits (fold add_view ds acc)"
proof (induction ds arbitrary: acc)
  case (Cons x ds)
  have "registered_bits (add_view x acc)"
    using Cons.prems by (auto simp: add_view_def registered_bits_or_into split: option.splits elim!: viewOf_view)
  then show ?case by (simp add: Cons.IH)
qed simp

lemma gmap_ok_add_views: "gmap_ok acc \<Longrightarrow> gmap_ok (fold add_view ds acc)"
  by (induction ds arbitrary: acc) (auto simp: add_view_def split: option.splits)

lemma gmap_ok_Normalize [simp]: "gmap_ok (Normalize s)"
  by (simp add: Normalize_def gmap_ok_add_views gmap_ok_normalize_mask)

lemma registered_bits_normalize_mask: "gmap_ok s \<Longrightarrow> registered_bits (normalize_mask s)"
  by (simp add: registered_bits_def gget_normalize_mask and.assoc)

lemma registered_bits_Normalize: "gmap_ok s \<Longrightarrow> registered_bits (Normalize s)"
  by (simp add: Normalize_def registered_bits_add_views registered_bits_normalize_mask)

lemma Has_normalize_mask:
  assumes "gmap_ok s" "d \<in> set AllCaps"
  shows "Has (normalize_mask s) (def_cap d) = Has s (def_cap d)"
proof -
  obtain n where "\<forall>s. Has s (def_cap d) = bit (gget 0 s (NS (def_cap d))) n"
    using reg_Has[OF assms(2)] by blast
  with Has_Everything[OF assms(2)] show ?thesis by (simp add: gget_normalize_mask assms bit_and_iff)
qed

lemma Has_Normalize:
  assumes "gmap_ok s" "d \<in> set AllCaps"
  shows "Has (Normalize s) (def_cap d) = (Has s (def_cap d) \<or>
    (\<exists>e \<in> set AllCaps. def_mode e = ModeEdit \<and> Has s (def_cap e)
       \<and> map_of viewOf (def_object e) = Some (def_cap d)))"
  unfolding Normalize_def
  by (subst Has_add_views) (auto simp: assms Has_normalize_mask)

lemma Has_Normalize_edit:
  assumes "gmap_ok s" "d \<in> set AllCaps" "def_mode d \<noteq> ModeView"
  shows "Has (Normalize s) (def_cap d) = Has s (def_cap d)"
proof -
  have "map_of viewOf ob \<noteq> Some (def_cap d)" for ob
    using assms(2,3) by (auto elim!: viewOf_view dest: reg_cap_inj)
  then show ?thesis by (simp add: Has_Normalize assms)
qed

lemma Normalize_idem: "gmap_ok s \<Longrightarrow> gget 0 (Normalize (Normalize s)) ns = gget 0 (Normalize s) ns"
proof (rule registered_bits_eqI)
  fix d assume s: "gmap_ok s" and d: "d \<in> set AllCaps"
  have "def_mode e = ModeEdit \<Longrightarrow> e \<in> set AllCaps \<Longrightarrow>
      Has (Normalize s) (def_cap e) = Has s (def_cap e)" for e
    by (simp add: Has_Normalize_edit s)
  then show "Has (Normalize (Normalize s)) (def_cap d) = Has (Normalize s) (def_cap d)"
    by (auto simp: Has_Normalize s d)
qed (simp_all add: registered_bits_Normalize)

section \<open>Names\<close>

lemma byName_alt: "byName = fold (\<lambda>d m. if True then gput m (def_name d) (def_cap d) else m) AllCaps []"
  by (simp add: byName_def)

lemma ByName_def_name: "d \<in> set AllCaps \<Longrightarrow> ByName (def_name d) = Some (def_cap d)"
  unfolding ByName_def byName_alt by (rule put_loop_lookup) (simp_all add: reg_names_distinct)

lemma ByName_registered:
  assumes "ByName n = Some c"
  obtains d where "d \<in> set AllCaps" "def_name d = n" "c = def_cap d"
  using put_loop_Some[of "\<lambda>_. True" def_name def_cap AllCaps "[]" n c] assms that
  unfolding ByName_def byName_alt by auto

definition unknown_names :: "string list \<Rightarrow> string list" where
  "unknown_names names = filter (\<lambda>n. n \<noteq> [] \<and> ByName n = None) (map trim_space names)"

lemma from_names_loop_unknown:
  "snd (from_names_loop names out unknown) = unknown @ unknown_names names"
  by (induction names arbitrary: out unknown)
     (auto simp: unknown_names_def Let_def split: option.splits)

lemma Has_from_names_loop:
  assumes "d \<in> set AllCaps"
  shows "Has (fst (from_names_loop names out unknown)) (def_cap d) =
    (Has out (def_cap d) \<or> def_name d \<in> trim_space ` set names)"
proof (induction names arbitrary: out unknown)
  case Nil
  then show ?case by simp
next
  case (Cons n names)
  have name: "def_name d \<noteq> []" using reg_names_trimmed[OF assms] by simp
  show ?case
  proof (cases "ByName (trim_space n)")
    case None
    then have "def_name d \<noteq> trim_space n" using ByName_def_name[OF assms] by auto
    with None show ?thesis by (auto simp: Let_def Cons.IH)
  next
    case (Some c)
    then obtain e where e: "e \<in> set AllCaps" "def_name e = trim_space n" "c = def_cap e"
      by (rule ByName_registered)
    have "def_name d = def_name e \<Longrightarrow> d = e"
      using ByName_def_name[OF assms] ByName_def_name[OF e(1)] reg_cap_inj[OF assms e(1)] by simp
    then have de: "d = e \<longleftrightarrow> def_name d = trim_space n" using e(2) by auto
    have "trim_space n \<noteq> []" using e(1,2) reg_names_trimmed[of e] by simp
    with Some show ?thesis
      by (simp add: Let_def Cons.IH e(3) Has_or_into[OF assms e(1)] de disj_assoc)
  qed
qed

lemma gmap_ok_from_names_loop: "gmap_ok out \<Longrightarrow> gmap_ok (fst (from_names_loop names out unknown))"
  by (induction names arbitrary: out unknown) (auto simp: Let_def split: option.splits)

lemma SetFromNames_cases:
  "SetFromNames names =
     (if unknown_names names \<noteq> []
      then Inl (''unknown capabilities: '' @ join '', '' (sort (unknown_names names)))
      else Inr (Normalize (fst (from_names_loop names [] []))))"
  using from_names_loop_unknown[of names "[]" "[]"]
  by (auto simp: SetFromNames_def split: prod.splits)

lemma Names_trimmed: "n \<in> set (Names s) \<Longrightarrow> trim_space n = n \<and> ByName n \<noteq> None"
  by (auto simp: Names_def reg_names_trimmed ByName_def_name)

lemma unknown_Names [simp]: "unknown_names (Names s) = []"
  by (auto simp: unknown_names_def filter_empty_conv dest: Names_trimmed)

lemma Names_iff: "d \<in> set AllCaps \<Longrightarrow> (def_name d \<in> set (Names s)) = Has s (def_cap d)"
  using reg_names_distinct by (auto simp: Names_def distinct_map dest: inj_onD)

section \<open>Scoped masks\<close>

lemma sm_Has_global: "sm_Has s c [] = Has (Global s) c"
  by (simp add: sm_Has_def)

lemma sm_Has_anywhere:
  "gmap_ok (Env s) \<Longrightarrow>
   sm_HasAnywhere s c = (Has (Global s) c \<or> (\<exists>env. Has (gget [] (Env s) env) c))"
proof -
  assume ok: "gmap_ok (Env s)"
  have "list_ex (\<lambda>(id, m). Has m c) (Env s) = (\<exists>env. Has (gget [] (Env s) env) c)"
  proof
    assume "list_ex (\<lambda>(id, m). Has m c) (Env s)"
    then obtain id m where "(id, m) \<in> set (Env s)" "Has m c" by (auto simp: list_ex_iff)
    with ok have "gget [] (Env s) id = m" by (simp add: gget_def gmap_ok_def)
    with \<open>Has m c\<close> show "\<exists>env. Has (gget [] (Env s) env) c" by auto
  next
    assume "\<exists>env. Has (gget [] (Env s) env) c"
    then obtain env where "Has (gget [] (Env s) env) c" ..
    then show "list_ex (\<lambda>(id, m). Has m c) (Env s)"
      by (auto simp: gget_def list_ex_iff split: option.splits dest: map_of_SomeD)
  qed
  then show ?thesis by (simp add: sm_HasAnywhere_def)
qed

section \<open>The cache of effective masks\<close>

text \<open>
  \<^verbatim>\<open>cache.go\<close>. The loader is a parameter: \<open>load db u\<close> is what \<^verbatim>\<open>EffectiveMask\<close> answers on the
  database \<open>db\<close>, an error or a mask. \<open>cache_Of\<close> and \<open>cache_Invalidate\<close> are the two methods, run
  without interruption.
\<close>

type_synonym mask_cache = "(ident \<times> scoped_mask) list"

definition NewCache :: mask_cache where
  "NewCache = []"

definition cache_Of ::
  "('db \<Rightarrow> ident \<Rightarrow> 'e + scoped_mask) \<Rightarrow> 'db \<Rightarrow> mask_cache \<Rightarrow> ident \<Rightarrow> mask_cache \<times> ('e + scoped_mask)"
where
  "cache_Of load db c u =
     (case map_of c u of
        Some m \<Rightarrow> (c, Inr m)
      | None \<Rightarrow> (case load db u of
                   Inl e \<Rightarrow> (c, Inl e)
                 | Inr m \<Rightarrow> (gput c u m, Inr m)))"

definition cache_Invalidate :: "mask_cache \<Rightarrow> mask_cache" where
  "cache_Invalidate c = []"

text \<open>
  The same methods as a machine whose steps interleave. \<^verbatim>\<open>Of\<close> releases the lock between its
  three parts: the lookup that misses and the load are one step here (nothing can happen to
  the cache in between that changes either), the store is another. A write commits first and
  invalidates afterwards.
\<close>

record 'db cache_world =
  w_db :: 'db
  w_cache :: mask_cache
  w_loaded :: "(ident \<times> scoped_mask) list"

datatype 'db cache_act = MissLoad ident | Store ident | Commit "'db" | Invalidate

fun cache_do ::
  "('db \<Rightarrow> ident \<Rightarrow> 'e + scoped_mask) \<Rightarrow> 'db cache_world \<Rightarrow> 'db cache_act \<Rightarrow> 'db cache_world" where
  "cache_do load w (MissLoad u) =
     (case map_of (w_cache w) u of
        Some m \<Rightarrow> w
      | None \<Rightarrow> (case load (w_db w) u of
                   Inl e \<Rightarrow> w
                 | Inr m \<Rightarrow> w\<lparr>w_loaded := gput (w_loaded w) u m\<rparr>))"
| "cache_do load w (Store u) =
     (case map_of (w_loaded w) u of
        None \<Rightarrow> w
      | Some m \<Rightarrow> w\<lparr>w_cache := gput (w_cache w) u m, w_loaded := AList.delete u (w_loaded w)\<rparr>)"
| "cache_do load w (Commit db') = w\<lparr>w_db := db'\<rparr>"
| "cache_do load w Invalidate = w\<lparr>w_cache := cache_Invalidate (w_cache w)\<rparr>"

text \<open>What the requests of one client at a time do: a read, or a write followed by the
  invalidation.\<close>

datatype 'db cache_req = Read ident | Write "'db"

fun cache_serve :: "('db \<Rightarrow> ident \<Rightarrow> 'e + scoped_mask) \<Rightarrow> 'db \<times> mask_cache \<Rightarrow> 'db cache_req \<Rightarrow> 'db \<times> mask_cache"
where
  "cache_serve load (db, c) (Read u) = (db, fst (cache_Of load db c u))"
| "cache_serve load (db, c) (Write db') = (db', cache_Invalidate c)"

definition cache_exact :: "('db \<Rightarrow> ident \<Rightarrow> 'e + scoped_mask) \<Rightarrow> 'db \<times> mask_cache \<Rightarrow> bool" where
  "cache_exact load s \<longleftrightarrow> (\<forall>u m. map_of (snd s) u = Some m \<longrightarrow> load (fst s) u = Inr m)"

lemma cache_serve_exact: "cache_exact load s \<Longrightarrow> cache_exact load (cache_serve load s r)"
  by (cases s; cases r)
     (auto simp: cache_exact_def cache_Of_def cache_Invalidate_def map_of_gput split: option.splits sum.splits)

interpretation seq_cache: guarded_machine "cache_serve load" "cache_exact load" for load
  by unfold_locales (rule cache_serve_exact)

lemma cache_Of_exact: "cache_exact load (db, c) \<Longrightarrow> snd (cache_Of load db c u) = load db u"
  by (auto simp: cache_exact_def cache_Of_def split: option.splits sum.splits)

section \<open>Properties\<close>

lemma Has_Normalize_object:
  assumes s: "gmap_ok s" and d: "d \<in> set AllCaps"
  shows "Has (Normalize s) (def_cap d) =
    (Has s (def_cap d) \<or> (def_mode d = ModeView \<and>
      (\<exists>e \<in> set AllCaps. def_mode e = ModeEdit \<and> def_object e = def_object d \<and> Has s (def_cap e))))"
proof -
  have "map_of viewOf (def_object e) = Some (def_cap d) \<longleftrightarrow> def_mode d = ModeView \<and> def_object e = def_object d"
    if e: "e \<in> set AllCaps" "def_mode e = ModeEdit" for e
  proof
    assume "map_of viewOf (def_object e) = Some (def_cap d)"
    then obtain v where "v \<in> set AllCaps" "def_mode v = ModeView" "def_object v = def_object e" "def_cap d = def_cap v"
      by (rule viewOf_view)
    with reg_cap_inj[OF d] show "def_mode d = ModeView \<and> def_object e = def_object d" by metis
  next
    assume v: "def_mode d = ModeView \<and> def_object e = def_object d"
    have "map_of viewOf (def_object d) = Some (def_cap d)"
      unfolding viewOf_def by (rule put_loop_lookup[OF reg_views_distinct]) (use v d in auto)
    with v show "map_of viewOf (def_object e) = Some (def_cap d)" by simp
  qed
  then show ?thesis by (auto simp: Has_Normalize s d)
qed

text \<open>C28: normalising a set keeps exactly the registered capabilities it holds and adds exactly
  the view capability of every object whose edit capability it holds; no bit outside the
  registry survives, in known and in unknown namespaces.\<close>

theorem normalize_spec:
  assumes "gmap_ok s"
  shows "registered_bits (Normalize s) \<and>
    (\<forall>d \<in> set AllCaps. Has (Normalize s) (def_cap d) =
      (Has s (def_cap d) \<or> (def_mode d = ModeView \<and>
        (\<exists>e \<in> set AllCaps. def_mode e = ModeEdit \<and> def_object e = def_object d \<and> Has s (def_cap e)))))"
  using registered_bits_Normalize[OF assms] Has_Normalize_object[OF assms] by blast

theorem normalize_spec_witness:
  "gmap_ok ([(NSDeploy, 2), (''future'', 7)] :: cap_set) \<and>
   Has (Normalize [(NSDeploy, 2), (''future'', 7)]) StacksView \<and>
   gget 0 (Normalize [(NSDeploy, 2), (''future'', 7)]) ''future'' = 0"
proof -
  let ?s = "[(NSDeploy, 2), (''future'', 7)] :: cap_set"
  have ok: "gmap_ok ?s" by code_simp
  note spec = normalize_spec[OF ok]
  let ?d = "mkdef StacksView ''stacks.view'' ''stacks'' ModeView ScopeEnv"
  let ?e = "mkdef StacksEdit ''stacks.edit'' ''stacks'' ModeEdit ScopeEnv"
  have "?d \<in> set AllCaps" "?e \<in> set AllCaps" by code_simp+
  moreover have "Has ?s (def_cap ?e)" by code_simp
  ultimately have "Has (Normalize ?s) (def_cap ?d)"
    using spec by (force simp: mkdef_def)
  moreover have "gget 0 Everything ''future'' = 0" by code_simp
  with spec have "gget 0 (Normalize ?s) ''future'' = 0" by (metis and_zero_eq registered_bits_def)
  ultimately show ?thesis using ok by (simp add: mkdef_def)
qed

text \<open>The wire names of a set, read back, give the normalised set: nothing a role editor
  shows is lost or gained on the way through the API.\<close>

lemma names_roundtrip:
  assumes "gmap_ok s"
  shows "\<exists>t. SetFromNames (Names s) = Inr t \<and> (\<forall>ns. gget 0 t ns = gget 0 (Normalize s) ns)"
proof -
  define out where "out = fst (from_names_loop (Names s) [] [])"
  have ok: "gmap_ok out" by (simp add: out_def gmap_ok_from_names_loop)
  have trim: "trim_space ` set (Names s) = set (Names s)" using Names_trimmed by force
  have has: "Has out (def_cap d) = Has s (def_cap d)" if "d \<in> set AllCaps" for d
    using that by (simp add: out_def Has_from_names_loop trim Names_iff)
  have "gget 0 (Normalize out) ns = gget 0 (Normalize s) ns" for ns
    by (rule registered_bits_eqI)
       (simp_all add: ok assms registered_bits_Normalize Has_Normalize has cong: bex_cong)
  then show ?thesis by (simp add: SetFromNames_cases out_def)
qed

text \<open>A list of names is refused exactly when, after trimming, some non-empty name is not in
  the registry, and the error names all of them.\<close>

lemma unknown_names_refused:
  "(SetFromNames names = Inl e) =
     ((\<exists>n \<in> set names. trim_space n \<noteq> [] \<and> trim_space n \<notin> set (map def_name AllCaps)) \<and>
      e = ''unknown capabilities: '' @ join '', '' (sort (unknown_names names)))"
proof -
  have "ByName n = None \<longleftrightarrow> n \<notin> set (map def_name AllCaps)" for n
  proof
    assume "ByName n = None"
    then show "n \<notin> set (map def_name AllCaps)" using ByName_def_name by fastforce
  next
    assume "n \<notin> set (map def_name AllCaps)"
    then show "ByName n = None" by (cases "ByName n") (auto elim!: ByName_registered)
  qed
  then have "unknown_names names =
      filter (\<lambda>n. n \<noteq> [] \<and> n \<notin> set (map def_name AllCaps)) (map trim_space names)"
    by (simp only: unknown_names_def)
  then have "unknown_names names \<noteq> [] \<longleftrightarrow>
      (\<exists>n \<in> set names. trim_space n \<noteq> [] \<and> trim_space n \<notin> set (map def_name AllCaps))"
    by (simp add: filter_empty_conv)
  then show ?thesis by (auto simp: SetFromNames_cases)
qed

text \<open>A normalised mask fits the signed 32-bit column it is stored in, and reading the stored
  integer back as an unsigned 32-bit mask gives the mask.\<close>

lemma mask_fits_column:
  assumes "gmap_ok s"
  shows "uint (gget 0 (Normalize s) ns) < 2 ^ 31 \<and>
    word_of_int (uint (gget 0 (Normalize s) ns)) = gget 0 (Normalize s) ns"
proof -
  have "n \<le> 30" if "bit (gget 0 (Normalize s) ns) n" for n
  proof -
    from that registered_bits_Normalize[OF assms] have "bit (gget 0 Everything ns) n"
      by (simp add: registered_bits_iff)
    then obtain d where d: "d \<in> set AllCaps" "Bit (def_cap d) = bit32 n" "n < 32"
      by (auto simp: bit_Everything)
    from reg_bits[OF d(1)] obtain k where "k \<le> MaxBit" "bit32 n = bit32 k" by (auto simp: d(2))
    then show ?thesis using d(3) bit32_inj[of n k] by (simp add: MaxBit_def)
  qed
  then have "uint (gget 0 (Normalize s) ns) < 2 ^ 31" by (rule uint_less_31)
  then show ?thesis by simp
qed

text \<open>Served one request at a time, with every write followed by its invalidation, the cache is
  exact: after any requests it answers what the loader answers on the current database.\<close>

lemma cache_exact_sequential:
  "case foldl (cache_serve load) (db, NewCache) rs of
     (db', c) \<Rightarrow> snd (cache_Of load db' c u) = load db' u"
proof -
  have "cache_exact load (db, NewCache)" by (simp add: cache_exact_def NewCache_def)
  then have "cache_exact load (foldl (cache_serve load) (db, NewCache) rs)"
    by (rule seq_cache.run_inv)
  then show ?thesis by (auto simp: cache_Of_exact)
qed

text \<open>With requests interleaved the cache is not exact. A load that was in flight while another
  request committed a change and invalidated the cache stores the old mask afterwards; it then
  stays, with nothing in flight, although the database has another answer.\<close>

lemma cache_stale_after_race:
  assumes "load db u = Inr m" and "load db' u = Inr m'" and "m \<noteq> m'"
  shows "let w = foldl (cache_do load) \<lparr>w_db = db, w_cache = NewCache, w_loaded = []\<rparr>
                  [MissLoad u, Commit db', Invalidate, Store u]
         in w_loaded w = [] \<and> w_db w = db' \<and>
            snd (cache_Of load (w_db w) (w_cache w) u) = Inr m \<and> load (w_db w) u \<noteq> Inr m"
  using assms
  by (simp add: Let_def NewCache_def cache_Invalidate_def cache_Of_def gput_def)

end
