(* ===== verification/Roles.thy ===== *)
theory Roles
  imports Caps
begin

text \<open>
  The role store, \<^verbatim>\<open>internal/store/roles.go\<close>, over the tables of \<^verbatim>\<open>internal/store/migrate.go\<close>: the
  tables are lists of rows in one database record, with the keys, unique indexes, foreign
  keys and cascades the schema declares. Every statement runs to completion (the driver's own
  failures are not modelled); identifiers and the clock are arguments. \<open>role_op\<close> and
  \<open>role_step\<close> gather the writes into one machine.
\<close>

section \<open>The tables\<close>

record user =
  u_id :: ident
  u_kind :: string
  u_disabled :: bool

record role_row =
  ro_id :: ident
  ro_name :: string
  ro_description :: string
  ro_is_admin :: bool
  ro_builtin :: bool
  ro_created_at :: timestamp

record role = role_row +
  ro_caps :: cap_set

record role_cap_row =
  rc_role_id :: ident
  rc_ns :: string
  rc_mask :: int

record scope_t =
  sc_kind :: string
  sc_id :: ident

record member_row =
  rm_user_id :: ident
  rm_role_id :: ident
  rm_source :: string
  rm_scope :: scope_t

record mapping_row =
  om_id :: ident
  om_role_id :: ident
  om_scope :: scope_t

record db =
  users :: "user list"
  roles :: "role_row list"
  role_caps :: "role_cap_row list"
  role_members :: "member_row list"
  oidc_mappings :: "mapping_row list"
  default_roles :: "ident list"
  environments :: "ident list"

datatype store_error = ErrNotFound | ErrLastAdmin | ErrBuiltinRole | ErrBadScope
  | ErrCannotScope string "string list" | ErrUnknownHost | ErrConstraint

section \<open>Reading roles\<close>

definition Effective :: "role \<Rightarrow> cap_set" where
  "Effective r = (if ro_is_admin r then Everything else ro_caps r)"

definition raw_caps :: "db \<Rightarrow> ident list \<Rightarrow> (ident \<times> cap_set) list" where
  "raw_caps s ids =
     fold (\<lambda>c raw. gput raw (rc_role_id c)
             (gput (gget [] raw (rc_role_id c)) (rc_ns c) (word_of_int (rc_mask c))))
       (filter (\<lambda>c. rc_role_id c \<in> set ids) (role_caps s)) []"

definition capsOf :: "db \<Rightarrow> ident list \<Rightarrow> (ident \<times> cap_set) list" where
  "capsOf s ids = (if ids = [] then [] else map (\<lambda>(id, t). (id, Normalize t)) (raw_caps s ids))"

definition withCaps :: "db \<Rightarrow> role_row list \<Rightarrow> role list" where
  "withCaps s rs =
     (let sets = capsOf s (map ro_id rs)
      in map (\<lambda>r. role_row.extend r (role.fields (gget [] sets (ro_id r)))) rs)"

definition oneRole :: "db \<Rightarrow> role_row list \<Rightarrow> store_error + role" where
  "oneRole s rows = (case rows of [] \<Rightarrow> Inl ErrNotFound | r # _ \<Rightarrow> Inr (hd (withCaps s [r])))"

definition RoleByID :: "db \<Rightarrow> ident \<Rightarrow> store_error + role" where
  "RoleByID s rid = oneRole s (filter (\<lambda>r. ro_id r = rid) (roles s))"

definition RoleByName :: "db \<Rightarrow> string \<Rightarrow> store_error + role" where
  "RoleByName s n = oneRole s (filter (\<lambda>r. ro_name r = n) (roles s))"

definition AdminRole :: "db \<Rightarrow> store_error + role" where
  "AdminRole s = oneRole s (sort_key ro_created_at (filter (\<lambda>r. ro_is_admin r \<and> ro_builtin r) (roles s)))"

definition ListRoles :: "db \<Rightarrow> (role \<times> nat) list" where
  "ListRoles s =
     map (\<lambda>r. (r, count_where (\<lambda>m. rm_role_id m = ro_id r) (role_members s)))
       (withCaps s (sort_key (\<lambda>r. if ro_is_admin r then 0 else 1 :: nat) (sort_key ro_name (roles s))))"

section \<open>Writing roles\<close>

definition writeCaps :: "db \<Rightarrow> ident \<Rightarrow> cap_set \<Rightarrow> db" where
  "writeCaps s rid t =
     s\<lparr>role_caps := delete_where (\<lambda>c. rc_role_id c = rid) (role_caps s) @
        map (\<lambda>(ns, m). \<lparr>rc_role_id = rid, rc_ns = ns, rc_mask = uint m\<rparr>)
          (filter (\<lambda>(ns, m). m \<noteq> 0) (Normalize t))\<rparr>"

text \<open>\<open>CreateRole s r new_id now\<close>: the id is minted when the caller gives none, the creation time
  when it is zero. The insert fails on a taken id or name, and the transaction is rolled back.\<close>

definition CreateRole :: "db \<Rightarrow> role \<Rightarrow> ident \<Rightarrow> timestamp \<Rightarrow> store_error + db" where
  "CreateRole s r new_id now =
     (let row = \<lparr>ro_id = (if ro_id r = [] then new_id else ro_id r), ro_name = ro_name r,
                 ro_description = ro_description r, ro_is_admin = ro_is_admin r,
                 ro_builtin = ro_builtin r,
                 ro_created_at = (if ro_created_at r = 0 then now else ro_created_at r)\<rparr>
      in if list_ex (\<lambda>q. ro_id q = ro_id row \<or> ro_name q = ro_name row) (roles s)
         then Inl ErrConstraint
         else Inr (writeCaps (s\<lparr>roles := roles s @ [row]\<rparr>) (ro_id row) (ro_caps r)))"

definition UpdateRole :: "db \<Rightarrow> role \<Rightarrow> store_error + db" where
  "UpdateRole s r =
     (if list_ex (\<lambda>q. ro_id q = ro_id r) (roles s) \<and>
         list_ex (\<lambda>q. ro_name q = ro_name r \<and> ro_id q \<noteq> ro_id r) (roles s) then Inl ErrConstraint
      else if count_where (\<lambda>q. ro_id q = ro_id r) (roles s) = 0 then Inl ErrNotFound
      else Inr (writeCaps
             (s\<lparr>roles := update_where (\<lambda>q. ro_id q = ro_id r)
                  (\<lambda>q. q\<lparr>ro_name := ro_name r, ro_description := ro_description r\<rparr>) (roles s)\<rparr>)
             (ro_id r) (ro_caps r)))"

section \<open>Who is left: the questions behind the lockout guards\<close>

definition admin_role_ids :: "db \<Rightarrow> ident list" where
  "admin_role_ids s = map ro_id (filter ro_is_admin (roles s))"

definition may_sign_in :: "user \<Rightarrow> bool" where
  "may_sign_in u \<longleftrightarrow> \<not> u_disabled u \<and> u_kind u \<noteq> ''bot''"

definition countOtherAdmins :: "db \<Rightarrow> ident \<Rightarrow> nat" where
  "countOtherAdmins s exclude =
     length (remdups (map u_id (filter (\<lambda>u. may_sign_in u \<and>
       list_ex (\<lambda>m. rm_user_id m = u_id u \<and> rm_role_id m \<in> set (admin_role_ids s) \<and> rm_role_id m \<noteq> exclude)
         (role_members s)) (users s))))"

definition countAdminsExcludingUser :: "db \<Rightarrow> ident \<Rightarrow> nat" where
  "countAdminsExcludingUser s exclude =
     length (remdups (map u_id (filter (\<lambda>u. may_sign_in u \<and> u_id u \<noteq> exclude \<and>
       list_ex (\<lambda>m. rm_user_id m = u_id u \<and> rm_role_id m \<in> set (admin_role_ids s))
         (role_members s)) (users s))))"

definition signInAdmin :: "db \<Rightarrow> ident \<Rightarrow> bool" where
  "signInAdmin s uid =
     (list_ex (\<lambda>m. rm_user_id m = uid \<and> rm_role_id m \<in> set (admin_role_ids s)) (role_members s) \<and>
      list_ex (\<lambda>u. u_id u = uid \<and> u_kind u \<noteq> ''bot'') (users s))"

definition hasOtherAdminRole :: "db \<Rightarrow> ident \<Rightarrow> ident \<Rightarrow> bool" where
  "hasOtherAdminRole s uid exclude =
     list_ex (\<lambda>m. rm_user_id m = uid \<and> rm_role_id m \<in> set (admin_role_ids s) \<and> rm_role_id m \<noteq> exclude)
       (role_members s)"

text \<open>DELETE FROM roles cascades to the capabilities, memberships and claim mappings of the role,
  and fails when a provider names the role as its default.\<close>

definition delete_role_row :: "db \<Rightarrow> ident \<Rightarrow> store_error + db" where
  "delete_role_row s rid =
     (if rid \<in> set (default_roles s) \<and> list_ex (\<lambda>r. ro_id r = rid) (roles s) then Inl ErrConstraint
      else Inr (s\<lparr>roles := delete_where (\<lambda>r. ro_id r = rid) (roles s),
                  role_caps := delete_where (\<lambda>c. rc_role_id c = rid) (role_caps s),
                  role_members := delete_where (\<lambda>m. rm_role_id m = rid) (role_members s),
                  oidc_mappings := delete_where (\<lambda>m. om_role_id m = rid) (oidc_mappings s)\<rparr>))"

definition DeleteRole :: "db \<Rightarrow> ident \<Rightarrow> store_error + db" where
  "DeleteRole s rid =
     (case RoleByID s rid of
        Inl e \<Rightarrow> Inl e
      | Inr r \<Rightarrow>
          if ro_builtin r then Inl ErrBuiltinRole
          else if ro_is_admin r \<and> countOtherAdmins s rid = 0 then Inl ErrLastAdmin
          else delete_role_row s rid)"

section \<open>Memberships\<close>

definition scope_Global :: scope_t where
  "scope_Global = \<lparr>sc_kind = ''global'', sc_id = []\<rparr>"

definition OnEnv :: "ident \<Rightarrow> scope_t" where
  "OnEnv e = \<lparr>sc_kind = ''env'', sc_id = e\<rparr>"

definition IsGlobal :: "scope_t \<Rightarrow> bool" where
  "IsGlobal sc \<longleftrightarrow> sc_kind sc = ''global''"

definition scope_Valid :: "scope_t \<Rightarrow> bool" where
  "scope_Valid sc =
     (if sc_kind sc = ''global'' then sc_id sc = []
      else if sc_kind sc = ''env'' then sc_id sc \<noteq> []
      else False)"

definition UserRoles :: "db \<Rightarrow> ident \<Rightarrow> (role_row \<times> member_row) list" where
  "UserRoles s uid =
     sort_key (\<lambda>(r, m). if ro_is_admin r then 0 else 1 :: nat)
       (sort_key (\<lambda>(r, m). ro_name r)
         (sort_key (\<lambda>(r, m). sc_id (rm_scope m))
           [(r, m). m \<leftarrow> role_members s, rm_user_id m = uid, r \<leftarrow> roles s, ro_id r = rm_role_id m]))"

text \<open>The rows of the query of \<^verbatim>\<open>EffectiveMask\<close>: one per membership and area of its role, and one
  with no area for a membership whose role has no capability rows.\<close>

definition mask_rows :: "db \<Rightarrow> ident \<Rightarrow> ((string \<times> int) option \<times> bool \<times> scope_t) list" where
  "mask_rows s uid =
     [(a, ro_is_admin r, rm_scope m).
        m \<leftarrow> role_members s, rm_user_id m = uid,
        r \<leftarrow> roles s, ro_id r = rm_role_id m,
        a \<leftarrow> (case filter (\<lambda>c. rc_role_id c = ro_id r) (role_caps s) of
                [] \<Rightarrow> [None]
              | cs \<Rightarrow> map (\<lambda>c. Some (rc_ns c, rc_mask c)) cs)]"

definition mask_row_step ::
  "(string \<times> int) option \<times> bool \<times> scope_t \<Rightarrow> cap_set \<times> (ident \<times> cap_set) list \<Rightarrow> cap_set \<times> (ident \<times> cap_set) list"
where
  "mask_row_step q acc =
     (case q of (a, is_admin, sc) \<Rightarrow>
        (case acc of (glob, env) \<Rightarrow>
           let row = (case a of None \<Rightarrow> [] | Some (ns, m) \<Rightarrow> [(ns, word_of_int m)])
           in if is_admin \<and> sc_kind sc \<noteq> ''global'' then (glob, env)
              else let row = (if is_admin then Everything else row)
                   in if sc_kind sc = ''global'' then (set_Or glob row, env)
                      else if sc_id sc \<noteq> [] then
                        (glob, gput env (sc_id sc) (set_Or (gget [] env (sc_id sc)) (set_And row EnvScopable)))
                      else (glob, env)))"

definition EffectiveMask :: "db \<Rightarrow> ident \<Rightarrow> store_error + scoped_mask" where
  "EffectiveMask s uid =
     (case fold mask_row_step (mask_rows s uid) ([], []) of
        (glob, env) \<Rightarrow> Inr \<lparr>Global = Normalize glob, Env = map (\<lambda>(id, t). (id, Normalize t)) env\<rparr>)"

definition canGrant :: "db \<Rightarrow> ident \<Rightarrow> scope_t \<Rightarrow> store_error + unit" where
  "canGrant s rid sc =
     (if \<not> scope_Valid sc then Inl ErrBadScope
      else if IsGlobal sc then Inr ()
      else (case RoleByID s rid of
              Inl e \<Rightarrow> Inl e
            | Inr r \<Rightarrow>
                (let bad = GlobalOnly (Effective r) in
                 if \<not> set_IsZero bad then Inl (ErrCannotScope (ro_name r) (Names bad))
                 else if sc_id sc \<notin> set (environments s) then Inl ErrUnknownHost
                 else Inr ())))"

definition member_fk :: "db \<Rightarrow> ident \<Rightarrow> ident \<Rightarrow> bool" where
  "member_fk s uid rid \<longleftrightarrow> list_ex (\<lambda>u. u_id u = uid) (users s) \<and> list_ex (\<lambda>r. ro_id r = rid) (roles s)"

definition same_grant :: "ident \<Rightarrow> ident \<Rightarrow> scope_t \<Rightarrow> member_row \<Rightarrow> bool" where
  "same_grant uid rid sc m \<longleftrightarrow> rm_user_id m = uid \<and> rm_role_id m = rid \<and> rm_scope m = sc"

definition GrantRole :: "db \<Rightarrow> ident \<Rightarrow> ident \<Rightarrow> string \<Rightarrow> scope_t \<Rightarrow> store_error + db" where
  "GrantRole s uid rid source sc =
     (case canGrant s rid sc of
        Inl e \<Rightarrow> Inl e
      | Inr _ \<Rightarrow>
          if \<not> member_fk s uid rid then Inl ErrConstraint
          else if list_ex (same_grant uid rid sc) (role_members s)
          then Inr (s\<lparr>role_members :=
                 update_where (same_grant uid rid sc) (\<lambda>m. m\<lparr>rm_source := source\<rparr>) (role_members s)\<rparr>)
          else Inr (s\<lparr>role_members := role_members s @
                 [\<lparr>rm_user_id = uid, rm_role_id = rid, rm_source = source, rm_scope = sc\<rparr>]\<rparr>))"

definition refuseLastAdminRevoke :: "db \<Rightarrow> ident \<Rightarrow> ident \<Rightarrow> store_error + unit" where
  "refuseLastAdminRevoke s uid rid =
     (if \<not> signInAdmin s uid then Inr ()
      else if 0 < countAdminsExcludingUser s uid then Inr ()
      else if \<not> hasOtherAdminRole s uid rid then Inl ErrLastAdmin
      else Inr ())"

text \<open>\<^verbatim>\<open>RevokeRole\<close> in its two parts: the reads that may refuse, and the DELETE. They are not one
  transaction.\<close>

definition revoke_check :: "db \<Rightarrow> ident \<Rightarrow> ident \<Rightarrow> scope_t \<Rightarrow> store_error + unit" where
  "revoke_check s uid rid sc =
     (case RoleByID s rid of
        Inl e \<Rightarrow> Inl e
      | Inr r \<Rightarrow> if ro_is_admin r \<and> IsGlobal sc then refuseLastAdminRevoke s uid rid else Inr ())"

definition revoke_apply :: "db \<Rightarrow> ident \<Rightarrow> ident \<Rightarrow> scope_t \<Rightarrow> db" where
  "revoke_apply s uid rid sc = s\<lparr>role_members := delete_where (same_grant uid rid sc) (role_members s)\<rparr>"

definition RevokeRole :: "db \<Rightarrow> ident \<Rightarrow> ident \<Rightarrow> scope_t \<Rightarrow> store_error + db" where
  "RevokeRole s uid rid sc =
     (case revoke_check s uid rid sc of Inl e \<Rightarrow> Inl e | Inr _ \<Rightarrow> Inr (revoke_apply s uid rid sc))"

record grant =
  gr_role :: ident
  gr_scope :: scope_t

fun insert_grants :: "db \<Rightarrow> ident \<Rightarrow> grant list \<Rightarrow> store_error + db" where
  "insert_grants s uid [] = Inr s"
| "insert_grants s uid (g # gs) =
     (if \<not> member_fk s uid (gr_role g) then Inl ErrConstraint
      else insert_grants
        (if list_ex (same_grant uid (gr_role g) (gr_scope g)) (role_members s) then s
         else s\<lparr>role_members := role_members s @
            [\<lparr>rm_user_id = uid, rm_role_id = gr_role g, rm_source = ''oidc'', rm_scope = gr_scope g\<rparr>]\<rparr>)
        uid gs)"

definition valid_grants :: "db \<Rightarrow> grant list \<Rightarrow> grant list" where
  "valid_grants s gs = filter (\<lambda>g. canGrant s (gr_role g) (gr_scope g) = Inr ()) gs"

definition SyncOIDCRoles :: "db \<Rightarrow> ident \<Rightarrow> grant list \<Rightarrow> store_error + db" where
  "SyncOIDCRoles s uid gs =
     insert_grants
       (s\<lparr>role_members := delete_where (\<lambda>m. rm_user_id m = uid \<and> rm_source m = ''oidc'') (role_members s)\<rparr>)
       uid (valid_grants s gs)"

definition EnvHasGrants :: "db \<Rightarrow> ident \<Rightarrow> bool" where
  "EnvHasGrants s e = (0 < count_where (\<lambda>m. rm_scope m = OnEnv e) (role_members s))"

definition RevokeEnvGrants :: "db \<Rightarrow> ident \<Rightarrow> db" where
  "RevokeEnvGrants s e =
     s\<lparr>role_members := delete_where (\<lambda>m. rm_scope m = OnEnv e) (role_members s),
       oidc_mappings := delete_where (\<lambda>m. om_scope m = OnEnv e) (oidc_mappings s)\<rparr>"

section \<open>User guards\<close>

definition refuseIfLastAdmin :: "db \<Rightarrow> ident \<Rightarrow> store_error + unit" where
  "refuseIfLastAdmin s uid =
     (if \<not> signInAdmin s uid then Inr ()
      else if countAdminsExcludingUser s uid = 0 then Inl ErrLastAdmin
      else Inr ())"

definition SetUserDisabled :: "db \<Rightarrow> ident \<Rightarrow> bool \<Rightarrow> db" where
  "SetUserDisabled s uid b =
     s\<lparr>users := update_where (\<lambda>u. u_id u = uid) (\<lambda>u. u\<lparr>u_disabled := b\<rparr>) (users s)\<rparr>"

definition DeleteUser :: "db \<Rightarrow> ident \<Rightarrow> db" where
  "DeleteUser s uid =
     s\<lparr>users := delete_where (\<lambda>u. u_id u = uid) (users s),
       role_members := delete_where (\<lambda>m. rm_user_id m = uid) (role_members s)\<rparr>"

definition SetUserDisabledGuarded :: "db \<Rightarrow> ident \<Rightarrow> bool \<Rightarrow> store_error + db" where
  "SetUserDisabledGuarded s uid b =
     (if b then (case refuseIfLastAdmin s uid of Inl e \<Rightarrow> Inl e | Inr _ \<Rightarrow> Inr (SetUserDisabled s uid b))
      else Inr (SetUserDisabled s uid b))"

definition DeleteUserGuarded :: "db \<Rightarrow> ident \<Rightarrow> store_error + db" where
  "DeleteUserGuarded s uid =
     (case refuseIfLastAdmin s uid of Inl e \<Rightarrow> Inl e | Inr _ \<Rightarrow> Inr (DeleteUser s uid))"

section \<open>The writes as one machine\<close>

datatype role_op =
    OpCreateRole role ident timestamp
  | OpUpdateRole role
  | OpDeleteRole ident
  | OpGrantRole ident ident string scope_t
  | OpRevokeRole ident ident scope_t
  | OpRevokeEnvGrants ident
  | OpSetUserDisabled ident bool
  | OpDeleteUser ident

fun role_apply :: "db \<Rightarrow> role_op \<Rightarrow> store_error + db" where
  "role_apply s (OpCreateRole r nid t) = CreateRole s r nid t"
| "role_apply s (OpUpdateRole r) = UpdateRole s r"
| "role_apply s (OpDeleteRole rid) = DeleteRole s rid"
| "role_apply s (OpGrantRole u rid src sc) = GrantRole s u rid src sc"
| "role_apply s (OpRevokeRole u rid sc) = RevokeRole s u rid sc"
| "role_apply s (OpRevokeEnvGrants e) = Inr (RevokeEnvGrants s e)"
| "role_apply s (OpSetUserDisabled u b) = SetUserDisabledGuarded s u b"
| "role_apply s (OpDeleteUser u) = DeleteUserGuarded s u"

definition role_step :: "db \<Rightarrow> role_op \<Rightarrow> db" where
  "role_step s a = (case role_apply s a of Inl e \<Rightarrow> s | Inr s' \<Rightarrow> s')"

text \<open>Somebody who can sign in holds an administrator role, everywhere.\<close>

definition admin_of :: "db \<Rightarrow> user \<Rightarrow> member_row \<Rightarrow> bool" where
  "admin_of s u m \<longleftrightarrow> u \<in> set (users s) \<and> m \<in> set (role_members s) \<and> may_sign_in u \<and>
     rm_user_id m = u_id u \<and> rm_role_id m \<in> set (admin_role_ids s)"

definition has_admin :: "db \<Rightarrow> bool" where
  "has_admin s = list_ex (\<lambda>u. may_sign_in u \<and> list_ex (\<lambda>m. rm_user_id m = u_id u \<and>
     rm_role_id m \<in> set (admin_role_ids s) \<and> IsGlobal (rm_scope m)) (role_members s)) (users s)"

definition members_ok :: "db \<Rightarrow> bool" where
  "members_ok s \<longleftrightarrow> distinct (map ro_id (roles s)) \<and>
     list_all (\<lambda>m. rm_role_id m \<in> set (map ro_id (roles s)) \<and>
       (rm_role_id m \<in> set (admin_role_ids s) \<longrightarrow> IsGlobal (rm_scope m))) (role_members s)"

definition roles_inv :: "db \<Rightarrow> bool" where
  "roles_inv s \<longleftrightarrow> members_ok s \<and> has_admin s"

section \<open>Lemmas on the guards\<close>

lemmas roles_ops = CreateRole_def UpdateRole_def DeleteRole_def GrantRole_def RevokeRole_def
  RevokeEnvGrants_def SetUserDisabledGuarded_def DeleteUserGuarded_def revoke_check_def revoke_apply_def
  delete_role_row_def DeleteUser_def SetUserDisabled_def

lemma length_remdups_pos: "(0 < length (remdups (map f (filter P xs)))) = (\<exists>x \<in> set xs. P x)"
  by (auto simp: filter_empty_conv)

lemma countOtherAdmins_pos:
  "(0 < countOtherAdmins s x) = (\<exists>u m. admin_of s u m \<and> rm_role_id m \<noteq> x)"
  unfolding countOtherAdmins_def length_remdups_pos by (auto simp: list_ex_iff admin_of_def)

lemma countAdminsExcludingUser_pos:
  "(0 < countAdminsExcludingUser s x) = (\<exists>u m. admin_of s u m \<and> u_id u \<noteq> x)"
  unfolding countAdminsExcludingUser_def length_remdups_pos by (auto simp: list_ex_iff admin_of_def)

lemma has_admin_iff: "members_ok s \<Longrightarrow> has_admin s = (\<exists>u m. admin_of s u m)"
  by (auto simp: has_admin_def list_ex_iff admin_of_def members_ok_def list_all_iff)

lemma signInAdmin_admin: "admin_of s u m \<Longrightarrow> signInAdmin s (u_id u)"
  by (auto simp: signInAdmin_def admin_of_def list_ex_iff may_sign_in_def)

lemma role_caps_irrelevant [simp]:
  "admin_role_ids (writeCaps s rid t) = admin_role_ids s"
  "roles (writeCaps s rid t) = roles s"
  "role_members (writeCaps s rid t) = role_members s"
  "users (writeCaps s rid t) = users s"
  by (simp_all add: writeCaps_def admin_role_ids_def)

lemma RoleByID_Inr:
  assumes "RoleByID s rid = Inr r"
  obtains q where "q \<in> set (roles s)" "ro_id q = rid" "ro_is_admin q = ro_is_admin r" "ro_builtin q = ro_builtin r"
    "ro_name q = ro_name r" "ro_id r = rid" "ro_caps r = gget [] (capsOf s [rid]) rid"
proof -
  from assms obtain q qs where q: "filter (\<lambda>r. ro_id r = rid) (roles s) = q # qs"
    and r: "r = hd (withCaps s [q])"
    by (auto simp: RoleByID_def oneRole_def split: list.splits)
  from q have "q \<in> set (filter (\<lambda>r. ro_id r = rid) (roles s))" by simp
  then have "q \<in> set (roles s)" "ro_id q = rid" by auto
  with r that show ?thesis
    by (auto simp: withCaps_def Let_def role_row.extend_def role.fields_def)
qed

lemma RoleByID_admin:
  assumes "members_ok s" "RoleByID s rid = Inr r"
  shows "ro_is_admin r = (rid \<in> set (admin_role_ids s))"
proof -
  from assms(2) obtain q where q: "q \<in> set (roles s)" "ro_id q = rid" "ro_is_admin q = ro_is_admin r"
    by (rule RoleByID_Inr)
  have inj: "inj_on ro_id (set (roles s))" using assms(1) by (simp add: members_ok_def distinct_map)
  have uniq: "q' = q" if "q' \<in> set (roles s)" "ro_id q' = rid" for q'
    by (rule inj_onD[OF inj]) (use that q in auto)
  have "rid \<in> set (admin_role_ids s) \<longleftrightarrow> (\<exists>q' \<in> set (roles s). ro_is_admin q' \<and> ro_id q' = rid)"
    by (auto simp: admin_role_ids_def)
  also have "\<dots> \<longleftrightarrow> ro_is_admin q" using uniq q(1,2) by blast
  finally show ?thesis using q(3) by simp
qed

lemma RoleByID_exists: "rid \<in> set (map ro_id (roles s)) \<Longrightarrow> \<exists>r. RoleByID s rid = Inr r"
  by (auto simp: RoleByID_def oneRole_def filter_empty_conv split: list.splits)

lemma GlobalOnly_zero:
  assumes "set_IsZero (GlobalOnly t)" "d \<in> set AllCaps" "Has t (def_cap d)"
  shows "def_scope d = ScopeEnv"
proof (rule ccontr)
  assume "def_scope d \<noteq> ScopeEnv"
  then have "Has (GlobalOnly t) (def_cap d)"
    using assms Has_GlobalOnly[of d t] by (cases "def_scope d") auto
  then show False
    using assms(1) by (auto simp: set_IsZero_iff[OF gmap_ok_GlobalOnly] Has_def split: if_splits)
qed

lemma Everything_not_scopable: "\<not> set_IsZero (GlobalOnly Everything)"
proof
  let ?d = "mkdef UsersEdit ''users.edit'' ''users'' ModeEdit ScopeGlobal"
  assume "set_IsZero (GlobalOnly Everything)"
  moreover have d: "?d \<in> set AllCaps" by code_simp
  ultimately have "def_scope ?d = ScopeEnv" using Has_Everything[OF d] by (rule GlobalOnly_zero)
  then show False by (simp add: mkdef_def)
qed

text \<open>The rule the scoped model rests on: an administrator role is never granted on one host.\<close>

lemma canGrant_admin_global:
  assumes "members_ok s" "canGrant s rid sc = Inr ()" "rid \<in> set (admin_role_ids s)"
  shows "IsGlobal sc"
proof (rule ccontr)
  assume ng: "\<not> IsGlobal sc"
  have "rid \<in> set (map ro_id (roles s))" using assms(3) by (auto simp: admin_role_ids_def)
  from RoleByID_exists[OF this] obtain r where r: "RoleByID s rid = Inr r" ..
  with RoleByID_admin[OF assms(1) r] assms(3) have "Effective r = Everything"
    by (simp add: Effective_def)
  with assms(2) ng r Everything_not_scopable show False
    by (auto simp: canGrant_def Let_def split: if_splits)
qed

section \<open>Every write keeps an administrator\<close>

lemma CreateRole_inv:
  assumes "roles_inv s" "CreateRole s r nid t = Inr s'"
  shows "roles_inv s'"
proof -
  define row where "row = \<lparr>ro_id = (if ro_id r = [] then nid else ro_id r), ro_name = ro_name r,
      ro_description = ro_description r, ro_is_admin = ro_is_admin r, ro_builtin = ro_builtin r,
      ro_created_at = (if ro_created_at r = 0 then t else ro_created_at r)\<rparr>"
  have fresh: "ro_id row \<notin> set (map ro_id (roles s))"
    and s': "s' = writeCaps (s\<lparr>roles := roles s @ [row]\<rparr>) (ro_id row) (ro_caps r)"
    using assms(2) unfolding CreateRole_def Let_def row_def[symmetric]
    by (auto simp: list_ex_iff split: if_splits)
  have m: "rm_role_id m \<noteq> ro_id row" if "m \<in> set (role_members s)" for m
    using that assms(1) fresh unfolding roles_inv_def members_ok_def list_all_iff by metis
  have ids: "admin_role_ids (s\<lparr>roles := roles s @ [row]\<rparr>) =
      admin_role_ids s @ (if ro_is_admin row then [ro_id row] else [])"
    by (simp add: admin_role_ids_def)
  have "members_ok s'"
    using assms(1) fresh m by (auto simp: s' ids roles_inv_def members_ok_def list_all_iff)
  moreover have "has_admin s'"
    using assms(1) by (fastforce simp: s' ids roles_inv_def has_admin_def list_ex_iff)
  ultimately show ?thesis by (simp add: roles_inv_def)
qed

lemma UpdateRole_admin_ids:
  "admin_role_ids (s\<lparr>roles := update_where p (\<lambda>q. q\<lparr>ro_name := a, ro_description := b\<rparr>) (roles s)\<rparr>)
     = admin_role_ids s"
  unfolding admin_role_ids_def update_where_def
  by (simp add: filter_map comp_def if_distrib[of ro_is_admin] if_distrib[of ro_id] cong: if_cong)

lemma UpdateRole_inv:
  assumes "roles_inv s" "UpdateRole s r = Inr s'"
  shows "roles_inv s'"
proof -
  let ?s = "s\<lparr>roles := update_where (\<lambda>q. ro_id q = ro_id r)
      (\<lambda>q. q\<lparr>ro_name := ro_name r, ro_description := ro_description r\<rparr>) (roles s)\<rparr>"
  have s': "s' = writeCaps ?s (ro_id r) (ro_caps r)"
    using assms(2) by (simp add: UpdateRole_def split: if_splits)
  have "map ro_id (roles ?s) = map ro_id (roles s)" by (simp add: map_update_where)
  then show ?thesis
    using assms(1) by (simp add: s' roles_inv_def members_ok_def has_admin_def UpdateRole_admin_ids)
qed

lemma delete_role_inv:
  assumes "members_ok s" "\<exists>u m. admin_of s u m \<and> rm_role_id m \<noteq> rid" "delete_role_row s rid = Inr s'"
  shows "roles_inv s'"
proof -
  have s': "roles s' = filter (\<lambda>r. ro_id r \<noteq> rid) (roles s)" "users s' = users s"
    "role_members s' = filter (\<lambda>m. rm_role_id m \<noteq> rid) (role_members s)"
    using assms(3) by (auto simp: delete_role_row_def delete_where_def split: if_splits)
  have ids: "set (admin_role_ids s') = set (admin_role_ids s) - {rid}"
    by (auto simp: admin_role_ids_def s')
  have ok: "members_ok s'"
    using assms(1) by (auto simp: members_ok_def list_all_iff s' ids distinct_map_filter)
  from assms(2) obtain u m where "admin_of s u m" "rm_role_id m \<noteq> rid" by blast
  then have "admin_of s' u m" by (auto simp: admin_of_def s' ids)
  with ok show ?thesis by (auto simp: roles_inv_def has_admin_iff)
qed

lemma DeleteRole_inv:
  assumes "roles_inv s" "DeleteRole s rid = Inr s'"
  shows "roles_inv s'"
proof -
  have ok: "members_ok s" and adm: "has_admin s" using assms(1) by (auto simp: roles_inv_def)
  from assms(2) obtain r where r: "RoleByID s rid = Inr r"
    and g: "ro_is_admin r \<longrightarrow> countOtherAdmins s rid \<noteq> 0" and del: "delete_role_row s rid = Inr s'"
    by (auto simp: DeleteRole_def split: sum.splits if_splits)
  have "\<exists>u m. admin_of s u m \<and> rm_role_id m \<noteq> rid"
  proof (cases "ro_is_admin r")
    case True
    with g show ?thesis using countOtherAdmins_pos[of s rid] by simp
  next
    case False
    then have "rid \<notin> set (admin_role_ids s)" using RoleByID_admin[OF ok r] by simp
    moreover from adm obtain u m where "admin_of s u m" by (auto simp: has_admin_iff[OF ok])
    ultimately show ?thesis by (auto simp: admin_of_def)
  qed
  then show ?thesis using ok del by (intro delete_role_inv) auto
qed

lemma GrantRole_inv:
  assumes "roles_inv s" "GrantRole s uid rid src sc = Inr s'"
  shows "roles_inv s'"
proof -
  have ok: "members_ok s" and adm: "has_admin s" using assms(1) by (auto simp: roles_inv_def)
  from assms(2) have can: "canGrant s rid sc = Inr ()" and fk: "member_fk s uid rid"
    by (auto simp: GrantRole_def split: sum.splits if_splits)
  have ids: "admin_role_ids s' = admin_role_ids s" "roles s' = roles s" "users s' = users s"
    using assms(2) by (auto simp: GrantRole_def admin_role_ids_def split: sum.splits if_splits)
  have new: "\<forall>m' \<in> set (role_members s'). (\<exists>m \<in> set (role_members s).
        rm_role_id m' = rm_role_id m \<and> rm_scope m' = rm_scope m) \<or> (rm_role_id m' = rid \<and> rm_scope m' = sc)"
    using assms(2)
    by (auto simp: GrantRole_def in_update_where same_grant_def split: sum.splits if_splits)
  have upd: "\<exists>m' \<in> set (update_where (same_grant uid rid sc) (\<lambda>m. m\<lparr>rm_source := src\<rparr>) ms).
        rm_user_id m' = rm_user_id m \<and> rm_role_id m' = rm_role_id m \<and> rm_scope m' = rm_scope m"
    if "m \<in> set ms" for m ms
  proof
    let ?m = "if same_grant uid rid sc m then m\<lparr>rm_source := src\<rparr> else m"
    show "?m \<in> set (update_where (same_grant uid rid sc) (\<lambda>m. m\<lparr>rm_source := src\<rparr>) ms)"
      using that unfolding in_update_where by (rule bexI[rotated]) simp
  qed simp
  have old: "\<forall>m \<in> set (role_members s). \<exists>m' \<in> set (role_members s').
        rm_user_id m' = rm_user_id m \<and> rm_role_id m' = rm_role_id m \<and> rm_scope m' = rm_scope m"
    using assms(2) upd by (auto simp: GrantRole_def split: sum.splits if_splits)
  have "rid \<in> set (map ro_id (roles s))" using fk by (auto simp: member_fk_def list_ex_iff)
  then have "members_ok s'"
    using ok new canGrant_admin_global[OF ok can] unfolding members_ok_def list_all_iff ids by metis
  moreover have "has_admin s'"
    using adm old unfolding has_admin_def list_ex_iff ids by metis
  ultimately show ?thesis by (simp add: roles_inv_def)
qed

text \<open>What removing rows from the membership table, and switching users off or away, leaves.\<close>

lemma members_subset_inv:
  assumes "members_ok s" "roles s' = roles s" "set (role_members s') \<subseteq> set (role_members s)"
    "admin_of s' u m"
  shows "roles_inv s'"
proof -
  have "admin_role_ids s' = admin_role_ids s" by (simp add: admin_role_ids_def assms(2))
  then have "members_ok s'" using assms(1-3) by (auto simp: members_ok_def list_all_iff)
  with assms(4) show ?thesis by (auto simp: roles_inv_def has_admin_iff)
qed

lemma RevokeRole_inv:
  assumes "roles_inv s" "RevokeRole s uid rid sc = Inr s'"
  shows "roles_inv s'"
proof -
  have ok: "members_ok s" and adm: "has_admin s" using assms(1) by (auto simp: roles_inv_def)
  from assms(2) obtain r where r: "RoleByID s rid = Inr r" and s': "s' = revoke_apply s uid rid sc"
    and g: "ro_is_admin r \<and> IsGlobal sc \<longrightarrow> refuseLastAdminRevoke s uid rid = Inr ()"
    by (auto simp: RevokeRole_def revoke_check_def split: sum.splits if_splits)
  have keep: "admin_of s u m \<Longrightarrow> \<not> same_grant uid rid sc m \<Longrightarrow> roles_inv s'" for u m
    by (rule members_subset_inv[OF ok, of s' u m])
       (auto simp: s' revoke_apply_def admin_of_def admin_role_ids_def)
  from adm obtain u m where um: "admin_of s u m" by (auto simp: has_admin_iff[OF ok])
  show ?thesis
  proof (cases "same_grant uid rid sc m")
    case False
    with um show ?thesis by (rule keep)
  next
    case True
    then have "ro_is_admin r" "IsGlobal sc" "u_id u = uid"
      using um ok RoleByID_admin[OF ok r]
      by (auto simp: admin_of_def same_grant_def members_ok_def list_all_iff)
    with g um have "0 < countAdminsExcludingUser s uid \<or> hasOtherAdminRole s uid rid"
      using signInAdmin_admin[OF um] by (auto simp: refuseLastAdminRevoke_def split: if_splits)
    then show ?thesis
    proof
      assume "0 < countAdminsExcludingUser s uid"
      then obtain u' m' where "admin_of s u' m'" "u_id u' \<noteq> uid"
        by (auto simp: countAdminsExcludingUser_pos)
      then show ?thesis by (intro keep[of u' m']) (auto simp: same_grant_def admin_of_def)
    next
      assume "hasOtherAdminRole s uid rid"
      then obtain m' where "admin_of s u m'" "rm_role_id m' \<noteq> rid"
        using um \<open>u_id u = uid\<close> by (auto simp: hasOtherAdminRole_def list_ex_iff admin_of_def)
      then show ?thesis by (intro keep[of u m']) (auto simp: same_grant_def)
    qed
  qed
qed

lemma RevokeEnvGrants_inv:
  assumes "roles_inv s"
  shows "roles_inv (RevokeEnvGrants s e)"
proof -
  have ok: "members_ok s" using assms by (simp add: roles_inv_def)
  with assms obtain u m where um: "admin_of s u m" by (auto simp: roles_inv_def has_admin_iff)
  with ok have "IsGlobal (rm_scope m)" by (auto simp: members_ok_def list_all_iff admin_of_def)
  then have "rm_scope m \<noteq> OnEnv e" by (auto simp: IsGlobal_def OnEnv_def)
  with um show ?thesis
    by (intro members_subset_inv[OF ok, of _ u m])
       (auto simp: RevokeEnvGrants_def admin_of_def admin_role_ids_def)
qed

lemma refuseIfLastAdmin_other:
  assumes "roles_inv s" "refuseIfLastAdmin s uid = Inr ()"
  obtains u m where "admin_of s u m" "u_id u \<noteq> uid"
proof -
  from assms(1) obtain u m where um: "admin_of s u m" by (auto simp: roles_inv_def has_admin_iff)
  show ?thesis
  proof (cases "u_id u = uid")
    case False
    with um show ?thesis by (rule that)
  next
    case True
    with assms(2) signInAdmin_admin[OF um] have "0 < countAdminsExcludingUser s uid"
      by (auto simp: refuseIfLastAdmin_def split: if_splits)
    then show ?thesis using that by (auto simp: countAdminsExcludingUser_pos)
  qed
qed

lemma SetUserDisabled_other:
  assumes "members_ok s" "admin_of s u m" "u_id u \<noteq> uid \<or> \<not> b"
  shows "roles_inv (SetUserDisabled s uid b)"
proof -
  let ?s = "SetUserDisabled s uid b"
  let ?u = "if u_id u = uid then u\<lparr>u_disabled := b\<rparr> else u"
  have "?u \<in> set (users ?s)"
    using assms(2) by (auto simp: SetUserDisabled_def in_update_where admin_of_def)
  moreover have "may_sign_in ?u" "u_id ?u = u_id u"
    using assms(2,3) by (auto simp: admin_of_def may_sign_in_def)
  ultimately have "admin_of ?s ?u m"
    using assms(2) by (auto simp: admin_of_def SetUserDisabled_def admin_role_ids_def)
  then show ?thesis by (intro members_subset_inv[OF assms(1), of ?s]) (auto simp: SetUserDisabled_def)
qed

lemma SetUserDisabledGuarded_inv:
  assumes "roles_inv s" "SetUserDisabledGuarded s uid b = Inr s'"
  shows "roles_inv s'"
proof -
  have ok: "members_ok s" using assms(1) by (simp add: roles_inv_def)
  have s': "s' = SetUserDisabled s uid b"
    using assms(2) by (auto simp: SetUserDisabledGuarded_def split: sum.splits if_splits)
  obtain u m where "admin_of s u m" "u_id u \<noteq> uid \<or> \<not> b"
  proof (cases b)
    case True
    with assms(2) have "refuseIfLastAdmin s uid = Inr ()"
      by (auto simp: SetUserDisabledGuarded_def split: sum.splits)
    with assms(1) that show ?thesis by (auto elim: refuseIfLastAdmin_other)
  next
    case False
    with assms(1) that show ?thesis by (auto simp: roles_inv_def has_admin_iff)
  qed
  then show ?thesis unfolding s' by (intro SetUserDisabled_other[OF ok])
qed

lemma DeleteUserGuarded_inv:
  assumes "roles_inv s" "DeleteUserGuarded s uid = Inr s'"
  shows "roles_inv s'"
proof -
  have ok: "members_ok s" using assms(1) by (simp add: roles_inv_def)
  have r: "refuseIfLastAdmin s uid = Inr ()" and s': "s' = DeleteUser s uid"
    using assms(2) by (auto simp: DeleteUserGuarded_def split: sum.splits)
  obtain u m where "admin_of s u m" "u_id u \<noteq> uid" by (rule refuseIfLastAdmin_other[OF assms(1) r])
  then show ?thesis
    by (intro members_subset_inv[OF ok, of s' u m]) (auto simp: s' DeleteUser_def admin_of_def admin_role_ids_def)
qed

lemma role_step_inv: "roles_inv s \<Longrightarrow> roles_inv (role_step s a)"
  by (cases a)
     (auto simp: role_step_def RevokeEnvGrants_inv split: sum.splits
       dest: CreateRole_inv UpdateRole_inv DeleteRole_inv GrantRole_inv RevokeRole_inv
         SetUserDisabledGuarded_inv DeleteUserGuarded_inv)

interpretation role_machine: guarded_machine role_step roles_inv
  by unfold_locales (rule role_step_inv)

end
