(* ===== verification/Effective.thy ===== *)
theory Effective
  imports Roles
begin

text \<open>
  What a user may do: lemmas on the masks stored for a role, on the loop of
  \<^verbatim>\<open>EffectiveMask\<close>, and the properties of the role store of \<^verbatim>\<open>internal/store/roles.go\<close>.
\<close>

section \<open>Stored masks\<close>

definition caps_key :: "db \<Rightarrow> bool" where
  "caps_key s \<longleftrightarrow> distinct (map (\<lambda>c. (rc_role_id c, rc_ns c)) (role_caps s))"

definition caps_rows :: "db \<Rightarrow> ident \<Rightarrow> role_cap_row list" where
  "caps_rows s rid = filter (\<lambda>c. rc_role_id c = rid) (role_caps s)"

definition row_set :: "role_cap_row \<Rightarrow> cap_set" where
  "row_set c = [(rc_ns c, word_of_int (rc_mask c))]"

definition caps_of_rows :: "role_cap_row list \<Rightarrow> cap_set" where
  "caps_of_rows cs = fold (\<lambda>c t. gput t (rc_ns c) (word_of_int (rc_mask c))) cs []"

lemma raw_loop:
  "gget [] (fold (\<lambda>c raw. gput raw (rc_role_id c)
       (gput (gget [] raw (rc_role_id c)) (rc_ns c) (word_of_int (rc_mask c)))) cs raw) rid =
   fold (\<lambda>c t. gput t (rc_ns c) (word_of_int (rc_mask c))) (filter (\<lambda>c. rc_role_id c = rid) cs)
     (gget [] raw rid)"
  by (induction cs arbitrary: raw) auto

lemma raw_caps_one: "gget [] (raw_caps s [rid]) rid = caps_of_rows (caps_rows s rid)"
  by (simp add: raw_caps_def raw_loop caps_of_rows_def caps_rows_def)

lemma Normalize_Nil [simp]: "Normalize [] = []"
proof -
  have "fold add_view ds [] = []" for ds by (induction ds) (auto simp: add_view_def)
  then show ?thesis by (simp add: Normalize_def normalize_mask_def)
qed

lemma gget_map_Normalize:
  "gget [] (map (\<lambda>(k, t). (k, Normalize t)) m) k = Normalize (gget [] m k)"
  by (induction m) (auto simp: gget_def)

lemma capsOf_one: "gget [] (capsOf s [rid]) rid = Normalize (caps_of_rows (caps_rows s rid))"
  by (simp add: capsOf_def gget_map_Normalize raw_caps_one)

lemma gmap_ok_caps_of_rows: "gmap_ok (caps_of_rows cs)"
proof -
  have "gmap_ok t \<Longrightarrow> gmap_ok (fold (\<lambda>c t. gput t (rc_ns c) (word_of_int (rc_mask c))) cs t)"
    for t :: cap_set by (induction cs arbitrary: t) auto
  then show ?thesis by (simp add: caps_of_rows_def)
qed

lemma map_of_caps_of_rows:
  assumes "distinct (map rc_ns cs)"
  shows "map_of (caps_of_rows cs) ns =
    (case filter (\<lambda>c. rc_ns c = ns) cs of [] \<Rightarrow> None | c # _ \<Rightarrow> Some (word_of_int (rc_mask c)))"
proof (cases "filter (\<lambda>c. rc_ns c = ns) cs")
  case Nil
  then have "\<forall>c \<in> set cs. True \<longrightarrow> rc_ns c \<noteq> ns" by (auto simp: filter_empty_conv)
  from put_loop_other[OF this, where acc = "[]" and v = "\<lambda>c. word_of_int (rc_mask c)"] Nil
  show ?thesis by (simp add: caps_of_rows_def)
next
  case (Cons c cs')
  then have "c \<in> set (filter (\<lambda>c. rc_ns c = ns) cs)" by simp
  then have c: "c \<in> set cs" "rc_ns c = ns" by auto
  have "map_of (fold (\<lambda>c t. if True then gput t (rc_ns c) (word_of_int (rc_mask c)) else t) cs []) (rc_ns c)
      = Some (word_of_int (rc_mask c))"
    by (rule put_loop_lookup) (use assms c in auto)
  with Cons c show ?thesis by (simp add: caps_of_rows_def)
qed

lemma Has_caps_of_rows:
  assumes "distinct (map rc_ns cs)" "d \<in> set AllCaps"
  shows "Has (caps_of_rows cs) (def_cap d) = (\<exists>c \<in> set cs. Has (row_set c) (def_cap d))"
proof -
  obtain n where n: "\<forall>s. Has s (def_cap d) = bit (gget 0 s (NS (def_cap d))) n"
    using reg_Has[OF assms(2)] by blast
  show ?thesis
  proof (cases "filter (\<lambda>c. rc_ns c = NS (def_cap d)) cs")
    case Nil
    then show ?thesis
      by (auto simp: n row_set_def gget_Cons gget_def map_of_caps_of_rows[OF assms(1)] filter_empty_conv)
  next
    case (Cons c cs')
    then have "c \<in> set (filter (\<lambda>c. rc_ns c = NS (def_cap d)) cs)" by simp
    then have c: "c \<in> set cs" "rc_ns c = NS (def_cap d)" by auto
    have inj: "inj_on rc_ns (set cs)" using assms(1) by (simp add: distinct_map)
    have uniq: "c' = c" if "c' \<in> set cs" "rc_ns c' = NS (def_cap d)" for c'
      by (rule inj_onD[OF inj]) (use that c in auto)
    have only: "Has (row_set c') (def_cap d) \<Longrightarrow> rc_ns c' = NS (def_cap d)" for c'
      by (simp add: n row_set_def gget_Cons split: if_splits)
    have "(\<exists>c \<in> set cs. Has (row_set c) (def_cap d)) = Has (row_set c) (def_cap d)"
      using c(1) only uniq by blast
    then show ?thesis using Cons c(2)
      by (simp add: n row_set_def gget_Cons) (simp add: gget_def map_of_caps_of_rows[OF assms(1)])
  qed
qed

lemma caps_key_rows:
  assumes "caps_key s"
  shows "distinct (map rc_ns (caps_rows s rid))"
proof -
  have inj: "inj_on (\<lambda>c. (rc_role_id c, rc_ns c)) (set (role_caps s))" and d: "distinct (role_caps s)"
    using assms by (simp_all add: caps_key_def distinct_map)
  have "inj_on rc_ns (set (caps_rows s rid))"
    by (rule inj_onI, rule inj_onD[OF inj]) (auto simp: caps_rows_def)
  with d show ?thesis by (simp add: distinct_map caps_rows_def)
qed

section \<open>The effective mask\<close>

type_synonym mask_row = "(string \<times> int) option \<times> bool \<times> scope_t"

definition row_grants :: "mask_row \<Rightarrow> cap_set" where
  "row_grants q = (case q of (a, adm, sc) \<Rightarrow>
     if adm then Everything else (case a of None \<Rightarrow> [] | Some (ns, m) \<Rightarrow> [(ns, word_of_int m)]))"

definition row_global :: "mask_row \<Rightarrow> bool" where
  "row_global q = (case q of (a, adm, sc) \<Rightarrow> sc_kind sc = ''global'')"

definition row_scoped :: "mask_row \<Rightarrow> ident \<Rightarrow> bool" where
  "row_scoped q e = (case q of (a, adm, sc) \<Rightarrow> \<not> adm \<and> sc_kind sc \<noteq> ''global'' \<and> sc_id sc = e \<and> e \<noteq> [])"

definition acc_ok :: "cap_set \<times> (ident \<times> cap_set) list \<Rightarrow> bool" where
  "acc_ok acc \<longleftrightarrow> gmap_ok (fst acc) \<and> (\<forall>e. gmap_ok (gget [] (snd acc) e))"

lemma gmap_ok_row_grants: "gmap_ok (row_grants q)"
  by (auto simp: row_grants_def gmap_ok_Everything gmap_ok_def[of "[(_, _)]"] split: prod.splits option.splits)

lemma mask_row_step_cases:
  "mask_row_step q (g, env) =
     (if row_global q then (set_Or g (row_grants q), env)
      else (case q of (a, adm, sc) \<Rightarrow>
        if row_scoped q (sc_id sc)
        then (g, gput env (sc_id sc) (set_Or (gget [] env (sc_id sc)) (set_And (row_grants q) EnvScopable)))
        else (g, env)))"
  by (auto simp: mask_row_step_def row_global_def row_scoped_def row_grants_def Let_def split: prod.splits)

lemma acc_ok_step: "acc_ok acc \<Longrightarrow> acc_ok (mask_row_step q acc)"
  by (cases acc) (auto simp: mask_row_step_cases acc_ok_def gmap_ok_Or split: prod.splits)

lemma Has_step_global:
  assumes "acc_ok acc" "d \<in> set AllCaps"
  shows "Has (fst (mask_row_step q acc)) (def_cap d) =
    (Has (fst acc) (def_cap d) \<or> (row_global q \<and> Has (row_grants q) (def_cap d)))"
  using assms by (cases acc)
    (auto simp: mask_row_step_cases acc_ok_def Has_Or gmap_ok_row_grants split: prod.splits)

lemma Has_step_env:
  assumes "acc_ok acc" "d \<in> set AllCaps"
  shows "Has (gget [] (snd (mask_row_step q acc)) e) (def_cap d) =
    (Has (gget [] (snd acc) e) (def_cap d) \<or>
     (row_scoped q e \<and> Has (row_grants q) (def_cap d) \<and> def_scope d = ScopeEnv))"
  using assms by (cases acc)
    (auto simp: mask_row_step_cases acc_ok_def Has_Or Has_And Has_EnvScopable gmap_ok_row_grants
      gmap_ok_And row_global_def row_scoped_def split: prod.splits)

lemma Has_fold_global:
  "acc_ok acc \<Longrightarrow> d \<in> set AllCaps \<Longrightarrow> Has (fst (fold mask_row_step qs acc)) (def_cap d) =
    (Has (fst acc) (def_cap d) \<or> (\<exists>q \<in> set qs. row_global q \<and> Has (row_grants q) (def_cap d)))"
  by (induction qs arbitrary: acc) (auto simp: acc_ok_step Has_step_global)

lemma Has_fold_env:
  "acc_ok acc \<Longrightarrow> d \<in> set AllCaps \<Longrightarrow> Has (gget [] (snd (fold mask_row_step qs acc)) e) (def_cap d) =
    (Has (gget [] (snd acc) e) (def_cap d) \<or>
     (\<exists>q \<in> set qs. row_scoped q e \<and> Has (row_grants q) (def_cap d) \<and> def_scope d = ScopeEnv))"
  by (induction qs arbitrary: acc) (auto simp: acc_ok_step Has_step_env)

lemma acc_ok_fold: "acc_ok acc \<Longrightarrow> acc_ok (fold mask_row_step qs acc)"
  by (induction qs arbitrary: acc) (auto simp: acc_ok_step)

lemma acc_ok_init: "acc_ok ([], [])"
  by (simp add: acc_ok_def)


section \<open>Memberships and the effective mask\<close>

definition grants_on :: "db \<Rightarrow> ident \<Rightarrow> (scope_t \<Rightarrow> bool) \<Rightarrow> capdef \<Rightarrow> bool" where
  "grants_on s uid p d \<longleftrightarrow> (\<exists>m \<in> set (role_members s). rm_user_id m = uid \<and> p (rm_scope m) \<and>
     (\<exists>r. RoleByID s (rm_role_id m) = Inr r \<and> Has (Effective r) (def_cap d)))"

definition area_rows :: "db \<Rightarrow> ident \<Rightarrow> (string \<times> int) option list" where
  "area_rows s rid = (case caps_rows s rid of
     [] \<Rightarrow> [None] | c # cs \<Rightarrow> map (\<lambda>c. Some (rc_ns c, rc_mask c)) (c # cs))"

lemma set_mask_rows:
  "q \<in> set (mask_rows s uid) \<longleftrightarrow> (\<exists>m \<in> set (role_members s). \<exists>r \<in> set (roles s).
     \<exists>a \<in> set (area_rows s (ro_id r)). rm_user_id m = uid \<and> ro_id r = rm_role_id m \<and>
       q = (a, ro_is_admin r, rm_scope m))"
proof -
  have "mask_rows s uid = [(a, ro_is_admin r, rm_scope m). m \<leftarrow> role_members s, rm_user_id m = uid,
      r \<leftarrow> roles s, ro_id r = rm_role_id m, a \<leftarrow> area_rows s (ro_id r)]"
    unfolding mask_rows_def area_rows_def caps_rows_def ..
  then have "set (mask_rows s uid) = (\<Union>m \<in> {m \<in> set (role_members s). rm_user_id m = uid}.
      \<Union>r \<in> {r \<in> set (roles s). ro_id r = rm_role_id m}.
        (\<lambda>a. (a, ro_is_admin r, rm_scope m)) ` set (area_rows s (ro_id r)))"
    by (simp add: Collect_conj_eq Int_commute if_distrib[of set])
  then show ?thesis by blast
qed

lemma area_row_cases:
  "(\<exists>a \<in> set (area_rows s rid). P a) =
     ((caps_rows s rid = [] \<and> P None) \<or> (\<exists>c \<in> set (caps_rows s rid). P (Some (rc_ns c, rc_mask c))))"
  by (auto simp: area_rows_def split: list.splits)

lemma RoleByID_caps:
  assumes "RoleByID s rid = Inr r" "caps_key s" "d \<in> set AllCaps"
  shows "Has (Effective r) (def_cap d) =
    (ro_is_admin r \<or> Has (Normalize (caps_of_rows (caps_rows s rid))) (def_cap d))"
  using assms(1) by (rule RoleByID_Inr) (simp add: Effective_def capsOf_one Has_Everything assms(3))

text \<open>The capabilities the rows of one membership carry, before normalising.\<close>

definition raw_holds :: "db \<Rightarrow> role_row \<Rightarrow> capdef \<Rightarrow> bool" where
  "raw_holds s r d \<longleftrightarrow> ro_is_admin r \<or> Has (caps_of_rows (caps_rows s (ro_id r))) (def_cap d)"

lemma area_rows_hold:
  assumes "caps_key s" "d \<in> set AllCaps"
  shows "(\<exists>a \<in> set (area_rows s (ro_id r)). Has (row_grants (a, ro_is_admin r, sc)) (def_cap d)) = raw_holds s r d"
proof -
  have grant: "Has (row_grants (Some (rc_ns c, rc_mask c), adm, sc)) (def_cap d) =
      (adm \<or> Has (row_set c) (def_cap d))" for c adm
    by (simp add: row_grants_def row_set_def Has_Everything assms(2))
  have none: "Has (row_grants (None, adm, sc)) (def_cap d) = adm" for adm
    by (simp add: row_grants_def Has_Everything assms(2))
  show ?thesis
    unfolding area_row_cases raw_holds_def
      Has_caps_of_rows[OF caps_key_rows[OF assms(1)] assms(2)] grant none
    by (cases "caps_rows s (ro_id r)") auto
qed

lemma rows_of_membership:
  assumes "caps_key s" "d \<in> set AllCaps"
  shows "(\<exists>q \<in> set (mask_rows s uid). p (fst (snd q)) (snd (snd q)) \<and> Has (row_grants q) (def_cap d)) =
    (\<exists>m \<in> set (role_members s). \<exists>r \<in> set (roles s). rm_user_id m = uid \<and> ro_id r = rm_role_id m \<and>
       p (ro_is_admin r) (rm_scope m) \<and> raw_holds s r d)"
proof -
  have "(\<exists>q \<in> set (mask_rows s uid). Q q) = (\<exists>m \<in> set (role_members s). \<exists>r \<in> set (roles s).
      rm_user_id m = uid \<and> ro_id r = rm_role_id m \<and>
      (\<exists>a \<in> set (area_rows s (ro_id r)). Q (a, ro_is_admin r, rm_scope m)))" for Q
    unfolding Bex_def[of "set (mask_rows s uid)"] set_mask_rows by blast
  then show ?thesis by (simp add: area_rows_hold[OF assms])
qed

text \<open>The view of an object whose edit is held is held too; \<open>closes P d\<close> says so of a predicate.\<close>

definition closes :: "(capdef \<Rightarrow> bool) \<Rightarrow> capdef \<Rightarrow> bool" where
  "closes P d \<longleftrightarrow> P d \<or> (def_mode d = ModeView \<and>
     (\<exists>e \<in> set AllCaps. def_mode e = ModeEdit \<and> def_object e = def_object d \<and> P e))"

lemma Has_Normalize_closes:
  "gmap_ok t \<Longrightarrow> d \<in> set AllCaps \<Longrightarrow> Has (Normalize t) (def_cap d) = closes (\<lambda>e. Has t (def_cap e)) d"
  by (simp add: Has_Normalize_object closes_def)

lemma closes_cong:
  "(\<And>e. e \<in> set AllCaps \<Longrightarrow> P e = Q e) \<Longrightarrow> d \<in> set AllCaps \<Longrightarrow> closes P d = closes Q d"
  by (auto simp: closes_def)

lemma RoleByID_row:
  assumes "members_ok s" "q \<in> set (roles s)" "RoleByID s (ro_id q) = Inr r"
  shows "ro_is_admin r = ro_is_admin q"
proof -
  have inj: "inj_on ro_id (set (roles s))" using assms(1) by (simp add: members_ok_def distinct_map)
  have "ro_id q \<in> set (admin_role_ids s) \<longleftrightarrow> (\<exists>q'. q' \<in> set (roles s) \<and> ro_is_admin q' \<and> ro_id q = ro_id q')"
    unfolding admin_role_ids_def set_map set_filter image_iff by simp
  also have "\<dots> \<longleftrightarrow> ro_is_admin q" using inj_onD[OF inj _ assms(2)] assms(2) by metis
  finally show ?thesis using RoleByID_admin[OF assms(1,3)] by simp
qed

lemma Has_Effective_closes:
  assumes "members_ok s" "caps_key s" "q \<in> set (roles s)" "d \<in> set AllCaps" "RoleByID s (ro_id q) = Inr r"
  shows "Has (Effective r) (def_cap d) = closes (raw_holds s q) d"
proof -
  have adm: "ro_is_admin r = ro_is_admin q" by (rule RoleByID_row[OF assms(1,3,5)])
  show ?thesis
    unfolding RoleByID_caps[OF assms(5,2,4)] adm Has_Normalize_closes[OF gmap_ok_caps_of_rows assms(4)]
    by (auto simp: closes_def raw_holds_def)
qed

lemma grants_on_closes:
  assumes "members_ok s" "caps_key s" "d \<in> set AllCaps"
  shows "grants_on s uid p d = (\<exists>m \<in> set (role_members s). \<exists>q \<in> set (roles s).
    rm_user_id m = uid \<and> ro_id q = rm_role_id m \<and> p (rm_scope m) \<and> closes (raw_holds s q) d)"
proof -
  have "(\<exists>r. RoleByID s (rm_role_id m) = Inr r \<and> Has (Effective r) (def_cap d)) =
      (\<exists>q \<in> set (roles s). ro_id q = rm_role_id m \<and> closes (raw_holds s q) d)" (is "?L = ?R") for m
  proof
    assume ?L
    then obtain r where r: "RoleByID s (rm_role_id m) = Inr r" "Has (Effective r) (def_cap d)" by blast
    from r(1) obtain q where "q \<in> set (roles s)" "ro_id q = rm_role_id m" by (rule RoleByID_Inr)
    with r show ?R using Has_Effective_closes[OF assms(1,2) _ assms(3)] by metis
  next
    assume ?R
    then obtain q where q: "q \<in> set (roles s)" "ro_id q = rm_role_id m" "closes (raw_holds s q) d" by blast
    from q(1) obtain r where "RoleByID s (ro_id q) = Inr r" using RoleByID_exists by fastforce
    with q show ?L using Has_Effective_closes[OF assms(1,2) q(1) assms(3)] by metis
  qed
  then show ?thesis unfolding grants_on_def by blast
qed

section \<open>The key of the capability table\<close>

lemma caps_key_writeCaps: "caps_key s \<Longrightarrow> caps_key (writeCaps s rid t)"
proof -
  assume "caps_key s"
  then have "distinct (map (\<lambda>c. (rc_role_id c, rc_ns c)) (filter (\<lambda>c. rc_role_id c \<noteq> rid) (role_caps s)))"
    by (simp add: caps_key_def distinct_map_filter)
  moreover have "distinct (map fst (Normalize t))"
    using gmap_ok_Normalize[of t] by (simp only: gmap_ok_def)
  then have "distinct (map ((\<lambda>ns. (rid, ns)) \<circ> fst) (filter (\<lambda>(ns, m). m \<noteq> 0) (Normalize t)))"
    by (simp add: distinct_map inj_on_def)
  ultimately show ?thesis
    by (auto simp: caps_key_def writeCaps_def delete_where_def comp_def split_beta)
qed

lemma caps_key_roles [simp]: "caps_key (s\<lparr>roles := rs\<rparr>) = caps_key s"
  by (simp add: caps_key_def)

lemma CreateRole_caps_key: "caps_key s \<Longrightarrow> CreateRole s r nid t = Inr s' \<Longrightarrow> caps_key s'"
  unfolding CreateRole_def Let_def
  by (auto simp: caps_key_writeCaps split: if_split_asm)

lemma UpdateRole_caps_key: "caps_key s \<Longrightarrow> UpdateRole s r = Inr s' \<Longrightarrow> caps_key s'"
  unfolding UpdateRole_def
  by (auto simp: caps_key_writeCaps split: if_split_asm)

lemma DeleteRole_caps_key: "caps_key s \<Longrightarrow> DeleteRole s rid = Inr s' \<Longrightarrow> caps_key s'"
  unfolding DeleteRole_def delete_role_row_def
  by (auto simp: caps_key_def delete_where_def distinct_map_filter split: sum.splits if_splits)

lemma membership_caps_key:
  "GrantRole s u rid src sc = Inr s' \<Longrightarrow> caps_key s' = caps_key s"
  "RevokeRole s u rid sc = Inr s' \<Longrightarrow> caps_key s' = caps_key s"
  "SetUserDisabledGuarded s u b = Inr s' \<Longrightarrow> caps_key s' = caps_key s"
  "DeleteUserGuarded s u = Inr s' \<Longrightarrow> caps_key s' = caps_key s"
  "caps_key (RevokeEnvGrants s e) = caps_key s"
  by (auto simp: GrantRole_def RevokeRole_def revoke_apply_def SetUserDisabledGuarded_def SetUserDisabled_def
    DeleteUserGuarded_def DeleteUser_def RevokeEnvGrants_def caps_key_def split: sum.splits if_splits)

lemma role_step_caps_key: "caps_key s \<Longrightarrow> caps_key (role_step s a)"
  by (cases a) (auto simp: role_step_def membership_caps_key split: sum.splits
    dest: CreateRole_caps_key UpdateRole_caps_key DeleteRole_caps_key)

text \<open>The two invariants together, kept by every write.\<close>

definition store_inv :: "db \<Rightarrow> bool" where
  "store_inv s \<longleftrightarrow> roles_inv s \<and> caps_key s"

interpretation role_store: guarded_machine role_step store_inv
  by unfold_locales (simp add: store_inv_def role_machine.step_inv role_step_caps_key)

section \<open>Properties\<close>

lemma EffectiveMask_parts:
  assumes "EffectiveMask s uid = Inr em"
  shows "Global em = Normalize (fst (fold mask_row_step (mask_rows s uid) ([], [])))"
    "gget [] (Env em) e = Normalize (gget [] (snd (fold mask_row_step (mask_rows s uid) ([], []))) e)"
  using assms by (auto simp: EffectiveMask_def gget_map_Normalize split: prod.splits)

lemma acc_ok_mask: "acc_ok (fold mask_row_step (mask_rows s uid) ([], []))"
  by (rule acc_ok_fold[OF acc_ok_init])

lemma EffectiveMask_total:
  obtains em where "EffectiveMask s uid = Inr em"
  by (cases "fold mask_row_step (mask_rows s uid) ([], [])") (simp add: EffectiveMask_def)

lemma effective_global_iff:
  assumes "members_ok s" "caps_key s" "d \<in> set AllCaps" "EffectiveMask s uid = Inr em"
  shows "Has (Global em) (def_cap d) = grants_on s uid IsGlobal d"
proof -
  let ?G = "fst (fold mask_row_step (mask_rows s uid) ([], []))"
  have raw: "Has ?G (def_cap e) = (\<exists>m \<in> set (role_members s). \<exists>q \<in> set (roles s).
      rm_user_id m = uid \<and> ro_id q = rm_role_id m \<and> IsGlobal (rm_scope m) \<and> raw_holds s q e)"
    if "e \<in> set AllCaps" for e
    using rows_of_membership[OF assms(2) that, where p = "\<lambda>adm sc. IsGlobal sc"]
    by (simp add: Has_fold_global[OF acc_ok_init that] row_global_def IsGlobal_def split_beta)
  have "Has (Global em) (def_cap d) = closes (\<lambda>e. Has ?G (def_cap e)) d"
    unfolding EffectiveMask_parts[OF assms(4)]
    using acc_ok_mask by (intro Has_Normalize_closes assms(3)) (simp add: acc_ok_def)
  also have "\<dots> = closes (\<lambda>e. \<exists>m \<in> set (role_members s). \<exists>q \<in> set (roles s).
      rm_user_id m = uid \<and> ro_id q = rm_role_id m \<and> IsGlobal (rm_scope m) \<and> raw_holds s q e) d"
    by (rule closes_cong[OF raw assms(3)])
  also have "\<dots> = grants_on s uid IsGlobal d"
    unfolding grants_on_closes[OF assms(1-3)] closes_def by blast
  finally show ?thesis .
qed

text \<open>C10: the global part of a user's effective mask holds a capability exactly when one of the
  user's global memberships is of a role whose effective set holds it.\<close>

theorem effective_global:
  assumes "members_ok s" "caps_key s" "d \<in> set AllCaps" "EffectiveMask s uid = Inr em"
  shows "Has (Global em) (def_cap d) = grants_on s uid IsGlobal d"
  using assms by (rule effective_global_iff)

definition on_host :: "ident \<Rightarrow> scope_t \<Rightarrow> bool" where
  "on_host e sc \<longleftrightarrow> \<not> IsGlobal sc \<and> sc_id sc = e \<and> e \<noteq> []"

lemma row_scoped_on_host: "row_scoped q e = (\<not> fst (snd q) \<and> on_host e (snd (snd q)))"
  by (auto simp: row_scoped_def on_host_def IsGlobal_def split: prod.splits)

lemma Has_env_raw:
  assumes "caps_key s" "d \<in> set AllCaps" "EffectiveMask s uid = Inr em"
  shows "Has (gget [] (Env em) e) (def_cap d) = closes (\<lambda>d. def_scope d = ScopeEnv \<and>
    (\<exists>m \<in> set (role_members s). \<exists>q \<in> set (roles s). rm_user_id m = uid \<and> ro_id q = rm_role_id m \<and>
       \<not> ro_is_admin q \<and> on_host e (rm_scope m) \<and> raw_holds s q d)) d"
proof -
  let ?E = "gget [] (snd (fold mask_row_step (mask_rows s uid) ([], []))) e"
  have "Has (gget [] (Env em) e) (def_cap d) = closes (\<lambda>d. Has ?E (def_cap d)) d"
    unfolding EffectiveMask_parts(2)[OF assms(3)]
    using acc_ok_mask by (intro Has_Normalize_closes assms(2)) (simp add: acc_ok_def)
  also have "\<dots> = closes (\<lambda>d. def_scope d = ScopeEnv \<and>
    (\<exists>m \<in> set (role_members s). \<exists>q \<in> set (roles s). rm_user_id m = uid \<and> ro_id q = rm_role_id m \<and>
       \<not> ro_is_admin q \<and> on_host e (rm_scope m) \<and> raw_holds s q d)) d"
  proof (rule closes_cong[OF _ assms(2)])
    fix d assume d: "d \<in> set AllCaps"
    show "Has ?E (def_cap d) = (def_scope d = ScopeEnv \<and>
      (\<exists>m \<in> set (role_members s). \<exists>q \<in> set (roles s). rm_user_id m = uid \<and> ro_id q = rm_role_id m \<and>
         \<not> ro_is_admin q \<and> on_host e (rm_scope m) \<and> raw_holds s q d))"
      using rows_of_membership[OF assms(1) d, where uid = uid and p = "\<lambda>adm sc. \<not> adm \<and> on_host e sc"]
      by (cases "def_scope d") (simp_all add: Has_fold_env[OF acc_ok_init d] row_scoped_on_host)
  qed
  finally show ?thesis .
qed

lemma scopable_raw:
  assumes "members_ok s" "caps_key s" "q \<in> set (roles s)" "RoleByID s (ro_id q) = Inr r"
    and "set_IsZero (GlobalOnly (Effective r))"
  shows "\<not> ro_is_admin q" "d \<in> set AllCaps \<Longrightarrow> raw_holds s q d \<Longrightarrow> def_scope d = ScopeEnv"
proof -
  show "\<not> ro_is_admin q"
    using RoleByID_row[OF assms(1,3,4)] assms(5) Everything_not_scopable by (auto simp: Effective_def)
  assume d: "d \<in> set AllCaps" and "raw_holds s q d"
  then have "Has (Effective r) (def_cap d)"
    using Has_Effective_closes[OF assms(1-3) d assms(4)] by (simp add: closes_def)
  with GlobalOnly_zero[OF assms(5) d] show "def_scope d = ScopeEnv" .
qed

text \<open>C27: the part of the mask for one host holds nothing that is not grantable per host, and
  nothing that no membership on that host gives; and it holds all of a role granted on that host
  whose capabilities are all grantable per host, the only roles the store grants there.\<close>

theorem effective_env:
  assumes ok: "members_ok s" "caps_key s" and d: "d \<in> set AllCaps" and em: "EffectiveMask s uid = Inr em"
  shows "(Has (gget [] (Env em) e) (def_cap d) \<longrightarrow>
            def_scope d = ScopeEnv \<and> grants_on s uid (on_host e) d) \<and>
         (m \<in> set (role_members s) \<and> rm_user_id m = uid \<and> on_host e (rm_scope m) \<and>
            RoleByID s (rm_role_id m) = Inr r \<and> set_IsZero (GlobalOnly (Effective r)) \<and>
            Has (Effective r) (def_cap d) \<longrightarrow> Has (gget [] (Env em) e) (def_cap d))"
proof (intro conjI impI)
  assume h: "Has (gget [] (Env em) e) (def_cap d)"
  have view: "def_scope d = ScopeEnv"
    if c: "c \<in> set AllCaps" "def_mode c = ModeEdit" "def_object c = def_object d" "def_mode d = ModeView"
      "def_scope c = ScopeEnv" for c
  proof -
    from c(1,2) obtain v where "v \<in> set AllCaps" "def_mode v = ModeView" "def_object v = def_object c"
      "def_scope v = ScopeEnv" using c by (auto elim: reg_edit_view)
    moreover have "inj_on def_object (set (filter (\<lambda>d. def_mode d = ModeView) AllCaps))"
      using reg_views_distinct by (simp add: distinct_map)
    ultimately have "v = d" using c(3,4) d by (auto dest: inj_onD)
    with \<open>def_scope v = ScopeEnv\<close> show ?thesis by simp
  qed
  from h show "def_scope d = ScopeEnv"
    unfolding Has_env_raw[OF ok(2) d em] closes_def using view by blast
  from h show "grants_on s uid (on_host e) d"
    unfolding Has_env_raw[OF ok(2) d em] grants_on_closes[OF ok d] closes_def by blast
next
  assume m: "m \<in> set (role_members s) \<and> rm_user_id m = uid \<and> on_host e (rm_scope m) \<and>
    RoleByID s (rm_role_id m) = Inr r \<and> set_IsZero (GlobalOnly (Effective r)) \<and> Has (Effective r) (def_cap d)"
  then obtain q where q: "q \<in> set (roles s)" "ro_id q = rm_role_id m" by (auto elim: RoleByID_Inr)
  with m have r: "RoleByID s (ro_id q) = Inr r" by simp
  note raw = scopable_raw[OF ok q(1) r]
  have "closes (raw_holds s q) d" using m Has_Effective_closes[OF ok q(1) d r] by simp
  then show "Has (gget [] (Env em) e) (def_cap d)"
    unfolding Has_env_raw[OF ok(2) d em] closes_def using m q raw d by blast
qed

lemma admin_has_everything:
  assumes "store_inv s"
  obtains u em where "u \<in> set (users s)" "may_sign_in u" "EffectiveMask s (u_id u) = Inr em"
    "\<forall>d \<in> set AllCaps. Has (Global em) (def_cap d)"
proof -
  have ok: "members_ok s" "caps_key s" using assms by (auto simp: store_inv_def roles_inv_def)
  from assms obtain u m where um: "admin_of s u m" by (auto simp: store_inv_def roles_inv_def has_admin_iff)
  then have g: "IsGlobal (rm_scope m)" and rid: "rm_role_id m \<in> set (map ro_id (roles s))"
    using ok(1) by (auto simp: admin_of_def members_ok_def list_all_iff)
  obtain r where r: "RoleByID s (rm_role_id m) = Inr r" using RoleByID_exists[OF rid] by blast
  obtain em where em: "EffectiveMask s (u_id u) = Inr em" by (rule EffectiveMask_total)
  have "Effective r = Everything"
    using RoleByID_admin[OF ok(1) r] um by (simp add: Effective_def admin_of_def)
  then have "grants_on s (u_id u) IsGlobal d" if "d \<in> set AllCaps" for d
    using um g r Has_Everything[OF that] by (auto simp: grants_on_def admin_of_def)
  then have "\<forall>d \<in> set AllCaps. Has (Global em) (def_cap d)"
    using effective_global_iff[OF ok _ em] by blast
  with em um show ?thesis by (intro that[of u em]) (auto simp: admin_of_def)
qed


section \<open>Sign-in through a provider\<close>

definition oidc_row :: "ident \<Rightarrow> grant \<Rightarrow> member_row" where
  "oidc_row uid g = \<lparr>rm_user_id = uid, rm_role_id = gr_role g, rm_source = ''oidc'', rm_scope = gr_scope g\<rparr>"

lemma insert_grants_members:
  "insert_grants s uid gs = Inr s' \<Longrightarrow> set (role_members s') = set (role_members s) \<union>
    oidc_row uid ` {g \<in> set gs. \<not> list_ex (same_grant uid (gr_role g) (gr_scope g)) (role_members s)} \<and>
    s' = s\<lparr>role_members := role_members s'\<rparr>"
proof (induction gs arbitrary: s)
  case Nil
  then show ?case by simp
next
  case (Cons g gs)
  let ?dup = "list_ex (same_grant uid (gr_role g) (gr_scope g)) (role_members s)"
  let ?s = "if ?dup then s else s\<lparr>role_members := role_members s @ [oidc_row uid g]\<rparr>"
  have step: "insert_grants ?s uid gs = Inr s'"
    using Cons.prems by (simp add: oidc_row_def split: if_splits)
  have same: "same_grant uid (gr_role h) (gr_scope h) (oidc_row uid g) \<longleftrightarrow> oidc_row uid h = oidc_row uid g" for h
    by (auto simp: same_grant_def oidc_row_def)
  show ?case
  proof (cases ?dup)
    case True
    with Cons.IH[OF step] show ?thesis by auto
  next
    case False
    with Cons.IH[OF step] show ?thesis by (auto simp: same)
  qed
qed

text \<open>A sign-in through the identity provider replaces exactly the memberships a provider gave
  that user. Memberships given by hand, other users' memberships and every other table stay; the
  provider's memberships afterwards are the claimed grants the store would allow, less those the
  user already holds by hand.\<close>

lemma sync_replaces_provider_grants:
  assumes "SyncOIDCRoles s uid gs = Inr s'"
  shows "set (role_members s') =
      {m \<in> set (role_members s). \<not> (rm_user_id m = uid \<and> rm_source m = ''oidc'')} \<union>
      oidc_row uid ` {g \<in> set gs. canGrant s (gr_role g) (gr_scope g) = Inr () \<and>
        \<not> (\<exists>m \<in> set (role_members s). rm_source m \<noteq> ''oidc'' \<and> same_grant uid (gr_role g) (gr_scope g) m)}
    \<and> s' = s\<lparr>role_members := role_members s'\<rparr>"
proof -
  let ?s = "s\<lparr>role_members := delete_where (\<lambda>m. rm_user_id m = uid \<and> rm_source m = ''oidc'') (role_members s)\<rparr>"
  have ins: "insert_grants ?s uid (valid_grants s gs) = Inr s'" using assms by (simp add: SyncOIDCRoles_def)
  have "list_ex (same_grant uid r sc) (role_members ?s) =
      (\<exists>m \<in> set (role_members s). rm_source m \<noteq> ''oidc'' \<and> same_grant uid r sc m)" for r sc
    by (auto simp: list_ex_iff same_grant_def)
  then show ?thesis
    using insert_grants_members[OF ins] by (simp add: valid_grants_def)
qed

section \<open>Reading back a role\<close>

lemma caps_rows_writeCaps:
  "caps_rows (writeCaps s rid t) rid =
     map (\<lambda>(ns, m). \<lparr>rc_role_id = rid, rc_ns = ns, rc_mask = uint m\<rparr>) (filter (\<lambda>(ns, m). m \<noteq> 0) (Normalize t))"
  by (simp add: caps_rows_def writeCaps_def delete_where_def filter_map comp_def split_def)

lemma gget_nonzero: "gmap_ok n \<Longrightarrow> gget 0 (filter (\<lambda>(ns, m). m \<noteq> 0) n) ns = gget 0 n ns" for n :: cap_set
proof (induction n)
  case (Cons e n)
  then show ?case using gmap_ok_ConsD[of "fst e" "snd e" n 0]
    by (cases e) (auto simp: gget_Cons)
qed simp

lemma written_caps_read_back:
  "gget 0 (caps_of_rows (caps_rows (writeCaps s rid t) rid)) ns = gget 0 (Normalize t) ns"
proof -
  let ?N = "filter (\<lambda>(ns, m). m \<noteq> 0) (Normalize t)"
  have ok: "gmap_ok ?N" using gmap_ok_Normalize[of t] unfolding gmap_ok_def by (rule distinct_map_filter)
  have "caps_of_rows (caps_rows (writeCaps s rid t) rid) = fold (\<lambda>(ns, m) t. gput t ns m) ?N []"
    by (simp add: caps_rows_writeCaps caps_of_rows_def fold_map comp_def split_def)
  then have "gget 0 (caps_of_rows (caps_rows (writeCaps s rid t) rid)) ns = gget 0 ?N ns"
    by (simp add: gget_range_loop[OF ok, where h = "\<lambda>k v a. v"] gget_def[of 0 ?N] cong: option.case_cong)
  then show ?thesis by (simp only: gget_nonzero[OF gmap_ok_Normalize])
qed

lemma Normalize_pointwise:
  assumes "gmap_ok a" "gmap_ok b" "\<And>ns. gget 0 a ns = gget 0 b ns"
  shows "gget 0 (Normalize a) ns = gget 0 (Normalize b) ns"
proof (rule registered_bits_eqI)
  have "Has a c = Has b c" for c by (simp add: Has_def assms(3))
  then show "Has (Normalize a) (def_cap d) = Has (Normalize b) (def_cap d)" if "d \<in> set AllCaps" for d
    by (simp add: Has_Normalize assms(1,2) that)
qed (simp_all add: assms(1,2) registered_bits_Normalize)

text \<open>A role that was created is found under its id with its name, its flags and, mask by mask,
  the normalised capabilities it was given, whatever rows the capability table held for that id.\<close>

lemma created_role_reads_back:
  assumes "CreateRole s r nid t = Inr s'" and "gmap_ok (ro_caps r)"
  shows "\<exists>r'. RoleByID s' (if ro_id r = [] then nid else ro_id r) = Inr r' \<and>
    ro_name r' = ro_name r \<and> ro_is_admin r' = ro_is_admin r \<and> ro_builtin r' = ro_builtin r \<and>
    (\<forall>ns. gget 0 (ro_caps r') ns = gget 0 (Normalize (ro_caps r)) ns)"
proof -
  define row where "row = \<lparr>ro_id = (if ro_id r = [] then nid else ro_id r), ro_name = ro_name r,
      ro_description = ro_description r, ro_is_admin = ro_is_admin r, ro_builtin = ro_builtin r,
      ro_created_at = (if ro_created_at r = 0 then t else ro_created_at r)\<rparr>"
  have fresh: "\<forall>q \<in> set (roles s). ro_id q \<noteq> ro_id row"
    and s': "s' = writeCaps (s\<lparr>roles := roles s @ [row]\<rparr>) (ro_id row) (ro_caps r)"
    using assms(1) unfolding CreateRole_def Let_def row_def[symmetric]
    by (auto simp: list_ex_iff split: if_splits)
  have rows: "filter (\<lambda>q. ro_id q = ro_id row) (roles s') = [row]"
    using fresh by (simp add: s' filter_empty_conv)
  have caps: "gget [] (capsOf s' [ro_id row]) (ro_id row) =
      Normalize (caps_of_rows (caps_rows s' (ro_id row)))" by (rule capsOf_one)
  have "gget 0 (Normalize (caps_of_rows (caps_rows s' (ro_id row)))) ns = gget 0 (Normalize (ro_caps r)) ns" for ns
  proof -
    have "gget 0 (Normalize (caps_of_rows (caps_rows s' (ro_id row)))) ns
        = gget 0 (Normalize (Normalize (ro_caps r))) ns"
      by (rule Normalize_pointwise) (simp_all add: gmap_ok_caps_of_rows s' written_caps_read_back)
    then show ?thesis by (simp add: Normalize_idem[OF assms(2)])
  qed
  moreover have "RoleByID s' (ro_id row) = Inr (hd (withCaps s' [row]))"
    by (simp add: RoleByID_def oneRole_def rows)
  moreover have "hd (withCaps s' [row]) = role_row.extend row (role.fields (gget [] (capsOf s' [ro_id row]) (ro_id row)))"
    by (simp add: withCaps_def)
  ultimately have "\<exists>r'. RoleByID s' (ro_id row) = Inr r' \<and> ro_name r' = ro_name row \<and>
      ro_is_admin r' = ro_is_admin row \<and> ro_builtin r' = ro_builtin row \<and>
      (\<forall>ns. gget 0 (ro_caps r') ns = gget 0 (Normalize (ro_caps r)) ns)"
    by (simp add: caps role_row.extend_def role.fields_def)
  then show ?thesis by (simp add: row_def)
qed

section \<open>A small installation\<close>

text \<open>One administrator, one person who deploys on the host \<^verbatim>\<open>h1\<close> and reads everywhere, and an
  administrator who got the role from the identity provider.\<close>

definition office :: db where
  "office = \<lparr>users = [\<lparr>u_id = ''root'', u_kind = ''human'', u_disabled = False\<rparr>,
      \<lparr>u_id = ''ann'', u_kind = ''human'', u_disabled = False\<rparr>],
    roles = [\<lparr>ro_id = ''admin'', ro_name = ''Administrator'', ro_description = [], ro_is_admin = True,
        ro_builtin = True, ro_created_at = 1\<rparr>,
      \<lparr>ro_id = ''dep'', ro_name = ''Deployer'', ro_description = [], ro_is_admin = False,
        ro_builtin = False, ro_created_at = 2\<rparr>],
    role_caps = [\<lparr>rc_role_id = ''dep'', rc_ns = NSDeploy, rc_mask = 3\<rparr>],
    role_members = [\<lparr>rm_user_id = ''root'', rm_role_id = ''admin'', rm_source = ''local'', rm_scope = scope_Global\<rparr>,
      \<lparr>rm_user_id = ''ann'', rm_role_id = ''dep'', rm_source = ''local'', rm_scope = OnEnv ''h1''\<rparr>],
    oidc_mappings = [], default_roles = [], environments = [''h1'', ''h2'']\<rparr>"

definition stacks_edit :: capdef where
  "stacks_edit = mkdef StacksEdit ''stacks.edit'' ''stacks'' ModeEdit ScopeEnv"

lemma office_inv: "store_inv office"
  unfolding store_inv_def by code_simp

lemma office_ok: "members_ok office" "caps_key office"
  using office_inv by (simp_all add: store_inv_def roles_inv_def)

lemma stacks_edit_registered: "stacks_edit \<in> set AllCaps"
  by code_simp


lemma office_dep:
  obtains r where "RoleByID office ''dep'' = Inr r" "Effective r = Normalize [(NSDeploy, 3)]"
proof -
  have "''dep'' \<in> set (map ro_id (roles office))" by code_simp
  from RoleByID_exists[OF this] obtain r where r: "RoleByID office ''dep'' = Inr r" by blast
  have rows: "caps_of_rows (caps_rows office ''dep'') = [(NSDeploy, 3)]" by code_simp
  have "''dep'' \<notin> set (admin_role_ids office)" by code_simp
  then have "Effective r = gget [] (capsOf office [''dep'']) ''dep''"
    using RoleByID_admin[OF office_ok(1) r] r by (auto simp: Effective_def elim: RoleByID_Inr)
  with r that show ?thesis by (simp add: capsOf_one rows)
qed

lemma dep_scopable: "set_IsZero (GlobalOnly (Normalize [(NSDeploy, 3)]))"
  by code_simp

lemma office_admin:
  obtains r where "RoleByID office ''admin'' = Inr r" "ro_is_admin r"
proof -
  have "''admin'' \<in> set (map ro_id (roles office))" "''admin'' \<in> set (admin_role_ids office)" by code_simp+
  with RoleByID_exists RoleByID_admin[OF office_ok(1)] that show ?thesis by metis
qed

lemma RoleByID_members [simp]: "RoleByID (s\<lparr>role_members := ms\<rparr>) rid = RoleByID s rid"
proof -
  have "withCaps (s\<lparr>role_members := ms\<rparr>) rs = withCaps s rs" for rs
    by (simp add: withCaps_def capsOf_def raw_caps_def)
  then show ?thesis by (simp add: RoleByID_def oneRole_def split: list.split)
qed

lemma root_grants: "grants_on office ''root'' IsGlobal stacks_edit"
proof -
  obtain r where "RoleByID office ''admin'' = Inr r" "ro_is_admin r" by (rule office_admin)
  then show ?thesis
    using Has_Everything[OF stacks_edit_registered]
    by (simp add: grants_on_def office_def Effective_def scope_Global_def IsGlobal_def)
qed

theorem effective_global_witness:
  "\<exists>em. EffectiveMask office ''root'' = Inr em \<and> Has (Global em) StacksEdit"
proof -
  obtain em where em: "EffectiveMask office ''root'' = Inr em" by (rule EffectiveMask_total)
  have "def_cap stacks_edit = StacksEdit" by code_simp
  then show ?thesis using effective_global[OF office_ok stacks_edit_registered em] em root_grants by auto
qed

theorem effective_env_witness:
  "\<exists>em. EffectiveMask office ''ann'' = Inr em \<and> Has (gget [] (Env em) ''h1'') StacksEdit"
proof -
  obtain em where em: "EffectiveMask office ''ann'' = Inr em" by (rule EffectiveMask_total)
  obtain r where r: "RoleByID office ''dep'' = Inr r" "Effective r = Normalize [(NSDeploy, 3)]" by (rule office_dep)
  let ?m = "\<lparr>rm_user_id = ''ann'', rm_role_id = ''dep'', rm_source = ''local'', rm_scope = OnEnv ''h1''\<rparr>"
  have "?m \<in> set (role_members office)" by (simp add: office_def)
  moreover have "on_host ''h1'' (OnEnv ''h1'')" by code_simp
  moreover have "Has (Normalize [(NSDeploy, 3)]) StacksEdit" by code_simp
  moreover have "def_cap stacks_edit = StacksEdit" by code_simp
  ultimately show ?thesis
    using effective_env[OF office_ok stacks_edit_registered em, of "''h1''" ?m r] em r dep_scopable by auto
qed

text \<open>The cache over this loader: root loses every membership while a request of root's is loading,
  and the cache goes on answering with the mask of an administrator.\<close>

section \<open>Where the guards do not reach\<close>

text \<open>The sign-in sync is a write without a lockout guard: in an installation whose only
  administrator holds the role through the provider, a sign-in whose claims no longer map to it
  leaves nobody who can administer.\<close>

lemma sync_can_remove_last_administrator:
  "\<exists>s uid s'. store_inv s \<and> SyncOIDCRoles s uid [] = Inr s' \<and> \<not> has_admin s'"
proof -
  let ?s = "office\<lparr>role_members :=
    [\<lparr>rm_user_id = ''root'', rm_role_id = ''admin'', rm_source = ''oidc'', rm_scope = scope_Global\<rparr>]\<rparr>"
  have "store_inv ?s" unfolding store_inv_def by code_simp
  moreover have "SyncOIDCRoles ?s ''root'' [] = Inr (office\<lparr>role_members := []\<rparr>)"
    by (simp add: SyncOIDCRoles_def valid_grants_def delete_where_def)
  moreover have "\<not> has_admin (office\<lparr>role_members := []\<rparr>)" by (simp add: has_admin_def list_ex_iff)
  ultimately show ?thesis by blast
qed

text \<open>The check of a revocation and its DELETE are not one transaction. Two administrators whose
  roles are revoked at the same time both pass the check, and nobody is left.\<close>

lemma concurrent_revokes_remove_last_administrator:
  "\<exists>s rid a b. store_inv s \<and>
     revoke_check s a rid scope_Global = Inr () \<and> revoke_check s b rid scope_Global = Inr () \<and>
     \<not> has_admin (revoke_apply (revoke_apply s a rid scope_Global) b rid scope_Global) \<and>
     RevokeRole (revoke_apply s a rid scope_Global) b rid scope_Global = Inl ErrLastAdmin"
proof -
  let ?m = "\<lambda>u. \<lparr>rm_user_id = u, rm_role_id = ''admin'', rm_source = ''local'', rm_scope = scope_Global\<rparr>"
  let ?s = "office\<lparr>role_members := [?m ''root'', ?m ''ann'']\<rparr>"
  have "store_inv ?s" unfolding store_inv_def by code_simp
  moreover obtain r where r: "RoleByID office ''admin'' = Inr r" "ro_is_admin r" by (rule office_admin)
  have "refuseLastAdminRevoke ?s ''root'' ''admin'' = Inr ()" "refuseLastAdminRevoke ?s ''ann'' ''admin'' = Inr ()"
    by code_simp+
  then have "revoke_check ?s ''root'' ''admin'' scope_Global = Inr ()"
    "revoke_check ?s ''ann'' ''admin'' scope_Global = Inr ()"
    by (simp_all add: revoke_check_def r)
  moreover have "refuseLastAdminRevoke (revoke_apply ?s ''root'' ''admin'' scope_Global) ''ann'' ''admin''
      = Inl ErrLastAdmin" by code_simp
  then have "RevokeRole (revoke_apply ?s ''root'' ''admin'' scope_Global) ''ann'' ''admin'' scope_Global
      = Inl ErrLastAdmin"
    by (simp add: RevokeRole_def revoke_check_def revoke_apply_def r IsGlobal_def scope_Global_def)
  moreover have
    "\<not> has_admin (revoke_apply (revoke_apply ?s ''root'' ''admin'' scope_Global) ''ann'' ''admin'' scope_Global)"
    by code_simp
  ultimately show ?thesis by blast
qed

end
