(* ===== verification/Stacks.thy ===== *)
theory Stacks
  imports Prelude
begin

text \<open>
  The store of stacks and deployments, \<^verbatim>\<open>internal/store/stacks.go\<close>: registries, stacks, their
  variables and secrets, and the deployments, with the keys, unique indexes, foreign keys and
  cascades of \<^verbatim>\<open>internal/store/migrate.go\<close>. A running deployment is the lock of its stack. The claim
  is modelled in its two database steps, because on Postgres other writers run in between.
  Identifiers and the clock are arguments; the empty string stands for NULL where the code
  writes and reads it so.
\<close>

section \<open>The tables\<close>

record registry =
  rg_id :: ident
  rg_name :: string
  rg_url :: string
  rg_username :: string
  rg_password_enc :: string
  rg_created_at :: timestamp

record stack =
  st_id :: ident
  st_env_id :: ident
  st_node_id :: ident
  st_name :: string
  st_engine :: string
  st_group_name :: string
  st_source_kind :: string
  st_git_url :: string
  st_git_ref :: string
  st_git_path :: string
  st_git_credential_id :: ident
  st_inline_yaml :: string
  st_deployed_hash :: string
  st_deployed_commit :: string
  st_deployed_at :: "timestamp option"
  st_auto_deploy :: bool
  st_webhook_id :: ident
  st_watch_paths :: string
  st_created_at :: timestamp
  st_created_by :: ident

record stack_env =
  se_stack_id :: ident
  se_key :: string
  se_value_enc :: string
  se_is_secret :: bool

record stack_secret =
  ss_stack_id :: ident
  ss_name :: string
  ss_content_enc :: string

datatype dep_status = DeployRunning | DeployOK | DeployFailed | DeployCancelled

record deployment =
  d_id :: ident
  d_stack_id :: ident
  d_action :: string
  d_status :: dep_status
  d_engine :: string
  d_trigger_kind :: string
  d_started_by :: ident
  d_runner_ctr_id :: ident
  d_exit_code :: "int option"
  d_log :: string
  d_log_truncated :: bool
  d_cancel_requested :: bool
  d_bundle_hash :: string
  d_commit_sha :: string
  d_commit_subject :: string
  d_compose_yaml :: string
  d_rollback_of :: ident
  d_started_at :: timestamp
  d_ended_at :: "timestamp option"

record sdb =
  sd_registries :: "registry list"
  sd_stacks :: "stack list"
  sd_stack_envs :: "stack_env list"
  sd_stack_secrets :: "stack_secret list"
  sd_deployments :: "deployment list"
  sd_environments :: "ident list"
  sd_git_credentials :: "ident list"
  sd_webhooks :: "ident list"

datatype stack_error = StackNotFound | StackConstraint | ErrRunInProgress | ErrRefusePrune

section \<open>Registries\<close>

definition CreateRegistry :: "sdb \<Rightarrow> registry \<Rightarrow> ident \<Rightarrow> timestamp \<Rightarrow> stack_error + sdb" where
  "CreateRegistry s r new_id now =
     (let r = r\<lparr>rg_id := (if rg_id r = [] then new_id else rg_id r), rg_created_at := now\<rparr>
      in if list_ex (\<lambda>q. rg_id q = rg_id r \<or> rg_name q = rg_name r) (sd_registries s)
         then Inl StackConstraint
         else Inr (s\<lparr>sd_registries := sd_registries s @ [r]\<rparr>))"

definition ListRegistries :: "sdb \<Rightarrow> registry list" where
  "ListRegistries s = sort_key rg_name (sd_registries s)"

definition first_or_missing :: "'r list \<Rightarrow> stack_error + 'r" where
  "first_or_missing rs = (case rs of [] \<Rightarrow> Inl StackNotFound | r # _ \<Rightarrow> Inr r)"

definition RegistryByID :: "sdb \<Rightarrow> ident \<Rightarrow> stack_error + registry" where
  "RegistryByID s rid = first_or_missing (filter (\<lambda>r. rg_id r = rid) (sd_registries s))"

definition RegistryByName :: "sdb \<Rightarrow> string \<Rightarrow> stack_error + registry" where
  "RegistryByName s n = first_or_missing (filter (\<lambda>r. rg_name r = n) (sd_registries s))"

definition DeleteRegistry :: "sdb \<Rightarrow> ident \<Rightarrow> sdb" where
  "DeleteRegistry s rid = s\<lparr>sd_registries := delete_where (\<lambda>r. rg_id r = rid) (sd_registries s)\<rparr>"

section \<open>Stacks\<close>

definition CreateStack :: "sdb \<Rightarrow> stack \<Rightarrow> ident \<Rightarrow> timestamp \<Rightarrow> stack_error + sdb" where
  "CreateStack s st new_id now =
     (let st = st\<lparr>st_id := (if st_id st = [] then new_id else st_id st), st_created_at := now,
                  st_deployed_hash := [], st_deployed_commit := [], st_deployed_at := None,
                  st_auto_deploy := False, st_webhook_id := [], st_watch_paths := []\<rparr>
      in if list_ex (\<lambda>q. st_id q = st_id st \<or> (st_env_id q = st_env_id st \<and> st_name q = st_name st)) (sd_stacks s)
            \<or> st_env_id st \<notin> set (sd_environments s)
            \<or> (st_git_credential_id st \<noteq> [] \<and> st_git_credential_id st \<notin> set (sd_git_credentials s))
         then Inl StackConstraint
         else Inr (s\<lparr>sd_stacks := sd_stacks s @ [st]\<rparr>))"

definition has_stack :: "sdb \<Rightarrow> ident \<Rightarrow> bool" where
  "has_stack s sid = list_ex (\<lambda>q. st_id q = sid) (sd_stacks s)"

definition SetStackAutoDeploy :: "sdb \<Rightarrow> ident \<Rightarrow> bool \<Rightarrow> ident \<Rightarrow> string \<Rightarrow> stack_error + sdb" where
  "SetStackAutoDeploy s sid enabled wid watch =
     (if has_stack s sid \<and> wid \<noteq> [] \<and> wid \<notin> set (sd_webhooks s) then Inl StackConstraint
      else Inr (s\<lparr>sd_stacks := update_where (\<lambda>q. st_id q = sid)
             (\<lambda>q. q\<lparr>st_auto_deploy := enabled, st_webhook_id := wid, st_watch_paths := watch\<rparr>) (sd_stacks s)\<rparr>))"

definition UpdateStackSource :: "sdb \<Rightarrow> stack \<Rightarrow> stack_error + sdb" where
  "UpdateStackSource s st =
     (if has_stack s (st_id st) \<and> st_git_credential_id st \<noteq> [] \<and>
         st_git_credential_id st \<notin> set (sd_git_credentials s) then Inl StackConstraint
      else Inr (s\<lparr>sd_stacks := update_where (\<lambda>q. st_id q = st_id st)
             (\<lambda>q. q\<lparr>st_engine := st_engine st, st_group_name := st_group_name st,
                    st_source_kind := st_source_kind st, st_git_url := st_git_url st,
                    st_git_ref := st_git_ref st, st_git_path := st_git_path st,
                    st_git_credential_id := st_git_credential_id st, st_inline_yaml := st_inline_yaml st\<rparr>)
             (sd_stacks s)\<rparr>))"

text \<open>The column \<^verbatim>\<open>stackReadCols\<close> adds to every read: the status of the last \<^verbatim>\<open>up\<close> or \<^verbatim>\<open>pull\<close>.\<close>

definition last_deploy_status :: "sdb \<Rightarrow> ident \<Rightarrow> dep_status option" where
  "last_deploy_status s sid =
     (case order_desc d_started_at
             (filter (\<lambda>d. d_stack_id d = sid \<and> (d_action d = ''up'' \<or> d_action d = ''pull'')) (sd_deployments s)) of
        [] \<Rightarrow> None | d # _ \<Rightarrow> Some (d_status d))"

definition scanStack :: "sdb \<Rightarrow> stack \<Rightarrow> stack \<times> dep_status option" where
  "scanStack s st = (st, last_deploy_status s (st_id st))"

definition StackByID :: "sdb \<Rightarrow> ident \<Rightarrow> stack_error + (stack \<times> dep_status option)" where
  "StackByID s sid = first_or_missing (map (scanStack s) (filter (\<lambda>q. st_id q = sid) (sd_stacks s)))"

definition StackByName :: "sdb \<Rightarrow> ident \<Rightarrow> string \<Rightarrow> stack_error + (stack \<times> dep_status option)" where
  "StackByName s e n =
     first_or_missing (map (scanStack s) (filter (\<lambda>q. st_env_id q = e \<and> st_name q = n) (sd_stacks s)))"

text \<open>\<^verbatim>\<open>envIn\<close>: every row, no row, or the rows on the hosts the caller may see.\<close>

definition envIn :: "bool \<Rightarrow> ident list \<Rightarrow> ident \<Rightarrow> bool" where
  "envIn global envs e \<longleftrightarrow> global \<or> e \<in> set envs"

definition ListStacks :: "sdb \<Rightarrow> bool \<Rightarrow> ident list \<Rightarrow> (stack \<times> dep_status option) list" where
  "ListStacks s global envs =
     map (scanStack s) (sort_key st_name (filter (\<lambda>q. envIn global envs (st_env_id q)) (sd_stacks s)))"

definition DeleteStack :: "sdb \<Rightarrow> ident \<Rightarrow> sdb" where
  "DeleteStack s sid =
     s\<lparr>sd_stacks := delete_where (\<lambda>q. st_id q = sid) (sd_stacks s),
       sd_stack_envs := delete_where (\<lambda>v. se_stack_id v = sid) (sd_stack_envs s),
       sd_stack_secrets := delete_where (\<lambda>v. ss_stack_id v = sid) (sd_stack_secrets s),
       sd_deployments := delete_where (\<lambda>d. d_stack_id d = sid) (sd_deployments s)\<rparr>"

definition MarkStackDeployed :: "sdb \<Rightarrow> ident \<Rightarrow> string \<Rightarrow> string \<Rightarrow> timestamp \<Rightarrow> sdb" where
  "MarkStackDeployed s sid h c now =
     s\<lparr>sd_stacks := update_where (\<lambda>q. st_id q = sid)
        (\<lambda>q. q\<lparr>st_deployed_hash := h, st_deployed_commit := c, st_deployed_at := Some now\<rparr>) (sd_stacks s)\<rparr>"

section \<open>Variables and secrets\<close>

text \<open>A set of variables is replaced as a whole, in one transaction: a repeated key or a missing
  stack fails an insert and leaves the old set.\<close>

definition SetStackEnv :: "sdb \<Rightarrow> ident \<Rightarrow> stack_env list \<Rightarrow> stack_error + sdb" where
  "SetStackEnv s sid vars =
     (if \<not> distinct (map se_key vars) \<or> (vars \<noteq> [] \<and> \<not> has_stack s sid) then Inl StackConstraint
      else Inr (s\<lparr>sd_stack_envs := delete_where (\<lambda>v. se_stack_id v = sid) (sd_stack_envs s) @
                    map (\<lambda>v. v\<lparr>se_stack_id := sid\<rparr>) vars\<rparr>))"

definition StackEnv :: "sdb \<Rightarrow> ident \<Rightarrow> stack_env list" where
  "StackEnv s sid = sort_key se_key (filter (\<lambda>v. se_stack_id v = sid) (sd_stack_envs s))"

definition SetStackSecrets :: "sdb \<Rightarrow> ident \<Rightarrow> stack_secret list \<Rightarrow> stack_error + sdb" where
  "SetStackSecrets s sid secs =
     (if \<not> distinct (map ss_name secs) \<or> (secs \<noteq> [] \<and> \<not> has_stack s sid) then Inl StackConstraint
      else Inr (s\<lparr>sd_stack_secrets := delete_where (\<lambda>v. ss_stack_id v = sid) (sd_stack_secrets s) @
                    map (\<lambda>v. v\<lparr>ss_stack_id := sid\<rparr>) secs\<rparr>))"

definition StackSecrets :: "sdb \<Rightarrow> ident \<Rightarrow> stack_secret list" where
  "StackSecrets s sid = sort_key ss_name (filter (\<lambda>v. ss_stack_id v = sid) (sd_stack_secrets s))"

section \<open>Deployments\<close>

definition running_on :: "ident \<Rightarrow> deployment \<Rightarrow> bool" where
  "running_on sid d \<longleftrightarrow> d_stack_id d = sid \<and> d_status d = DeployRunning"

text \<open>The row a claim inserts. The first part of the claim counts, the second inserts; the insert
  fails on a taken id, a missing stack and, through the index \<^verbatim>\<open>idx_deploy_one_running\<close>, on a stack
  that has a running deployment. A failed insert is reported as a run in progress when there is one.\<close>

definition claim_row :: "deployment \<Rightarrow> ident \<Rightarrow> timestamp \<Rightarrow> deployment" where
  "claim_row d new_id now =
     d\<lparr>d_id := (if d_id d = [] then new_id else d_id d),
       d_trigger_kind := (if d_trigger_kind d = [] then ''manual'' else d_trigger_kind d),
       d_engine := (if d_engine d = [] then ''compose'' else d_engine d),
       d_status := DeployRunning, d_started_at := now, d_runner_ctr_id := [], d_exit_code := None,
       d_log := [], d_log_truncated := False, d_cancel_requested := False, d_ended_at := None\<rparr>"

definition claim_count :: "sdb \<Rightarrow> ident \<Rightarrow> nat" where
  "claim_count s sid = count_where (running_on sid) (sd_deployments s)"

definition claim_insert :: "sdb \<Rightarrow> deployment \<Rightarrow> stack_error + sdb" where
  "claim_insert s d =
     (if list_ex (\<lambda>q. d_id q = d_id d) (sd_deployments s) \<or> \<not> has_stack s (d_stack_id d)
         \<or> 0 < claim_count s (d_stack_id d)
      then (if 0 < claim_count s (d_stack_id d) then Inl ErrRunInProgress else Inl StackConstraint)
      else Inr (s\<lparr>sd_deployments := sd_deployments s @ [d]\<rparr>))"

definition ClaimDeployment :: "sdb \<Rightarrow> deployment \<Rightarrow> ident \<Rightarrow> timestamp \<Rightarrow> stack_error + sdb" where
  "ClaimDeployment s d new_id now =
     (if 0 < claim_count s (d_stack_id d) then Inl ErrRunInProgress
      else claim_insert s (claim_row d new_id now))"

definition upd_dep :: "sdb \<Rightarrow> ident \<Rightarrow> (deployment \<Rightarrow> deployment) \<Rightarrow> sdb" where
  "upd_dep s did f = s\<lparr>sd_deployments := update_where (\<lambda>d. d_id d = did) f (sd_deployments s)\<rparr>"

definition SetDeploymentContainer :: "sdb \<Rightarrow> ident \<Rightarrow> ident \<Rightarrow> sdb" where
  "SetDeploymentContainer s did ctr = upd_dep s did (\<lambda>d. d\<lparr>d_runner_ctr_id := ctr\<rparr>)"

definition SetDeploymentBundle :: "sdb \<Rightarrow> ident \<Rightarrow> string \<Rightarrow> string \<Rightarrow> string \<Rightarrow> string \<Rightarrow> sdb" where
  "SetDeploymentBundle s did h sha subj yaml =
     upd_dep s did (\<lambda>d. d\<lparr>d_bundle_hash := h, d_commit_sha := sha, d_commit_subject := subj, d_compose_yaml := yaml\<rparr>)"

definition verdict :: "bool \<Rightarrow> int \<Rightarrow> dep_status" where
  "verdict cancelled exit = (if cancelled then DeployCancelled else if exit \<noteq> 0 then DeployFailed else DeployOK)"

definition FinishDeployment ::
  "sdb \<Rightarrow> ident \<Rightarrow> int \<Rightarrow> string \<Rightarrow> bool \<Rightarrow> timestamp \<Rightarrow> stack_error + (dep_status \<times> sdb)" where
  "FinishDeployment s did exit log truncated now =
     (case filter (\<lambda>d. d_id d = did) (sd_deployments s) of
        [] \<Rightarrow> Inl StackNotFound
      | d # _ \<Rightarrow>
          (let status = verdict (d_cancel_requested d) exit
           in Inr (status, upd_dep s did (\<lambda>d. d\<lparr>d_status := status, d_exit_code := Some exit, d_log := log,
                d_log_truncated := truncated, d_ended_at := Some now\<rparr>))))"

definition RequestCancel :: "sdb \<Rightarrow> ident \<Rightarrow> bool \<times> sdb" where
  "RequestCancel s did =
     (0 < count_where (\<lambda>d. d_id d = did \<and> d_status d = DeployRunning) (sd_deployments s),
      s\<lparr>sd_deployments := update_where (\<lambda>d. d_id d = did \<and> d_status d = DeployRunning)
          (\<lambda>d. d\<lparr>d_cancel_requested := True\<rparr>) (sd_deployments s)\<rparr>)"

definition DeploymentByID :: "sdb \<Rightarrow> ident \<Rightarrow> stack_error + deployment" where
  "DeploymentByID s did = first_or_missing (filter (\<lambda>d. d_id d = did) (sd_deployments s))"

definition ListDeployments :: "sdb \<Rightarrow> ident \<Rightarrow> int \<Rightarrow> deployment list" where
  "ListDeployments s sid limit =
     (let limit = (if limit \<le> 0 \<or> 100 < limit then 20 else limit)
      in take (nat limit) (order_desc d_started_at (filter (\<lambda>d. d_stack_id d = sid) (sd_deployments s))))"

record deployment_filter =
  f_status :: "dep_status option"
  f_stack_id :: ident
  f_env_id :: ident
  f_trigger :: string
  f_before :: "timestamp option"
  f_limit :: int

definition recent_match :: "bool \<Rightarrow> ident list \<Rightarrow> deployment_filter \<Rightarrow> deployment \<Rightarrow> stack \<Rightarrow> bool" where
  "recent_match global envs f d q \<longleftrightarrow>
     st_id q = d_stack_id d \<and> (global \<or> st_env_id q \<in> set envs) \<and>
     (case f_status f of None \<Rightarrow> True | Some x \<Rightarrow> d_status d = x) \<and>
     (f_stack_id f = [] \<or> d_stack_id d = f_stack_id f) \<and>
     (f_env_id f = [] \<or> st_env_id q = f_env_id f) \<and>
     (f_trigger f = [] \<or> d_trigger_kind d = f_trigger f) \<and>
     (case f_before f of None \<Rightarrow> True | Some t \<Rightarrow> d_started_at d < t)"

definition RecentDeployments :: "sdb \<Rightarrow> bool \<Rightarrow> ident list \<Rightarrow> deployment_filter \<Rightarrow> deployment list" where
  "RecentDeployments s global envs f =
     (if \<not> global \<and> envs = [] then []
      else (let limit = (if f_limit f \<le> 0 \<or> 200 < f_limit f then 50 else f_limit f)
            in take (nat limit) (order_desc d_started_at
                 [d\<lparr>d_log := [], d_compose_yaml := []\<rparr>.
                    d \<leftarrow> sd_deployments s, q \<leftarrow> sd_stacks s, recent_match global envs f d q])))"

definition UnfinishedDeployments :: "sdb \<Rightarrow> deployment list" where
  "UnfinishedDeployments s = filter (\<lambda>d. d_status d = DeployRunning) (sd_deployments s)"

definition newest_of_stack :: "sdb \<Rightarrow> ident \<Rightarrow> int \<Rightarrow> ident list" where
  "newest_of_stack s sid keep =
     map d_id (take (nat keep) (order_desc d_started_at (filter (\<lambda>d. d_stack_id d = sid) (sd_deployments s))))"

definition prunable :: "sdb \<Rightarrow> int \<Rightarrow> int \<Rightarrow> deployment \<Rightarrow> bool" where
  "prunable s keep cutoff d \<longleftrightarrow>
     d_status d \<noteq> DeployRunning \<and> int (d_started_at d) < cutoff \<and>
     d_id d \<notin> set (newest_of_stack s (d_stack_id d) keep)"

definition PruneDeployments :: "sdb \<Rightarrow> int \<Rightarrow> int \<Rightarrow> timestamp \<Rightarrow> stack_error + (nat \<times> sdb)" where
  "PruneDeployments s keep age now =
     (if keep \<le> 0 \<or> age \<le> 0 then Inl ErrRefusePrune
      else (let gone = prunable s keep (int now - age)
            in Inr (count_where gone (sd_deployments s),
                    s\<lparr>sd_deployments := delete_where gone (sd_deployments s)\<rparr>)))"

section \<open>The writes as one machine\<close>

text \<open>\<open>OpInsert\<close> is the second half of a claim on its own, as it runs when other writes came between
  the count and the insert.\<close>

datatype stack_op =
    OpCreateRegistry registry ident timestamp
  | OpDeleteRegistry ident
  | OpCreateStack stack ident timestamp
  | OpSetAutoDeploy ident bool ident string
  | OpUpdateSource stack
  | OpDeleteStack ident
  | OpMarkDeployed ident string string timestamp
  | OpSetEnv ident "stack_env list"
  | OpSetSecrets ident "stack_secret list"
  | OpClaim deployment ident timestamp
  | OpInsert deployment ident timestamp
  | OpSetContainer ident ident
  | OpSetBundle ident string string string string
  | OpFinish ident int string bool timestamp
  | OpRequestCancel ident
  | OpPrune int int timestamp

fun stack_apply :: "sdb \<Rightarrow> stack_op \<Rightarrow> stack_error + sdb" where
  "stack_apply s (OpCreateRegistry r i t) = CreateRegistry s r i t"
| "stack_apply s (OpDeleteRegistry i) = Inr (DeleteRegistry s i)"
| "stack_apply s (OpCreateStack st i t) = CreateStack s st i t"
| "stack_apply s (OpSetAutoDeploy i b w p) = SetStackAutoDeploy s i b w p"
| "stack_apply s (OpUpdateSource st) = UpdateStackSource s st"
| "stack_apply s (OpDeleteStack i) = Inr (DeleteStack s i)"
| "stack_apply s (OpMarkDeployed i h c t) = Inr (MarkStackDeployed s i h c t)"
| "stack_apply s (OpSetEnv i vs) = SetStackEnv s i vs"
| "stack_apply s (OpSetSecrets i vs) = SetStackSecrets s i vs"
| "stack_apply s (OpClaim d i t) = ClaimDeployment s d i t"
| "stack_apply s (OpInsert d i t) = claim_insert s (claim_row d i t)"
| "stack_apply s (OpSetContainer i c) = Inr (SetDeploymentContainer s i c)"
| "stack_apply s (OpSetBundle i h a b y) = Inr (SetDeploymentBundle s i h a b y)"
| "stack_apply s (OpFinish i e l tr t) = map_sum id snd (FinishDeployment s i e l tr t)"
| "stack_apply s (OpRequestCancel i) = Inr (snd (RequestCancel s i))"
| "stack_apply s (OpPrune k a t) = map_sum id snd (PruneDeployments s k a t)"

definition stack_step :: "sdb \<Rightarrow> stack_op \<Rightarrow> sdb" where
  "stack_step s a = (case stack_apply s a of Inl e \<Rightarrow> s | Inr s' \<Rightarrow> s')"

text \<open>What the schema promises of the two tables the deploys work on: keys, at most one running
  deployment of a stack, and no deployment without its stack.\<close>

definition stacks_inv :: "sdb \<Rightarrow> bool" where
  "stacks_inv s \<longleftrightarrow> distinct (map st_id (sd_stacks s)) \<and>
     distinct (map (\<lambda>q. (st_env_id q, st_name q)) (sd_stacks s)) \<and>
     distinct (map d_id (sd_deployments s)) \<and>
     (\<forall>d \<in> set (sd_deployments s). has_stack s (d_stack_id d)) \<and>
     (\<forall>sid. claim_count s sid \<le> 1)"

section \<open>Lemmas\<close>

lemmas dep_defs = SetDeploymentContainer_def SetDeploymentBundle_def upd_dep_def

lemma has_stack_iff: "has_stack s sid \<longleftrightarrow> sid \<in> set (map st_id (sd_stacks s))"
  by (auto simp: has_stack_def list_ex_iff)

lemma count_where_filter_le: "count_where p xs \<le> n \<Longrightarrow> count_where p (filter q xs) \<le> n"
proof (rule order_trans)
  show "count_where p (filter q xs) \<le> count_where p xs"
    unfolding count_where_def filter_filter by (induction xs) auto
qed

lemma count_where_update_same:
  "(\<And>r. p (f r) = p r) \<Longrightarrow> count_where p (update_where q f rs) = count_where p rs"
  unfolding count_where_def update_where_def by (induction rs) auto

lemma count_where_update_le:
  "(\<And>r. p (f r) \<Longrightarrow> p r) \<Longrightarrow> count_where p (update_where q f rs) \<le> count_where p rs"
  unfolding count_where_def update_where_def by (induction rs) (auto simp: le_SucI)

lemma stacks_inv_others [simp]:
  "stacks_inv (s\<lparr>sd_registries := x\<rparr>) = stacks_inv s"
  "stacks_inv (s\<lparr>sd_stack_envs := y\<rparr>) = stacks_inv s"
  "stacks_inv (s\<lparr>sd_stack_secrets := z\<rparr>) = stacks_inv s"
  by (simp_all add: stacks_inv_def has_stack_def claim_count_def)

text \<open>An update of deployments that keeps their ids and stacks and starts none.\<close>

lemma stacks_inv_update:
  assumes "stacks_inv s" "\<And>d. d_id (f d) = d_id d" "\<And>d. d_stack_id (f d) = d_stack_id d"
    "\<And>d. d_status (f d) = DeployRunning \<Longrightarrow> d_status d = DeployRunning"
  shows "stacks_inv (s\<lparr>sd_deployments := update_where q f (sd_deployments s)\<rparr>)"
proof -
  have "count_where (running_on sid) (update_where q f (sd_deployments s)) \<le>
      count_where (running_on sid) (sd_deployments s)" for sid
    by (rule count_where_update_le) (auto simp: running_on_def assms)
  moreover have "map d_id (update_where q f (sd_deployments s)) = map d_id (sd_deployments s)"
    by (rule map_update_where) (rule assms(2))
  ultimately show ?thesis
    using assms(1) order_trans
    by (fastforce simp: stacks_inv_def claim_count_def in_update_where assms has_stack_def)
qed

lemma stacks_inv_filter:
  assumes "stacks_inv s"
  shows "stacks_inv (s\<lparr>sd_deployments := delete_where p (sd_deployments s)\<rparr>)"
  using assms
  by (auto simp: stacks_inv_def claim_count_def delete_where_def distinct_map_filter has_stack_def count_where_filter_le)

lemma stacks_inv_stacks:
  assumes "stacks_inv s" "map st_id qs = map st_id (sd_stacks s)"
    "map (\<lambda>q. (st_env_id q, st_name q)) qs = map (\<lambda>q. (st_env_id q, st_name q)) (sd_stacks s)"
  shows "stacks_inv (s\<lparr>sd_stacks := qs\<rparr>)"
  using assms by (simp add: stacks_inv_def has_stack_iff claim_count_def)

lemma CreateStack_inv:
  assumes "stacks_inv s" "CreateStack s st i t = Inr s'"
  shows "stacks_inv s'"
proof -
  define row where "row = st\<lparr>st_id := (if st_id st = [] then i else st_id st), st_created_at := t,
    st_deployed_hash := [], st_deployed_commit := [], st_deployed_at := None,
    st_auto_deploy := False, st_webhook_id := [], st_watch_paths := []\<rparr>"
  have s': "s' = s\<lparr>sd_stacks := sd_stacks s @ [row]\<rparr>"
    and new: "\<forall>q \<in> set (sd_stacks s). st_id row \<noteq> st_id q \<and> (st_env_id row, st_name row) \<noteq> (st_env_id q, st_name q)"
    using assms(2) unfolding CreateStack_def Let_def row_def[symmetric]
    by (auto simp: list_ex_iff split: if_split_asm)
  have "st_id row \<notin> st_id ` set (sd_stacks s)"
    "(st_env_id row, st_name row) \<notin> (\<lambda>q. (st_env_id q, st_name q)) ` set (sd_stacks s)"
    using new by blast+
  then show ?thesis using assms(1) by (auto simp: s' stacks_inv_def has_stack_def claim_count_def)
qed

lemma DeleteStack_inv: "stacks_inv s \<Longrightarrow> stacks_inv (DeleteStack s i)"
  by (auto simp: stacks_inv_def DeleteStack_def claim_count_def delete_where_def distinct_map_filter has_stack_iff
    count_where_filter_le)

lemma claim_insert_inv:
  assumes "stacks_inv s" "claim_insert s d = Inr s'"
  shows "stacks_inv s'"
proof -
  have s': "s' = s\<lparr>sd_deployments := sd_deployments s @ [d]\<rparr>" and st: "has_stack s (d_stack_id d)"
    and fresh: "d_id d \<notin> set (map d_id (sd_deployments s))" and free: "claim_count s (d_stack_id d) = 0"
    using assms(2) by (auto simp: claim_insert_def list_ex_iff split: if_split_asm)
  have "claim_count s' sid \<le> 1" for sid
    using assms(1) free
    by (cases "sid = d_stack_id d")
       (auto simp: s' stacks_inv_def claim_count_def count_where_append count_where_single running_on_def)
  then show ?thesis
    using assms(1) st fresh by (auto simp: s' stacks_inv_def has_stack_def)
qed

lemma stack_step_inv: "stacks_inv s \<Longrightarrow> stacks_inv (stack_step s a)"
proof (cases a)
  case (OpFinish i e l tr t)
  assume "stacks_inv s"
  with OpFinish show ?thesis
    by (auto simp: stack_step_def FinishDeployment_def upd_dep_def Let_def verdict_def
      split: list.splits intro!: stacks_inv_update)
next
  case (OpPrune k ag t)
  assume "stacks_inv s"
  with OpPrune show ?thesis
    by (auto simp: stack_step_def PruneDeployments_def Let_def stacks_inv_filter)
next
  case (OpCreateStack st i t)
  assume "stacks_inv s"
  with OpCreateStack show ?thesis by (auto simp: stack_step_def dest: CreateStack_inv split: sum.splits)
next
  case (OpClaim d i t)
  assume "stacks_inv s"
  with OpClaim show ?thesis
    by (auto simp: stack_step_def ClaimDeployment_def dest: claim_insert_inv split: sum.splits)
next
  case (OpInsert d i t)
  assume "stacks_inv s"
  with OpInsert show ?thesis by (auto simp: stack_step_def dest: claim_insert_inv split: sum.splits)
qed (auto simp: stack_step_def CreateRegistry_def DeleteRegistry_def SetStackAutoDeploy_def UpdateStackSource_def
      DeleteStack_inv MarkStackDeployed_def SetStackEnv_def SetStackSecrets_def dep_defs RequestCancel_def Let_def
      map_update_where intro!: stacks_inv_update stacks_inv_stacks)

interpretation stack_machine: guarded_machine stack_step stacks_inv
  by unfold_locales (rule stack_step_inv)

section \<open>What a deploy relies on\<close>

text \<open>The store as the deploy pipeline uses it: closing a deployment leaves it idle, closing a missing
  one means it was idle, and no write makes a deployment run again except a claim that mints its id.\<close>

locale claim_store =
  fixes finish :: "'s \<Rightarrow> 'i \<Rightarrow> int \<Rightarrow> string \<Rightarrow> bool \<Rightarrow> timestamp \<Rightarrow> 'e + ('st \<times> 's)"
    and step :: "'s \<Rightarrow> 'op \<Rightarrow> 's"
    and mints :: "'op \<Rightarrow> 'i \<Rightarrow> bool"
    and idle :: "'s \<Rightarrow> 'i \<Rightarrow> bool"
  assumes finish_idle: "finish s i e l t n = Inr (st, s') \<Longrightarrow> idle s' i"
    and finish_missing: "finish s i e l t n = Inl err \<Longrightarrow> idle s i"
    and finish_other: "finish s j e l t n = Inr (st, s') \<Longrightarrow> idle s i \<Longrightarrow> idle s' i"
    and step_idle: "idle s i \<Longrightarrow> \<not> mints a i \<Longrightarrow> idle (step s a) i"
begin

lemma run_idle: "idle s i \<Longrightarrow> \<forall>a \<in> set as. \<not> mints a i \<Longrightarrow> idle (foldl step s as) i"
  by (induction as arbitrary: s) (auto simp: step_idle)

lemma close_idle: "idle (case finish s i e l t n of Inl err \<Rightarrow> s | Inr (st, s') \<Rightarrow> s') i"
  by (auto split: sum.splits intro: finish_idle finish_missing)

lemma close_keeps_idle: "idle s j \<Longrightarrow> idle (case finish s i e l t n of Inl err \<Rightarrow> s | Inr (st, s') \<Rightarrow> s') j"
  by (auto split: sum.splits intro: finish_other)

end

definition idle :: "sdb \<Rightarrow> ident \<Rightarrow> bool" where
  "idle s i \<longleftrightarrow> (\<forall>d \<in> set (sd_deployments s). d_id d = i \<longrightarrow> d_status d \<noteq> DeployRunning)"

fun mints_id :: "stack_op \<Rightarrow> ident \<Rightarrow> bool" where
  "mints_id (OpClaim d n t) i = (i = (if d_id d = [] then n else d_id d))"
| "mints_id (OpInsert d n t) i = (i = (if d_id d = [] then n else d_id d))"
| "mints_id _ i = False"

lemma idle_update:
  assumes "idle s i" "\<And>d. d_id (f d) = d_id d" "\<And>d. d_status (f d) = DeployRunning \<Longrightarrow> d_status d = DeployRunning"
  shows "idle (s\<lparr>sd_deployments := update_where q f (sd_deployments s)\<rparr>) i"
  unfolding idle_def
proof (intro ballI impI notI)
  fix x assume "x \<in> set (sd_deployments (s\<lparr>sd_deployments := update_where q f (sd_deployments s)\<rparr>))"
    and x: "d_id x = i" "d_status x = DeployRunning"
  then obtain r where r: "r \<in> set (sd_deployments s)" "x = (if q r then f r else r)"
    by (auto simp: in_update_where)
  then have "d_id r = i" "d_status r = DeployRunning" using x assms(2,3) by (auto split: if_splits)
  with assms(1) r(1) show False by (auto simp: idle_def)
qed

lemma idle_finished:
  assumes "\<And>d. d_id (f d) = d_id d" "\<And>d. d_status (f d) \<noteq> DeployRunning"
  shows "idle (s\<lparr>sd_deployments := update_where (\<lambda>d. d_id d = i) f (sd_deployments s)\<rparr>) i"
  unfolding idle_def
proof (intro ballI impI)
  fix x assume "x \<in> set (sd_deployments (s\<lparr>sd_deployments := update_where (\<lambda>d. d_id d = i) f (sd_deployments s)\<rparr>))"
    and x: "d_id x = i"
  then obtain r where r: "x = (if d_id r = i then f r else r)" by (auto simp: in_update_where)
  with x have "d_id r = i" using assms(1) by (auto split: if_splits)
  with r assms(2) show "d_status x \<noteq> DeployRunning" by simp
qed

lemma idle_same: "sd_deployments s' = sd_deployments s \<Longrightarrow> idle s' i = idle s i"
  by (simp add: idle_def)

lemma idle_insert: "idle s i \<Longrightarrow> claim_insert s (claim_row d n t) = Inr s' \<Longrightarrow>
    i \<noteq> (if d_id d = [] then n else d_id d) \<Longrightarrow> idle s' i"
  by (auto simp: idle_def claim_insert_def claim_row_def split: if_split_asm)

lemma FinishDeployment_Inr:
  assumes "FinishDeployment s i e l t n = Inr (st, s')"
  shows "st \<noteq> DeployRunning \<and> s' = s\<lparr>sd_deployments := update_where (\<lambda>d. d_id d = i)
    (\<lambda>d. d\<lparr>d_status := st, d_exit_code := Some e, d_log := l, d_log_truncated := t, d_ended_at := Some n\<rparr>) (sd_deployments s)\<rparr>"
  using assms by (auto simp: FinishDeployment_def Let_def upd_dep_def verdict_def split: list.splits if_splits)

lemma stack_step_idle: "idle s i \<Longrightarrow> \<not> mints_id a i \<Longrightarrow> idle (stack_step s a) i"
proof (cases a)
  case (OpFinish j e l tr t)
  assume "idle s i"
  with OpFinish show ?thesis
    by (cases "FinishDeployment s j e l tr t")
       (auto simp: stack_step_def dest!: FinishDeployment_Inr intro!: idle_update)
next
  case (OpClaim d n t)
  assume "idle s i" "\<not> mints_id a i"
  with OpClaim show ?thesis
    by (auto simp: stack_step_def ClaimDeployment_def split: sum.splits if_split_asm dest: idle_insert)
next
  case (OpInsert d n t)
  assume "idle s i" "\<not> mints_id a i"
  with OpInsert show ?thesis by (auto simp: stack_step_def split: sum.splits if_split_asm dest: idle_insert)
next
  case (OpPrune k ag t)
  assume "idle s i"
  with OpPrune show ?thesis by (auto simp: stack_step_def PruneDeployments_def Let_def idle_def)
qed (auto simp: stack_step_def CreateRegistry_def DeleteRegistry_def CreateStack_def SetStackAutoDeploy_def
      UpdateStackSource_def DeleteStack_def MarkStackDeployed_def SetStackEnv_def SetStackSecrets_def dep_defs
      RequestCancel_def Let_def idle_same idle_def in_update_where split: if_splits)

interpretation deployments: claim_store FinishDeployment stack_step mints_id idle
proof
  show "FinishDeployment s i e l t n = Inr (st, s') \<Longrightarrow> idle s' i" for s i e l t n st s'
    by (auto dest!: FinishDeployment_Inr intro!: idle_finished)
  show "FinishDeployment s i e l t n = Inl err \<Longrightarrow> idle s i" for s i e l t n err
    by (auto simp: FinishDeployment_def Let_def idle_def filter_empty_conv split: list.splits)
  show "FinishDeployment s j e l t n = Inr (st, s') \<Longrightarrow> idle s i \<Longrightarrow> idle s' i" for s j e l t n st s' i
    by (auto dest!: FinishDeployment_Inr intro!: idle_update)
qed (rule stack_step_idle)

section \<open>Properties\<close>

text \<open>C6: a running deployment is the lock of its stack. Whatever writes run, in whatever order, and
  even when every claim's insert runs long after its count, no stack ever has two running
  deployments, and no deployment is left without its stack.\<close>

theorem one_running_deployment:
  assumes "stacks_inv s"
  shows "claim_count (foldl stack_step s ops) sid \<le> 1 \<and>
    (\<forall>d \<in> set (sd_deployments (foldl stack_step s ops)). has_stack (foldl stack_step s ops) (d_stack_id d))"
  using stack_machine.run_inv[OF assms, of ops] unfolding stacks_inv_def by blast

lemma FinishDeployment_cases:
  assumes "stacks_inv s" "d \<in> set (sd_deployments s)"
  shows "FinishDeployment s (d_id d) e l tr now =
    (let st = verdict (d_cancel_requested d) e
     in Inr (st, upd_dep s (d_id d) (\<lambda>d. d\<lparr>d_status := st, d_exit_code := Some e, d_log := l,
                d_log_truncated := tr, d_ended_at := Some now\<rparr>)))"
  using assms by (simp add: FinishDeployment_def Let_def stacks_inv_def filter_key)

lemma claim_count_finish:
  "claim_count (upd_dep s did (\<lambda>d. d\<lparr>d_status := st, d_exit_code := x, d_log := l, d_log_truncated := tr, d_ended_at := t\<rparr>)) sid
     = count_where (\<lambda>d. running_on sid d \<and> d_id d \<noteq> did) (sd_deployments s)" if "st \<noteq> DeployRunning"
  using that unfolding claim_count_def upd_dep_def count_where_def update_where_def
  by (auto simp: filter_map comp_def running_on_def intro!: arg_cong[where f = length] filter_cong)

text \<open>A claim holds until its verdict and is then free. After a successful claim every other claim
  of the stack is refused as a run in progress; once the claimed deployment is finished, with any
  exit code, nothing of the stack is running, and a new claim with a fresh id succeeds.\<close>

lemma claim_held_until_finished:
  assumes "stacks_inv s" "ClaimDeployment s d nid now = Inr s'" "nid \<noteq> []" "d_id d = []"
  shows "(d_stack_id d2 = d_stack_id d \<longrightarrow> ClaimDeployment s' d2 nid2 now2 = Inl ErrRunInProgress) \<and>
    (\<exists>st s''. FinishDeployment s' nid e l tr later = Inr (st, s'') \<and> claim_count s'' (d_stack_id d) = 0 \<and>
      (d_stack_id d2 = d_stack_id d \<and> d_id d2 = [] \<and> nid2 \<notin> set (map d_id (sd_deployments s'')) \<longrightarrow>
         (\<exists>s3. ClaimDeployment s'' d2 nid2 now2 = Inr s3)))"
proof (intro conjI impI)
  let ?d = "claim_row d nid now"
  have free: "claim_count s (d_stack_id d) = 0" and s': "s' = s\<lparr>sd_deployments := sd_deployments s @ [?d]\<rparr>"
    and st: "has_stack s (d_stack_id d)"
    using assms(2) by (auto simp: ClaimDeployment_def claim_insert_def claim_row_def split: if_split_asm)
  have inv: "stacks_inv s'"
    using claim_insert_inv[OF assms(1)] assms(2) by (auto simp: ClaimDeployment_def split: if_split_asm)
  have did: "d_id ?d = nid" "d_stack_id ?d = d_stack_id d" "running_on (d_stack_id d) ?d"
    using assms(4) by (simp_all add: claim_row_def running_on_def)
  show "ClaimDeployment s' d2 nid2 now2 = Inl ErrRunInProgress" if "d_stack_id d2 = d_stack_id d"
    using that did(3) by (simp add: ClaimDeployment_def claim_count_def s' count_where_append count_where_single)
  have fin: "FinishDeployment s' nid e l tr later =
      (let st = verdict (d_cancel_requested ?d) e
       in Inr (st, upd_dep s' nid (\<lambda>d. d\<lparr>d_status := st, d_exit_code := Some e, d_log := l,
                d_log_truncated := tr, d_ended_at := Some later\<rparr>)))"
    using FinishDeployment_cases[OF inv, of ?d] unfolding did by (simp add: s')
  let ?st = "verdict (d_cancel_requested ?d) e"
  let ?s = "upd_dep s' nid (\<lambda>d. d\<lparr>d_status := ?st, d_exit_code := Some e, d_log := l,
                d_log_truncated := tr, d_ended_at := Some later\<rparr>)"
  have "?st \<noteq> DeployRunning" by (simp add: verdict_def)
  from claim_count_finish[OF this] have zero: "claim_count ?s (d_stack_id d) = 0"
    using free did(1) by (simp add: claim_count_def[of s] count_where_0) (simp add: s')
  have "\<exists>s3. ClaimDeployment ?s d2 nid2 now2 = Inr s3"
    if "d_stack_id d2 = d_stack_id d \<and> d_id d2 = [] \<and> nid2 \<notin> set (map d_id (sd_deployments ?s))"
    using that zero st
    by (auto simp: ClaimDeployment_def claim_insert_def claim_row_def has_stack_def upd_dep_def s' list_ex_iff)
  with fin zero show "\<exists>st s''. FinishDeployment s' nid e l tr later = Inr (st, s'') \<and> claim_count s'' (d_stack_id d) = 0 \<and>
      (d_stack_id d2 = d_stack_id d \<and> d_id d2 = [] \<and> nid2 \<notin> set (map d_id (sd_deployments s'')) \<longrightarrow>
         (\<exists>s3. ClaimDeployment s'' d2 nid2 now2 = Inr s3))"
    unfolding Let_def by blast
qed

text \<open>Cancelling wins over the exit code. A cancel request is accepted exactly while the deployment
  is running and otherwise changes nothing; once accepted, the deployment finishes as cancelled,
  whatever the exit code, and no other deployment is touched.\<close>

lemma cancel_decides_verdict:
  assumes "stacks_inv s" "d \<in> set (sd_deployments s)" "RequestCancel s (d_id d) = (b, s')"
  shows "b = (d_status d = DeployRunning) \<and> (\<not> b \<longrightarrow> s' = s) \<and>
    (b \<longrightarrow> (\<exists>s''. FinishDeployment s' (d_id d) e l tr now = Inr (DeployCancelled, s'') \<and>
       (\<forall>q \<in> set (sd_deployments s). d_id q \<noteq> d_id d \<longrightarrow> q \<in> set (sd_deployments s''))))"
proof (intro conjI impI)
  have key: "distinct (map d_id (sd_deployments s))" using assms(1) by (simp add: stacks_inv_def)
  have inj: "inj_on d_id (set (sd_deployments s))" using key by (simp add: distinct_map)
  have uniq: "q = d" if "q \<in> set (sd_deployments s)" "d_id q = d_id d" for q
    by (rule inj_onD[OF inj]) (use that assms(2) in auto)
  let ?p = "\<lambda>q. d_id q = d_id d \<and> d_status q = DeployRunning"
  have b: "b = (0 < count_where ?p (sd_deployments s))"
    and s': "s' = s\<lparr>sd_deployments := update_where ?p (\<lambda>q. q\<lparr>d_cancel_requested := True\<rparr>) (sd_deployments s)\<rparr>"
    using assms(3) by (auto simp: RequestCancel_def)
  show run: "b = (d_status d = DeployRunning)"
    unfolding b count_where_pos using uniq assms(2) by blast
  show "s' = s" if "\<not> b"
  proof -
    have "\<forall>q \<in> set (sd_deployments s). \<not> ?p q" using that unfolding b count_where_pos by blast
    then have "update_where ?p (\<lambda>q. q\<lparr>d_cancel_requested := True\<rparr>) (sd_deployments s) = sd_deployments s"
      unfolding update_where_def by (intro map_idI) auto
    then show ?thesis by (simp add: s')
  qed
  assume b
  have inv: "stacks_inv s'" unfolding s' by (rule stacks_inv_update[OF assms(1)]) auto
  let ?d = "d\<lparr>d_cancel_requested := True\<rparr>"
  have "?d \<in> set (sd_deployments s')"
    using assms(2) \<open>b\<close> unfolding run by (auto simp: s' in_update_where intro!: bexI[of _ d])
  from FinishDeployment_cases[OF inv this, of e l tr now]
  show "\<exists>s''. FinishDeployment s' (d_id d) e l tr now = Inr (DeployCancelled, s'') \<and>
      (\<forall>q \<in> set (sd_deployments s). d_id q \<noteq> d_id d \<longrightarrow> q \<in> set (sd_deployments s''))"
    by (auto simp: verdict_def Let_def upd_dep_def s' in_update_where intro!: bexI)
qed

lemma take_of_sorted:
  assumes "sorted_wrt R xs" "x \<in> set xs" "x \<notin> set (take n xs)" "y \<in> set (take n xs)"
  shows "R y x"
proof -
  have "x \<in> set (drop n xs)" using assms(2,3) by (metis Un_iff append_take_drop_id set_append)
  moreover have "sorted_wrt R (take n xs @ drop n xs)" using assms(1) by simp
  ultimately show ?thesis using assms(4) unfolding sorted_wrt_append by blast
qed

text \<open>The sweep deletes only what it may. It refuses a non-positive bound; otherwise it keeps every
  running deployment and every recent one, and whenever it deletes a deployment it keeps as many
  deployments of that stack as it was told to, none of them older than the deleted one.\<close>

lemma prune_keeps_newest:
  assumes "stacks_inv s"
  shows "PruneDeployments s keep age now = Inl ErrRefusePrune \<and> (keep \<le> 0 \<or> age \<le> 0) \<or>
    (\<exists>n s'. PruneDeployments s keep age now = Inr (n, s') \<and> 0 < keep \<and> 0 < age \<and>
       n + length (sd_deployments s') = length (sd_deployments s) \<and>
       set (sd_deployments s') \<subseteq> set (sd_deployments s) \<and>
       (\<forall>d \<in> set (sd_deployments s) - set (sd_deployments s').
          d_status d \<noteq> DeployRunning \<and> int (d_started_at d) + age < int now \<and>
          (\<exists>kept. distinct kept \<and> length kept = nat keep \<and> set kept \<subseteq> set (sd_deployments s') \<and>
             (\<forall>k \<in> set kept. d_stack_id k = d_stack_id d \<and> d_started_at d \<le> d_started_at k))))"
proof (cases "keep \<le> 0 \<or> age \<le> 0")
  case True
  then show ?thesis by (simp add: PruneDeployments_def)
next
  case False
  let ?gone = "prunable s keep (int now - age)"
  let ?s = "s\<lparr>sd_deployments := delete_where ?gone (sd_deployments s)\<rparr>"
  have pr: "PruneDeployments s keep age now = Inr (count_where ?gone (sd_deployments s), ?s)"
    using False by (simp add: PruneDeployments_def Let_def)
  have len: "count_where ?gone (sd_deployments s) + length (sd_deployments ?s) = length (sd_deployments s)"
    by (simp add: count_where_def delete_where_def sum_length_filter_compl)
  have kept: "\<exists>kept. distinct kept \<and> length kept = nat keep \<and> set kept \<subseteq> set (sd_deployments ?s) \<and>
      (\<forall>k \<in> set kept. d_stack_id k = d_stack_id d \<and> d_started_at d \<le> d_started_at k)"
    if d: "d \<in> set (sd_deployments s)" "?gone d" for d
  proof -
    let ?xs = "order_desc d_started_at (filter (\<lambda>q. d_stack_id q = d_stack_id d) (sd_deployments s))"
    let ?kept = "take (nat keep) ?xs"
    have "distinct (sd_deployments s)" using assms by (simp add: stacks_inv_def distinct_map)
    then have "distinct ?xs" using mset_order_desc[of d_started_at] by (metis distinct_filter mset_eq_imp_distinct_iff)
    moreover have notin: "d \<notin> set ?kept" using d(2) by (auto simp: prunable_def newest_of_stack_def)
    have dx: "d \<in> set ?xs" using d(1) by simp
    have "nat keep \<le> length ?xs"
    proof (rule ccontr)
      assume "\<not> nat keep \<le> length ?xs"
      then have "?kept = ?xs" by simp
      with notin dx show False by metis
    qed
    then have "length ?kept = nat keep" by simp
    moreover have "k \<in> set (sd_deployments ?s) \<and> d_stack_id k = d_stack_id d \<and> d_started_at d \<le> d_started_at k"
      if k: "k \<in> set ?kept" for k
    proof -
      have xs: "k \<in> set (sd_deployments s)" "d_stack_id k = d_stack_id d" using in_set_takeD[OF k] by simp_all
      have "d_id k \<in> set (newest_of_stack s (d_stack_id d) keep)"
        unfolding newest_of_stack_def set_map using k by (rule imageI)
      then have "\<not> ?gone k" by (simp add: prunable_def xs)
      with xs take_of_sorted[OF sorted_order_desc dx notin k] show ?thesis by simp
    qed
    ultimately show ?thesis by (intro exI[of _ ?kept] conjI distinct_take) blast+
  qed
  have gone: "d_status d \<noteq> DeployRunning \<and> int (d_started_at d) + age < int now \<and>
      (\<exists>kept. distinct kept \<and> length kept = nat keep \<and> set kept \<subseteq> set (sd_deployments ?s) \<and>
         (\<forall>k \<in> set kept. d_stack_id k = d_stack_id d \<and> d_started_at d \<le> d_started_at k))"
    if "d \<in> set (sd_deployments s) - set (sd_deployments ?s)" for d
  proof -
    from that have d: "d \<in> set (sd_deployments s)" "?gone d" by simp_all
    then have "d_status d \<noteq> DeployRunning" "int (d_started_at d) + age < int now"
      by (simp_all add: prunable_def)
    with kept[OF d] show ?thesis by blast
  qed
  show ?thesis
    by (rule disjI2, rule exI[of _ "count_where ?gone (sd_deployments s)"], rule exI[of _ ?s])
       (use pr len False gone in \<open>intro conjI ballI; (assumption | simp)\<close>)
qed

text \<open>Nobody is shown what runs where they hold nothing. Without a fleet-wide grant the list of
  stacks and the feed of deployments contain only stacks on the given hosts, and deployments of
  stacks on those hosts, and the feed carries neither log nor compose file.\<close>

lemma lists_stay_on_visible_hosts:
  "list_all (\<lambda>(q, st). q \<in> set (sd_stacks s) \<and> st_env_id q \<in> set envs) (ListStacks s False envs) \<and>
   list_all (\<lambda>d. d_log d = [] \<and> d_compose_yaml d = [] \<and>
       (\<exists>q \<in> set (sd_stacks s). st_id q = d_stack_id d \<and> st_env_id q \<in> set envs))
     (RecentDeployments s False envs f)"
proof
  show "list_all (\<lambda>(q, st). q \<in> set (sd_stacks s) \<and> st_env_id q \<in> set envs) (ListStacks s False envs)"
    by (auto simp: ListStacks_def list_all_iff scanStack_def envIn_def)
  have m: "recent_match False envs f d q \<Longrightarrow> st_id q = d_stack_id d \<and> st_env_id q \<in> set envs" for d q
    by (simp add: recent_match_def)
  show "list_all (\<lambda>d. d_log d = [] \<and> d_compose_yaml d = [] \<and>
       (\<exists>q \<in> set (sd_stacks s). st_id q = d_stack_id d \<and> st_env_id q \<in> set envs))
     (RecentDeployments s False envs f)"
    unfolding RecentDeployments_def list_all_iff Let_def
    by (auto dest!: in_set_takeD m split: if_split_asm)
qed

text \<open>Variables and secrets of a stack are replaced as a whole. After a successful write, reading
  gives exactly the written set in the order of the keys; other stacks keep theirs; a repeated key
  is refused.\<close>

lemma stack_env_roundtrip:
  assumes "has_stack s sid"
  shows "(if distinct (map se_key vars)
     then (\<exists>s'. SetStackEnv s sid vars = Inr s' \<and>
            mset (StackEnv s' sid) = mset (map (\<lambda>v. v\<lparr>se_stack_id := sid\<rparr>) vars) \<and>
            sorted (map se_key (StackEnv s' sid)) \<and>
            (\<forall>q. q = sid \<or> StackEnv s' q = StackEnv s q))
     else SetStackEnv s sid vars = Inl StackConstraint) \<and>
   (if distinct (map ss_name secs)
     then (\<exists>s'. SetStackSecrets s sid secs = Inr s' \<and>
            mset (StackSecrets s' sid) = mset (map (\<lambda>v. v\<lparr>ss_stack_id := sid\<rparr>) secs) \<and>
            (\<forall>q. q = sid \<or> StackSecrets s' q = StackSecrets s q))
     else SetStackSecrets s sid secs = Inl StackConstraint)"
  using assms
  by (simp add: SetStackEnv_def StackEnv_def SetStackSecrets_def StackSecrets_def filter_replace_rows del: filter_append mset_filter)

section \<open>A stack being deployed\<close>

definition blog :: stack where
  "blog = \<lparr>st_id = ''s1'', st_env_id = ''h1'', st_node_id = [], st_name = ''blog'', st_engine = ''compose'',
    st_group_name = [], st_source_kind = ''inline'', st_git_url = [], st_git_ref = [], st_git_path = [],
    st_git_credential_id = [], st_inline_yaml = ''services:'', st_deployed_hash = [], st_deployed_commit = [],
    st_deployed_at = None, st_auto_deploy = False, st_webhook_id = [], st_watch_paths = [],
    st_created_at = 1, st_created_by = ''root''\<rparr>"

definition blog_up :: deployment where
  "blog_up = \<lparr>d_id = [], d_stack_id = ''s1'', d_action = ''up'', d_status = DeployRunning, d_engine = ''compose'',
    d_trigger_kind = ''manual'', d_started_by = ''root'', d_runner_ctr_id = [], d_exit_code = None, d_log = [],
    d_log_truncated = False, d_cancel_requested = False, d_bundle_hash = [], d_commit_sha = [],
    d_commit_subject = [], d_compose_yaml = [], d_rollback_of = [], d_started_at = 0, d_ended_at = None\<rparr>"

definition blog_db :: sdb where
  "blog_db = \<lparr>sd_registries = [], sd_stacks = [blog], sd_stack_envs = [], sd_stack_secrets = [],
    sd_deployments = [blog_up\<lparr>d_id := ''d1'', d_status := DeployOK, d_started_at := 5\<rparr>,
      blog_up\<lparr>d_id := ''d2'', d_status := DeployFailed, d_started_at := 7\<rparr>],
    sd_environments = [''h1''], sd_git_credentials = [], sd_webhooks = []\<rparr>"

lemma blog_db_inv: "stacks_inv blog_db"
  by (simp add: stacks_inv_def blog_db_def blog_up_def blog_def has_stack_def claim_count_def count_where_def running_on_def)

definition blog_claimed :: sdb where
  "blog_claimed = blog_db\<lparr>sd_deployments := sd_deployments blog_db @ [claim_row blog_up ''d3'' 9]\<rparr>"

lemma blog_claim: "ClaimDeployment blog_db blog_up ''d3'' 9 = Inr blog_claimed"
  by code_simp

lemma blog_claimed_inv: "stacks_inv blog_claimed"
  using claim_insert_inv[OF blog_db_inv] blog_claim by (auto simp: ClaimDeployment_def split: if_split_asm)

theorem one_running_deployment_witness:
  "claim_count (foldl stack_step blog_db [OpInsert blog_up ''d3'' 9, OpInsert blog_up ''d4'' 9]) ''s1'' \<le> 1"
  using one_running_deployment[OF blog_db_inv] by blast

end
