(* ===== verification/Hooks.thy ===== *)
theory Hooks
  imports Prelude
begin

text \<open>
  Deploy hooks, \<^verbatim>\<open>internal/stacks/hooks.go\<close>: reading the \<^verbatim>\<open>x-daffa\<close> block, the validation of a hook
  plan, the surgery that splits the compose file into the file the engine gets and the file the
  hooks run from, and the resources a swarm needs beforehand.

  The compose loader and the YAML reader and writer are third-party packages: \<open>PlanHooks\<close> takes
  them as arguments, and works on the project and the node tree they deliver. Of a scalar node the
  tree keeps the text, not the tag, of a mapping the pairs of its content. A Go map is an
  association list; where the code ranges over a map, the model goes in list order, so the order
  in which several errors of one file are found is the model's choice.
\<close>

section \<open>Values and trees the parsers deliver\<close>

datatype anyval = VStr string | VBool bool | VInt int | VList "anyval list" | VMap "(string \<times> anyval) list" | VOther

datatype ynode = YScalar string | YMap "(ynode \<times> ynode) list" | YSeq "ynode list" | YAlias string

fun yvalue :: "ynode \<Rightarrow> string" where
  "yvalue (YScalar v) = v"
| "yvalue (YAlias v) = v"
| "yvalue _ = []"

record service =
  sv_networks :: "string list"
  sv_volumes :: "(string \<times> string) list"
  sv_configs :: nat
  sv_secrets :: nat
  sv_depends_on :: "string list"

record ip_pool =
  ip_subnet :: string
  ip_gateway :: string
  ip_range :: string

record net_config =
  nc_external :: bool
  nc_name :: string
  nc_driver :: string
  nc_attachable :: bool
  nc_internal :: bool
  nc_driver_opts :: "(string \<times> string) list"
  nc_labels :: "(string \<times> string) list"
  nc_ipam_driver :: string
  nc_ipam_config :: "ip_pool option list"

record vol_config =
  vc_external :: bool
  vc_name :: string
  vc_driver :: string
  vc_driver_opts :: "(string \<times> string) list"
  vc_labels :: "(string \<times> string) list"

record project =
  pr_name :: string
  pr_services :: "(string \<times> service) list"
  pr_networks :: "(string \<times> net_config) list"
  pr_volumes :: "(string \<times> vol_config) list"
  pr_extensions :: "(string \<times> anyval) list"

section \<open>Hooks and plans\<close>

record hook =
  hk_service :: string
  hk_priority :: int
  hk_on_failure :: string

definition Blocking :: "hook \<Rightarrow> bool" where
  "Blocking h \<longleftrightarrow> hk_on_failure h \<noteq> ''continue''"

record hooks =
  PreDeploy :: "hook list"
  PostDeploy :: "hook list"
  RollbackOnFailure :: bool
  Timeout :: int

record hook_network =
  hn_name :: string
  hn_driver :: string
  hn_attachable :: bool
  hn_internal :: bool
  hn_options :: "(string \<times> string) list"
  hn_labels :: "(string \<times> string) list"
  hn_ipam_driver :: string
  hn_subnets :: "ip_pool list"

record hook_volume =
  hv_name :: string
  hv_driver :: string
  hv_options :: "(string \<times> string) list"
  hv_labels :: "(string \<times> string) list"

record hook_provision =
  hp_networks :: "hook_network list"
  hp_volumes :: "hook_volume list"

record hook_plan =
  plan_Hooks :: "hooks option"
  DeployYAML :: string
  HooksYAML :: string
  plan_Provision :: "hook_provision option"

datatype hook_error =
    ErrNotMapping | ErrUnknownKey string | ErrHooksNotMapping | ErrListExpected string
  | ErrEmptyService string | ErrServiceName string | ErrPriorityInt string | ErrOnFailure string
  | ErrUnknownHookKey string string | ErrNeedsService string | ErrRollbackNotBool | ErrTimeoutNotString
  | ErrBadDuration string | ErrUnknownHooksKey string | ErrNothingCanFail
  | ErrNoSuchService string | ErrAllHooks | ErrHookMounts string | ErrDependsOnHook string string
  | ErrNotAttachable string | ErrReread | ErrNoServicesMapping | ErrLoad string

section \<open>Durations\<close>

text \<open>\<^verbatim>\<open>time.ParseDuration\<close>, in nanoseconds: an optional sign, then \<^verbatim>\<open>0\<close> or one or more of a decimal
  number with an optional fraction and a unit. \<^verbatim>\<open>d\<close> must fit 63 bits. The fraction is exact here,
  cut to whole nanoseconds.\<close>

definition is_digit :: "char \<Rightarrow> bool" where
  "is_digit c \<longleftrightarrow> 48 \<le> (of_char c :: nat) \<and> (of_char c :: nat) \<le> 57"

definition digits_value :: "string \<Rightarrow> int" where
  "digits_value ds = foldl (\<lambda>n c. n * 10 + (of_char c - 48)) 0 ds"

definition micro :: string where
  "micro = [CHR 0xC2, CHR 0xB5, CHR ''s'']"

definition micro_greek :: string where
  "micro_greek = [CHR 0xCE, CHR 0xBC, CHR ''s'']"

definition unit_ns :: "string \<Rightarrow> int option" where
  "unit_ns u = map_of [(''ns'', 1), (''us'', 1000), (micro, 1000), (micro_greek, 1000), (''ms'', 1000000),
     (''s'', 1000000000), (''m'', 60000000000), (''h'', 3600000000000)] u"

definition duration_term :: "string \<Rightarrow> (int \<times> string) option" where
  "duration_term s =
     (let whole = takeWhile is_digit s; r1 = dropWhile is_digit s;
          has_dot = (r1 \<noteq> [] \<and> hd r1 = CHR ''.''); r2 = (if has_dot then tl r1 else r1);
          frac = (if has_dot then takeWhile is_digit r2 else []);
          r3 = (if has_dot then dropWhile is_digit r2 else r2);
          u = takeWhile (\<lambda>c. c \<noteq> CHR ''.'' \<and> \<not> is_digit c) r3;
          r4 = dropWhile (\<lambda>c. c \<noteq> CHR ''.'' \<and> \<not> is_digit c) r3
      in if whole = [] \<and> frac = [] \<or> u = [] then None
         else (case unit_ns u of
                 None \<Rightarrow> None
               | Some ns \<Rightarrow> Some (digits_value whole * ns + digits_value frac * ns div 10 ^ length frac, r4)))"

lemma duration_term_shorter: "duration_term s = Some (d, r) \<Longrightarrow> length r < length s"
proof -
  assume a: "duration_term s = Some (d, r)"
  define r1 where "r1 = dropWhile is_digit s"
  define r2 where "r2 = (if r1 \<noteq> [] \<and> hd r1 = CHR ''.'' then tl r1 else r1)"
  define r3 where "r3 = (if r1 \<noteq> [] \<and> hd r1 = CHR ''.'' then dropWhile is_digit r2 else r2)"
  define p where "p = (\<lambda>c. c \<noteq> CHR ''.'' \<and> \<not> is_digit c)"
  have u: "takeWhile p r3 \<noteq> []" and r: "r = dropWhile p r3"
    using a by (auto simp: duration_term_def Let_def r1_def r2_def r3_def p_def split: if_splits option.splits)
  have "length r < length r3"
    using u unfolding r by (metis add_less_cancel_right add_0 length_append length_greater_0_conv takeWhile_dropWhile_id)
  also have "length r3 \<le> length r2" by (simp add: r3_def length_dropWhile_le)
  also have "length r2 \<le> length r1" by (simp add: r2_def)
  also have "length r1 \<le> length s" by (simp add: r1_def length_dropWhile_le)
  finally show ?thesis .
qed

function duration_terms :: "int \<Rightarrow> string \<Rightarrow> int option" where
  "duration_terms acc s =
     (if s = [] then Some acc
      else (case duration_term s of
              None \<Rightarrow> None
            | Some (d, r) \<Rightarrow> if 2 ^ 63 < acc + d then None else duration_terms (acc + d) r))"
  by pat_completeness auto

termination
  by (relation "measure (\<lambda>(acc, s). length s)") (auto dest: duration_term_shorter)

definition ParseDuration :: "string \<Rightarrow> int option" where
  "ParseDuration s =
     (let neg = (s \<noteq> [] \<and> hd s = CHR ''-'');
          body = (if s \<noteq> [] \<and> (hd s = CHR ''-'' \<or> hd s = CHR ''+'') then tl s else s)
      in if body = ''0'' then Some 0
         else if body = [] then None
         else (case duration_terms 0 body of
                 None \<Rightarrow> None
               | Some d \<Rightarrow> if neg then Some (- d) else if d \<le> 2 ^ 63 - 1 then Some d else None))"

section \<open>Reading the x-daffa block\<close>

definition DefaultHookTimeout :: int where
  "DefaultHookTimeout = 10 * 60000000000"

fun hook_options :: "string \<Rightarrow> hook \<Rightarrow> (string \<times> anyval) list \<Rightarrow> hook_error + hook" where
  "hook_options wh hk [] = Inr hk"
| "hook_options wh hk ((k, v) # rest) =
     (if k = ''service'' then
        (case v of
           VStr s \<Rightarrow> if trim_space s = [] then Inl (ErrServiceName wh) else hook_options wh (hk\<lparr>hk_service := s\<rparr>) rest
         | _ \<Rightarrow> Inl (ErrServiceName wh))
      else if k = ''priority'' then
        (case v of VInt n \<Rightarrow> hook_options wh (hk\<lparr>hk_priority := n\<rparr>) rest | _ \<Rightarrow> Inl (ErrPriorityInt wh))
      else if k = ''on_failure'' then
        (case v of
           VStr s \<Rightarrow> if s \<noteq> ''fail'' \<and> s \<noteq> ''continue'' then Inl (ErrOnFailure wh)
                     else hook_options wh (hk\<lparr>hk_on_failure := s\<rparr>) rest
         | _ \<Rightarrow> Inl (ErrOnFailure wh))
      else Inl (ErrUnknownHookKey wh k))"

definition hook_item :: "string \<Rightarrow> anyval \<Rightarrow> hook_error + hook" where
  "hook_item wh v =
     (case v of
        VStr e \<Rightarrow> if trim_space e = [] then Inl (ErrEmptyService wh)
                  else Inr \<lparr>hk_service = e, hk_priority = 0, hk_on_failure = ''fail''\<rparr>
      | VMap m \<Rightarrow>
          (case hook_options wh \<lparr>hk_service = [], hk_priority = 0, hk_on_failure = ''fail''\<rparr> m of
             Inl e \<Rightarrow> Inl e
           | Inr hk \<Rightarrow> if hk_service hk = [] then Inl (ErrNeedsService wh) else Inr hk)
      | _ \<Rightarrow> Inl (ErrListExpected wh))"

fun hook_items :: "string \<Rightarrow> anyval list \<Rightarrow> hook_error + hook list" where
  "hook_items wh [] = Inr []"
| "hook_items wh (v # vs) =
     (case hook_item wh v of
        Inl e \<Rightarrow> Inl e
      | Inr hk \<Rightarrow> (case hook_items wh vs of Inl e \<Rightarrow> Inl e | Inr hks \<Rightarrow> Inr (hk # hks)))"

definition hookList :: "anyval \<Rightarrow> string \<Rightarrow> hook_error + hook list" where
  "hookList v wh =
     (case v of
        VList items \<Rightarrow> (case hook_items wh items of Inl e \<Rightarrow> Inl e | Inr hks \<Rightarrow> Inr (sort_key hk_priority hks))
      | _ \<Rightarrow> Inl (ErrListExpected wh))"

definition anyBlocking :: "hook list \<Rightarrow> bool" where
  "anyBlocking hs = list_ex Blocking hs"

fun hooks_keys :: "hooks \<Rightarrow> (string \<times> anyval) list \<Rightarrow> hook_error + hooks" where
  "hooks_keys h [] = Inr h"
| "hooks_keys h ((k, v) # rest) =
     (if k = ''pre_deploy'' then
        (case hookList v ''x-daffa.hooks.pre_deploy'' of
           Inl e \<Rightarrow> Inl e | Inr l \<Rightarrow> hooks_keys (h\<lparr>PreDeploy := l\<rparr>) rest)
      else if k = ''post_deploy'' then
        (case hookList v ''x-daffa.hooks.post_deploy'' of
           Inl e \<Rightarrow> Inl e | Inr l \<Rightarrow> hooks_keys (h\<lparr>PostDeploy := l\<rparr>) rest)
      else if k = ''rollback_on_failure'' then
        (case v of VBool b \<Rightarrow> hooks_keys (h\<lparr>RollbackOnFailure := b\<rparr>) rest | _ \<Rightarrow> Inl ErrRollbackNotBool)
      else if k = ''timeout'' then
        (case v of
           VStr s \<Rightarrow>
             (case ParseDuration s of
                None \<Rightarrow> Inl (ErrBadDuration s)
              | Some d \<Rightarrow> if d \<le> 0 then Inl (ErrBadDuration s) else hooks_keys (h\<lparr>Timeout := d\<rparr>) rest)
         | _ \<Rightarrow> Inl ErrTimeoutNotString)
      else Inl (ErrUnknownHooksKey k))"

definition parseHooksExt :: "anyval \<Rightarrow> hook_error + hooks option" where
  "parseHooksExt ext =
     (case ext of
        VMap root \<Rightarrow>
          (case filter (\<lambda>k. k \<noteq> ''hooks'') (map fst root) of
             k # _ \<Rightarrow> Inl (ErrUnknownKey k)
           | [] \<Rightarrow>
               (case map_of root ''hooks'' of
                  None \<Rightarrow> Inr None
                | Some (VMap m) \<Rightarrow>
                    (case hooks_keys \<lparr>PreDeploy = [], PostDeploy = [], RollbackOnFailure = False,
                        Timeout = DefaultHookTimeout\<rparr> m of
                       Inl e \<Rightarrow> Inl e
                     | Inr h \<Rightarrow> if RollbackOnFailure h \<and> \<not> anyBlocking (PostDeploy h) then Inl ErrNothingCanFail
                                else Inr (Some h))
                | Some _ \<Rightarrow> Inl ErrHooksNotMapping))
      | _ \<Rightarrow> Inl ErrNotMapping)"

section \<open>Validation\<close>

definition serviceSet :: "hooks \<Rightarrow> string list" where
  "serviceSet h = remdups (map hk_service (PreDeploy h @ PostDeploy h))"

definition hookNetworkKeys :: "project \<Rightarrow> string list \<Rightarrow> string list" where
  "hookNetworkKeys p hs =
     sort (remdups (concat (map (\<lambda>(n, svc). if n \<in> set hs then (if sv_networks svc = [] then [''default''] else sv_networks svc) else [])
       (pr_services p))))"

definition hookVolumeKeys :: "project \<Rightarrow> string list \<Rightarrow> string list" where
  "hookVolumeKeys p hs =
     sort (remdups (concat (map (\<lambda>(n, svc). if n \<in> set hs
       then map snd (filter (\<lambda>(t, src). t = ''volume'' \<and> src \<noteq> []) (sv_volumes svc)) else []) (pr_services p))))"

text \<open>The zero network and volume a missing key of a Go map reads as.\<close>

definition zero_net :: net_config where
  "zero_net = \<lparr>nc_external = False, nc_name = [], nc_driver = [], nc_attachable = False, nc_internal = False,
     nc_driver_opts = [], nc_labels = [], nc_ipam_driver = [], nc_ipam_config = []\<rparr>"

definition zero_vol :: vol_config where
  "zero_vol = \<lparr>vc_external = False, vc_name = [], vc_driver = [], vc_driver_opts = [], vc_labels = []\<rparr>"

definition check_service :: "string list \<Rightarrow> string \<times> service \<Rightarrow> hook_error option" where
  "check_service hs ns =
     (case ns of (n, svc) \<Rightarrow>
        if n \<in> set hs then (if 0 < sv_configs svc \<or> 0 < sv_secrets svc then Some (ErrHookMounts n) else None)
        else (case filter (\<lambda>d. d \<in> set hs) (sv_depends_on svc) of
                [] \<Rightarrow> None | d # _ \<Rightarrow> Some (ErrDependsOnHook n d)))"

definition check_network :: "project \<Rightarrow> string \<Rightarrow> hook_error option" where
  "check_network p key =
     (case map_of (pr_networks p) key of
        None \<Rightarrow> None
      | Some net \<Rightarrow> if nc_external net then None else if nc_attachable net then None else Some (ErrNotAttachable key))"

fun first_error :: "hook_error option list \<Rightarrow> hook_error option" where
  "first_error [] = None"
| "first_error (None # es) = first_error es"
| "first_error (Some e # es) = Some e"

definition validateHooks :: "project \<Rightarrow> hooks \<Rightarrow> bool \<Rightarrow> hook_error option" where
  "validateHooks p h swarm =
     (let hs = serviceSet h in
      case filter (\<lambda>n. map_of (pr_services p) n = None) hs of
        n # _ \<Rightarrow> Some (ErrNoSuchService n)
      | [] \<Rightarrow>
          if length hs = length (pr_services p) then Some ErrAllHooks
          else (case first_error (map (check_service hs) (pr_services p)) of
                  Some e \<Rightarrow> Some e
                | None \<Rightarrow> if \<not> swarm then None
                          else first_error (map (check_network p) (hookNetworkKeys p hs))))"

section \<open>What a swarm needs beforehand\<close>

definition deployedName :: "string \<Rightarrow> string \<Rightarrow> string \<Rightarrow> string" where
  "deployedName pname key explicit = (if explicit \<noteq> [] then explicit else pname @ ''_'' @ key)"

definition mergeLabels :: "(string \<times> string) list \<Rightarrow> (string \<times> string) list \<Rightarrow> (string \<times> string) list" where
  "mergeLabels from add = fold (\<lambda>(k, v) out. gput out k v) add (fold (\<lambda>(k, v) out. gput out k v) from [])"

definition provisionList :: "project \<Rightarrow> hooks \<Rightarrow> hook_provision" where
  "provisionList p h =
     (let hs = serviceSet h; ns = [(''com.docker.stack.namespace'', pr_name p)] in
      \<lparr>hp_networks =
         [\<lparr>hn_name = deployedName (pr_name p) key (nc_name net), hn_driver = nc_driver net,
            hn_attachable = nc_attachable net, hn_internal = nc_internal net, hn_options = nc_driver_opts net,
            hn_labels = mergeLabels (nc_labels net) ns, hn_ipam_driver = nc_ipam_driver net,
            hn_subnets = List.map_filter (\<lambda>x. x) (nc_ipam_config net)\<rparr>.
            key \<leftarrow> hookNetworkKeys p hs, net \<leftarrow> [gget zero_net (pr_networks p) key], \<not> nc_external net],
       hp_volumes =
         [\<lparr>hv_name = deployedName (pr_name p) key (vc_name vol), hv_driver = vc_driver vol,
            hv_options = vc_driver_opts vol, hv_labels = mergeLabels (vc_labels vol) ns\<rparr>.
            key \<leftarrow> hookVolumeKeys p hs, vol \<leftarrow> [gget zero_vol (pr_volumes p) key], \<not> vc_external vol]\<rparr>)"

section \<open>Splitting the compose file\<close>

fun find_key :: "(ynode \<times> ynode) list \<Rightarrow> string \<Rightarrow> ynode option" where
  "find_key [] key = None"
| "find_key ((k, v) # rest) key = (if yvalue k = key then Some v else find_key rest key)"

fun mapValue :: "ynode \<Rightarrow> string \<Rightarrow> ynode option" where
  "mapValue (YMap kvs) key = find_key kvs key"
| "mapValue _ key = None"

fun drop_key :: "(ynode \<times> ynode) list \<Rightarrow> string \<Rightarrow> (ynode \<times> ynode) list" where
  "drop_key [] key = []"
| "drop_key ((k, v) # rest) key = (if yvalue k = key then rest else (k, v) # drop_key rest key)"

fun dropMapKey :: "ynode \<Rightarrow> string \<Rightarrow> ynode" where
  "dropMapKey (YMap kvs) key = YMap (drop_key kvs key)"
| "dropMapKey n key = n"

text \<open>\<^verbatim>\<open>servicesNode.Content = keep\<close>: the node the key first maps to is overwritten in the tree.\<close>

fun set_key :: "(ynode \<times> ynode) list \<Rightarrow> string \<Rightarrow> ynode \<Rightarrow> (ynode \<times> ynode) list" where
  "set_key [] key w = []"
| "set_key ((k, v) # rest) key w = (if yvalue k = key then (k, w) # rest else (k, v) # set_key rest key w)"

fun setMapValue :: "ynode \<Rightarrow> string \<Rightarrow> ynode \<Rightarrow> ynode" where
  "setMapValue (YMap kvs) key w = YMap (set_key kvs key w)"
| "setMapValue n key w = n"

definition pruned_keys :: "string list" where
  "pruned_keys = [''depends_on'', ''profiles'', ''deploy'', ''restart'']"

fun pruneHookService :: "ynode \<Rightarrow> ynode" where
  "pruneHookService (YMap kvs) = YMap (filter (\<lambda>(k, v). yvalue k \<notin> set pruned_keys) kvs)"
| "pruneHookService n = n"

definition externalRef :: "string \<Rightarrow> ynode" where
  "externalRef n = YMap [(YScalar ''external'', YScalar ''true''), (YScalar ''name'', YScalar n)]"

definition declare_resource :: "string \<Rightarrow> bool \<Rightarrow> ynode option \<Rightarrow> string \<Rightarrow> ynode" where
  "declare_resource key external orig deployed =
     (case orig of
        None \<Rightarrow> externalRef deployed
      | Some o' \<Rightarrow>
          if external then externalRef deployed
          else (case mapValue o' key of Some (YMap kvs) \<Rightarrow> YMap kvs | _ \<Rightarrow> YMap []))"

text \<open>A hook service with no networks is told to join \<^verbatim>\<open>default\<close>.\<close>

fun join_default :: "project \<Rightarrow> ynode \<times> ynode \<Rightarrow> ynode \<times> ynode" where
  "join_default p (k, YMap kvs) =
     (case map_of (pr_services p) (yvalue k) of
        Some svc \<Rightarrow> if sv_networks svc = []
                    then (k, YMap (kvs @ [(YScalar ''networks'', YSeq [YScalar ''default''])]))
                    else (k, YMap kvs)
      | None \<Rightarrow> (k, YMap kvs))"
| "join_default p (k, v) = (k, v)"

definition buildHooksDoc ::
  "project \<Rightarrow> string list \<Rightarrow> (ynode \<times> ynode) list \<Rightarrow> ynode option \<Rightarrow> ynode option \<Rightarrow> ynode" where
  "buildHooksDoc p hs hooked origNets origVols =
     (let nets = map (\<lambda>key. let net = gget zero_net (pr_networks p) key in
                   (YScalar key, declare_resource key (nc_external net) origNets (deployedName (pr_name p) key (nc_name net))))
                 (hookNetworkKeys p hs);
          vols = map (\<lambda>key. let vol = gget zero_vol (pr_volumes p) key in
                   (YScalar key, declare_resource key (vc_external vol) origVols (deployedName (pr_name p) key (vc_name vol))))
                 (hookVolumeKeys p hs)
      in YMap ([(YScalar ''services'', YMap (map (join_default p) hooked))] @
               (if nets = [] then [] else [(YScalar ''networks'', YMap nets)]) @
               (if vols = [] then [] else [(YScalar ''volumes'', YMap vols)])))"

definition split_tree :: "ynode \<Rightarrow> project \<Rightarrow> hooks \<Rightarrow> bool \<Rightarrow> hook_error + (ynode \<times> ynode)" where
  "split_tree root p h inlineDefs =
     (let hs = serviceSet h in
      case mapValue root ''services'' of
        Some (YMap svcs) \<Rightarrow>
          (let hooked = map (\<lambda>(k, v). (k, pruneHookService v)) (filter (\<lambda>(k, v). yvalue k \<in> set hs) svcs);
               keep = filter (\<lambda>(k, v). yvalue k \<notin> set hs) svcs;
               origNets = (if inlineDefs then mapValue root ''networks'' else None);
               origVols = (if inlineDefs then mapValue root ''volumes'' else None)
           in Inr (dropMapKey (setMapValue root ''services'' (YMap keep)) ''x-daffa'',
                   buildHooksDoc p hs hooked origNets origVols))
      | _ \<Rightarrow> Inl ErrNoServicesMapping)"

definition splitHooks ::
  "(string \<Rightarrow> ynode option) \<Rightarrow> (ynode \<Rightarrow> string) \<Rightarrow> string \<Rightarrow> project \<Rightarrow> hooks \<Rightarrow> bool \<Rightarrow> hook_error + (string \<times> string)"
where
  "splitHooks unmarshal marshal text p h inlineDefs =
     (case unmarshal text of
        None \<Rightarrow> Inl ErrReread
      | Some root \<Rightarrow>
          (case split_tree root p h inlineDefs of
             Inl e \<Rightarrow> Inl e
           | Inr (d, hk) \<Rightarrow> Inr (marshal d, marshal hk)))"

section \<open>The plan\<close>

definition no_hooks_plan :: "string \<Rightarrow> hook_plan" where
  "no_hooks_plan text = \<lparr>plan_Hooks = None, DeployYAML = text, HooksYAML = [], plan_Provision = None\<rparr>"

definition plan_with ::
  "(string \<Rightarrow> ynode option) \<Rightarrow> (ynode \<Rightarrow> string) \<Rightarrow> string \<Rightarrow> project \<Rightarrow> hooks \<Rightarrow> bool \<Rightarrow> bool \<Rightarrow> hook_error + hook_plan" where
  "plan_with unmarshal marshal text p h swarm firstDeploy =
     (case validateHooks p h swarm of
        Some e \<Rightarrow> Inl e
      | None \<Rightarrow>
          (case splitHooks unmarshal marshal text p h (firstDeploy \<and> \<not> swarm) of
             Inl e \<Rightarrow> Inl e
           | Inr (d, hy) \<Rightarrow>
               Inr \<lparr>plan_Hooks = Some h, DeployYAML = d, HooksYAML = hy,
                    plan_Provision = (if swarm then Some (provisionList p h) else None)\<rparr>))"

definition PlanHooks ::
  "(string \<Rightarrow> string \<Rightarrow> (string \<times> string) list \<Rightarrow> string + project) \<Rightarrow> (string \<Rightarrow> ynode option) \<Rightarrow> (ynode \<Rightarrow> string) \<Rightarrow>
   string \<Rightarrow> string \<Rightarrow> (string \<times> string) list \<Rightarrow> bool \<Rightarrow> bool \<Rightarrow> hook_error + hook_plan" where
  "PlanHooks load unmarshal marshal text pname env swarm firstDeploy =
     (case load text pname (fold (\<lambda>(k, v) m. gput m k v) env []) of
        Inl e \<Rightarrow> Inl (ErrLoad e)
      | Inr p \<Rightarrow>
          (case map_of (pr_extensions p) ''x-daffa'' of
             None \<Rightarrow> Inr (no_hooks_plan text)
           | Some ext \<Rightarrow>
               (case parseHooksExt ext of
                  Inl e \<Rightarrow> Inl e
                | Inr None \<Rightarrow> Inr (no_hooks_plan text)
                | Inr (Some h) \<Rightarrow>
                    if PreDeploy h = [] \<and> PostDeploy h = [] then Inr (no_hooks_plan text)
                    else plan_with unmarshal marshal text p h swarm firstDeploy)))"

definition HookCommand :: "string \<Rightarrow> string \<Rightarrow> string list" where
  "HookCommand pname service =
     [''docker'', ''compose'', ''-p'', pname, ''-f'', ''/stack/hooks.yml'', ''--env-file'', ''/stack/.env'',
      ''run'', ''--rm'', ''--no-deps'', ''--quiet-pull'', service]"

section \<open>Lemmas\<close>

lemma hook_options_keep:
  "hook_options wh hk m = Inr hk' \<Longrightarrow> hk_on_failure hk \<in> {''fail'', ''continue''} \<Longrightarrow>
   hk_on_failure hk' \<in> {''fail'', ''continue''}"
  by (induction wh hk m rule: hook_options.induct) (auto split: if_splits anyval.splits)

lemma hook_item_ok:
  "hook_item wh v = Inr hk \<Longrightarrow> hk_service hk \<noteq> [] \<and> hk_on_failure hk \<in> {''fail'', ''continue''}"
  by (cases v) (auto simp: hook_item_def trim_space_def split: if_splits sum.splits dest!: hook_options_keep)

lemma hook_items_ok:
  "hook_items wh vs = Inr hks \<Longrightarrow>
   length hks = length vs \<and> list_all2 (\<lambda>v hk. hook_item wh v = Inr hk) vs hks"
  by (induction vs arbitrary: hks) (auto split: sum.splits)

lemma list_all2_ball_right: "list_all2 P xs ys \<Longrightarrow> (\<And>x y. P x y \<Longrightarrow> Q y) \<Longrightarrow> y \<in> set ys \<Longrightarrow> Q y"
  by (induction rule: list_all2_induct) auto

definition hook_ok :: "hook \<Rightarrow> bool" where
  "hook_ok hk \<longleftrightarrow> hk_service hk \<noteq> [] \<and> (hk_on_failure hk = ''fail'' \<or> hk_on_failure hk = ''continue'')"

definition hooks_ok :: "hooks \<Rightarrow> bool" where
  "hooks_ok h \<longleftrightarrow> 0 < Timeout h \<and> list_all hook_ok (PreDeploy h) \<and> list_all hook_ok (PostDeploy h)"

lemma hookList_ok: "hookList v wh = Inr hs \<Longrightarrow> list_all hook_ok hs"
  by (auto simp: hookList_def list_all_iff hook_ok_def split: anyval.splits sum.splits
    dest!: hook_items_ok[THEN conjunct2] list_all2_ball_right[where Q = "\<lambda>hk. hk_service hk \<noteq> [] \<and> hk_on_failure hk \<in> {''fail'', ''continue''}", OF _ hook_item_ok])

lemma hooks_keys_ok: "hooks_keys h m = Inr h' \<Longrightarrow> hooks_ok h \<Longrightarrow> hooks_ok h'"
  by (induction h m rule: hooks_keys.induct)
     (auto simp: hooks_ok_def hookList_ok split: if_splits sum.splits anyval.splits option.splits)

lemma find_key_drop: "key \<noteq> x \<Longrightarrow> find_key (drop_key kvs x) key = find_key kvs key"
  by (induction kvs x rule: drop_key.induct) auto

lemma find_key_drop_same:
  "distinct (map (yvalue \<circ> fst) kvs) \<Longrightarrow> find_key (drop_key kvs x) x = None"
proof (induction kvs x rule: drop_key.induct)
  case (2 k v rest key)
  have "find_key kvs key = None" if "key \<notin> yvalue ` fst ` set kvs" for kvs
    using that by (induction kvs key rule: find_key.induct) auto
  with 2 show ?case by (auto simp: image_comp)
qed simp

lemma find_key_set: "find_key (set_key kvs x w) key = (if key = x \<and> find_key kvs x \<noteq> None then Some w else find_key kvs key)"
  by (induction kvs x w rule: set_key.induct) auto

lemma set_key_keys: "map (yvalue \<circ> fst) (set_key kvs x w) = map (yvalue \<circ> fst) kvs"
  by (induction kvs x w rule: set_key.induct) auto

lemma join_default_key: "fst (join_default p kv) = fst kv"
  by (induction p kv rule: join_default.induct) (auto split: option.splits)

lemma find_key_map: "find_key (map (\<lambda>key. (YScalar key, g key)) ks) key = (if key \<in> set ks then Some (g key) else None)"
  by (induction ks) auto

lemma first_error_None: "first_error es = None \<longleftrightarrow> set es \<subseteq> {None}"
  by (induction es rule: first_error.induct) auto

section \<open>Properties\<close>

text \<open>A hook list runs in the order the file asks for: it is the declared list, every entry read,
  sorted by ascending priority, and hooks of equal priority keep the order of the file.\<close>

lemma hook_list_order:
  assumes "hookList v wh = Inr hs"
  shows "\<exists>items decl. v = VList items \<and> list_all2 (\<lambda>i hk. hook_item wh i = Inr hk) items decl \<and>
    mset hs = mset decl \<and> sorted (map hk_priority hs) \<and>
    (\<forall>k. filter (\<lambda>hk. hk_priority hk = k) hs = filter (\<lambda>hk. hk_priority hk = k) decl)"
  using assms
  by (auto simp: hookList_def sort_key_stable split: anyval.splits sum.splits dest!: hook_items_ok)

text \<open>C38: what is accepted can work. An accepted block gives every hook a service name and a known
  failure policy, a positive time limit, and asks for a rollback only when some post-deploy hook can
  fail the deploy.\<close>

theorem accepted_hooks_make_sense:
  assumes "parseHooksExt ext = Inr (Some h)"
  shows "0 < Timeout h \<and> list_all hook_ok (PreDeploy h @ PostDeploy h) \<and>
    (RollbackOnFailure h \<longrightarrow> list_ex Blocking (PostDeploy h))"
proof -
  obtain m where m: "hooks_keys \<lparr>PreDeploy = [], PostDeploy = [], RollbackOnFailure = False,
      Timeout = DefaultHookTimeout\<rparr> m = Inr h" and r: "RollbackOnFailure h \<longrightarrow> anyBlocking (PostDeploy h)"
    using assms by (auto simp: parseHooksExt_def split: anyval.splits list.splits option.splits sum.splits if_splits)
  have "hooks_ok \<lparr>PreDeploy = [], PostDeploy = [], RollbackOnFailure = False, Timeout = DefaultHookTimeout\<rparr>"
    by (simp add: hooks_ok_def DefaultHookTimeout_def)
  from hooks_keys_ok[OF m this] r show ?thesis by (simp add: hooks_ok_def anyBlocking_def)
qed

theorem accepted_hooks_make_sense_witness:
  "\<exists>h. parseHooksExt (VMap [(''hooks'', VMap [(''post_deploy'', VList [VStr ''smoke'']),
      (''rollback_on_failure'', VBool True), (''timeout'', VStr ''1h30m'')])]) = Inr (Some h) \<and>
     list_ex Blocking (PostDeploy h) \<and> Timeout h = 5400000000000"
proof -
  let ?x = "VMap [(''hooks'', VMap [(''post_deploy'', VList [VStr ''smoke'']),
      (''rollback_on_failure'', VBool True), (''timeout'', VStr ''1h30m'')])]"
  let ?h = "\<lparr>PreDeploy = [], PostDeploy = [\<lparr>hk_service = ''smoke'', hk_priority = 0, hk_on_failure = ''fail''\<rparr>],
      RollbackOnFailure = True, Timeout = 5400000000000\<rparr> :: hooks"
  have e: "parseHooksExt ?x = Inr (Some ?h)" by code_simp
  show ?thesis using accepted_hooks_make_sense[OF e] e by auto
qed

text \<open>Each service ends up in exactly one of the two files. The engine's file has the services that
  are no hooks, unchanged and in order, no \<^verbatim>\<open>x-daffa\<close> block, and every other top-level entry as it
  was; the hooks' file has exactly the hook services, in order.\<close>

lemma split_is_a_partition:
  assumes "split_tree (YMap kvs) p h inlineDefs = Inr (d, hk)" "distinct (map (yvalue \<circ> fst) kvs)"
  shows "\<exists>svcs hsvcs. find_key kvs ''services'' = Some (YMap svcs) \<and>
    mapValue d ''services'' = Some (YMap (filter (\<lambda>(k, v). yvalue k \<notin> set (serviceSet h)) svcs)) \<and>
    mapValue d ''x-daffa'' = None \<and>
    (\<forall>key. key = ''services'' \<or> key = ''x-daffa'' \<or> mapValue d key = find_key kvs key) \<and>
    mapValue hk ''services'' = Some (YMap hsvcs) \<and>
    map (yvalue \<circ> fst) hsvcs = filter (\<lambda>n. n \<in> set (serviceSet h)) (map (yvalue \<circ> fst) svcs)"
proof -
  obtain svcs where svcs: "find_key kvs ''services'' = Some (YMap svcs)"
    using assms(1) by (auto simp: split_tree_def Let_def split: option.splits ynode.splits)
  let ?hs = "serviceSet h"
  let ?keep = "filter (\<lambda>(k, v). yvalue k \<notin> set ?hs) svcs"
  let ?hooked = "map (\<lambda>(k, v). (k, pruneHookService v)) (filter (\<lambda>(k, v). yvalue k \<in> set ?hs) svcs)"
  have d: "d = YMap (drop_key (set_key kvs ''services'' (YMap ?keep)) ''x-daffa'')"
    and hk: "\<exists>a b. hk = buildHooksDoc p ?hs ?hooked a b"
    using assms(1) by (auto simp: split_tree_def Let_def svcs)
  have "map (yvalue \<circ> fst) (map (join_default p) ?hooked) = filter (\<lambda>n. n \<in> set ?hs) (map (yvalue \<circ> fst) svcs)"
    by (simp add: comp_def join_default_key filter_map split_def)
  moreover have "mapValue hk ''services'' = Some (YMap (map (join_default p) ?hooked))"
    using hk by (auto simp: buildHooksDoc_def Let_def)
  moreover have "mapValue d ''x-daffa'' = None"
    using assms(2) by (simp add: d find_key_drop_same set_key_keys)
  moreover have "mapValue d ''services'' = Some (YMap ?keep)" by (simp add: d find_key_drop find_key_set svcs)
  moreover have "key = ''services'' \<or> key = ''x-daffa'' \<or> mapValue d key = find_key kvs key" for key
    by (cases "key = ''x-daffa''") (simp_all add: d find_key_drop find_key_set)
  ultimately show ?thesis using svcs by blast
qed

lemma label_merge: "gget [] (mergeLabels ls [(k, v)]) k = v"
  by (simp add: mergeLabels_def)

text \<open>On a swarm, everything that is created for the hooks can be used by them and is adopted by the
  engine: when the loader declares every network the hook services use, each network a validated
  plan provisions is attachable, and every provisioned network and volume carries the namespace
  label of the project.\<close>

lemma swarm_provision_usable:
  assumes "validateHooks p h True = None"
    and loaded: "set (hookNetworkKeys p (serviceSet h)) \<subseteq> fst ` set (pr_networks p)"
  shows "list_all (\<lambda>n. hn_attachable n \<and> gget [] (hn_labels n) ''com.docker.stack.namespace'' = pr_name p)
      (hp_networks (provisionList p h)) \<and>
    list_all (\<lambda>v. gget [] (hv_labels v) ''com.docker.stack.namespace'' = pr_name p) (hp_volumes (provisionList p h))"
proof -
  have "first_error (map (check_network p) (hookNetworkKeys p (serviceSet h))) = None"
    using assms(1) by (auto simp: validateHooks_def Let_def split: list.splits if_splits option.splits)
  then have ok: "check_network p key = None" if "key \<in> set (hookNetworkKeys p (serviceSet h))" for key
    using that by (auto simp: first_error_None)
  have "nc_external net \<or> nc_attachable net"
    if "key \<in> set (hookNetworkKeys p (serviceSet h))" "net = gget zero_net (pr_networks p) key" for key net
  proof -
    from that(1) loaded have "map_of (pr_networks p) key \<noteq> None" by (auto simp: map_of_eq_None_iff)
    then show ?thesis using ok[OF that(1)] that(2) by (auto simp: check_network_def gget_def split: if_splits)
  qed
  then show ?thesis
    by (auto simp: provisionList_def Let_def list_all_iff label_merge split: if_splits)
qed

text \<open>Whether this is the first deploy never shows in what the engine gets, and a file without
  hooks is shipped byte for byte.\<close>

lemma deploy_file_ignores_first_deploy:
  assumes "PlanHooks load um mar text pname env swarm b = Inr plan"
  shows "(\<exists>plan'. PlanHooks load um mar text pname env swarm (\<not> b) = Inr plan' \<and>
      DeployYAML plan' = DeployYAML plan \<and> plan_Hooks plan' = plan_Hooks plan) \<and>
    (plan_Hooks plan = None \<longrightarrow> DeployYAML plan = text)"
proof -
  have tree: "split_tree root p h i = Inr (d, hk) \<Longrightarrow> \<exists>hk'. split_tree root p h j = Inr (d, hk')" for root p h i j d hk
    by (auto simp: split_tree_def Let_def split: option.splits ynode.splits)
  have split: "splitHooks um mar text p h i = Inr (d, hk) \<Longrightarrow> \<exists>hk'. splitHooks um mar text p h j = Inr (d, hk')"
    for p h i j d hk
  proof -
    assume "splitHooks um mar text p h i = Inr (d, hk)"
    then obtain root d' hk' where r: "um text = Some root" "split_tree root p h i = Inr (d', hk')" "d = mar d'"
      by (auto simp: splitHooks_def split: option.splits sum.splits)
    from tree[OF r(2), of j] r show ?thesis by (auto simp: splitHooks_def)
  qed
  have inner: "\<exists>plan'. plan_with um mar text p h swarm (\<not> b) = Inr plan' \<and> DeployYAML plan' = DeployYAML plan \<and>
      plan_Hooks plan' = Some h \<and> plan_Hooks plan = Some h"
    if "plan_with um mar text p h swarm b = Inr plan" for p h
  proof -
    from that obtain d hk where d: "validateHooks p h swarm = None" "splitHooks um mar text p h (b \<and> \<not> swarm) = Inr (d, hk)"
      "DeployYAML plan = d" "plan_Hooks plan = Some h"
      by (auto simp: plan_with_def split: option.splits sum.splits)
    from split[OF d(2), of "\<not> b \<and> \<not> swarm"] d show ?thesis by (auto simp: plan_with_def)
  qed
  show ?thesis
    using assms unfolding PlanHooks_def
    by (auto simp: no_hooks_plan_def split: sum.splits option.splits if_split_asm dest: inner)
qed

text \<open>On the first compose deploy of a file that has no \<^verbatim>\<open>networks\<close> mapping, the hooks' file
  declares every network its hooks use, the \<^verbatim>\<open>default\<close> one included, as external under its deployed
  name, although nothing has created it yet.\<close>

lemma first_deploy_default_network_external:
  assumes "split_tree root p h True = Inr (d, hk)" "mapValue root ''networks'' = None"
    and key: "key \<in> set (hookNetworkKeys p (serviceSet h))"
  shows "\<exists>nets. mapValue hk ''networks'' = Some (YMap nets) \<and>
    find_key nets key = Some (externalRef (deployedName (pr_name p) key (nc_name (gget zero_net (pr_networks p) key))))"
proof -
  obtain hooked v where hk: "hk = buildHooksDoc p (serviceSet h) hooked None v"
    using assms(1,2) by (auto simp: split_tree_def Let_def split: option.splits ynode.splits)
  then show ?thesis
    using key by (cases "hookNetworkKeys p (serviceSet h)")
      (auto simp: buildHooksDoc_def Let_def declare_resource_def find_key_map)
qed

section \<open>A shop with a migration\<close>

definition shop :: project where
  "shop = \<lparr>pr_name = ''shop'',
    pr_services = [(''app'', \<lparr>sv_networks = [], sv_volumes = [], sv_configs = 0, sv_secrets = 0, sv_depends_on = []\<rparr>),
      (''migrate'', \<lparr>sv_networks = [], sv_volumes = [(''volume'', ''data'')], sv_configs = 0, sv_secrets = 0, sv_depends_on = [''app'']\<rparr>)],
    pr_networks = [(''default'', zero_net\<lparr>nc_attachable := True\<rparr>)],
    pr_volumes = [(''data'', zero_vol)],
    pr_extensions = [(''x-daffa'', VMap [(''hooks'', VMap [(''pre_deploy'', VList [VStr ''migrate''])])])]\<rparr>"

definition shop_hooks :: hooks where
  "shop_hooks = \<lparr>PreDeploy = [\<lparr>hk_service = ''migrate'', hk_priority = 0, hk_on_failure = ''fail''\<rparr>], PostDeploy = [],
     RollbackOnFailure = False, Timeout = DefaultHookTimeout\<rparr>"

definition shop_entries :: "(ynode \<times> ynode) list" where
  "shop_entries = [(YScalar ''services'', YMap [(YScalar ''app'', YMap [(YScalar ''image'', YScalar ''shop:1'')]),
      (YScalar ''migrate'', YMap [(YScalar ''image'', YScalar ''shop:1''), (YScalar ''restart'', YScalar ''always'')])]),
    (YScalar ''x-daffa'', YMap [])]"

lemma shop_split: "\<exists>d hk. split_tree (YMap shop_entries) shop shop_hooks b = Inr (d, hk)"
  by (simp add: split_tree_def shop_entries_def Let_def)

end
