(* ===== verification/Pipeline.thy ===== *)
theory Pipeline
  imports Stacks Hooks
begin

text \<open>
  The deploy pipeline, \<^verbatim>\<open>internal/api/deploy.go\<close> and \<^verbatim>\<open>deploy_hooks.go\<close>: one deployment from its claim to
  its verdict, with hooks, the automatic rollback, and the teardown of a stack.

  The Docker daemons, the source resolution, the bundle builder and the tail of a log for an error
  message are a record \<open>docker\<close> of functions. Everything else is the state \<open>world\<close>: the store, a
  clock, the networks and volumes of the nodes, a trace of what was done, and the writes of other
  requests, one batch of which lands each time the pipeline builds its bundle or waits for a
  container. A goroutine the code starts runs to its end at the
  point where it is started. Text in the log is the text the code writes, byte for byte; a quoted
  name is between plain quotes.
\<close>

section \<open>The world around a deploy\<close>

record pool_env =
  pe_is_swarm :: bool
  pe_nodes :: "ident list"
  pe_control :: "ident option"

record wait_result =
  wr_exit :: int
  wr_log :: string
  wr_truncated :: bool

record resolved =
  rs_yaml :: string
  rs_commit_sha :: string
  rs_commit_subject :: string

record docker =
  dk_pool :: "ident \<Rightarrow> pool_env option"
  dk_ping :: "ident \<Rightarrow> bool"
  dk_new_id :: "nat \<Rightarrow> ident"
  dk_resolve :: "stack \<Rightarrow> string + resolved"
  dk_build :: "stack \<Rightarrow> resolved \<Rightarrow> string + string \<times> hook_plan"
  dk_sync_volumes :: "stack \<Rightarrow> string option"
  dk_warnings :: "stack \<Rightarrow> string"
  dk_start :: "ident \<Rightarrow> ident \<Rightarrow> string \<Rightarrow> string + ident"
  dk_start_teardown :: "ident \<Rightarrow> ident \<Rightarrow> bool \<Rightarrow> string + ident"
  dk_start_hook :: "ident \<Rightarrow> ident \<Rightarrow> string \<Rightarrow> string + ident"
  dk_wait :: "ident \<Rightarrow> ident \<Rightarrow> string + wait_result"
  dk_network_create :: "ident \<Rightarrow> hook_network \<Rightarrow> string option"
  dk_volume_create :: "ident \<Rightarrow> hook_volume \<Rightarrow> string option"
  dk_timeout_text :: "int \<Rightarrow> string"
  dk_tail :: "string \<Rightarrow> string"

datatype event =
    EngineStarted ident
  | TeardownStarted ident
  | HookStarted ident string
  | Reaped ident
  | HookRunnersRemoved ident
  | NetworkCreated ident hook_network
  | VolumeCreated ident hook_volume
  | Notified ident bool
  | Audited ident string
  | RollbackAudited ident ident
  | ReconfirmScheduled ident

record world =
  w_db :: sdb
  w_now :: timestamp
  w_minted :: nat
  w_others :: "stack_op list list"
  w_networks :: "(ident \<times> string) list"
  w_volumes :: "(ident \<times> string) list"
  w_events :: "event list"

definition event :: "world \<Rightarrow> event \<Rightarrow> world" where
  "event w e = w\<lparr>w_events := w_events w @ [e]\<rparr>"

definition store :: "world \<Rightarrow> sdb \<Rightarrow> world" where
  "store w s = w\<lparr>w_db := s, w_now := Suc (w_now w)\<rparr>"

definition others_write :: "world \<Rightarrow> world" where
  "others_write w =
     (case w_others w of
        [] \<Rightarrow> w
      | ops # rest \<Rightarrow> w\<lparr>w_db := foldl stack_step (w_db w) ops, w_others := rest\<rparr>)"

section \<open>Text\<close>

definition bar :: string where
  "bar = [CHR 0xE2, CHR 0x94, CHR 0x80, CHR 0xE2, CHR 0x94, CHR 0x80]"

definition phaseHeader :: "string \<Rightarrow> string \<Rightarrow> string" where
  "phaseHeader phase detail = bar @ '' '' @ phase @ '': '' @ detail @ '' '' @ bar @ nl"

section \<open>Where a stack runs\<close>

definition EngineFor :: "string \<Rightarrow> string option" where
  "EngineFor n = (if n = [] \<or> n = ''compose'' then Some ''compose''
                  else if n = ''swarm'' then Some ''swarm'' else None)"

definition isDeploying :: "string \<Rightarrow> bool" where
  "isDeploying a \<longleftrightarrow> a = ''up'' \<or> a = ''pull''"

definition runnerNode :: "docker \<Rightarrow> stack \<Rightarrow> ident option" where
  "runnerNode dk st =
     (case dk_pool dk (st_env_id st) of
        None \<Rightarrow> None
      | Some env \<Rightarrow>
          if st_engine st = ''swarm'' \<and> \<not> pe_is_swarm env then None
          else if st_node_id st \<noteq> [] then (if st_node_id st \<in> set (pe_nodes env) then Some (st_node_id st) else None)
          else pe_control env)"

section \<open>Closing a deployment\<close>

definition notifyDeploy :: "world \<Rightarrow> deployment \<Rightarrow> int \<Rightarrow> world" where
  "notifyDeploy w dep exit = event w (Notified (d_id dep) (exit \<noteq> 0))"

definition outcome :: "dep_status \<Rightarrow> string" where
  "outcome st = (case st of DeployOK \<Rightarrow> ''ok'' | DeployFailed \<Rightarrow> ''error'' | DeployCancelled \<Rightarrow> ''cancelled'' | DeployRunning \<Rightarrow> [])"

definition finishDeploy ::
  "world \<Rightarrow> deployment \<Rightarrow> stack \<Rightarrow> int \<Rightarrow> string \<Rightarrow> bool \<Rightarrow> world \<times> dep_status option" where
  "finishDeploy w dep st exit log truncated =
     (case FinishDeployment (w_db w) (d_id dep) exit log truncated (w_now w) of
        Inl e \<Rightarrow> (w, None)
      | Inr (status, s) \<Rightarrow>
          (let w = store w s;
               w = (if status \<noteq> DeployCancelled then notifyDeploy w dep exit else w);
               w = (if status = DeployOK \<and> isDeploying (d_action dep)
                    then (let w = store w (MarkStackDeployed (w_db w) (st_id st) (d_bundle_hash dep) (d_commit_sha dep) (w_now w))
                          in if st_engine st = ''swarm'' then event w (ReconfirmScheduled (d_id dep)) else w)
                    else w)
           in (event w (Audited (d_id dep) (outcome status)), Some status)))"

definition failDeployment :: "world \<Rightarrow> stack \<Rightarrow> deployment \<Rightarrow> string \<Rightarrow> world" where
  "failDeployment w st dep reason =
     (let w = (case FinishDeployment (w_db w) (d_id dep) 1 reason False (w_now w) of
                 Inl e \<Rightarrow> w | Inr (status, s) \<Rightarrow> store w s);
          w = notifyDeploy w dep 1
      in event w (Audited (d_id dep) ''error''))"

definition watchDeployment :: "docker \<Rightarrow> world \<Rightarrow> ident \<Rightarrow> deployment \<Rightarrow> stack \<Rightarrow> string \<Rightarrow> world" where
  "watchDeployment dk w node dep st warnings =
     (let w = others_write w in
      case dk_wait dk node (d_runner_ctr_id dep) of
        Inl err \<Rightarrow>
          (let w = event w (Reaped (d_runner_ctr_id dep)) in
           case FinishDeployment (w_db w) (d_id dep) 1 (''the runner could not be waited on: '' @ err) False (w_now w) of
             Inl e \<Rightarrow> w | Inr (status, s) \<Rightarrow> store w s)
      | Inr r \<Rightarrow> fst (finishDeploy w dep st (wr_exit r) (warnings @ wr_log r) (wr_truncated r)))"

section \<open>Hook resources\<close>

fun provision_networks :: "docker \<Rightarrow> ident \<Rightarrow> hook_network list \<Rightarrow> nat \<Rightarrow> string \<Rightarrow> world \<Rightarrow> world \<times> string \<times> nat \<times> string option" where
  "provision_networks dk node [] created log w = (w, log, created, None)"
| "provision_networks dk node (n # ns) created log w =
     (if (node, hn_name n) \<in> set (w_networks w) then provision_networks dk node ns created log w
      else (let n = (if hn_driver n = [] then n\<lparr>hn_driver := ''overlay''\<rparr> else n) in
            case dk_network_create dk node n of
              Some err \<Rightarrow> (w, log, created, Some (''creating network '' @ hn_name n @ '' for the pre-deploy hooks: '' @ err))
            | None \<Rightarrow>
                provision_networks dk node ns (Suc created)
                  (log @ ''created network '' @ hn_name n @ '' ('' @ hn_driver n @ '', attachable)'' @ nl)
                  (event (w\<lparr>w_networks := (node, hn_name n) # w_networks w\<rparr>) (NetworkCreated node n))))"

fun provision_volumes :: "docker \<Rightarrow> ident \<Rightarrow> hook_volume list \<Rightarrow> nat \<Rightarrow> string \<Rightarrow> world \<Rightarrow> world \<times> string \<times> nat \<times> string option" where
  "provision_volumes dk node [] created log w = (w, log, created, None)"
| "provision_volumes dk node (v # vs) created log w =
     (if (node, hv_name v) \<in> set (w_volumes w) then provision_volumes dk node vs created log w
      else (case dk_volume_create dk node v of
              Some err \<Rightarrow> (w, log, created, Some (''creating volume '' @ hv_name v @ '' for the pre-deploy hooks: '' @ err))
            | None \<Rightarrow>
                provision_volumes dk node vs (Suc created) (log @ ''created volume '' @ hv_name v @ nl)
                  (event (w\<lparr>w_volumes := (node, hv_name v) # w_volumes w\<rparr>) (VolumeCreated node v))))"

definition provisionHookResources :: "docker \<Rightarrow> ident \<Rightarrow> hook_provision \<Rightarrow> world \<Rightarrow> world \<times> string \<times> nat \<times> string option" where
  "provisionHookResources dk node prov w =
     (case provision_networks dk node (hp_networks prov) 0 [] w of
        (w, log, created, Some err) \<Rightarrow> (w, log, created, Some err)
      | (w, log, created, None) \<Rightarrow> provision_volumes dk node (hp_volumes prov) created log w)"

section \<open>Hooks\<close>

definition set_container :: "world \<Rightarrow> ident \<Rightarrow> ident \<Rightarrow> world" where
  "set_container w did ctr = store w (SetDeploymentContainer (w_db w) did ctr)"

definition runHookPhase ::
  "docker \<Rightarrow> world \<Rightarrow> ident \<Rightarrow> deployment \<Rightarrow> string \<Rightarrow> string \<Rightarrow> hooks \<Rightarrow> string \<Rightarrow> world \<times> string \<times> bool" where
  "runHookPhase dk w node dep phase service hooks log =
     (let log = log @ phaseHeader (phase @ '' hook'') service in
      case dk_start_hook dk node (d_id dep) service of
        Inl err \<Rightarrow> (w, log @ ''the hook runner could not be started: '' @ err @ nl, False)
      | Inr ctr \<Rightarrow>
          (let w = set_container (event w (HookStarted (d_id dep) service)) (d_id dep) ctr;
               w = others_write w
           in case dk_wait dk node ctr of
                Inl err \<Rightarrow>
                  (event w (HookRunnersRemoved (d_id dep)),
                   log @ ''hook '' @ quoted service @ '' did not finish within '' @ dk_timeout_text dk (Timeout hooks) @
                     '' and was stopped: '' @ err @ nl, False)
              | Inr r \<Rightarrow>
                  (let log = log @ wr_log r @ nl in
                   if wr_exit r \<noteq> 0
                   then (w, log @ ''hook '' @ quoted service @ '' failed (exit '' @ show_int (wr_exit r) @ '').'' @ nl, False)
                   else (w, log, True))))"

text \<open>One hook list: the remaining world and log, and whether a blocking hook stopped the pipeline.\<close>

fun run_hooks ::
  "docker \<Rightarrow> ident \<Rightarrow> deployment \<Rightarrow> string \<Rightarrow> string \<Rightarrow> hooks \<Rightarrow> hook list \<Rightarrow> world \<Rightarrow> string \<Rightarrow> world \<times> string \<times> bool" where
  "run_hooks dk node dep phase proceed hooks [] w log = (w, log, True)"
| "run_hooks dk node dep phase proceed hooks (h # hs) w log =
     (case runHookPhase dk w node dep phase (hk_service h) hooks log of
        (w, log, True) \<Rightarrow> run_hooks dk node dep phase proceed hooks hs w log
      | (w, log, False) \<Rightarrow>
          if \<not> Blocking h
          then run_hooks dk node dep phase proceed hooks hs w
                 (log @ ''hook '' @ quoted (hk_service h) @ '' is marked on_failure: continue '' @ em_dash @ '' '' @ proceed @ nl)
          else (w, log, False))"

section \<open>The hooked pipeline\<close>

definition provision_phase ::
  "docker \<Rightarrow> world \<Rightarrow> ident \<Rightarrow> stack \<Rightarrow> hook_plan \<Rightarrow> hooks \<Rightarrow> string \<Rightarrow> world \<times> string \<times> bool" where
  "provision_phase dk w node st plan hooks log =
     (case plan_Provision plan of
        Some prov \<Rightarrow>
          (case provisionHookResources dk node prov w of
             (w, plog, created, err) \<Rightarrow>
               (let log = (if 0 < created \<or> err \<noteq> None
                           then log @ phaseHeader ''hook resources''
                                  (if st_deployed_hash st = []
                                   then ''creating the networks and volumes the hooks need; the engine adopts them''
                                   else ''recreating what the hooks need that is missing; the engine adopts it'') @ plog
                           else log)
                in case err of
                     None \<Rightarrow> (w, log, True)
                   | Some e \<Rightarrow> (w, log @ e @ nl @ ''The pipeline stops here '' @ em_dash @ '' nothing running has been touched.'' @ nl, False)))
      | None \<Rightarrow>
          (w, (if st_deployed_hash st = [] \<and> PreDeploy hooks \<noteq> []
               then log @ phaseHeader ''first deploy'' (''the hooks create the stack'' @ [CHR 0x27] @ ''s networks and volumes; the engine adopts them'')
               else log), True))"

definition engine_phase ::
  "docker \<Rightarrow> world \<Rightarrow> ident \<Rightarrow> deployment \<Rightarrow> string \<Rightarrow> string \<Rightarrow> world \<times> string \<times> int \<times> bool" where
  "engine_phase dk w node dep action log =
     (let log = log @ phaseHeader ''deploy'' action in
      case dk_start dk node (d_id dep) action of
        Inl err \<Rightarrow> (w, log @ ''The deploy runner could not be started.'' @ nl @ nl @ err @ nl, 1, False)
      | Inr ctr \<Rightarrow>
          (let w = set_container (event w (EngineStarted (d_id dep))) (d_id dep) ctr;
               w = others_write w
           in case dk_wait dk node ctr of
                Inl err \<Rightarrow> (event w (Reaped ctr), log @ ''the runner could not be waited on: '' @ err @ nl, 1, False)
              | Inr r \<Rightarrow> (w, log @ wr_log r @ nl, wr_exit r, wr_truncated r)))"

text \<open>\<open>rollback\<close> is the call of \<^verbatim>\<open>autoRollback\<close>; no result stands for a recursion that was cut.\<close>

definition runHookedDeployment ::
  "(world \<Rightarrow> deployment \<Rightarrow> world option) \<Rightarrow> docker \<Rightarrow> world \<Rightarrow> ident \<Rightarrow> deployment \<Rightarrow> stack \<Rightarrow> string \<Rightarrow>
   hook_plan \<Rightarrow> hooks \<Rightarrow> string \<Rightarrow> world option" where
  "runHookedDeployment rollback dk w node dep st action plan hooks warnings =
     (case provision_phase dk w node st plan hooks warnings of
        (w, log, False) \<Rightarrow> Some (fst (finishDeploy w dep st 1 log False))
      | (w, log, True) \<Rightarrow>
     (case run_hooks dk node dep ''pre-deploy'' ''proceeding despite the failure.'' hooks (PreDeploy hooks) w log of
        (w, log, False) \<Rightarrow>
          Some (fst (finishDeploy w dep st 1
            (log @ ''The pipeline stops here '' @ em_dash @ '' nothing running has been touched.'' @ nl) False))
      | (w, log, True) \<Rightarrow>
     (case engine_phase dk w node dep action log of
        (w, log, exit, truncated) \<Rightarrow>
          if exit \<noteq> 0 then Some (fst (finishDeploy w dep st exit log truncated))
          else
     (case run_hooks dk node dep ''post-deploy'' ''the deploy stands despite the failure.'' hooks (PostDeploy hooks) w log of
        (w, log, False) \<Rightarrow>
          (case finishDeploy w dep st 1
             (log @ ''The pipeline stops here '' @ em_dash @ '' the new version is live but failed its verification.'' @ nl) False of
             (w, status) \<Rightarrow>
               if status = Some DeployFailed \<and> RollbackOnFailure hooks then rollback w dep else Some w)
      | (w, log, True) \<Rightarrow> Some (fst (finishDeploy w dep st 0 log False))))))"

section \<open>One deployment\<close>

definition lastGoodDeployment :: "sdb \<Rightarrow> ident \<Rightarrow> ident \<Rightarrow> deployment option" where
  "lastGoodDeployment s sid exclude =
     (case filter (\<lambda>d. d_id d \<noteq> exclude \<and> d_status d = DeployOK \<and> isDeploying (d_action d) \<and> d_compose_yaml d \<noteq> [])
             (ListDeployments s sid 50) of
        [] \<Rightarrow> None | d # _ \<Rightarrow> Some d)"

definition bundleForDeploy ::
  "docker \<Rightarrow> stack \<Rightarrow> deployment option \<Rightarrow> string + (string \<times> hook_plan \<times> resolved)" where
  "bundleForDeploy dk st from =
     (case (case from of
              Some f \<Rightarrow> Inr \<lparr>rs_yaml = d_compose_yaml f, rs_commit_sha = d_commit_sha f, rs_commit_subject = d_commit_subject f\<rparr>
            | None \<Rightarrow> dk_resolve dk st) of
        Inl e \<Rightarrow> Inl e
      | Inr r \<Rightarrow> (case dk_build dk st r of Inl e \<Rightarrow> Inl e | Inr (h, plan) \<Rightarrow> Inr (h, plan, r)))"

definition new_deployment :: "stack \<Rightarrow> string \<Rightarrow> string \<Rightarrow> string \<Rightarrow> ident \<Rightarrow> deployment option \<Rightarrow> deployment" where
  "new_deployment st action eng trigger user from =
     \<lparr>d_id = [], d_stack_id = st_id st, d_action = action, d_status = DeployRunning, d_engine = eng,
      d_trigger_kind = trigger, d_started_by = user, d_runner_ctr_id = [], d_exit_code = None, d_log = [],
      d_log_truncated = False, d_cancel_requested = False, d_bundle_hash = [], d_commit_sha = [],
      d_commit_subject = [], d_compose_yaml = [], d_rollback_of = (case from of None \<Rightarrow> [] | Some f \<Rightarrow> d_id f),
      d_started_at = 0, d_ended_at = None\<rparr>"

definition claim :: "docker \<Rightarrow> world \<Rightarrow> deployment \<Rightarrow> stack_error + (world \<times> deployment)" where
  "claim dk w d =
     (let nid = dk_new_id dk (w_minted w) in
      case ClaimDeployment (w_db w) d nid (w_now w) of
        Inl e \<Rightarrow> Inl e
      | Inr s \<Rightarrow> Inr ((store w s)\<lparr>w_minted := Suc (w_minted w)\<rparr>, claim_row d nid (w_now w)))"

text \<open>The result of \<^verbatim>\<open>deploy\<close>: the deployment, or that it was refused, or that it failed with a reason.\<close>

datatype deploy_result = Deployed deployment | Refused stack_error | Failed string | UnknownEngine

definition start_runner ::
  "docker \<Rightarrow> world \<Rightarrow> ident \<Rightarrow> deployment \<Rightarrow> stack \<Rightarrow> string \<Rightarrow> event \<Rightarrow> string + ident \<Rightarrow> string \<Rightarrow> world \<times> deploy_result" where
  "start_runner dk w node dep st warnings ev started msg =
     (case started of
        Inl err \<Rightarrow> (failDeployment w st dep (msg @ nl @ nl @ err), Failed (msg @ nl @ nl @ err))
      | Inr ctr \<Rightarrow>
          (let w = set_container (event w ev) (d_id dep) ctr; dep = dep\<lparr>d_runner_ctr_id := ctr\<rparr>
           in (watchDeployment dk w node dep st warnings, Deployed dep)))"

definition deploy_bundle ::
  "(world \<Rightarrow> deployment \<Rightarrow> world option) \<Rightarrow> docker \<Rightarrow> world \<Rightarrow> ident \<Rightarrow> deployment \<Rightarrow> stack \<Rightarrow> string \<Rightarrow>
   deployment option \<Rightarrow> (world \<times> deploy_result) option" where
  "deploy_bundle rollback dk w node dep st action from =
     (let w = others_write w in
      case bundleForDeploy dk st from of
        Inl err \<Rightarrow> Some (failDeployment w st dep err, Failed err)
      | Inr (hash, plan, r) \<Rightarrow>
          (let hooks = (case plan_Hooks plan of
                          None \<Rightarrow> None
                        | Some h \<Rightarrow> Some (if from \<noteq> None then h\<lparr>RollbackOnFailure := False\<rparr> else h));
               sync = (if isDeploying action then dk_sync_volumes dk st else None)
           in case sync of
                Some err \<Rightarrow>
                  (let msg = ''A volume source this stack depends on could not be synced, so nothing was deployed.'' @ nl @ nl @ err
                   in Some (failDeployment w st dep msg, Failed msg))
              | None \<Rightarrow>
                  (let warnings = (if st_engine st = ''swarm'' then dk_warnings dk st else []);
                       w = store w (SetDeploymentBundle (w_db w) (d_id dep) hash (rs_commit_sha r) (rs_commit_subject r) (rs_yaml r));
                       dep = dep\<lparr>d_bundle_hash := hash, d_commit_sha := rs_commit_sha r, d_commit_subject := rs_commit_subject r\<rparr>
                   in case hooks of
                        Some h \<Rightarrow>
                          if isDeploying action
                          then map_option (\<lambda>w. (w, Deployed dep))
                                 (runHookedDeployment rollback dk w node dep st action plan h warnings)
                          else Some (start_runner dk w node dep st warnings (EngineStarted (d_id dep))
                                 (dk_start dk node (d_id dep) action) ''The deploy runner could not be started.'')
                      | None \<Rightarrow>
                          Some (start_runner dk w node dep st warnings (EngineStarted (d_id dep))
                                 (dk_start dk node (d_id dep) action) ''The deploy runner could not be started.''))))"

definition deploy_claimed ::
  "(world \<Rightarrow> deployment \<Rightarrow> world option) \<Rightarrow> docker \<Rightarrow> world \<Rightarrow> deployment \<Rightarrow> stack \<Rightarrow> string \<Rightarrow>
   deployment option \<Rightarrow> (world \<times> deploy_result) option" where
  "deploy_claimed rollback dk w dep st action from =
     (case runnerNode dk st of
        None \<Rightarrow>
          (let msg = ''The environment this stack runs on is not connected, so nothing could be deployed to it.''
           in Some (failDeployment w st dep msg, Failed msg))
      | Some node \<Rightarrow>
          if action = ''down'' \<or> action = ''down+volumes''
          then Some (start_runner dk w node dep st [] (TeardownStarted (d_id dep))
                 (dk_start_teardown dk node (d_id dep) (action = ''down+volumes'')) ''The runner could not be started.'')
          else deploy_bundle rollback dk w node dep st action from)"

definition deploy_body ::
  "(world \<Rightarrow> deployment \<Rightarrow> world option) \<Rightarrow> docker \<Rightarrow> world \<Rightarrow> stack \<Rightarrow> string \<Rightarrow> string \<Rightarrow> ident \<Rightarrow>
   deployment option \<Rightarrow> (world \<times> deploy_result) option" where
  "deploy_body rollback dk w st action trigger user from =
     (case EngineFor (st_engine st) of
        None \<Rightarrow> Some (w, UnknownEngine)
      | Some eng \<Rightarrow>
     (case claim dk w (new_deployment st action eng trigger user from) of
        Inl e \<Rightarrow> Some (w, Refused e)
      | Inr (w, dep) \<Rightarrow> deploy_claimed rollback dk w dep st action from))"

text \<open>\<^verbatim>\<open>deploy\<close> and \<^verbatim>\<open>autoRollback\<close> call each other. \<open>deploy n\<close> allows \<open>n\<close> nested deployments; a deeper one has
  no result.\<close>

fun deploy ::
  "nat \<Rightarrow> docker \<Rightarrow> world \<Rightarrow> stack \<Rightarrow> string \<Rightarrow> string \<Rightarrow> ident \<Rightarrow> deployment option \<Rightarrow> (world \<times> deploy_result) option"
  and autoRollback :: "nat \<Rightarrow> docker \<Rightarrow> stack \<Rightarrow> world \<Rightarrow> deployment \<Rightarrow> world option" where
  "deploy 0 dk w st action trigger user from = None"
| "deploy (Suc n) dk w st action trigger user from =
     deploy_body (autoRollback n dk st) dk w st action trigger user from"
| "autoRollback n dk st w failed =
     (case lastGoodDeployment (w_db w) (st_id st) (d_id failed) of
        None \<Rightarrow> Some w
      | Some prev \<Rightarrow>
          map_option fst (deploy n dk (event w (RollbackAudited (d_id failed) (d_id prev))) st ''up'' ''rollback'' [] (Some prev)))"

section \<open>Teardown, restarts and the check after a swarm deploy\<close>

definition tearDown :: "docker \<Rightarrow> world \<Rightarrow> stack \<Rightarrow> bool \<Rightarrow> ident \<Rightarrow> world \<times> deploy_result" where
  "tearDown dk w st volumes user =
     (case EngineFor (st_engine st) of
        None \<Rightarrow> (w, UnknownEngine)
      | Some eng \<Rightarrow>
     (case runnerNode dk st of
        None \<Rightarrow> (w, Failed ''the host this stack runs on is not connected'')
      | Some node \<Rightarrow>
          if \<not> dk_ping dk node then (w, Failed ''the host this stack runs on is not connected'')
          else
     (case claim dk w (new_deployment st (if volumes then ''down+volumes'' else ''down'') eng ''manual'' user None) of
        Inl e \<Rightarrow> (w, Refused e)
      | Inr (w, dep) \<Rightarrow>
     (case dk_start_teardown dk node (d_id dep) volumes of
        Inl err \<Rightarrow>
          ((case FinishDeployment (w_db w) (d_id dep) 1 (''could not start the runner: '' @ err) False (w_now w) of
              Inl e \<Rightarrow> w | Inr (status, s) \<Rightarrow> store w s), Failed err)
      | Inr ctr \<Rightarrow>
          (let w = set_container (event w (TeardownStarted (d_id dep))) (d_id dep) ctr;
               w = others_write w
           in case dk_wait dk node ctr of
                Inl err \<Rightarrow>
                  (let w = event w (Reaped ctr) in
                   ((case FinishDeployment (w_db w) (d_id dep) 1 (''the runner could not be waited on: '' @ err) False (w_now w) of
                       Inl e \<Rightarrow> w | Inr (status, s) \<Rightarrow> store w s), Failed err))
              | Inr r \<Rightarrow>
                  ((case FinishDeployment (w_db w) (d_id dep) (wr_exit r) (wr_log r) (wr_truncated r) (w_now w) of
                      Inl e \<Rightarrow> w | Inr (status, s) \<Rightarrow> store w s),
                   if wr_exit r \<noteq> 0 then Failed (''compose down failed (exit '' @ show_int (wr_exit r) @ ''): '' @ dk_tail dk (wr_log r)) else Deployed dep))))))"

text \<open>\<open>describe\<close> is what the check after a swarm deploy sees of the services, or that it could not look.\<close>

definition reconfirmPostDeploy ::
  "docker \<Rightarrow> world \<Rightarrow> stack \<Rightarrow> deployment \<Rightarrow> (stack \<Rightarrow> (string \<times> string) list option) \<Rightarrow> world" where
  "reconfirmPostDeploy dk w st dep describe =
     (case StackByID (w_db w) (st_id st) of
        Inl e \<Rightarrow> w
      | Inr (latest, _) \<Rightarrow>
     (case runnerNode dk latest of
        None \<Rightarrow> w
      | Some node \<Rightarrow>
     (case EngineFor (st_engine latest) of
        None \<Rightarrow> w
      | Some eng \<Rightarrow>
     (case describe latest of
        None \<Rightarrow> w
      | Some svcs \<Rightarrow>
          (case filter (\<lambda>(n, state). state = ''missing'' \<or> state = ''partial'') svcs of
             [] \<Rightarrow> w
           | (n, state) # _ \<Rightarrow>
               (case FinishDeployment (w_db w) (d_id dep) 1
                   (''post-deploy check: service '' @ quoted n @ '' in state '' @ quoted state @
                    '' 35 seconds after deploy '' @ em_dash @ '' the container exited immediately'') False (w_now w) of
                  Inl e \<Rightarrow> w
                | Inr (status, s) \<Rightarrow> notifyDeploy (store w s) dep 1))))))"

definition ReapOrphanedRuns_one :: "docker \<Rightarrow> (ident \<Rightarrow> ident option) \<Rightarrow> world \<Rightarrow> deployment \<Rightarrow> world" where
  "ReapOrphanedRuns_one dk find_runner w dep =
     (case StackByID (w_db w) (d_stack_id dep) of
        Inl e \<Rightarrow> w
      | Inr (st, _) \<Rightarrow>
     (case runnerNode dk st of
        None \<Rightarrow> w
      | Some node \<Rightarrow>
          (let w = event w (HookRunnersRemoved (d_id dep)) in
           if d_runner_ctr_id dep = [] then
             (case find_runner (d_id dep) of
                None \<Rightarrow>
                  (case FinishDeployment (w_db w) (d_id dep) 1
                     (''the runner could not be found after a restart (if this deployment was mid-hook, the pipeline died with the server '' @
                      em_dash @ '' deploy again)'') False (w_now w) of
                     Inl e \<Rightarrow> w | Inr (status, s) \<Rightarrow> store w s)
              | Some ctr \<Rightarrow> watchDeployment dk w node (dep\<lparr>d_runner_ctr_id := ctr\<rparr>) st [])
           else watchDeployment dk w node dep st [])))"

definition ReapOrphanedRuns :: "docker \<Rightarrow> (ident \<Rightarrow> ident option) \<Rightarrow> world \<Rightarrow> world" where
  "ReapOrphanedRuns dk find_runner w =
     foldl (ReapOrphanedRuns_one dk find_runner) w (UnfinishedDeployments (w_db w))"

text \<open>\<^verbatim>\<open>handleCancelDeployment\<close>, from the flag to the kill; \<open>kill\<close> says whether the runner could be killed.\<close>

datatype cancel_result = CancelNotRunning | CancelUnreachable | CancelKillFailed | Cancelled

definition handleCancelDeployment ::
  "docker \<Rightarrow> (ident \<Rightarrow> ident \<Rightarrow> bool) \<Rightarrow> world \<Rightarrow> deployment \<Rightarrow> stack \<Rightarrow> world \<times> cancel_result" where
  "handleCancelDeployment dk kill w dep st =
     (case RequestCancel (w_db w) (d_id dep) of
        (False, s) \<Rightarrow> (store w s, CancelNotRunning)
      | (True, s) \<Rightarrow>
          (let w = store w s in
           if d_runner_ctr_id dep = [] then (w, Cancelled)
           else (case runnerNode dk st of
                   None \<Rightarrow> (w, CancelUnreachable)
                 | Some node \<Rightarrow> if kill node (d_runner_ctr_id dep) then (w, Cancelled) else (w, CancelKillFailed))))"

end
