(* ===== verification/Rollout.thy ===== *)
theory Rollout
  imports Pipeline
begin

text \<open>
  What the deploy pipeline of \<^verbatim>\<open>Pipeline\<close> guarantees. The interfaces come first: what a predicate on
  the world has to respect to survive the pipeline's own writes (\<open>world_inv\<close>), what it takes for the
  pipeline to close what it claimed (\<open>world_close\<close>), and the cycle from claim to verdict
  (\<open>claim_cycle\<close>). The schema's promises and the settling of every claim are two instances. The
  properties of the deploys follow.
\<close>

section \<open>A rollback never rolls back\<close>

definition returns :: "'a option \<Rightarrow> bool" where
  "returns x \<longleftrightarrow> x \<noteq> None"

lemma returns_simps [simp]: "returns (Some x)" "\<not> returns None" "returns (map_option f y) = returns y"
  by (simp_all add: returns_def)

lemma hooked_no_rollback:
  assumes "\<not> RollbackOnFailure hooks"
  shows "runHookedDeployment rb dk w node dep st action plan hooks warnings =
      runHookedDeployment rb' dk w node dep st action plan hooks warnings"
    and "returns (runHookedDeployment rb dk w node dep st action plan hooks warnings)"
  using assms unfolding runHookedDeployment_def by (auto split: prod.splits bool.splits)

lemma hooked_rollback_returns:
  assumes "\<And>w d. returns (rb w d)"
  shows "returns (runHookedDeployment rb dk w node dep st action plan hooks warnings)"
  unfolding runHookedDeployment_def using assms by (simp split: prod.splits bool.splits)

lemma bundle_no_rollback:
  "deploy_bundle rb dk w node dep st action (Some f) = deploy_bundle rb' dk w node dep st action (Some f)"
  unfolding deploy_bundle_def Let_def
  by (auto split: sum.splits option.splits prod.splits intro!: arg_cong[where f = "map_option _"] hooked_no_rollback(1))

lemma bundle_returns:
  assumes "(\<forall>w d. returns (rb w d)) \<or> from \<noteq> None"
  shows "returns (deploy_bundle rb dk w node dep st action from)"
proof -
  have "returns (runHookedDeployment rb dk w node dep st action plan (if from \<noteq> None then h\<lparr>RollbackOnFailure := False\<rparr> else h) warnings)"
    for w dep h plan warnings
    using assms by (cases "from = None") (auto intro: hooked_rollback_returns hooked_no_rollback(2))
  then show ?thesis
    unfolding deploy_bundle_def Let_def
    by (cases "bundleForDeploy dk st from") (auto split: option.split simp del: append.simps)
qed

lemma claimed_no_rollback:
  "deploy_claimed rb dk w dep st action (Some f) = deploy_claimed rb' dk w dep st action (Some f)"
  unfolding deploy_claimed_def Let_def using bundle_no_rollback by (auto split: option.split)

lemma claimed_returns:
  assumes "(\<forall>w d. returns (rb w d)) \<or> from \<noteq> None"
  shows "returns (deploy_claimed rb dk w dep st action from)"
  unfolding deploy_claimed_def Let_def using bundle_returns[OF assms] by (simp split: option.split)

lemma body_no_rollback:
  "deploy_body rb dk w st action trigger user (Some f) = deploy_body rb' dk w st action trigger user (Some f)"
  unfolding deploy_body_def Let_def
  by (auto split: option.splits sum.splits prod.splits intro: claimed_no_rollback)

lemma body_returns:
  assumes "(\<forall>w d. returns (rb w d)) \<or> from \<noteq> None"
  shows "returns (deploy_body rb dk w st action trigger user from)"
  unfolding deploy_body_def Let_def
  using claimed_returns[OF assms] by (simp split: option.splits sum.splits prod.splits)

lemma deploy_from:
  "deploy (Suc n) dk w st a t u (Some f) = deploy (Suc m) dk w st a t u (Some f)"
  "returns (deploy (Suc n) dk w st a t u (Some f))"
  by (simp_all add: body_returns) (rule body_no_rollback)

lemma autoRollback_depth:
  "autoRollback (Suc n) dk st w d = autoRollback (Suc m) dk st w d"
  "returns (autoRollback (Suc n) dk st w d)"
  using deploy_from[of n dk _ st "''up''" "''rollback''" "[]"]
  by (simp_all add: deploy_from(1)[of n _ _ _ _ _ _ _ m] del: deploy.simps split: option.split)

section \<open>What survives the pipeline's writes\<close>

locale world_inv =
  fixes P :: "world \<Rightarrow> bool"
  assumes P_event: "P w \<Longrightarrow> P (event w e)"
    and P_write: "P w \<Longrightarrow> \<forall>i. \<not> mints_id a i \<Longrightarrow> P (store w (stack_step (w_db w) a))"
    and P_others: "P w \<Longrightarrow> P (others_write w)"
    and P_networks: "P w \<Longrightarrow> P (w\<lparr>w_networks := ns\<rparr>)"
    and P_volumes: "P w \<Longrightarrow> P (w\<lparr>w_volumes := vs\<rparr>)"
begin

lemma P_finish: "P w \<Longrightarrow> FinishDeployment (w_db w) i e l t n = Inr (st, s) \<Longrightarrow> P (store w s)"
  using P_write[of w "OpFinish i e l t n"] by (simp add: stack_step_def)

lemma P_mark: "P w \<Longrightarrow> P (store w (MarkStackDeployed (w_db w) i h c n))"
  using P_write[of w "OpMarkDeployed i h c n"] by (simp add: stack_step_def)

lemma P_bundle: "P w \<Longrightarrow> P (store w (SetDeploymentBundle (w_db w) i h a b y))"
  using P_write[of w "OpSetBundle i h a b y"] by (simp add: stack_step_def)

lemma P_container: "P w \<Longrightarrow> P (set_container w i c)"
  using P_write[of w "OpSetContainer i c"] by (simp add: stack_step_def set_container_def)

lemma P_cancel: "P w \<Longrightarrow> RequestCancel (w_db w) i = (b, s) \<Longrightarrow> P (store w s)"
  using P_write[of w "OpRequestCancel i"] by (simp add: stack_step_def)

lemmas P_basic = P_event P_others P_networks P_volumes P_mark P_bundle P_container

lemma P_notify: "P w \<Longrightarrow> P (notifyDeploy w dep e)"
  by (simp add: notifyDeploy_def P_event)

lemma P_finishDeploy: "P w \<Longrightarrow> P (fst (finishDeploy w dep st e l t))"
  by (auto simp: finishDeploy_def Let_def intro!: P_basic P_notify dest: P_finish split: sum.split)

lemma P_failDeployment: "P w \<Longrightarrow> P (failDeployment w st dep r)"
  by (auto simp: failDeployment_def Let_def intro!: P_basic P_notify dest: P_finish split: sum.split)

lemma P_watchDeployment: "P w \<Longrightarrow> P (watchDeployment dk w node dep st l)"
  by (auto simp: watchDeployment_def Let_def intro!: P_basic P_finishDeploy split: sum.split
      dest: P_finish[OF P_event, OF P_others])

lemma P_provision_networks:
  "P w \<Longrightarrow> provision_networks dk node ns c l w = (w', l', c', err) \<Longrightarrow> P w'"
  by (induction dk node ns c l w rule: provision_networks.induct)
     (auto simp: Let_def intro: P_event P_networks split: if_split_asm option.split_asm)

lemma P_provision_volumes:
  "P w \<Longrightarrow> provision_volumes dk node vs c l w = (w', l', c', err) \<Longrightarrow> P w'"
  by (induction dk node vs c l w rule: provision_volumes.induct)
     (auto simp: Let_def intro: P_event P_volumes split: if_split_asm option.split_asm)

lemma P_provision_phase: "P w \<Longrightarrow> provision_phase dk w node st plan hooks l = (w', r) \<Longrightarrow> P w'"
  by (auto simp: provision_phase_def provisionHookResources_def Let_def
      dest: P_provision_networks P_provision_volumes split: option.split_asm prod.split_asm)

lemma P_runHookPhase: "P w \<Longrightarrow> runHookPhase dk w node dep ph sv hooks l = (w', r) \<Longrightarrow> P w'"
  by (auto simp: runHookPhase_def Let_def intro!: P_basic split: sum.split_asm if_split_asm)

lemma P_run_hooks: "P w \<Longrightarrow> run_hooks dk node dep ph pr hooks hs w l = (w', r) \<Longrightarrow> P w'"
  by (induction dk node dep ph pr hooks hs w l rule: run_hooks.induct)
     (auto dest: P_runHookPhase split: prod.split_asm bool.split_asm if_split_asm)

lemma P_engine_phase: "P w \<Longrightarrow> engine_phase dk w node dep a l = (w', r) \<Longrightarrow> P w'"
  by (auto simp: engine_phase_def Let_def intro!: P_basic split: sum.split_asm)

lemma P_start_runner: "P w \<Longrightarrow> P (fst (start_runner dk w node dep st l ev started msg))"
  by (auto simp: start_runner_def Let_def intro!: P_basic P_failDeployment P_watchDeployment split: sum.split)

lemma P_reconfirm: "P w \<Longrightarrow> P (reconfirmPostDeploy dk w st dep describe)"
  by (auto simp: reconfirmPostDeploy_def intro!: P_notify dest: P_finish split: sum.split option.split list.split)

lemma P_reap_one: "P w \<Longrightarrow> P (ReapOrphanedRuns_one dk fr w dep)"
  by (auto simp: ReapOrphanedRuns_one_def Let_def intro!: P_basic P_watchDeployment
      dest: P_finish[OF P_event] split: sum.split option.split)

lemma P_handleCancel: "P w \<Longrightarrow> P (fst (handleCancelDeployment dk kill w dep st))"
  by (auto simp: handleCancelDeployment_def Let_def dest: P_cancel split: prod.split bool.split option.split)

end

section \<open>Closing what was claimed\<close>

text \<open>\<open>Q i\<close> holds while the deployment \<open>i\<close> is open, \<open>P\<close> when nothing is; recording a verdict of \<open>i\<close> leads from
  the one to the other, and a claim back.\<close>

locale world_close = post: world_inv P + pre: world_inv Q for P Q :: "world \<Rightarrow> bool" +
  fixes i :: ident
  assumes closed: "Q w \<Longrightarrow> FinishDeployment (w_db w) i e l t n = Inr (st, s) \<Longrightarrow> P (store w s)"
    and missing: "Q w \<Longrightarrow> FinishDeployment (w_db w) i e l t n = Inl err \<Longrightarrow> P w"
begin

lemma close_finishDeploy:
  assumes "d_id dep = i" "Q w"
  shows "P (fst (finishDeploy w dep st e l t))"
  unfolding finishDeploy_def Let_def assms(1) using assms(2)
  by (auto intro!: post.P_basic post.P_notify dest: closed missing split: sum.split)

lemma close_failDeployment:
  assumes "d_id dep = i" "Q w"
  shows "P (failDeployment w st dep r)"
  unfolding failDeployment_def Let_def assms(1) using assms(2)
  by (auto intro!: post.P_basic post.P_notify dest: closed missing split: sum.split)

lemma close_watchDeployment:
  assumes "d_id dep = i" "Q w"
  shows "P (watchDeployment dk w node dep st l)"
proof -
  have "Q (event (others_write w) e)" for e using assms(2) by (intro pre.P_basic)
  then show ?thesis
    unfolding watchDeployment_def Let_def assms(1) using assms(2)
    by (auto intro: pre.P_basic close_finishDeploy[OF assms(1)] dest: closed missing split: sum.split simp del: append.simps)
qed

lemma close_start_runner:
  assumes "d_id dep = i" "Q w"
  shows "P (fst (start_runner dk w node dep st l ev started msg))"
  using assms(2) unfolding start_runner_def Let_def
  by (auto intro!: pre.P_basic close_failDeployment[OF assms(1)] close_watchDeployment split: sum.split simp: assms(1))

lemma close_hooked:
  assumes "Q w" "d_id dep = i" "runHookedDeployment rb dk w node dep st action plan hooks l = Some w'"
    and rb: "\<And>w w' d. P w \<Longrightarrow> rb w d = Some w' \<Longrightarrow> P w'"
  shows "P w'"
proof -
  note fin = close_finishDeploy[OF assms(2)]
  obtain w1 l1 b1 where 1: "provision_phase dk w node st plan hooks l = (w1, l1, b1)" by (metis prod_cases3)
  have Q1: "Q w1" using pre.P_provision_phase[OF assms(1) 1] .
  obtain w2 l2 b2 where 2: "run_hooks dk node dep ''pre-deploy'' ''proceeding despite the failure.'' hooks (PreDeploy hooks) w1 l1 = (w2, l2, b2)"
    by (metis prod_cases3)
  have Q2: "Q w2" using pre.P_run_hooks[OF Q1 2] .
  obtain w3 l3 e3 t3 where 3: "engine_phase dk w2 node dep action l2 = (w3, l3, e3, t3)" by (metis prod_cases4)
  have Q3: "Q w3" using pre.P_engine_phase[OF Q2 3] .
  obtain w4 l4 b4 where 4: "run_hooks dk node dep ''post-deploy'' ''the deploy stands despite the failure.'' hooks (PostDeploy hooks) w3 l3 = (w4, l4, b4)"
    by (metis prod_cases3)
  have Q4: "Q w4" using pre.P_run_hooks[OF Q3 4] .
  let ?fail = "finishDeploy w4 dep st 1
    (l4 @ ''The pipeline stops here '' @ em_dash @ '' the new version is live but failed its verification.'' @ nl) False"
  note eq = assms(3)[unfolded runHookedDeployment_def 1 prod.case 2 3 4]
  consider "\<not> b1" | "b1" "\<not> b2" | "b1" "b2" "e3 \<noteq> 0" | "b1" "b2" "e3 = 0" "b4" | "b1" "b2" "e3 = 0" "\<not> b4" by auto
  then show ?thesis
  proof cases
    case 5
    obtain w5 v where f: "?fail = (w5, v)" by fastforce
    have "P w5" using fin[OF Q4, of st] f by (metis fst_conv)
    moreover have "rb w5 dep = Some w' \<or> w5 = w'" using eq 5 unfolding f by (simp split: if_split_asm)
    ultimately show ?thesis using rb by blast
  qed (use eq fin[OF Q1] fin[OF Q2] fin[OF Q3] fin[OF Q4] in \<open>auto simp del: append.simps\<close>)
qed

lemma close_bundle:
  assumes "Q w" "d_id dep = i" "deploy_bundle rb dk w node dep st action from = Some (w', r)"
    and rb: "\<And>w w' d. P w \<Longrightarrow> rb w d = Some w' \<Longrightarrow> P w'"
  shows "P w'"
proof -
  have Q1: "Q (others_write w)" using assms(1) by (rule pre.P_others)
  note run = close_start_runner[OF _ pre.P_bundle[OF Q1]]
  note hooked = close_hooked[OF pre.P_bundle[OF Q1] _ _ rb]
  have id: "d_id (dep\<lparr>d_bundle_hash := h, d_commit_sha := c, d_commit_subject := u\<rparr>) = i" for h c u
    using assms(2) by simp
  have started: "P w'" if "start_runner dk (store (others_write w) (SetDeploymentBundle (w_db (others_write w)) j h c u y)) node
      (dep\<lparr>d_bundle_hash := h, d_commit_sha := c, d_commit_subject := u\<rparr>) st l ev sr msg = (w', r)" for j h c u y l ev sr msg
    using run[OF id] that by (metis fst_conv)
  from assms(3) show ?thesis
    unfolding deploy_bundle_def Let_def
    using close_failDeployment[OF assms(2) Q1]
    by (auto split: sum.split_asm prod.split_asm option.split_asm if_split_asm
        intro: hooked[OF id] started simp del: append.simps)
qed

lemma close_claimed:
  assumes "Q w" "d_id dep = i" "deploy_claimed rb dk w dep st action from = Some (w', r)"
    and rb: "\<And>w w' d. P w \<Longrightarrow> rb w d = Some w' \<Longrightarrow> P w'"
  shows "P w'"
proof -
  have started: "P w'" if "start_runner dk w node dep st l ev sr msg = (w', r)" for node l ev sr msg
    using close_start_runner[OF assms(2,1)] that by (metis fst_conv)
  from assms(3) show ?thesis
    unfolding deploy_claimed_def Let_def
    using close_failDeployment[OF assms(2,1)] close_bundle[OF assms(1,2) _ rb]
    by (auto split: option.split_asm if_split_asm intro: started simp del: append.simps)
qed

end

locale claim_cycle =
  fixes dk :: docker and P :: "world \<Rightarrow> bool" and Q :: "ident \<Rightarrow> world \<Rightarrow> bool"
  assumes closing: "world_close P (Q i) i"
    and opened: "P w \<Longrightarrow> d_id d = [] \<Longrightarrow> claim dk w d = Inr (w', dep) \<Longrightarrow> Q (d_id dep) w'"
begin

lemmas world = world_close.axioms(1)[OF closing]

lemma P_body:
  assumes "P w" "deploy_body rb dk w st action trigger user from = Some (w', r)"
    and rb: "\<And>w w' d. P w \<Longrightarrow> rb w d = Some w' \<Longrightarrow> P w'"
  shows "P w'"
proof (cases "EngineFor (st_engine st)")
  case None
  then show ?thesis using assms(1,2) by (simp add: deploy_body_def)
next
  case (Some eng)
  have "P w'" if "claim dk w (new_deployment st action eng trigger user from) = Inr (w1, dep)"
    "deploy_claimed rb dk w1 dep st action from = Some (w', r)" for w1 dep
    using world_close.close_claimed[OF closing opened[OF assms(1) _ that(1)] refl that(2) rb]
    by (simp add: new_deployment_def)
  then show ?thesis
    using Some assms(1,2) by (auto simp: deploy_body_def split: sum.split_asm)
qed

lemma P_deploy: "P w \<Longrightarrow> deploy n dk w st a t u from = Some (w', r) \<Longrightarrow> P w'"
proof (induction n arbitrary: w st a t u "from" w' r)
  case (Suc n)
  have rb: "P w2" if "P w1" "autoRollback n dk st w1 d = Some w2" for w1 w2 d
    using that Suc.IH[OF world_inv.P_event[OF world]] by (auto split: option.split_asm)
  show ?case
    by (rule P_body[OF Suc.prems(1) Suc.prems(2)[unfolded deploy.simps] rb])
qed simp

lemma P_tearDown:
  assumes "P w"
  shows "P (fst (tearDown dk w st volumes user))"
proof -
  show ?thesis
  proof (cases "EngineFor (st_engine st)")
    case (Some eng)
    let ?d = "new_deployment st (if volumes then ''down+volumes'' else ''down'') eng ''manual'' user None"
    note def = tearDown_def Let_def Some option.case
    show ?thesis
    proof (cases "claim dk w ?d")
      case (Inr c)
      obtain w1 dep where c: "c = (w1, dep)" by fastforce
      have Q: "Q (d_id dep) w1" using opened[OF assms _ Inr[unfolded c]] by (simp add: new_deployment_def)
      note run = world_inv.P_others[OF world_close.axioms(2)[OF closing]]
        world_inv.P_container[OF world_close.axioms(2)[OF closing]] world_inv.P_event[OF world_close.axioms(2)[OF closing]]
      have "Q (d_id dep) (others_write (set_container (event w1 e) (d_id dep) ctr))"
        "Q (d_id dep) (event (others_write (set_container (event w1 e) (d_id dep) ctr)) x)" for e ctr x
        by (simp_all add: Q run)
      then show ?thesis
        unfolding def Inr c sum.case prod.case using assms Q
        by (auto split: option.split sum.split simp del: append.simps
            intro: run dest: world_close.closed[OF closing, rotated] world_close.missing[OF closing, rotated])
    qed (use assms in \<open>auto simp: def split: option.split\<close>)
  qed (simp add: tearDown_def assms)
qed

end

section \<open>The schema's promises, and the settling of claims\<close>

abbreviation db_inv :: "world \<Rightarrow> bool" where
  "db_inv w \<equiv> stacks_inv (w_db w)"

lemma world_simps [simp]:
  "w_db (event w e) = w_db w" "w_others (event w e) = w_others w" "w_minted (event w e) = w_minted w"
  "w_db (store w s) = s" "w_others (store w s) = w_others w" "w_minted (store w s) = w_minted w"
  "w_minted (others_write w) = w_minted w" "w_now (event w e) = w_now w"
  by (simp_all add: event_def store_def others_write_def split: list.split)

lemma others_write_db:
  obtains ops where "w_db (others_write w) = foldl stack_step (w_db w) ops" "set ops \<subseteq> (\<Union>as \<in> set (w_others w). set as)"
    "set (w_others (others_write w)) \<subseteq> set (w_others w)"
proof (cases "w_others w")
  case Nil
  then show ?thesis using that[of "[]"] by (simp add: others_write_def)
next
  case (Cons ops rest)
  then show ?thesis using that[of ops] by (auto simp: others_write_def)
qed

interpretation schema: world_inv db_inv
proof
  show "db_inv (others_write w)" if "db_inv w" for w
    by (rule others_write_db[of w]) (simp add: stack_machine.run_inv[OF that])
qed (simp_all add: stack_step_inv)

lemma claim_Inr:
  assumes "claim dk w d = Inr (w', dep)"
  shows "w' = (store w (w_db w'))\<lparr>w_minted := Suc (w_minted w)\<rparr> \<and>
    dep = claim_row d (dk_new_id dk (w_minted w)) (w_now w) \<and>
    w_db w' = stack_step (w_db w) (OpClaim d (dk_new_id dk (w_minted w)) (w_now w))"
  using assms by (auto simp: claim_def Let_def stack_step_def store_def split: sum.split_asm)

interpretation schema: claim_cycle dk db_inv "\<lambda>i. db_inv" for dk
proof
  show "db_inv w" if "db_inv w" for w using that .
  show "db_inv (store w s)" if "db_inv w" "FinishDeployment (w_db w) i e l t n = Inr (st, s)" for w s i e l t n st
    using schema.P_finish[OF that] .
  show "db_inv w'" if "db_inv w" "claim dk w d = Inr (w', dep)" for w w' d dep
    using claim_Inr[OF that(2)] stack_step_inv[OF that(1)] by simp
qed

text \<open>Everything minted since the \<open>m\<close>-th id is idle, except the deployments of \<open>but\<close>; the ids are the
  server's own.\<close>

definition settled_but :: "docker \<Rightarrow> nat \<Rightarrow> ident set \<Rightarrow> world \<Rightarrow> bool" where
  "settled_but dk m but w \<longleftrightarrow> inj (dk_new_id dk) \<and>
     (\<forall>k. \<forall>ops \<in> set (w_others w). \<forall>a \<in> set ops. \<not> mints_id a (dk_new_id dk k)) \<and>
     (\<forall>k. m \<le> k \<and> k < w_minted w \<and> dk_new_id dk k \<notin> but \<longrightarrow> idle (w_db w) (dk_new_id dk k))"

lemma settled_step:
  assumes "settled_but dk m but w" "\<forall>i. \<not> mints_id a i"
  shows "settled_but dk m but (store w (stack_step (w_db w) a))"
  using assms by (simp add: settled_but_def stack_step_idle)

lemma settled_others:
  assumes "settled_but dk m but w"
  shows "settled_but dk m but (others_write w)"
proof (rule others_write_db[of w])
  fix ops
  assume db: "w_db (others_write w) = foldl stack_step (w_db w) ops"
    and ops: "set ops \<subseteq> (\<Union>as \<in> set (w_others w). set as)"
    and rest: "set (w_others (others_write w)) \<subseteq> set (w_others w)"
  have "\<forall>a \<in> set ops. \<not> mints_id a (dk_new_id dk k)" for k
    using assms ops unfolding settled_but_def by blast
  then have "idle (w_db (others_write w)) (dk_new_id dk k)" if "idle (w_db w) (dk_new_id dk k)" for k
    unfolding db using that by (rule deployments.run_idle[rotated])
  with assms rest show ?thesis unfolding settled_but_def by auto
qed

lemma settled_world_inv: "world_inv (settled_but dk m but)"
  by unfold_locales (simp_all add: settled_step settled_others, simp_all add: settled_but_def)

interpretation settled: claim_cycle dk "settled_but dk m {}" "\<lambda>i. settled_but dk m {i}" for dk m
proof (rule claim_cycle.intro)
  show "world_close (settled_but dk m {}) (settled_but dk m {i}) i" for i
  proof (intro world_close.intro settled_world_inv world_close_axioms.intro)
    fix w e l t n st s err
    assume w: "settled_but dk m {i} w"
    show "settled_but dk m {} (store w s)" if "FinishDeployment (w_db w) i e l t n = Inr (st, s)"
      using w deployments.finish_idle[OF that] deployments.finish_other[OF that] unfolding settled_but_def by auto
    show "settled_but dk m {} w" if "FinishDeployment (w_db w) i e l t n = Inl err"
      using w deployments.finish_missing[OF that] unfolding settled_but_def by auto
  qed
  fix w d w' dep
  assume w: "settled_but dk m {} w" and d: "d_id d = []" and c: "claim dk w d = Inr (w', dep)"
  note c = claim_Inr[OF c]
  then have w': "w_minted w' = Suc (w_minted w)" "w_others w' = w_others w"
    "w_db w' = stack_step (w_db w) (OpClaim d (dk_new_id dk (w_minted w)) (w_now w))"
    by (metis select_convs surjective update_convs world_simps)+
  have i: "d_id dep = dk_new_id dk (w_minted w)" using c d by (simp add: claim_row_def)
  show "settled_but dk m {d_id dep} w'"
    using w d unfolding settled_but_def w' i by (auto simp: stack_step_idle less_Suc_eq)
qed

end
