(* ===== verification/Deploys.thy ===== *)
theory Deploys
  imports Rollout
begin

text \<open>
  The properties of the deploys: how deep the pipeline can recurse, that it always settles what it
  claimed, what the hooks decide, what a verdict implies, and what a rollback needs.
\<close>

section \<open>Termination and settling\<close>

lemma deploy_depth: "deploy (Suc (Suc n)) dk w st a t u from = deploy 2 dk w st a t u from"
proof -
  have "autoRollback (Suc n) dk st = autoRollback (Suc 0) dk st"
    using autoRollback_depth(1) by blast
  then show ?thesis by (simp add: numeral_2_eq_2 del: autoRollback.simps)
qed

lemma deploy_2_returns: "returns (deploy 2 dk w st a t u from)"
  using body_returns[of "autoRollback (Suc 0) dk st"] autoRollback_depth(2)[of 0 dk st]
  by (simp add: numeral_2_eq_2 del: autoRollback.simps)

interpretation minted: claim_cycle dk "\<lambda>w. m \<le> w_minted w" "\<lambda>i w. m \<le> w_minted w" for dk m
  by unfold_locales (auto dest: claim_Inr simp: claim_def Let_def split: sum.split_asm)

lemma rollback_mints: "autoRollback n dk st w d = Some w' \<Longrightarrow> m \<le> w_minted w \<Longrightarrow> m \<le> w_minted w'"
  by (auto split: option.split_asm intro: minted.P_deploy[rotated])

lemma claimed_result:
  assumes "deploy_claimed rb dk w dep st action from = Some (w', r)"
  shows "(\<exists>d. r = Deployed d) \<or> (\<exists>e. r = Failed e)"
  using assms unfolding deploy_claimed_def deploy_bundle_def start_runner_def Let_def
  by (auto split: option.split_asm if_split_asm sum.split_asm simp del: append.simps)

lemma body_records:
  assumes "deploy_body (autoRollback n dk st) dk w st action trigger user from = Some (w', r)"
  shows "(case r of Refused e \<Rightarrow> w' = w | UnknownEngine \<Rightarrow> w' = w | _ \<Rightarrow> w_minted w < w_minted w')"
proof -
  have "w_minted w < w_minted w'" if c: "claim dk w d = Inr (w1, dep)"
    and d: "deploy_claimed (autoRollback n dk st) dk w1 dep st action from = Some (w', r)" for d w1 dep
  proof (unfold Suc_le_eq[symmetric], rule world_close.close_claimed[OF minted.closing _ refl d])
    show "Suc (w_minted w) \<le> w_minted w1" using c by (auto simp: claim_def Let_def split: sum.split_asm)
  qed (use rollback_mints in blast)
  with assms show ?thesis
    unfolding deploy_body_def
    by (auto split: option.split_asm sum.split_asm deploy_result.split dest: claimed_result)
qed

text \<open>C31: the pipeline ends. A deploy may roll back and a rollback is a deploy, but nothing is ever nested
  deeper than one rollback, so two levels decide every deploy and it always returns.\<close>

theorem rollback_never_rolls_back:
  "deploy (Suc (Suc n)) dk w st a t u from = deploy 2 dk w st a t u from \<and>
   (\<exists>w' r. deploy 2 dk w st a t u from = Some (w', r))"
  using deploy_depth deploy_2_returns[of dk w st a t u "from"] by (auto simp: returns_def)

text \<open>C29: every claim is settled. Whatever the daemons, the hooks, the source and the other requests do,
  when a deploy has run to its end, every deployment it created, the automatic rollback's included,
  has its verdict, so the stack is not locked; the tables keep their promises; and an attempt that
  was not refused has left a deployment in the history, while a refused one has changed nothing.\<close>

theorem every_deployment_settles:
  assumes "stacks_inv (w_db w)" "inj (dk_new_id dk)"
    and "\<forall>ops \<in> set (w_others w). \<forall>a \<in> set ops. \<forall>k. \<not> mints_id a (dk_new_id dk k)"
  shows "\<exists>w' r. deploy 2 dk w st a t u from = Some (w', r) \<and> stacks_inv (w_db w') \<and>
    (\<forall>k. w_minted w \<le> k \<and> k < w_minted w' \<longrightarrow> idle (w_db w') (dk_new_id dk k)) \<and>
    (case r of Refused e \<Rightarrow> w' = w | UnknownEngine \<Rightarrow> w' = w | _ \<Rightarrow> w_minted w < w_minted w')"
proof -
  obtain w' r where d: "deploy 2 dk w st a t u from = Some (w', r)"
    using deploy_2_returns[of dk w st a t u "from"] by (auto simp: returns_def)
  have "settled_but dk (w_minted w) {} w" using assms(2,3) by (auto simp: settled_but_def)
  from settled.P_deploy[OF this d]
  have "\<forall>k. w_minted w \<le> k \<and> k < w_minted w' \<longrightarrow> idle (w_db w') (dk_new_id dk k)"
    by (simp add: settled_but_def)
  moreover have "stacks_inv (w_db w')" using schema.P_deploy[OF assms(1) d] .
  moreover have "(case r of Refused e \<Rightarrow> w' = w | UnknownEngine \<Rightarrow> w' = w | _ \<Rightarrow> w_minted w < w_minted w')"
    using body_records[of "Suc 0" dk st w a t u "from" w' r] d by (simp add: numeral_2_eq_2 del: autoRollback.simps)
  ultimately show ?thesis using d by blast
qed

section \<open>What the hooks decide\<close>

text \<open>What a hooked deployment promises, from the results of its containers alone.\<close>

definition hook_passes :: "docker \<Rightarrow> ident \<Rightarrow> ident \<Rightarrow> string \<Rightarrow> bool" where
  "hook_passes dk node did service =
     (case dk_start_hook dk node did service of
        Inl e \<Rightarrow> False
      | Inr ctr \<Rightarrow> (case dk_wait dk node ctr of Inl e \<Rightarrow> False | Inr r \<Rightarrow> wr_exit r = 0))"

definition lets_through :: "docker \<Rightarrow> ident \<Rightarrow> ident \<Rightarrow> hook list \<Rightarrow> bool" where
  "lets_through dk node did hs = list_all (\<lambda>h. hook_passes dk node did (hk_service h) \<or> \<not> Blocking h) hs"

datatype hooked_outcome = StoppedBefore | EngineNotStarted | EngineEnded int | VerificationFailed | Passed

definition hooked_spec :: "docker \<Rightarrow> ident \<Rightarrow> ident \<Rightarrow> string \<Rightarrow> hooks \<Rightarrow> bool \<Rightarrow> hooked_outcome" where
  "hooked_spec dk node did action hooks provisioned =
     (if \<not> provisioned \<or> \<not> lets_through dk node did (PreDeploy hooks) then StoppedBefore
      else (case dk_start dk node did action of
              Inl e \<Rightarrow> EngineNotStarted
            | Inr ctr \<Rightarrow>
                (case dk_wait dk node ctr of
                   Inl e \<Rightarrow> EngineEnded 1
                 | Inr r \<Rightarrow>
                     if wr_exit r \<noteq> 0 then EngineEnded (wr_exit r)
                     else if lets_through dk node did (PostDeploy hooks) then Passed else VerificationFailed)))"

fun hooked_exit :: "hooked_outcome \<Rightarrow> int" where
  "hooked_exit Passed = 0"
| "hooked_exit (EngineEnded e) = e"
| "hooked_exit _ = 1"

fun touches :: "event \<Rightarrow> bool" where
  "touches (EngineStarted i) = True"
| "touches (TeardownStarted i) = True"
| "touches _ = False"

definition touched :: "world \<Rightarrow> event list" where
  "touched w = filter touches (w_events w)"

lemma touched_simps [simp]:
  "touched (event w e) = touched w @ (if touches e then [e] else [])"
  "touched (store w s) = touched w" "touched (others_write w) = touched w"
  "touched (w\<lparr>w_networks := ns\<rparr>) = touched w" "touched (w\<lparr>w_volumes := vs\<rparr>) = touched w"
  "touched (set_container w i c) = touched w"
  by (simp_all add: touched_def event_def store_def others_write_def set_container_def split: list.split)

lemma runHookPhase_spec:
  assumes "runHookPhase dk w node dep ph sv hooks l = (w', l', b)"
  shows "touched w' = touched w \<and> b = hook_passes dk node (d_id dep) sv"
  using assms by (auto simp: runHookPhase_def hook_passes_def Let_def split: sum.split_asm if_split_asm)

lemma run_hooks_spec:
  "run_hooks dk node dep ph pr hooks hs w l = (w', l', b) \<Longrightarrow>
     touched w' = touched w \<and> b = lets_through dk node (d_id dep) hs"
proof (induction dk node dep ph pr hooks hs w l rule: run_hooks.induct)
  case (2 dk node dep ph pr hooks h hs w l)
  obtain w1 l1 b1 where 1: "runHookPhase dk w node dep ph (hk_service h) hooks l = (w1, l1, b1)"
    by (metis prod_cases3)
  note s = runHookPhase_spec[OF 1]
  show ?case
    using 2 s 1 by (cases b1; cases "Blocking h") (auto simp: lets_through_def)
qed (simp add: lets_through_def)

lemma provision_networks_touched:
  "provision_networks dk node ns c l w = (w', l', c', e) \<Longrightarrow> touched w' = touched w"
  by (induction dk node ns c l w rule: provision_networks.induct)
     (auto simp: Let_def split: if_split_asm option.split_asm simp del: append.simps)

lemma provision_volumes_touched:
  "provision_volumes dk node vs c l w = (w', l', c', e) \<Longrightarrow> touched w' = touched w"
  by (induction dk node vs c l w rule: provision_volumes.induct)
     (auto simp: Let_def split: if_split_asm option.split_asm simp del: append.simps)

lemma provision_phase_touched:
  "provision_phase dk w node st plan hooks l = (w', l', b) \<Longrightarrow> touched w' = touched w"
  by (auto simp: provision_phase_def provisionHookResources_def Let_def
      dest!: provision_networks_touched provision_volumes_touched split: option.split_asm prod.split_asm)

lemma engine_phase_spec:
  assumes "engine_phase dk w node dep action l = (w', l', e, t)"
  shows "touched w' = touched w @ (if isl (dk_start dk node (d_id dep) action) then [] else [EngineStarted (d_id dep)]) \<and>
    e = (case dk_start dk node (d_id dep) action of
           Inl x \<Rightarrow> 1 | Inr ctr \<Rightarrow> (case dk_wait dk node ctr of Inl x \<Rightarrow> 1 | Inr r \<Rightarrow> wr_exit r))"
  using assms by (auto simp: engine_phase_def Let_def split: sum.split_asm)

text \<open>C30: a hooked deployment does what its hooks say. Whatever else happens, its result is that of the
  specification: nothing is started on the stack when the resources could not be made or a blocking
  pre hook failed; a failed engine skips the post hooks; a failed blocking post hook fails the
  deployment and is the only case that rolls back, and only after a verdict of failed; otherwise the
  deployment succeeds. The verdict is recorded once, with the exit code of the specification.\<close>

theorem hooked_deploy_refines_spec:
  "\<exists>w4 log tr.
     let out = hooked_spec dk node (d_id dep) action hooks (snd (snd (provision_phase dk w node st plan hooks warnings)))
     in touched w4 = touched w @ (if out = StoppedBefore \<or> out = EngineNotStarted then [] else [EngineStarted (d_id dep)]) \<and>
        runHookedDeployment rb dk w node dep st action plan hooks warnings =
          (case finishDeploy w4 dep st (hooked_exit out) log tr of
             (w5, v) \<Rightarrow> if out = VerificationFailed \<and> v = Some DeployFailed \<and> RollbackOnFailure hooks then rb w5 dep else Some w5)"
proof -
  obtain w1 l1 b1 where 1: "provision_phase dk w node st plan hooks warnings = (w1, l1, b1)" by (metis prod_cases3)
  obtain w2 l2 b2 where 2: "run_hooks dk node dep ''pre-deploy'' ''proceeding despite the failure.'' hooks (PreDeploy hooks) w1 l1 = (w2, l2, b2)"
    by (metis prod_cases3)
  obtain w3 l3 e3 t3 where 3: "engine_phase dk w2 node dep action l2 = (w3, l3, e3, t3)" by (metis prod_cases4)
  obtain w4 l4 b4 where 4: "run_hooks dk node dep ''post-deploy'' ''the deploy stands despite the failure.'' hooks (PostDeploy hooks) w3 l3 = (w4, l4, b4)"
    by (metis prod_cases3)
  note s = provision_phase_touched[OF 1] run_hooks_spec[OF 2] engine_phase_spec[OF 3] run_hooks_spec[OF 4]
  note def = runHookedDeployment_def 1 prod.case 2 3 4
  let ?spec = "hooked_spec dk node (d_id dep) action hooks b1"
  consider "\<not> b1" | "b1" "\<not> b2" | "b1" "b2" "e3 \<noteq> 0" | "b1" "b2" "e3 = 0" by blast
  then show ?thesis
  proof cases
    case 1
    then have "?spec = StoppedBefore" by (simp add: hooked_spec_def)
    with 1 s(1) show ?thesis
      unfolding Let_def def snd_conv
      by (intro exI[of _ w1] exI[of _ l1] exI[of _ False]) (simp split: prod.split)
  next
    case 2
    then have "?spec = StoppedBefore" using s(2) by (simp add: hooked_spec_def)
    with 2 s(1,2) show ?thesis
      unfolding Let_def def snd_conv
      by (intro exI[of _ w2] exI[of _ "l2 @ ''The pipeline stops here '' @ em_dash @ '' nothing running has been touched.'' @ nl"] exI[of _ False])
         (simp split: prod.split)
  next
    case 3
    then have "?spec = (if isl (dk_start dk node (d_id dep) action) then EngineNotStarted else EngineEnded e3)"
      "isl (dk_start dk node (d_id dep) action) \<Longrightarrow> e3 = 1"
      using s(2,3) by (auto simp: hooked_spec_def split: sum.split_asm)
    with 3 s(1-3) show ?thesis
      unfolding Let_def def snd_conv
      by (intro exI[of _ w3] exI[of _ l3] exI[of _ t3]) (auto split: prod.split)
  next
    case 4
    then have "?spec = (if b4 then Passed else VerificationFailed)" "\<not> isl (dk_start dk node (d_id dep) action)"
      using s(2-4) by (auto simp: hooked_spec_def split: sum.split_asm)
    with 4 s show ?thesis
      unfolding Let_def def snd_conv
      by (intro exI[of _ w4]
          exI[of _ "if b4 then l4 else l4 @ ''The pipeline stops here '' @ em_dash @ '' the new version is live but failed its verification.'' @ nl"]
          exI[of _ False]) (simp split: prod.split)
  qed
qed

section \<open>What a verdict implies\<close>

lemma finishDeploy_events:
  assumes "FinishDeployment (w_db w) (d_id dep) e l t (w_now w) = Inr (v, s)"
  shows "w_events (fst (finishDeploy w dep st e l t)) = w_events w @
      (if v = DeployCancelled then [] else [Notified (d_id dep) (e \<noteq> 0)]) @
      (if v = DeployOK \<and> isDeploying (d_action dep) \<and> st_engine st = ''swarm'' then [ReconfirmScheduled (d_id dep)] else []) @
      [Audited (d_id dep) (outcome v)]"
  using assms by (simp add: finishDeploy_def Let_def notifyDeploy_def event_def store_def)

lemma finishDeploy_db:
  assumes "FinishDeployment (w_db w) (d_id dep) e l t (w_now w) = Inr (v, s)"
  shows "w_db (fst (finishDeploy w dep st e l t)) =
      (if v = DeployOK \<and> isDeploying (d_action dep)
       then MarkStackDeployed s (st_id st) (d_bundle_hash dep) (d_commit_sha dep) (Suc (w_now w)) else s)"
    and "snd (finishDeploy w dep st e l t) = Some v"
  using assms by (simp_all add: finishDeploy_def Let_def notifyDeploy_def event_def store_def)


section \<open>What a rollback needs\<close>

lemma hook_resolve:
  "runHookPhase (dk\<lparr>dk_resolve := g\<rparr>) = runHookPhase dk" "engine_phase (dk\<lparr>dk_resolve := g\<rparr>) = engine_phase dk"
  by (intro ext, simp add: runHookPhase_def engine_phase_def cong: sum.case_cong)+

lemma provision_resolve:
  "provision_networks (dk\<lparr>dk_resolve := g\<rparr>) node ns c l w = provision_networks dk node ns c l w"
  "provision_volumes (dk\<lparr>dk_resolve := g\<rparr>) node vs c l w = provision_volumes dk node vs c l w"
  by (induction ns arbitrary: c l w) (simp_all add: Let_def split: option.split,
      induction vs arbitrary: c l w, simp_all split: option.split)

lemma run_hooks_resolve:
  "run_hooks (dk\<lparr>dk_resolve := g\<rparr>) node dep ph pr hooks hs w l = run_hooks dk node dep ph pr hooks hs w l"
  by (induction hs arbitrary: w l) (simp_all add: hook_resolve split: prod.split bool.split)

lemma phase_resolve:
  "provision_phase (dk\<lparr>dk_resolve := g\<rparr>) w node st plan hooks l = provision_phase dk w node st plan hooks l"
  unfolding provision_phase_def provisionHookResources_def provision_resolve by (rule refl)

lemma hooked_resolve:
  "runHookedDeployment rb (dk\<lparr>dk_resolve := g\<rparr>) w node dep st action plan hooks l =
     runHookedDeployment rb dk w node dep st action plan hooks l"
  unfolding runHookedDeployment_def phase_resolve run_hooks_resolve hook_resolve by (rule refl)

lemma start_resolve:
  "start_runner (dk\<lparr>dk_resolve := g\<rparr>) w node dep st l ev sr msg = start_runner dk w node dep st l ev sr msg"
  "claim (dk\<lparr>dk_resolve := g\<rparr>) w d = claim dk w d" "runnerNode (dk\<lparr>dk_resolve := g\<rparr>) st = runnerNode dk st"
  by (simp_all add: start_runner_def watchDeployment_def claim_def runnerNode_def split: sum.split)

lemma bundle_resolve:
  "deploy_bundle rb (dk\<lparr>dk_resolve := g\<rparr>) w node dep st action (Some f) = deploy_bundle rb dk w node dep st action (Some f)"
  by (simp add: deploy_bundle_def bundleForDeploy_def hooked_resolve start_resolve Let_def
      cong: option.case_cong sum.case_cong prod.case_cong if_cong)

lemma claimed_resolve:
  "deploy_claimed rb (dk\<lparr>dk_resolve := g\<rparr>) w dep st action (Some f) = deploy_claimed rb dk w dep st action (Some f)"
  by (simp add: deploy_claimed_def bundle_resolve start_resolve split: option.split)

text \<open>A rollback does not need the source. Putting back a recorded deployment gives the same result
  whatever the repository, the branch or the credentials have become.\<close>

lemma rollback_ignores_source:
  "deploy n (dk\<lparr>dk_resolve := g\<rparr>) w st a t u (Some f) = deploy n dk w st a t u (Some f)"
proof (cases n)
  case (Suc m)
  have "deploy_body rb (dk\<lparr>dk_resolve := g\<rparr>) w st a t u (Some f) = deploy_body rb dk w st a t u (Some f)" for rb
    by (simp add: deploy_body_def start_resolve claimed_resolve split: option.split sum.split)
  then show ?thesis
    unfolding Suc deploy.simps using body_no_rollback by metis
qed simp

section \<open>Hook resources\<close>

lemma provision_networks_present:
  "provision_networks dk node ns c l w = (w', l', c', None) \<Longrightarrow>
     w_volumes w' = w_volumes w \<and> set (w_networks w) \<subseteq> set (w_networks w') \<and>
     (\<forall>n \<in> set ns. (node, hn_name n) \<in> set (w_networks w'))"
  by (induction dk node ns c l w rule: provision_networks.induct)
     (auto simp: Let_def event_def split: if_split_asm option.split_asm simp del: append.simps)

lemma provision_volumes_present:
  "provision_volumes dk node vs c l w = (w', l', c', None) \<Longrightarrow>
     w_networks w' = w_networks w \<and> set (w_volumes w) \<subseteq> set (w_volumes w') \<and>
     (\<forall>v \<in> set vs. (node, hv_name v) \<in> set (w_volumes w'))"
  by (induction dk node vs c l w rule: provision_volumes.induct)
     (auto simp: Let_def event_def split: if_split_asm option.split_asm simp del: append.simps)

lemma provision_nothing:
  "\<forall>n \<in> set ns. (node, hn_name n) \<in> set (w_networks w) \<Longrightarrow> provision_networks dk node ns c l w = (w, l, c, None)"
  "\<forall>v \<in> set vs. (node, hv_name v) \<in> set (w_volumes w) \<Longrightarrow> provision_volumes dk node vs c l w = (w, l, c, None)"
  by (induction ns) (simp_all, induction vs, simp_all)

text \<open>Provisioning is idempotent. Once the resources of the hooks could be made, everything they name
  exists, and provisioning again creates nothing, logs nothing and changes nothing.\<close>

lemma provisioning_idempotent:
  assumes "provisionHookResources dk node prov w = (w', l, c, None)"
  shows "(\<forall>n \<in> set (hp_networks prov). (node, hn_name n) \<in> set (w_networks w')) \<and>
    (\<forall>v \<in> set (hp_volumes prov). (node, hv_name v) \<in> set (w_volumes w')) \<and>
    provisionHookResources dk node prov w' = (w', [], 0, None)"
proof -
  obtain w1 l1 c1 where 1: "provision_networks dk node (hp_networks prov) 0 [] w = (w1, l1, c1, None)"
    and 2: "provision_volumes dk node (hp_volumes prov) c1 l1 w1 = (w', l, c, None)"
    using assms by (auto simp: provisionHookResources_def split: prod.split_asm option.split_asm)
  have n: "\<forall>n \<in> set (hp_networks prov). (node, hn_name n) \<in> set (w_networks w')"
    using provision_networks_present[OF 1] provision_volumes_present[OF 2] by simp
  moreover have v: "\<forall>v \<in> set (hp_volumes prov). (node, hv_name v) \<in> set (w_volumes w')"
    using provision_volumes_present[OF 2] by blast
  ultimately show ?thesis
    by (simp add: provisionHookResources_def provision_nothing(1)[OF n] provision_nothing(2)[OF v])
qed

section \<open>A host with one stack\<close>

text \<open>One standalone host, whose containers all end well except the hook runners, and a plan with one
  best-effort pre hook.\<close>

definition blog_plan :: hook_plan where
  "blog_plan = \<lparr>plan_Hooks = Some \<lparr>PreDeploy = [\<lparr>hk_service = ''migrate'', hk_priority = 0, hk_on_failure = ''continue''\<rparr>],
      PostDeploy = [], RollbackOnFailure = False, Timeout = 60\<rparr>,
    DeployYAML = [], HooksYAML = [], plan_Provision = None\<rparr>"

definition blog_host :: docker where
  "blog_host = \<lparr>dk_pool = (\<lambda>e. if e = ''h1'' then Some \<lparr>pe_is_swarm = False, pe_nodes = [''n1''], pe_control = Some ''n1''\<rparr> else None),
    dk_ping = (\<lambda>n. True), dk_new_id = (\<lambda>n. CHR ''d'' # replicate n CHR ''+''),
    dk_resolve = (\<lambda>st. Inr \<lparr>rs_yaml = st_inline_yaml st, rs_commit_sha = [], rs_commit_subject = []\<rparr>),
    dk_build = (\<lambda>st r. Inr (''hash'', blog_plan)), dk_sync_volumes = (\<lambda>st. None), dk_warnings = (\<lambda>st. []),
    dk_start = (\<lambda>n d a. Inr ''engine''), dk_start_teardown = (\<lambda>n d v. Inr ''teardown''),
    dk_start_hook = (\<lambda>n d s. Inr ''hook''),
    dk_wait = (\<lambda>n c. Inr \<lparr>wr_exit = (if c = ''hook'' then 137 else 0), wr_log = [], wr_truncated = False\<rparr>),
    dk_network_create = (\<lambda>n x. None), dk_volume_create = (\<lambda>n x. None), dk_timeout_text = (\<lambda>t. ''1m0s''), dk_tail = (\<lambda>l. l)\<rparr>"

definition blog_world :: "stack_op list list \<Rightarrow> world" where
  "blog_world ops = \<lparr>w_db = blog_db, w_now = 9, w_minted = 0, w_others = ops, w_networks = [], w_volumes = [], w_events = []\<rparr>"

text \<open>A cancelled deployment can still go on and go live. Somebody cancels while a best-effort pre
  hook runs; the killed hook counts as a tolerated failure, the engine is started all the same and
  succeeds, so the new version is running, yet the deployment is recorded as cancelled, the stack's
  live hash is not updated and nobody is told.\<close>

lemma cancel_in_best_effort_hook_still_deploys:
  "map_option (\<lambda>(w, r). (EngineStarted ''d'' \<in> set (w_events w), map d_status (filter (\<lambda>d. d_id d = ''d'') (sd_deployments (w_db w))),
       map st_deployed_hash (sd_stacks (w_db w)), Notified ''d'' False \<in> set (w_events w) \<or> Notified ''d'' True \<in> set (w_events w)))
     (deploy 2 blog_host (blog_world [[], [OpRequestCancel ''d'']]) blog ''up'' ''manual'' ''root'' None) =
   Some (True, [DeployCancelled], [[]], False)"
  by code_simp

theorem every_deployment_settles_witness:
  "\<exists>w' r. deploy 2 blog_host (blog_world [[], [OpRequestCancel ''d'']]) blog ''up'' ''manual'' ''root'' None = Some (w', r) \<and>
     stacks_inv (w_db w') \<and> (0 < w_minted w' \<longrightarrow> idle (w_db w') ''d'')"
proof -
  have inv: "stacks_inv (w_db (blog_world [[], [OpRequestCancel ''d'']]))" by (simp add: blog_world_def blog_db_inv)
  have inj: "inj (dk_new_id blog_host)" by (simp add: blog_host_def inj_def replicate_eq_replicate)
  have quiet: "\<forall>ops \<in> set (w_others (blog_world [[], [OpRequestCancel ''d'']])). \<forall>a \<in> set ops. \<forall>k. \<not> mints_id a (dk_new_id blog_host k)"
    by (simp add: blog_world_def)
  have zero: "w_minted (blog_world [[], [OpRequestCancel ''d'']]) = 0" "dk_new_id blog_host 0 = ''d''"
    by (simp_all add: blog_world_def blog_host_def)
  from every_deployment_settles[OF inv inj quiet, of blog "''up''" "''manual''" "''root''" None]
  obtain w' r where d: "deploy 2 blog_host (blog_world [[], [OpRequestCancel ''d'']]) blog ''up'' ''manual'' ''root'' None = Some (w', r)"
    and i: "stacks_inv (w_db w')" "\<forall>k. 0 \<le> k \<and> k < w_minted w' \<longrightarrow> idle (w_db w') (dk_new_id blog_host k)"
    unfolding zero by blast
  have "0 < w_minted w' \<longrightarrow> idle (w_db w') ''d''" using i(2)[rule_format, of 0] zero(2) by simp
  with d i(1) show ?thesis by (intro exI conjI)
qed


end
