(* ===== verification/Monitors.thy ===== *)
theory Monitors
  imports Prelude Complex_Main
begin

text \<open>
  Resource monitors, \<^verbatim>\<open>internal/store/monitors.go\<close>: the sampling settings, the rules with their validation,
  the evaluation of a rule over the samples of its window, and the alerts.

  Readings and thresholds are rational numbers: the model compares exactly where the database
  compares doubles. Times are nanoseconds, as integers; \<^verbatim>\<open>time.Duration\<close> arithmetic wraps at 64 bits.
  The day tables of the samples are one list, since the WHERE clause of the evaluation bounds the
  time on both sides. The rows a GROUP BY gives come in the order of the samples.
\<close>

section \<open>Settings\<close>

record monitor_settings =
  ms_enabled :: bool
  ms_interval_secs :: int
  ms_retention_days :: int
  ms_updated_at :: int

definition MaxRetentionDays :: int where
  "MaxRetentionDays = 90"

definition MinIntervalSecs :: int where
  "MinIntervalSecs = 30"

definition Interval :: "monitor_settings \<Rightarrow> int" where
  "Interval m = wrap64 (ms_interval_secs m * second)"

section \<open>Rules\<close>

record monitor_action =
  ma_kind :: string
  ma_command :: "string list"
  ma_timeout_secs :: int
  ma_by :: int
  ma_limit :: int
  ma_url :: string
  ma_secret :: string
  ma_secret_enc :: string
  ma_has_secret :: bool

record stored_action =
  sa_kind :: string
  sa_command :: "string list"
  sa_timeout_secs :: int
  sa_by :: int
  sa_limit :: int
  sa_url :: string
  sa_secret_enc :: string

record monitor =
  mn_id :: ident
  mn_name :: string
  mn_enabled :: bool
  mn_metric :: string
  mn_op :: string
  mn_threshold :: rat
  mn_duration_secs :: int
  mn_env_id :: ident
  mn_stack :: string
  mn_container :: string
  mn_actions :: "monitor_action list"
  mn_action_cooldown_secs :: int
  mn_created_at :: int
  mn_updated_at :: int

record sample =
  sm_ts_unix :: int
  sm_env_id :: ident
  sm_container_id :: ident
  sm_container_name :: string
  sm_stack :: string
  sm_service :: string
  sm_cpu_pct :: rat
  sm_cpu_cores :: rat
  sm_mem_bytes :: rat
  sm_mem_pct :: rat

datatype monitor_error =
    ErrRetentionTooLong | ErrIntervalTooShort
  | BlankName | ErrUnknownMetric | ErrBadComparison | WindowTooShort
  | ActionsNeedHost | TooManyActions | BadCooldown | ExecNeedsCommand | ExecTimeoutTooLong
  | BadScaleStep | BadScaleLimit | BadActionURL | HTTPTimeoutTooLong | UnknownAction
  | NotAPercentage | NotAQuantity | MonitorNotFound | MonitorConstraint

definition metricColumns :: "string \<Rightarrow> (sample \<Rightarrow> rat) option" where
  "metricColumns m =
     (if m = ''cpu_pct'' then Some sm_cpu_pct
      else if m = ''mem_pct'' then Some sm_mem_pct
      else if m = ''mem_bytes'' then Some sm_mem_bytes
      else if m = ''cpu_cores'' then Some (\<lambda>s. sm_cpu_pct s * sm_cpu_cores s / 100)
      else None)"

definition PercentMetric :: "string \<Rightarrow> bool" where
  "PercentMetric m \<longleftrightarrow> m = ''cpu_pct'' \<or> m = ''mem_pct''"

definition comparisons :: "string \<Rightarrow> (rat \<Rightarrow> rat \<Rightarrow> bool) option" where
  "comparisons op = (if op = ''>'' then Some (\<lambda>v t. v > t) else if op = ''<'' then Some (\<lambda>v t. v < t) else None)"

definition DefaultActionCooldown :: int where
  "DefaultActionCooldown = 15 * 60"

text \<open>One action of \<^verbatim>\<open>validateActions\<close>; the URL is trimmed in place.\<close>

definition check_action :: "monitor_action \<Rightarrow> monitor_error + monitor_action" where
  "check_action a =
     (if ma_kind a = ''restart'' then Inr a
      else if ma_kind a = ''exec'' then
        (if ma_command a = [] \<or> trim_space (hd (ma_command a)) = [] then Inl ExecNeedsCommand
         else if ma_timeout_secs a < 0 \<or> 600 < ma_timeout_secs a then Inl ExecTimeoutTooLong
         else Inr a)
      else if ma_kind a = ''scale'' then
        (if ma_by a = 0 \<or> 10 < ma_by a \<or> ma_by a < - 10 then Inl BadScaleStep
         else if ma_limit a < 1 then Inl BadScaleLimit
         else Inr a)
      else if ma_kind a = ''http'' then
        (let u = trim_space (ma_url a) in
         if \<not> has_prefix u ''https://'' \<and> \<not> has_prefix u ''http://'' then Inl BadActionURL
         else if ma_timeout_secs a < 0 \<or> 30 < ma_timeout_secs a then Inl HTTPTimeoutTooLong
         else Inr (a\<lparr>ma_url := u\<rparr>))
      else Inl UnknownAction)"

fun check_actions :: "monitor_action list \<Rightarrow> monitor_error + monitor_action list" where
  "check_actions [] = Inr []"
| "check_actions (a # as) =
     (case check_action a of
        Inl e \<Rightarrow> Inl e
      | Inr a' \<Rightarrow> (case check_actions as of Inl e \<Rightarrow> Inl e | Inr as' \<Rightarrow> Inr (a' # as')))"

definition validateActions :: "monitor \<Rightarrow> monitor_error + monitor" where
  "validateActions m =
     (if mn_actions m = [] then Inr m
      else if mn_env_id m = [] then Inl ActionsNeedHost
      else if 5 < length (mn_actions m) then Inl TooManyActions
      else (let m = (if mn_action_cooldown_secs m = 0 then m\<lparr>mn_action_cooldown_secs := DefaultActionCooldown\<rparr> else m)
            in if mn_action_cooldown_secs m < 60 \<or> 24 * 60 * 60 < mn_action_cooldown_secs m then Inl BadCooldown
               else (case check_actions (mn_actions m) of
                       Inl e \<Rightarrow> Inl e
                     | Inr as \<Rightarrow> Inr (m\<lparr>mn_actions := as\<rparr>))))"

definition validate :: "monitor \<Rightarrow> monitor_error + monitor" where
  "validate m =
     (if trim_space (mn_name m) = [] then Inl BlankName
      else if metricColumns (mn_metric m) = None then Inl ErrUnknownMetric
      else if comparisons (mn_op m) = None then Inl ErrBadComparison
      else if mn_duration_secs m < 60 then Inl WindowTooShort
      else (case validateActions m of
              Inl e \<Rightarrow> Inl e
            | Inr m \<Rightarrow>
                if PercentMetric (mn_metric m)
                then (if mn_threshold m < 0 \<or> 100 < mn_threshold m then Inl NotAPercentage else Inr m)
                else if mn_threshold m \<le> 0 then Inl NotAQuantity
                else Inr m))"

definition encodeActions :: "monitor_action list \<Rightarrow> stored_action list" where
  "encodeActions as =
     map (\<lambda>a. \<lparr>sa_kind = ma_kind a, sa_command = ma_command a, sa_timeout_secs = ma_timeout_secs a, sa_by = ma_by a,
       sa_limit = ma_limit a, sa_url = ma_url a, sa_secret_enc = ma_secret_enc a\<rparr>) as"

definition decodeActions :: "stored_action list \<Rightarrow> monitor_action list" where
  "decodeActions ss =
     map (\<lambda>a. \<lparr>ma_kind = sa_kind a, ma_command = sa_command a, ma_timeout_secs = sa_timeout_secs a, ma_by = sa_by a,
       ma_limit = sa_limit a, ma_url = sa_url a, ma_secret = [], ma_secret_enc = sa_secret_enc a,
       ma_has_secret = (sa_secret_enc a \<noteq> [])\<rparr>) ss"

definition cooldown :: "monitor \<Rightarrow> int" where
  "cooldown m = (if mn_action_cooldown_secs m = 0 then DefaultActionCooldown else mn_action_cooldown_secs m)"

section \<open>The tables\<close>

datatype alert_state = AlertFiring | AlertResolved

datatype resolve_reason = NoReason | BackWithin string rat | StoppedReporting | MonitorDisabled

record action_result =
  ar_kind :: string
  ar_ok :: bool
  ar_detail :: string
  ar_at :: int

record alert =
  al_id :: ident
  al_monitor_id :: ident
  al_env_id :: ident
  al_container_name :: string
  al_container_id :: ident
  al_stack :: string
  al_state :: alert_state
  al_value :: rat
  al_started_at :: int
  al_last_seen_at :: int
  al_resolved_at :: "int option"
  al_resolve_reason :: resolve_reason
  al_actions_at :: "int option"
  al_actions_log :: "action_result list"

text \<open>A row of \<^verbatim>\<open>resource_monitors\<close> is the rule without its actions, and the actions as they are stored.\<close>

record mdb =
  md_settings :: "monitor_settings option"
  md_monitors :: "(monitor \<times> stored_action list) list"
  md_alerts :: "alert list"
  md_samples :: "sample list"
  md_environments :: "ident list"

definition MonitorSettings :: "mdb \<Rightarrow> monitor_settings" where
  "MonitorSettings s =
     (case md_settings s of
        None \<Rightarrow> \<lparr>ms_enabled = True, ms_interval_secs = 30, ms_retention_days = 7, ms_updated_at = 0\<rparr>
      | Some m \<Rightarrow> if ms_interval_secs m < MinIntervalSecs then m\<lparr>ms_interval_secs := MinIntervalSecs\<rparr> else m)"

definition SaveMonitorSettings :: "mdb \<Rightarrow> monitor_settings \<Rightarrow> int \<Rightarrow> monitor_error + mdb" where
  "SaveMonitorSettings s m now =
     (if ms_retention_days m < 1 \<or> MaxRetentionDays < ms_retention_days m then Inl ErrRetentionTooLong
      else if ms_interval_secs m < MinIntervalSecs then Inl ErrIntervalTooShort
      else Inr (s\<lparr>md_settings := Some (m\<lparr>ms_updated_at := now\<rparr>)\<rparr>))"

definition scanMonitor :: "monitor \<times> stored_action list \<Rightarrow> monitor" where
  "scanMonitor r = (fst r)\<lparr>mn_actions := decodeActions (snd r)\<rparr>"

definition env_fk :: "mdb \<Rightarrow> ident \<Rightarrow> bool" where
  "env_fk s e \<longleftrightarrow> e = [] \<or> e \<in> set (md_environments s)"

definition CreateMonitor :: "mdb \<Rightarrow> monitor \<Rightarrow> ident \<Rightarrow> int \<Rightarrow> monitor_error + (monitor \<times> mdb)" where
  "CreateMonitor s m new_id now =
     (case validate m of
        Inl e \<Rightarrow> Inl e
      | Inr m \<Rightarrow>
          (let m = m\<lparr>mn_id := ''mon_'' @ new_id, mn_created_at := now, mn_updated_at := now\<rparr>;
               row = (m\<lparr>mn_actions := [], mn_action_cooldown_secs := cooldown m\<rparr>, encodeActions (mn_actions m))
           in if \<not> env_fk s (mn_env_id m) \<or> mn_id m \<in> (mn_id \<circ> fst) ` set (md_monitors s) then Inl MonitorConstraint
              else Inr (m, s\<lparr>md_monitors := md_monitors s @ [row]\<rparr>)))"

definition close_alerts :: "mdb \<Rightarrow> (alert \<Rightarrow> bool) \<Rightarrow> resolve_reason \<Rightarrow> int \<Rightarrow> mdb" where
  "close_alerts s p reason now =
     s\<lparr>md_alerts := update_where (\<lambda>a. p a \<and> al_state a = AlertFiring)
         (\<lambda>a. a\<lparr>al_state := AlertResolved, al_resolved_at := Some now, al_resolve_reason := reason\<rparr>) (md_alerts s)\<rparr>"

definition resolveAlertsFor :: "mdb \<Rightarrow> ident \<Rightarrow> resolve_reason \<Rightarrow> int \<Rightarrow> mdb" where
  "resolveAlertsFor s mid reason now = close_alerts s (\<lambda>a. al_monitor_id a = mid) reason now"

definition ResolveAlert :: "mdb \<Rightarrow> ident \<Rightarrow> resolve_reason \<Rightarrow> int \<Rightarrow> mdb" where
  "ResolveAlert s aid reason now = close_alerts s (\<lambda>a. al_id a = aid) reason now"

definition UpdateMonitor :: "mdb \<Rightarrow> monitor \<Rightarrow> int \<Rightarrow> monitor_error + (monitor \<times> mdb)" where
  "UpdateMonitor s m now =
     (case validate m of
        Inl e \<Rightarrow> Inl e
      | Inr m \<Rightarrow>
          if count_where (\<lambda>r. mn_id (fst r) = mn_id m) (md_monitors s) = 0 then Inl MonitorNotFound
          else if \<not> env_fk s (mn_env_id m) then Inl MonitorConstraint
          else (let s = s\<lparr>md_monitors := update_where (\<lambda>r. mn_id (fst r) = mn_id m)
                    (\<lambda>r. (m\<lparr>mn_actions := [], mn_action_cooldown_secs := cooldown m,
                             mn_created_at := mn_created_at (fst r), mn_updated_at := now\<rparr>, encodeActions (mn_actions m)))
                    (md_monitors s)\<rparr>
                in Inr (m\<lparr>mn_updated_at := now\<rparr>, if mn_enabled m then s else resolveAlertsFor s (mn_id m) MonitorDisabled now)))"

definition MonitorByID :: "mdb \<Rightarrow> ident \<Rightarrow> monitor_error + monitor" where
  "MonitorByID s mid =
     (case filter (\<lambda>r. mn_id (fst r) = mid) (md_monitors s) of [] \<Rightarrow> Inl MonitorNotFound | r # _ \<Rightarrow> Inr (scanMonitor r))"

definition DeleteMonitor :: "mdb \<Rightarrow> ident \<Rightarrow> monitor_error + mdb" where
  "DeleteMonitor s mid =
     (if count_where (\<lambda>r. mn_id (fst r) = mid) (md_monitors s) = 0 then Inl MonitorNotFound
      else Inr (s\<lparr>md_monitors := delete_where (\<lambda>r. mn_id (fst r) = mid) (md_monitors s),
                  md_alerts := delete_where (\<lambda>a. al_monitor_id a = mid) (md_alerts s)\<rparr>))"

definition ListMonitors :: "mdb \<Rightarrow> bool \<Rightarrow> ident list \<Rightarrow> monitor list" where
  "ListMonitors s global envs =
     (if \<not> global \<and> envs = [] then []
      else sort_key mn_name (map scanMonitor
             (filter (\<lambda>r. global \<or> mn_env_id (fst r) \<noteq> [] \<and> mn_env_id (fst r) \<in> set envs) (md_monitors s))))"

definition EnabledMonitors :: "mdb \<Rightarrow> monitor list" where
  "EnabledMonitors s = sort_key mn_name (map scanMonitor (filter (\<lambda>r. mn_enabled (fst r)) (md_monitors s)))"

section \<open>Evaluation\<close>

record breach =
  br_env_id :: ident
  br_container_name :: string
  br_container_id :: ident
  br_stack :: string
  br_samples :: int
  br_breaching :: int
  br_worst :: rat
  br_best :: rat

definition HasCoverage :: "breach \<Rightarrow> int \<Rightarrow> bool" where
  "HasCoverage b expected \<longleftrightarrow> max 2 (expected div 2) \<le> br_samples b"

definition Sustained :: "breach \<Rightarrow> int \<Rightarrow> bool" where
  "Sustained b expected \<longleftrightarrow> HasCoverage b expected \<and> br_breaching b = br_samples b"

text \<open>\<^verbatim>\<open>GROUP BY\<close>: the keys that occur, each with its rows, and the SQL aggregates of a group.\<close>

definition group_by :: "('r \<Rightarrow> 'k) \<Rightarrow> 'r list \<Rightarrow> ('k \<times> 'r list) list" where
  "group_by key rs = map (\<lambda>k. (k, filter (\<lambda>r. key r = k) rs)) (remdups (map key rs))"

definition max_of :: "'a::linorder list \<Rightarrow> 'a" where
  "max_of xs = fold max (tl xs) (hd xs)"

definition min_of :: "'a::linorder list \<Rightarrow> 'a" where
  "min_of xs = fold min (tl xs) (hd xs)"

definition HostSentinel :: string where
  "HostSentinel = '':host''"

definition sample_target :: "sample \<Rightarrow> string" where
  "sample_target r = (if sm_service r = [] then sm_container_name r else sm_service r)"

definition window_from :: "monitor \<Rightarrow> int \<Rightarrow> int" where
  "window_from m atime = (atime + wrap64 (- mn_duration_secs m * second)) div second"

definition selected :: "monitor \<Rightarrow> int \<Rightarrow> sample \<Rightarrow> bool" where
  "selected m atime r \<longleftrightarrow>
     window_from m atime < sm_ts_unix r \<and> sm_ts_unix r \<le> atime div second \<and> sm_container_name r \<noteq> HostSentinel \<and>
     (mn_env_id m = [] \<or> sm_env_id r = mn_env_id m) \<and> (mn_stack m = [] \<or> sm_stack r = mn_stack m) \<and>
     (mn_container m = [] \<or> sample_target r = mn_container m \<or> sm_container_name r = mn_container m)"

type_synonym series_key = "ident \<times> string \<times> string"

definition sample_series :: "sample \<Rightarrow> series_key" where
  "sample_series r = (sm_env_id r, sm_stack r, sample_target r)"

text \<open>The inner query: one row per series and timestamp, with the worst reading of the replicas.\<close>

record point =
  pt_series :: series_key
  pt_ts :: int
  pt_cid :: ident
  pt_v :: rat

definition points :: "string \<Rightarrow> (sample \<Rightarrow> rat) \<Rightarrow> sample list \<Rightarrow> point list" where
  "points op col rows =
     map (\<lambda>(k, rs). \<lparr>pt_series = fst k, pt_ts = snd k, pt_cid = max_of (map sm_container_id rs),
              pt_v = (if op = ''<'' then min_of (map col rs) else max_of (map col rs))\<rparr>)
       (group_by (\<lambda>r. (sample_series r, sm_ts_unix r)) rows)"

definition breach_of :: "string \<Rightarrow> (rat \<Rightarrow> rat \<Rightarrow> bool) \<Rightarrow> rat \<Rightarrow> series_key \<Rightarrow> point list \<Rightarrow> breach" where
  "breach_of op cmp threshold k ps =
     (case k of (env, stack, target) \<Rightarrow>
        \<lparr>br_env_id = env, br_container_name = target, br_container_id = max_of (map pt_cid ps), br_stack = stack,
         br_samples = int (length ps), br_breaching = int (count_where (\<lambda>p. cmp (pt_v p) threshold) ps),
         br_worst = (if op = ''<'' then min_of (map pt_v ps) else max_of (map pt_v ps)),
         br_best = (if op = ''<'' then max_of (map pt_v ps) else min_of (map pt_v ps))\<rparr>)"

definition Evaluate :: "mdb \<Rightarrow> monitor \<Rightarrow> int \<Rightarrow> monitor_error + breach list" where
  "Evaluate s m atime =
     (case metricColumns (mn_metric m) of
        None \<Rightarrow> Inl ErrUnknownMetric
      | Some col \<Rightarrow>
          (case comparisons (mn_op m) of
             None \<Rightarrow> Inl ErrBadComparison
           | Some cmp \<Rightarrow>
               Inr (map (\<lambda>(k, ps). breach_of (mn_op m) cmp (mn_threshold m) k ps)
                      (group_by pt_series (points (mn_op m) col (filter (selected m atime) (md_samples s)))))))"

section \<open>Alerts\<close>

definition FiringAlert :: "mdb \<Rightarrow> ident \<Rightarrow> string \<Rightarrow> alert option" where
  "FiringAlert s mid name =
     (case filter (\<lambda>a. al_monitor_id a = mid \<and> al_container_name a = name \<and> al_state a = AlertFiring) (md_alerts s) of
        [] \<Rightarrow> None | a # _ \<Rightarrow> Some a)"

definition RaiseAlert :: "mdb \<Rightarrow> alert \<Rightarrow> ident \<Rightarrow> int \<Rightarrow> monitor_error + (alert \<times> mdb)" where
  "RaiseAlert s a new_id now =
     (let a = a\<lparr>al_id := ''alr_'' @ new_id, al_state := AlertFiring, al_started_at := now, al_last_seen_at := now\<rparr>
      in if al_monitor_id a \<notin> (mn_id \<circ> fst) ` set (md_monitors s) \<or> al_id a \<in> al_id ` set (md_alerts s)
         then Inl MonitorConstraint
         else Inr (a, s\<lparr>md_alerts := md_alerts s @ [a]\<rparr>))"

definition TouchAlert :: "mdb \<Rightarrow> ident \<Rightarrow> rat \<Rightarrow> int \<Rightarrow> mdb" where
  "TouchAlert s aid v now =
     s\<lparr>md_alerts := update_where (\<lambda>a. al_id a = aid \<and> al_state a = AlertFiring)
         (\<lambda>a. a\<lparr>al_value := v, al_last_seen_at := now\<rparr>) (md_alerts s)\<rparr>"

definition StaleAlerts :: "mdb \<Rightarrow> int \<Rightarrow> alert list" where
  "StaleAlerts s before = filter (\<lambda>a. al_state a = AlertFiring \<and> al_last_seen_at a < before) (md_alerts s)"

definition ListAlerts :: "mdb \<Rightarrow> bool \<Rightarrow> ident list \<Rightarrow> int \<Rightarrow> (alert \<times> string) list" where
  "ListAlerts s global envs limit =
     (let limit = (if limit \<le> 0 then 100 else limit);
          joined = [(a, mn_name (fst r)). a \<leftarrow> md_alerts s, global \<or> al_env_id a \<in> set envs,
                      r \<leftarrow> md_monitors s, mn_id (fst r) = al_monitor_id a]
      in if \<not> global \<and> envs = [] then []
         else take (nat limit)
                (order_desc (\<lambda>p. al_started_at (fst p)) (filter (\<lambda>p. al_state (fst p) = AlertFiring) joined) @
                 order_desc (\<lambda>p. al_started_at (fst p)) (filter (\<lambda>p. al_state (fst p) \<noteq> AlertFiring) joined)))"

definition ClaimAlertActions :: "mdb \<Rightarrow> ident \<Rightarrow> int \<Rightarrow> mdb" where
  "ClaimAlertActions s aid now =
     s\<lparr>md_alerts := update_where (\<lambda>a. al_id a = aid) (\<lambda>a. a\<lparr>al_actions_at := Some now\<rparr>) (md_alerts s)\<rparr>"

definition RecordAlertActions :: "mdb \<Rightarrow> ident \<Rightarrow> action_result list \<Rightarrow> mdb" where
  "RecordAlertActions s aid results =
     s\<lparr>md_alerts := update_where (\<lambda>a. al_id a = aid) (\<lambda>a. a\<lparr>al_actions_log := results\<rparr>) (md_alerts s)\<rparr>"

definition action_stamps :: "mdb \<Rightarrow> ident \<Rightarrow> string \<Rightarrow> int list" where
  "action_stamps s mid target =
     List.map_filter al_actions_at (filter (\<lambda>a. al_monitor_id a = mid \<and> al_container_name a = target) (md_alerts s))"

definition LastActionAt :: "mdb \<Rightarrow> ident \<Rightarrow> string \<Rightarrow> int option" where
  "LastActionAt s mid target =
     (case action_stamps s mid target of [] \<Rightarrow> None | t # ts \<Rightarrow> Some (max_of (t # ts)))"

section \<open>Groups\<close>

lemma group_by_in: "(k, g) \<in> set (group_by key rs) \<longleftrightarrow> k \<in> key ` set rs \<and> g = filter (\<lambda>r. key r = k) rs"
  by (auto simp: group_by_def)

lemma map_fst_group_by: "map fst (group_by key rs) = remdups (map key rs)"
  by (simp add: group_by_def comp_def)

lemma group_by_nonempty: "(k, g) \<in> set (group_by key rs) \<Longrightarrow> g \<noteq> []"
  by (auto simp: group_by_in filter_empty_conv)

lemma max_of_Max: "xs \<noteq> [] \<Longrightarrow> max_of xs = Max (set xs)"
  by (cases xs) (simp_all add: max_of_def Max.set_eq_fold del: list.set)

lemma min_of_Min: "xs \<noteq> [] \<Longrightarrow> min_of xs = Min (set xs)"
  by (cases xs) (simp_all add: min_of_def Min.set_eq_fold del: list.set)

lemma length_card: "distinct (map f xs) \<Longrightarrow> length xs = card (f ` set xs)"
  by (metis distinct_card length_map set_map)

lemma all_count: "(count_where p xs = length xs) = (\<forall>x \<in> set xs. p x)"
  by (metis count_where_def filter_id_conv length_filter_less linorder_neq_iff)

section \<open>What a breach says\<close>

definition series_rows :: "mdb \<Rightarrow> monitor \<Rightarrow> int \<Rightarrow> series_key \<Rightarrow> sample list" where
  "series_rows s m atime k = filter (\<lambda>r. selected m atime r \<and> sample_series r = k) (md_samples s)"

lemma point_in:
  "p \<in> set (points op col rows) \<longleftrightarrow>
    (\<exists>r \<in> set rows. let rs = filter (\<lambda>q. sample_series q = sample_series r \<and> sm_ts_unix q = sm_ts_unix r) rows in
       p = \<lparr>pt_series = sample_series r, pt_ts = sm_ts_unix r, pt_cid = max_of (map sm_container_id rs),
            pt_v = (if op = ''<'' then min_of (map col rs) else max_of (map col rs))\<rparr>)"
  by (auto simp: points_def group_by_def Let_def image_iff)

lemma points_times:
  "pt_ts ` set (filter (\<lambda>p. pt_series p = k) (points op col rows)) =
     sm_ts_unix ` set (filter (\<lambda>r. sample_series r = k) rows)"
proof (intro equalityI subsetI)
  fix t assume "t \<in> pt_ts ` set (filter (\<lambda>p. pt_series p = k) (points op col rows))"
  then show "t \<in> sm_ts_unix ` set (filter (\<lambda>r. sample_series r = k) rows)"
    by (auto simp: point_in Let_def)
next
  fix t assume "t \<in> sm_ts_unix ` set (filter (\<lambda>r. sample_series r = k) rows)"
  then obtain r where r: "r \<in> set rows" "sample_series r = k" "t = sm_ts_unix r" by auto
  obtain p where "p \<in> set (points op col rows)" "pt_series p = sample_series r" "pt_ts p = sm_ts_unix r"
    using r(1) unfolding point_in Let_def by (metis point.select_convs(1,2))
  with r show "t \<in> pt_ts ` set (filter (\<lambda>p. pt_series p = k) (points op col rows))"
    by (auto intro!: image_eqI[of _ _ p])
qed

lemma points_distinct: "distinct (map (\<lambda>p. (pt_series p, pt_ts p)) (points op col rows))"
  by (simp add: points_def group_by_def comp_def case_prod_unfold)

lemma points_times_distinct: "distinct (map pt_ts (filter (\<lambda>p. pt_series p = k) (points op col rows)))"
proof -
  have "inj_on (\<lambda>p. (pt_series p, pt_ts p)) (set (points op col rows))" "distinct (points op col rows)"
    using points_distinct[of op col rows] by (simp_all add: distinct_map)
  then show ?thesis by (auto simp: distinct_map inj_on_def)
qed

lemma point_breaches:
  assumes "p \<in> set (points op col rows)" "comparisons op = Some cmp"
  shows "cmp (pt_v p) t = (\<exists>r \<in> set rows. sample_series r = pt_series p \<and> sm_ts_unix r = pt_ts p \<and> cmp (col r) t)"
proof -
  from assms(1) obtain r where r: "r \<in> set rows" and p: "p = (let rs = filter (\<lambda>q. sample_series q = sample_series r \<and> sm_ts_unix q = sm_ts_unix r) rows in
       \<lparr>pt_series = sample_series r, pt_ts = sm_ts_unix r, pt_cid = max_of (map sm_container_id rs),
            pt_v = (if op = ''<'' then min_of (map col rs) else max_of (map col rs))\<rparr>)"
    by (auto simp: point_in Let_def)
  let ?rs = "filter (\<lambda>q. sample_series q = sample_series r \<and> sm_ts_unix q = sm_ts_unix r) rows"
  have ne: "map col ?rs \<noteq> []" using r by (auto simp: filter_empty_conv)
  have "pt_series p = sample_series r" "pt_ts p = sm_ts_unix r" by (simp_all add: p Let_def)
  moreover have "pt_v p = (if op = ''<'' then Min (set (map col ?rs)) else Max (set (map col ?rs)))"
    by (simp add: p Let_def max_of_Max[OF ne] min_of_Min[OF ne] del: set_map)
  moreover have "(if op = ''<'' then cmp = (\<lambda>v t. v < t) else cmp = (\<lambda>v t. v > t))"
    using assms(2) by (auto simp: comparisons_def split: if_split_asm)
  moreover have "(Min (set (map col ?rs)) < t) = (\<exists>x \<in> set (map col ?rs). x < t)"
    "(t < Max (set (map col ?rs))) = (\<exists>x \<in> set (map col ?rs). t < x)"
    using ne by (auto simp: Min_less_iff Max_gr_iff simp del: set_map set_filter)
  ultimately show ?thesis by (auto split: if_split_asm)
qed


lemma Evaluate_breach:
  assumes "Evaluate s m atime = Inr bs" "b \<in> set bs"
  obtains col cmp ps where "metricColumns (mn_metric m) = Some col" "comparisons (mn_op m) = Some cmp"
    "ps = filter (\<lambda>p. pt_series p = (br_env_id b, br_stack b, br_container_name b))
       (points (mn_op m) col (filter (selected m atime) (md_samples s)))"
    "br_samples b = int (length ps)" "br_breaching b = int (count_where (\<lambda>p. cmp (pt_v p) (mn_threshold m)) ps)"
  using assms
  by (auto simp: Evaluate_def group_by_def breach_of_def split: option.split_asm prod.split_asm)

text \<open>What a firing rule means. A rule counts a series' readings by their times, however many
  replicas reported; it holds when there are at least two times and half of those expected, and at
  every one of them some replica was over the line.\<close>

lemma sustained_means_whole_window:
  assumes "Evaluate s m atime = Inr bs" "b \<in> set bs"
  shows "let rows = series_rows s m atime (br_env_id b, br_stack b, br_container_name b);
             times = sm_ts_unix ` set rows
         in br_samples b = int (card times) \<and>
            (Sustained b expected \<longleftrightarrow> 2 \<le> card times \<and> expected div 2 \<le> int (card times) \<and>
               (\<forall>t \<in> times. \<exists>r \<in> set rows. sm_ts_unix r = t \<and>
                  the (comparisons (mn_op m)) (the (metricColumns (mn_metric m)) r) (mn_threshold m)))"
proof -
  let ?k = "(br_env_id b, br_stack b, br_container_name b)"
  let ?sel = "filter (selected m atime) (md_samples s)"
  obtain col cmp ps where c: "metricColumns (mn_metric m) = Some col" "comparisons (mn_op m) = Some cmp"
    and ps: "ps = filter (\<lambda>p. pt_series p = ?k) (points (mn_op m) col ?sel)"
    and n: "br_samples b = int (length ps)" "br_breaching b = int (count_where (\<lambda>p. cmp (pt_v p) (mn_threshold m)) ps)"
    by (rule Evaluate_breach[OF assms])
  have rows: "series_rows s m atime ?k = filter (\<lambda>r. sample_series r = ?k) ?sel"
    by (simp add: series_rows_def conj_commute)
  have times: "pt_ts ` set ps = sm_ts_unix ` set (series_rows s m atime ?k)"
    unfolding ps rows by (rule points_times)
  have card: "length ps = card (sm_ts_unix ` set (series_rows s m atime ?k))"
    unfolding times[symmetric] unfolding ps by (rule length_card[OF points_times_distinct])
  have "(\<forall>p \<in> set ps. cmp (pt_v p) (mn_threshold m)) =
      (\<forall>p \<in> set ps. \<exists>r \<in> set (series_rows s m atime ?k). sm_ts_unix r = pt_ts p \<and> cmp (col r) (mn_threshold m))"
    by (rule ball_cong[OF refl]) (auto simp: ps rows point_breaches[OF _ c(2)])
  also have "\<dots> = (\<forall>t \<in> sm_ts_unix ` set (series_rows s m atime ?k).
      \<exists>r \<in> set (series_rows s m atime ?k). sm_ts_unix r = t \<and> cmp (col r) (mn_threshold m))"
    unfolding times[symmetric] by blast
  finally show ?thesis
    using all_count[of "\<lambda>p. cmp (pt_v p) (mn_threshold m)" ps]
    by (auto simp: Let_def Sustained_def HasCoverage_def n card c)
qed

end
