(* ===== verification/Alerts.thy ===== *)
theory Alerts
  imports Monitors Caps "HOL-Library.Signed_Division"
begin

text \<open>
  Deciding what is firing, \<^verbatim>\<open>internal/monitor/evaluate.go\<close>; what a firing alert does,
  \<^verbatim>\<open>internal/api/monitor_actions.go\<close>; and who may write such a rule, \<^verbatim>\<open>internal/api/monitor_handlers.go\<close>.

  The state of a round is the tables, the number of identifiers drawn so far, and a trace of the
  messages sent and the action runs started. The texts of the messages are not modelled; a
  resolution keeps its reason as data. A round reads the clock once. The action runner is
  installed, as \<^verbatim>\<open>cmd/daffa\<close> does at startup, and runs on its own after the round. Every result a run
  of the actions records is also audited; the audit log is not part of this state.
\<close>

section \<open>A round\<close>

datatype mon_event =
    Fired ident ident "alert list"
  | Recovered ident ident resolve_reason
  | ActionsStarted ident ident

record mon_world =
  mw_db :: mdb
  mw_minted :: nat
  mw_events :: "mon_event list"

definition notifyFired :: "mon_world \<Rightarrow> monitor \<Rightarrow> ident \<Rightarrow> alert list \<Rightarrow> mon_world" where
  "notifyFired w m env alerts =
     w\<lparr>mw_events := mw_events w @ [Fired (mn_id m) env (sort_key al_container_name alerts)]\<rparr>"

definition resolve :: "mon_world \<Rightarrow> alert \<Rightarrow> resolve_reason \<Rightarrow> int \<Rightarrow> mon_world" where
  "resolve w a reason now =
     w\<lparr>mw_db := ResolveAlert (mw_db w) (al_id a) reason now,
       mw_events := mw_events w @ [Recovered (al_id a) (al_env_id a) reason]\<rparr>"

definition new_alert :: "monitor \<Rightarrow> breach \<Rightarrow> alert" where
  "new_alert m b =
     \<lparr>al_id = [], al_monitor_id = mn_id m, al_env_id = br_env_id b, al_container_name = br_container_name b,
      al_container_id = br_container_id b, al_stack = br_stack b, al_state = AlertFiring, al_value = br_worst b,
      al_started_at = 0, al_last_seen_at = 0, al_resolved_at = None, al_resolve_reason = NoReason,
      al_actions_at = None, al_actions_log = []\<rparr>"

definition evaluate_breach ::
  "(nat \<Rightarrow> ident) \<Rightarrow> monitor \<Rightarrow> int \<Rightarrow> int \<Rightarrow> breach \<Rightarrow> mon_world \<times> (ident \<times> alert list) list \<Rightarrow>
   mon_world \<times> (ident \<times> alert list) list" where
  "evaluate_breach new_id m expected now b acc =
     (case acc of (w, fired) \<Rightarrow>
        (let open = FiringAlert (mw_db w) (mn_id m) (br_container_name b) in
         if \<not> HasCoverage b expected then (w, fired)
         else if Sustained b expected \<and> open = None then
           (case RaiseAlert (mw_db w) (new_alert m b) (new_id (mw_minted w)) now of
              Inl e \<Rightarrow> (w\<lparr>mw_minted := Suc (mw_minted w)\<rparr>, fired)
            | Inr (a, s) \<Rightarrow>
                (w\<lparr>mw_db := s, mw_minted := Suc (mw_minted w),
                   mw_events := mw_events w @ (if mn_actions m \<noteq> [] then [ActionsStarted (mn_id m) (al_id a)] else [])\<rparr>,
                 gput fired (br_env_id b) (gget [] fired (br_env_id b) @ [a])))
         else if Sustained b expected then
           (case open of None \<Rightarrow> (w, fired) | Some a \<Rightarrow> (w\<lparr>mw_db := TouchAlert (mw_db w) (al_id a) (br_worst b) now\<rparr>, fired))
         else (case open of
                 None \<Rightarrow> (w, fired)
               | Some a \<Rightarrow> (resolve w a (BackWithin (mn_metric m) (br_best b)) now, fired))))"

definition expected_samples :: "monitor \<Rightarrow> int \<Rightarrow> int" where
  "expected_samples m interval = wrap64 (mn_duration_secs m * second) sdiv interval"

definition evaluate :: "(nat \<Rightarrow> ident) \<Rightarrow> mon_world \<Rightarrow> monitor \<Rightarrow> int \<Rightarrow> int \<Rightarrow> int \<Rightarrow> mon_world" where
  "evaluate new_id w m atime interval now =
     (case Evaluate (mw_db w) m atime of
        Inl e \<Rightarrow> w
      | Inr breaches \<Rightarrow>
          (case fold (evaluate_breach new_id m (expected_samples m interval) now) breaches (w, []) of
             (w, fired) \<Rightarrow> fold (\<lambda>(env, alerts) w. notifyFired w m env alerts) fired w))"

definition resolveStale :: "mon_world \<Rightarrow> int \<Rightarrow> int \<Rightarrow> int \<Rightarrow> mon_world" where
  "resolveStale w atime interval now =
     fold (\<lambda>a w. case MonitorByID (mw_db w) (al_monitor_id a) of
                   Inl e \<Rightarrow> w | Inr m \<Rightarrow> resolve w a StoppedReporting now)
       (StaleAlerts (mw_db w) (atime + wrap64 (- 3 * interval))) w"

definition Run :: "(nat \<Rightarrow> ident) \<Rightarrow> mon_world \<Rightarrow> int \<Rightarrow> int \<Rightarrow> mon_world" where
  "Run new_id w atime now =
     (let interval = Interval (MonitorSettings (mw_db w))
      in resolveStale (fold (\<lambda>m w. evaluate new_id w m atime interval now) (EnabledMonitors (mw_db w)) w)
           atime interval now)"

section \<open>What a firing alert does\<close>

text \<open>The clusters and their daemons, the network, the sealer, JSON, HMAC-SHA256 and the formatting of
  times. A container is known to the daemons by its id and to people by its name.\<close>

record live_container =
  lc_id :: ident
  lc_name :: string
  lc_service :: string
  lc_project :: string

record cluster_view =
  cv_swarm :: bool
  cv_control :: bool
  cv_nodes :: "live_container list option list"

record request =
  rq_url :: string
  rq_body :: string
  rq_signature :: "string option"
  rq_timeout :: int

record action_target =
  tg_swarm_service :: string
  tg_containers :: "live_container list"

record daemon =
  dm_cluster :: "ident \<Rightarrow> cluster_view option"
  dm_restart_service :: "string \<Rightarrow> string option"
  dm_restart :: "string \<Rightarrow> string option"
  dm_exec :: "string \<Rightarrow> string list \<Rightarrow> int \<Rightarrow> string + int \<times> string"
  dm_replicas :: "string \<Rightarrow> string + int \<times> bool"
  dm_scale :: "string \<Rightarrow> int \<Rightarrow> string option"
  dm_payload :: "monitor \<Rightarrow> alert \<Rightarrow> string"
  dm_bad_url :: "string \<Rightarrow> string option"
  dm_open :: "string \<Rightarrow> string option"
  dm_hmac :: "string \<Rightarrow> string \<Rightarrow> string"
  dm_http :: "request \<Rightarrow> string + int"
  dm_time :: "int \<Rightarrow> string"
  dm_duration :: "int \<Rightarrow> string"

datatype effect = ServiceRestarted string | ContainerRestarted ident | Executed ident "string list" | Scaled string int | Posted request

definition matchesAlertTarget :: "live_container \<Rightarrow> alert \<Rightarrow> bool" where
  "matchesAlertTarget c a \<longleftrightarrow>
     lc_service c \<noteq> [] \<and> lc_service c = al_container_name a \<and> (al_stack a = [] \<or> lc_project c = al_stack a) \<or>
     lc_name c = al_container_name a"

definition resolveActionTarget :: "daemon \<Rightarrow> alert \<Rightarrow> string + action_target" where
  "resolveActionTarget dm a =
     (case dm_cluster dm (al_env_id a) of
        None \<Rightarrow> Inl (''the cluster is not connected, so nothing could be done to '' @ al_container_name a)
      | Some cv \<Rightarrow>
          (let service = (if cv_swarm cv \<and> cv_control cv \<and> \<not> isl (dm_replicas dm (al_container_name a)) then al_container_name a else []);
               cs = [c. Some cs \<leftarrow> cv_nodes cv, c \<leftarrow> cs, matchesAlertTarget c a]
           in if service = [] \<and> cs = []
              then Inl (''no running container matches '' @ al_container_name a @ '' any more '' @ em_dash @
                     '' it was removed or redeployed under another name'')
              else Inr \<lparr>tg_swarm_service = service, tg_containers = cs\<rparr>))"

definition scaleTarget :: "int \<Rightarrow> int \<Rightarrow> int \<Rightarrow> int \<times> string" where
  "scaleTarget cur by limit =
     (let want = cur + by
      in if 0 < by then (min want (max limit cur), ''ceiling'') else (max want (min limit cur), ''floor''))"

definition orDefault :: "int \<Rightarrow> int \<Rightarrow> int" where
  "orDefault v d = (if v \<le> 0 then d else v)"

definition joinOutcome :: "string \<Rightarrow> string list \<Rightarrow> string list \<Rightarrow> string" where
  "joinOutcome verb done failed =
     join '' '' ((if done \<noteq> [] then [verb @ '' '' @ join '', '' done @ ''.''] else []) @
                 (if failed \<noteq> [] then [''Failed: '' @ join ''; '' failed @ ''.''] else []))"

definition postAlert :: "daemon \<Rightarrow> monitor_action \<Rightarrow> monitor \<Rightarrow> alert \<Rightarrow> (string + int) \<times> effect list" where
  "postAlert dm act m a =
     (let body = dm_payload dm m a;
          rq = \<lparr>rq_url = ma_url act, rq_body = body, rq_signature = None, rq_timeout = orDefault (ma_timeout_secs act) 10\<rparr>;
          send = (\<lambda>rq. (case dm_http dm rq of Inl err \<Rightarrow> Inl (''POST '' @ ma_url act @ '': '' @ err) | Inr code \<Rightarrow> Inr code, [Posted rq]))
      in (case dm_bad_url dm (ma_url act) of
            Some err \<Rightarrow> (Inl err, [])
          | None \<Rightarrow>
              if ma_secret_enc act = [] then send rq
              else (case dm_open dm (ma_secret_enc act) of
                      None \<Rightarrow> (Inl (''the signing secret could not be opened '' @ em_dash @ '' was the master key replaced?''), [])
                    | Some secret \<Rightarrow> send (rq\<lparr>rq_signature := Some (''sha256='' @ dm_hmac dm secret body)\<rparr>))))"

definition result :: "string \<Rightarrow> bool \<Rightarrow> string \<Rightarrow> action_result" where
  "result kind ok detail = \<lparr>ar_kind = kind, ar_ok = ok, ar_detail = detail, ar_at = 0\<rparr>"

definition exec_line :: "daemon \<Rightarrow> monitor_action \<Rightarrow> live_container \<Rightarrow> bool \<times> string" where
  "exec_line dm act c =
     (case dm_exec dm (lc_id c) (ma_command act) (orDefault (ma_timeout_secs act) 60) of
        Inl err \<Rightarrow> (False, lc_name c @ '': '' @ err @ nl)
      | Inr (code, out) \<Rightarrow> (code = 0, lc_name c @ '': exit '' @ show_int code @ nl @ out @ nl))"

definition runAction :: "daemon \<Rightarrow> monitor_action \<Rightarrow> monitor \<Rightarrow> alert \<Rightarrow> action_target \<Rightarrow> action_result \<times> effect list" where
  "runAction dm act m a t =
     (if ma_kind act = ''restart'' then
        (if tg_swarm_service t \<noteq> [] then
           (case dm_restart_service dm (tg_swarm_service t) of
              Some err \<Rightarrow> (result ''restart'' False (''force-updating '' @ tg_swarm_service t @ '': '' @ err), [])
            | None \<Rightarrow> (result ''restart'' True (''Force-updated '' @ tg_swarm_service t @ '' '' @ em_dash @
                         '' swarm replaces its tasks under its own update policy.''), [ServiceRestarted (tg_swarm_service t)]))
         else
           (let done = filter (\<lambda>c. dm_restart dm (lc_id c) = None) (tg_containers t);
                failed = [lc_name c @ '': '' @ err. c \<leftarrow> tg_containers t, Some err \<leftarrow> [dm_restart dm (lc_id c)]]
            in (result ''restart'' (failed = []) (joinOutcome ''Restarted'' (map lc_name done) failed),
                map (\<lambda>c. ContainerRestarted (lc_id c)) done)))
      else if ma_kind act = ''exec'' then
        (let lines = map (exec_line dm act) (tg_containers t)
         in (result ''exec'' (list_all fst lines \<and> tg_containers t \<noteq> [])
               (trim_space (concat (map snd lines) @ (if tg_containers t = [] then ''no running container to run it in'' else []))),
             map (\<lambda>c. Executed (lc_id c) (ma_command act)) (tg_containers t)))
      else if ma_kind act = ''scale'' then
        (if tg_swarm_service t = [] then
           (result ''scale'' False (al_container_name a @ '' is not a swarm service '' @ em_dash @
              '' only a swarm service has replicas Daffa can change.''), [])
         else (case dm_replicas dm (tg_swarm_service t) of
                 Inl err \<Rightarrow> (result ''scale'' False err, [])
               | Inr (cur, replicated) \<Rightarrow>
                   if \<not> replicated then
                     (result ''scale'' False (tg_swarm_service t @ '' is a global service '' @ em_dash @
                        '' it runs one task per node and has no replica count.''), [])
                   else (case scaleTarget cur (ma_by act) (ma_limit act) of (want, bound) \<Rightarrow>
                     if want = cur then
                       (result ''scale'' True (''Already at '' @ show_int cur @ '' replicas, the '' @ bound @ '' this action may reach.''), [])
                     else (case dm_scale dm (tg_swarm_service t) want of
                             Some err \<Rightarrow> (result ''scale'' False err, [])
                           | None \<Rightarrow> (result ''scale'' True (''Scaled '' @ tg_swarm_service t @ '' from '' @ show_int cur @ '' to '' @
                               show_int want @ '' replicas.''), [Scaled (tg_swarm_service t) want])))))
      else if ma_kind act = ''http'' then
        (case postAlert dm act m a of
           (Inl err, es) \<Rightarrow> (result ''http'' False err, es)
         | (Inr code, es) \<Rightarrow>
             (result ''http'' (200 \<le> code \<and> code < 300) (''POST '' @ ma_url act @ '' answered '' @ show_int code @ ''.''), es))
      else (result (ma_kind act) False (''unknown action '' @ ma_kind act), []))"

definition cooling :: "mdb \<Rightarrow> monitor \<Rightarrow> alert \<Rightarrow> int \<Rightarrow> bool" where
  "cooling s m a now =
     (case LastActionAt s (mn_id m) (al_container_name a) of
        None \<Rightarrow> False | Some t \<Rightarrow> now - t < wrap64 (mn_action_cooldown_secs m * second))"

definition RunActions :: "daemon \<Rightarrow> mdb \<Rightarrow> monitor \<Rightarrow> alert \<Rightarrow> int \<Rightarrow> mdb \<times> effect list" where
  "RunActions dm s m a now =
     (if cooling s m a now then
        (RecordAlertActions s (al_id a)
           [(result ''cooldown'' False (''Skipped: this monitor'' @ [CHR 0x27] @ ''s actions last ran on '' @ al_container_name a @ '' at '' @
              dm_time dm (the (LastActionAt s (mn_id m) (al_container_name a))) @ '', and its cooldown is '' @
              dm_duration dm (wrap64 (mn_action_cooldown_secs m * second)) @ ''.''))\<lparr>ar_at := now\<rparr>], [])
      else
        (let s = ClaimAlertActions s (al_id a) now;
             outcomes = (case resolveActionTarget dm a of
                           Inl err \<Rightarrow> map (\<lambda>act. (result (ma_kind act) False err, [])) (mn_actions m)
                         | Inr t \<Rightarrow> map (\<lambda>act. runAction dm act m a t) (mn_actions m))
         in (RecordAlertActions s (al_id a) (map (\<lambda>p. (fst p)\<lparr>ar_at := now\<rparr>) outcomes), concat (map snd outcomes))))"

section \<open>Who may write a rule\<close>

definition mayMonitor :: "scoped_mask \<Rightarrow> ident \<Rightarrow> bool" where
  "mayMonitor caps env = (if env = [] then Has (Global caps) MonitorsEdit else sm_Has caps MonitorsEdit env)"

text \<open>The capability of an action and whether it is needed fleet-wide; no capability for an unknown kind.\<close>

definition actionCap :: "string \<Rightarrow> (cap \<times> bool) option" where
  "actionCap kind =
     (if kind = ''restart'' then Some (ContainersEdit, False)
      else if kind = ''exec'' then Some (ContainersExec, False)
      else if kind = ''scale'' then Some (ServicesEdit, False)
      else if kind = ''http'' then Some (SettingsEdit, True)
      else None)"

fun missing_action :: "scoped_mask \<Rightarrow> ident \<Rightarrow> monitor_action list \<Rightarrow> (string \<times> cap \<times> bool) option" where
  "missing_action caps env [] = None"
| "missing_action caps env (a # as) =
     (case actionCap (ma_kind a) of
        None \<Rightarrow> missing_action caps env as
      | Some (c, glob) \<Rightarrow>
          if (if glob then Has (Global caps) c else sm_Has caps c env) then missing_action caps env as
          else Some (ma_kind a, c, glob))"

definition missingActionCap :: "scoped_mask \<Rightarrow> monitor \<Rightarrow> (string \<times> cap \<times> bool) option" where
  "missingActionCap caps m = missing_action caps (mn_env_id m) (mn_actions m)"

definition kept_secret :: "monitor option \<Rightarrow> string \<Rightarrow> string" where
  "kept_secret prev url =
     (case prev of
        None \<Rightarrow> []
      | Some p \<Rightarrow>
          (case filter (\<lambda>q. ma_kind q = ''http'' \<and> ma_url q = trim_space url \<and> ma_secret_enc q \<noteq> []) (mn_actions p) of
             [] \<Rightarrow> [] | q # _ \<Rightarrow> ma_secret_enc q))"

fun sealActionSecrets :: "(string \<Rightarrow> string option) \<Rightarrow> monitor option \<Rightarrow> monitor_action list \<Rightarrow> monitor_action list option" where
  "sealActionSecrets seal prev [] = Some []"
| "sealActionSecrets seal prev (a # as) =
     (case (if ma_kind a \<noteq> ''http'' then Some (a\<lparr>ma_secret_enc := [], ma_secret := [], ma_has_secret := False\<rparr>)
            else if ma_secret a \<noteq> [] then
              (case seal (ma_secret a) of None \<Rightarrow> None | Some e \<Rightarrow> Some (a\<lparr>ma_secret_enc := e, ma_secret := []\<rparr>))
            else if ma_has_secret a then Some (a\<lparr>ma_secret_enc := kept_secret prev (ma_url a), ma_secret := []\<rparr>)
            else Some (a\<lparr>ma_secret_enc := [], ma_secret := []\<rparr>)) of
        None \<Rightarrow> None
      | Some a \<Rightarrow> map_option (\<lambda>as. a # as) (sealActionSecrets seal prev as))"

definition scrubActions :: "monitor \<Rightarrow> monitor" where
  "scrubActions m =
     m\<lparr>mn_actions := map (\<lambda>a. a\<lparr>ma_has_secret := (ma_secret_enc a \<noteq> []), ma_secret := []\<rparr>) (mn_actions m)\<rparr>"

datatype save_result = SaveForbidden | SealFailed | SaveRejected monitor_error | Saved monitor mdb

definition handleCreateMonitor ::
  "scoped_mask \<Rightarrow> (string \<Rightarrow> string option) \<Rightarrow> mdb \<Rightarrow> monitor \<Rightarrow> ident \<Rightarrow> int \<Rightarrow> save_result" where
  "handleCreateMonitor caps seal s m new_id now =
     (if \<not> mayMonitor caps (mn_env_id m) \<or> missingActionCap caps m \<noteq> None then SaveForbidden
      else (case sealActionSecrets seal None (mn_actions m) of
              None \<Rightarrow> SealFailed
            | Some as \<Rightarrow>
                (case CreateMonitor s (m\<lparr>mn_actions := as\<rparr>) new_id now of
                   Inl e \<Rightarrow> SaveRejected e
                 | Inr (m, s) \<Rightarrow> Saved (scrubActions m) s)))"

definition handleUpdateMonitor ::
  "scoped_mask \<Rightarrow> (string \<Rightarrow> string option) \<Rightarrow> mdb \<Rightarrow> ident \<Rightarrow> monitor \<Rightarrow> int \<Rightarrow> save_result" where
  "handleUpdateMonitor caps seal s mid m now =
     (let m = m\<lparr>mn_id := mid\<rparr> in
      if \<not> mayMonitor caps (mn_env_id m) \<or> missingActionCap caps m \<noteq> None then SaveForbidden
      else (case MonitorByID s mid of
              Inl e \<Rightarrow> SaveRejected e
            | Inr prev \<Rightarrow>
                (case sealActionSecrets seal (Some prev) (mn_actions m) of
                   None \<Rightarrow> SealFailed
                 | Some as \<Rightarrow>
                     (case UpdateMonitor s (m\<lparr>mn_actions := as\<rparr>) now of
                        Inl e \<Rightarrow> SaveRejected e
                      | Inr (m, s) \<Rightarrow> Saved (scrubActions m) s))))"

section \<open>The alerts, as a client sees them\<close>

definition monitor_ids :: "mdb \<Rightarrow> ident set" where
  "monitor_ids s = (mn_id \<circ> fst) ` set (md_monitors s)"

definition fires :: "ident \<Rightarrow> string \<Rightarrow> alert \<Rightarrow> bool" where
  "fires mid n a \<longleftrightarrow> al_monitor_id a = mid \<and> al_container_name a = n \<and> al_state a = AlertFiring"

definition firing :: "mdb \<Rightarrow> ident \<Rightarrow> string \<Rightarrow> bool" where
  "firing s mid n = list_ex (fires mid n) (md_alerts s)"

definition alerts_inv :: "mdb \<Rightarrow> bool" where
  "alerts_inv s \<longleftrightarrow> distinct (map al_id (md_alerts s)) \<and>
     (\<forall>a \<in> set (md_alerts s). al_monitor_id a \<in> monitor_ids s) \<and>
     (\<forall>a \<in> set (md_alerts s). \<forall>b \<in> set (md_alerts s).
        al_state a = AlertFiring \<and> al_state b = AlertFiring \<and> al_monitor_id a = al_monitor_id b \<and>
        al_container_name a = al_container_name b \<longrightarrow> al_id a = al_id b)"

lemma FiringAlert_filter: "FiringAlert s mid n = (case filter (fires mid n) (md_alerts s) of [] \<Rightarrow> None | a # _ \<Rightarrow> Some a)"
  unfolding FiringAlert_def fires_def[abs_def] ..

lemma FiringAlert_None: "FiringAlert s mid n = None \<longleftrightarrow> \<not> firing s mid n"
  by (simp add: FiringAlert_filter firing_def list_ex_iff filter_empty_conv[symmetric] split: list.split)

lemma FiringAlert_Some:
  assumes "FiringAlert s mid n = Some a"
  shows "a \<in> set (md_alerts s)" "fires mid n a"
proof -
  from assms obtain as where "filter (fires mid n) (md_alerts s) = a # as"
    by (auto simp: FiringAlert_filter split: list.split_asm)
  then have "a \<in> set (filter (fires mid n) (md_alerts s))" by simp
  then show "a \<in> set (md_alerts s)" "fires mid n a" by simp_all
qed

text \<open>An UPDATE that never makes an alert fire keeps the invariant.\<close>

lemma alerts_inv_update:
  assumes "alerts_inv s" "\<And>a. al_id (f a) = al_id a" "\<And>a. al_monitor_id (f a) = al_monitor_id a"
    "\<And>a. al_container_name (f a) = al_container_name a" "\<And>a. al_state (f a) = AlertFiring \<Longrightarrow> al_state a = AlertFiring"
  shows "alerts_inv (s\<lparr>md_alerts := update_where p f (md_alerts s)\<rparr>)"
proof -
  have ids: "map al_id (update_where p f (md_alerts s)) = map al_id (md_alerts s)"
    by (rule map_update_where) (rule assms(2))
  have from_row: "\<exists>r \<in> set (md_alerts s). al_id x = al_id r \<and> al_monitor_id x = al_monitor_id r \<and>
      al_container_name x = al_container_name r \<and> (al_state x = AlertFiring \<longrightarrow> al_state r = AlertFiring)"
    if "x \<in> set (update_where p f (md_alerts s))" for x
  proof -
    from that obtain r where r: "r \<in> set (md_alerts s)" "x = (if p r then f r else r)" by (auto simp: in_update_where)
    show ?thesis using r(1) by (rule bexI[rotated]) (use r(2) assms(2-5) in auto)
  qed
  show ?thesis
    unfolding alerts_inv_def
  proof (intro conjI ballI impI)
    show "distinct (map al_id (md_alerts (s\<lparr>md_alerts := update_where p f (md_alerts s)\<rparr>)))"
      using assms(1) by (simp add: ids alerts_inv_def)
    fix a assume a: "a \<in> set (md_alerts (s\<lparr>md_alerts := update_where p f (md_alerts s)\<rparr>))"
    obtain r where r: "r \<in> set (md_alerts s)" "al_id a = al_id r" "al_monitor_id a = al_monitor_id r"
      "al_container_name a = al_container_name r" "al_state a = AlertFiring \<longrightarrow> al_state r = AlertFiring"
      using from_row a by force
    show "al_monitor_id a \<in> monitor_ids (s\<lparr>md_alerts := update_where p f (md_alerts s)\<rparr>)"
      using assms(1) r(1,3) by (simp add: alerts_inv_def monitor_ids_def)
    fix b assume b: "b \<in> set (md_alerts (s\<lparr>md_alerts := update_where p f (md_alerts s)\<rparr>))"
      and ab: "al_state a = AlertFiring \<and> al_state b = AlertFiring \<and> al_monitor_id a = al_monitor_id b \<and>
        al_container_name a = al_container_name b"
    obtain q where q: "q \<in> set (md_alerts s)" "al_id b = al_id q" "al_monitor_id b = al_monitor_id q"
      "al_container_name b = al_container_name q" "al_state b = AlertFiring \<longrightarrow> al_state q = AlertFiring"
      using from_row b by force
    show "al_id a = al_id b"
      using assms(1) r q ab unfolding alerts_inv_def by metis
  qed
qed

lemma alerts_inv_close: "alerts_inv s \<Longrightarrow> alerts_inv (close_alerts s p reason now)"
  unfolding close_alerts_def by (rule alerts_inv_update) auto

lemma alerts_inv_touch: "alerts_inv s \<Longrightarrow> alerts_inv (TouchAlert s aid v now)"
  unfolding TouchAlert_def by (rule alerts_inv_update) auto

lemma alerts_inv_actions:
  "alerts_inv s \<Longrightarrow> alerts_inv (ClaimAlertActions s aid now)"
  "alerts_inv s \<Longrightarrow> alerts_inv (RecordAlertActions s aid rs)"
  unfolding ClaimAlertActions_def RecordAlertActions_def by (rule alerts_inv_update; auto)+

lemma RaiseAlert_Inr:
  assumes "RaiseAlert s a i now = Inr (a', s')"
  shows "a' = a\<lparr>al_id := ''alr_'' @ i, al_state := AlertFiring, al_started_at := now, al_last_seen_at := now\<rparr>"
    and "s' = s\<lparr>md_alerts := md_alerts s @ [a']\<rparr>" "al_monitor_id a' \<in> monitor_ids s" "al_id a' \<notin> al_id ` set (md_alerts s)"
  using assms[unfolded RaiseAlert_def Let_def, folded monitor_ids_def] by (auto simp del: append.simps split: if_split_asm)

lemma firing_raise:
  assumes "RaiseAlert s a i now = Inr (a', s')"
  shows "firing s' k n = (firing s k n \<or> (k = al_monitor_id a \<and> n = al_container_name a))"
  using RaiseAlert_Inr(1,2)[OF assms] by (auto simp: firing_def fires_def)

lemma alerts_inv_raise:
  assumes "alerts_inv s" "RaiseAlert s a i now = Inr (a', s')" "\<not> firing s (al_monitor_id a) (al_container_name a)"
  shows "alerts_inv s'"
proof -
  note r = RaiseAlert_Inr[OF assms(2)]
  have rows: "md_alerts s' = md_alerts s @ [a']" "monitor_ids s' = monitor_ids s"
    by (simp_all add: r(2) monitor_ids_def)
  have new: "al_monitor_id a' = al_monitor_id a" "al_container_name a' = al_container_name a" by (simp_all add: r(1))
  have none: "\<forall>q \<in> set (md_alerts s). al_state q = AlertFiring \<and> al_monitor_id q = al_monitor_id a' \<longrightarrow>
      al_container_name q \<noteq> al_container_name a'"
    using assms(3) unfolding firing_def list_ex_iff fires_def new by blast
  show ?thesis
    unfolding alerts_inv_def rows
  proof (intro conjI ballI impI)
    show "distinct (map al_id (md_alerts s @ [a']))" using assms(1) r(4) by (simp add: alerts_inv_def)
    show "al_monitor_id x \<in> monitor_ids s" if "x \<in> set (md_alerts s @ [a'])" for x
      using that assms(1) r(3) unfolding alerts_inv_def by auto
    fix x y
    assume x: "x \<in> set (md_alerts s @ [a'])" and y: "y \<in> set (md_alerts s @ [a'])"
      and xy: "al_state x = AlertFiring \<and> al_state y = AlertFiring \<and> al_monitor_id x = al_monitor_id y \<and>
        al_container_name x = al_container_name y"
    consider "x \<in> set (md_alerts s)" "y \<in> set (md_alerts s)" | "x = a'" "y = a'"
      | "x \<in> set (md_alerts s)" "y = a'" | "x = a'" "y \<in> set (md_alerts s)"
      using x y by auto
    then show "al_id x = al_id y"
    proof cases
      case 1
      then show ?thesis using assms(1) xy unfolding alerts_inv_def by blast
    qed (use none xy in \<open>metis+\<close>)
  qed
qed

lemma firing_touch: "firing (TouchAlert s aid v now) k n = firing s k n"
proof -
  have "fires k n (if al_id a = aid \<and> al_state a = AlertFiring then a\<lparr>al_value := v, al_last_seen_at := now\<rparr> else a) = fires k n a" for a
    by (simp add: fires_def)
  then show ?thesis by (simp add: firing_def TouchAlert_def list_ex_update_where)
qed

lemma firing_close: "firing (close_alerts s p r now) k n = list_ex (\<lambda>a. fires k n a \<and> \<not> p a) (md_alerts s)"
proof -
  have "fires k n (if p a \<and> al_state a = AlertFiring then a\<lparr>al_state := AlertResolved, al_resolved_at := Some now, al_resolve_reason := r\<rparr> else a)
      = (fires k n a \<and> \<not> p a)" for a
    by (auto simp: fires_def)
  then show ?thesis by (simp add: firing_def close_alerts_def list_ex_update_where)
qed

lemma firing_resolve:
  assumes "alerts_inv s" "a \<in> set (md_alerts s)" "fires mid x a"
  shows "firing (ResolveAlert s (al_id a) r now) k n = (firing s k n \<and> \<not> (k = mid \<and> n = x))"
proof -
  have "inj_on al_id (set (md_alerts s))" using assms(1) by (simp add: alerts_inv_def distinct_map)
  then have same: "al_id q = al_id a \<longleftrightarrow> q = a" if "q \<in> set (md_alerts s)" for q
    using that assms(2) by (auto dest: inj_onD)
  have uniq: "q = a" if "q \<in> set (md_alerts s)" "fires mid x q" for q
    using assms that same[OF that(1)] unfolding alerts_inv_def fires_def by metis
  have other: "q \<noteq> a" if "fires k n q" "\<not> (k = mid \<and> n = x)" for q
    using that assms(3) unfolding fires_def by metis
  show ?thesis
    unfolding ResolveAlert_def firing_close unfolding list_ex_iff firing_def
    using uniq other same by blast
qed

section \<open>One breach\<close>

definition fresh_ids :: "(nat \<Rightarrow> ident) \<Rightarrow> mon_world \<Rightarrow> bool" where
  "fresh_ids new_id w \<longleftrightarrow> inj new_id \<and> (\<forall>k \<ge> mw_minted w. ''alr_'' @ new_id k \<notin> al_id ` set (md_alerts (mw_db w)))"

definition round_ok :: "(nat \<Rightarrow> ident) \<Rightarrow> monitor \<Rightarrow> mon_world \<Rightarrow> bool" where
  "round_ok new_id m w \<longleftrightarrow> alerts_inv (mw_db w) \<and> mn_id m \<in> monitor_ids (mw_db w) \<and> fresh_ids new_id w"

lemma alert_ids_update:
  "(\<And>a. al_id (f a) = al_id a) \<Longrightarrow> al_id ` set (update_where p f as) = al_id ` set as"
  by (metis map_update_where set_map)

lemma alert_ids_ops [simp]:
  "al_id ` set (md_alerts (close_alerts s p r now)) = al_id ` set (md_alerts s)"
  "al_id ` set (md_alerts (TouchAlert s aid v now)) = al_id ` set (md_alerts s)"
  "md_monitors (close_alerts s p r now) = md_monitors s" "md_monitors (TouchAlert s aid v now) = md_monitors s"
  by (simp_all add: close_alerts_def TouchAlert_def alert_ids_update)

lemma round_ok_same_ids:
  assumes "round_ok new_id m w" "alerts_inv s" "al_id ` set (md_alerts s) = al_id ` set (md_alerts (mw_db w))"
    "md_monitors s = md_monitors (mw_db w)"
  shows "round_ok new_id m (w\<lparr>mw_db := s, mw_events := es\<rparr>)"
  using assms by (simp add: round_ok_def fresh_ids_def monitor_ids_def)

lemma raise_succeeds:
  assumes "round_ok new_id m w"
  obtains a s where "RaiseAlert (mw_db w) (new_alert m b) (new_id (mw_minted w)) now = Inr (a, s)"
    "round_ok new_id m (w\<lparr>mw_db := s, mw_minted := Suc (mw_minted w), mw_events := es\<rparr>) \<or>
       firing (mw_db w) (mn_id m) (br_container_name b)"
proof -
  have ids: "mn_id m \<in> monitor_ids (mw_db w)" "''alr_'' @ new_id (mw_minted w) \<notin> al_id ` set (md_alerts (mw_db w))"
    using assms by (auto simp: round_ok_def fresh_ids_def)
  obtain a s where r: "RaiseAlert (mw_db w) (new_alert m b) (new_id (mw_minted w)) now = Inr (a, s)"
    using ids unfolding RaiseAlert_def Let_def monitor_ids_def[symmetric] by (simp add: new_alert_def)
  note i = RaiseAlert_Inr[OF r]
  have "round_ok new_id m (w\<lparr>mw_db := s, mw_minted := Suc (mw_minted w), mw_events := es\<rparr>)"
    if nf: "\<not> firing (mw_db w) (mn_id m) (br_container_name b)"
  proof -
    have "alerts_inv s"
      by (rule alerts_inv_raise[OF _ r]) (use assms nf in \<open>simp_all add: round_ok_def new_alert_def\<close>)
    moreover have "monitor_ids s = monitor_ids (mw_db w)" by (simp add: i(2) monitor_ids_def)
    moreover have "new_id k \<noteq> new_id (mw_minted w)" if "Suc (mw_minted w) \<le> k" for k
      using assms that by (auto simp: round_ok_def fresh_ids_def dest: injD)
    ultimately show ?thesis
      using assms ids by (auto simp: round_ok_def fresh_ids_def i(1,2) simp del: append.simps)
  qed
  with r that show thesis by blast
qed

lemma breach_step:
  assumes ok: "round_ok new_id m w" and step: "evaluate_breach new_id m ex now b (w, f) = (w', f')"
  shows "round_ok new_id m w' \<and> md_monitors (mw_db w') = md_monitors (mw_db w) \<and>
    (\<forall>k n. firing (mw_db w') k n =
       (if k = mn_id m \<and> n = br_container_name b \<and> HasCoverage b ex then Sustained b ex else firing (mw_db w) k n))"
proof (cases "HasCoverage b ex")
  case False
  then show ?thesis using assms by (simp add: evaluate_breach_def)
next
  case cov: True
  show ?thesis
  proof (cases "FiringAlert (mw_db w) (mn_id m) (br_container_name b)")
    case None
    then have nf: "\<not> firing (mw_db w) (mn_id m) (br_container_name b)" by (simp add: FiringAlert_None)
    show ?thesis
    proof (cases "Sustained b ex")
      case True
      let ?es = "\<lambda>a. mw_events w @ (if mn_actions m \<noteq> [] then [ActionsStarted (mn_id m) (al_id a)] else [])"
      obtain a s where r: "RaiseAlert (mw_db w) (new_alert m b) (new_id (mw_minted w)) now = Inr (a, s)"
        and k: "round_ok new_id m (w\<lparr>mw_db := s, mw_minted := Suc (mw_minted w), mw_events := []\<rparr>)"
        using raise_succeeds[OF ok] nf by metis
      have w': "w' = w\<lparr>mw_db := s, mw_minted := Suc (mw_minted w), mw_events := ?es a\<rparr>"
        using step cov True None r by (simp add: evaluate_breach_def Let_def)
      have "firing s k n = (firing (mw_db w) k n \<or> (k = mn_id m \<and> n = br_container_name b))" for k n
        using firing_raise[OF r] by (simp add: new_alert_def)
      moreover have "round_ok new_id m w'" using k by (simp add: w' round_ok_def fresh_ids_def)
      moreover have "md_monitors s = md_monitors (mw_db w)" using RaiseAlert_Inr(2)[OF r] by simp
      ultimately show ?thesis using True cov by (auto simp: w')
    next
      case False
      then show ?thesis using step cov None nf ok by (auto simp: evaluate_breach_def Let_def)
    qed
  next
    case (Some a)
    note a = FiringAlert_Some[OF Some]
    have f: "firing (mw_db w) (mn_id m) (br_container_name b)" using Some FiringAlert_None by force
    have inv: "alerts_inv (mw_db w)" using ok by (simp add: round_ok_def)
    show ?thesis
    proof (cases "Sustained b ex")
      case True
      then have w': "w' = w\<lparr>mw_db := TouchAlert (mw_db w) (al_id a) (br_worst b) now\<rparr>"
        using step cov Some by (simp add: evaluate_breach_def Let_def)
      show ?thesis
        using round_ok_same_ids[OF ok alerts_inv_touch[OF inv], of "al_id a" "br_worst b" now "mw_events w"] True f
        by (simp add: w' firing_touch)
    next
      case False
      then have w': "w' = resolve w a (BackWithin (mn_metric m) (br_best b)) now"
        using step cov Some by (simp add: evaluate_breach_def Let_def)
      have "round_ok new_id m w'"
        unfolding w' resolve_def ResolveAlert_def
        by (rule round_ok_same_ids[OF ok alerts_inv_close[OF inv]]) simp_all
      moreover have "firing (mw_db w') k n = (firing (mw_db w) k n \<and> \<not> (k = mn_id m \<and> n = br_container_name b))" for k n
        using firing_resolve[OF inv a] by (simp add: w' resolve_def)
      ultimately show ?thesis using False cov by (auto simp: w' resolve_def ResolveAlert_def)
    qed
  qed
qed

section \<open>One rule\<close>

lemma breaches_fold:
  assumes "round_ok new_id m w" "fold (evaluate_breach new_id m ex now) bs (w, f) = (w', f')"
  shows "round_ok new_id m w' \<and> md_monitors (mw_db w') = md_monitors (mw_db w) \<and>
    (\<forall>k n. k \<noteq> mn_id m \<or> n \<notin> br_container_name ` {b \<in> set bs. HasCoverage b ex} \<longrightarrow>
       firing (mw_db w') k n = firing (mw_db w) k n)"
  using assms
proof (induction bs arbitrary: w f)
  case (Cons b bs)
  obtain w1 f1 where 1: "evaluate_breach new_id m ex now b (w, f) = (w1, f1)" by fastforce
  have s: "round_ok new_id m w1" "md_monitors (mw_db w1) = md_monitors (mw_db w)"
    "\<forall>k n. firing (mw_db w1) k n =
       (if k = mn_id m \<and> n = br_container_name b \<and> HasCoverage b ex then Sustained b ex else firing (mw_db w) k n)"
    using breach_step[OF Cons.prems(1) 1] by blast+
  have "fold (evaluate_breach new_id m ex now) bs (w1, f1) = (w', f')" using Cons.prems(2) 1 by simp
  note IH = Cons.IH[OF s(1) this]
  have same: "firing (mw_db w') k n = firing (mw_db w) k n"
    if n: "k \<noteq> mn_id m \<or> n \<notin> br_container_name ` {c \<in> set (b # bs). HasCoverage c ex}" for k n
  proof -
    have "firing (mw_db w') k n = firing (mw_db w1) k n" using IH n by auto
    also have "\<dots> = firing (mw_db w) k n" using s(3) n by auto
    finally show ?thesis .
  qed
  have "round_ok new_id m w'" "md_monitors (mw_db w') = md_monitors (mw_db w)" using IH s(2) by simp_all
  then show ?case by (intro conjI allI impI same)
qed simp

lemma breaches_decided:
  assumes "round_ok new_id m w" "fold (evaluate_breach new_id m ex now) bs (w, f) = (w', f')"
    "distinct (map br_container_name bs)" "b \<in> set bs" "HasCoverage b ex"
  shows "firing (mw_db w') (mn_id m) (br_container_name b) = Sustained b ex"
  using assms
proof (induction bs arbitrary: w f)
  case (Cons c bs)
  obtain w1 f1 where 1: "evaluate_breach new_id m ex now c (w, f) = (w1, f1)" by fastforce
  have s: "round_ok new_id m w1"
    "\<forall>k n. firing (mw_db w1) k n =
       (if k = mn_id m \<and> n = br_container_name c \<and> HasCoverage c ex then Sustained c ex else firing (mw_db w) k n)"
    using breach_step[OF Cons.prems(1) 1] by blast+
  have rest: "fold (evaluate_breach new_id m ex now) bs (w1, f1) = (w', f')" using Cons.prems(2) 1 by simp
  show ?case
  proof (cases "b \<in> set bs")
    case True
    then show ?thesis using Cons.IH[OF s(1) rest] Cons.prems(3,5) by simp
  next
    case False
    then have b: "b = c" using Cons.prems(4) by simp
    have "br_container_name b \<notin> br_container_name ` {b \<in> set bs. HasCoverage b ex}"
      using Cons.prems(3) b by auto
    then have "firing (mw_db w') (mn_id m) (br_container_name b) = firing (mw_db w1) (mn_id m) (br_container_name b)"
      using breaches_fold[OF s(1) rest] by blast
    then show ?thesis using s(2) b Cons.prems(5) by simp
  qed
qed simp

lemma notify_db: "mw_db (fold (\<lambda>(env, alerts) w. notifyFired w m env alerts) fs w) = mw_db w"
  by (induction fs arbitrary: w) (auto simp: notifyFired_def)


section \<open>Silence\<close>

lemma resolve_fold_db:
  assumes "\<forall>a \<in> set as. \<exists>m. MonitorByID s (al_monitor_id a) = Inr m" "md_monitors (mw_db w) = md_monitors s"
  shows "md_alerts (mw_db (fold (\<lambda>a w. case MonitorByID (mw_db w) (al_monitor_id a) of
            Inl e \<Rightarrow> w | Inr m \<Rightarrow> resolve w a StoppedReporting now) as w)) =
      update_where (\<lambda>a. al_id a \<in> al_id ` set as \<and> al_state a = AlertFiring)
        (\<lambda>a. a\<lparr>al_state := AlertResolved, al_resolved_at := Some now, al_resolve_reason := StoppedReporting\<rparr>)
        (md_alerts (mw_db w))"
  using assms
proof (induction as arbitrary: w)
  case Nil
  then show ?case by (simp add: update_where_def)
next
  case (Cons a as)
  obtain m where m: "MonitorByID (mw_db w) (al_monitor_id a) = Inr m"
    using Cons.prems by (auto simp: MonitorByID_def)
  have mons: "md_monitors (mw_db (resolve w a StoppedReporting now)) = md_monitors s"
    using Cons.prems(2) by (simp add: resolve_def ResolveAlert_def)
  have "md_alerts (mw_db (resolve w a StoppedReporting now)) =
      update_where (\<lambda>q. al_id q = al_id a \<and> al_state q = AlertFiring)
        (\<lambda>a. a\<lparr>al_state := AlertResolved, al_resolved_at := Some now, al_resolve_reason := StoppedReporting\<rparr>) (md_alerts (mw_db w))"
    by (simp add: resolve_def ResolveAlert_def close_alerts_def)
  with Cons.IH[OF _ mons] Cons.prems(1) m show ?case
    by (simp add: update_where_def) blast
qed

lemma MonitorByID_exists: "mid \<in> monitor_ids s \<Longrightarrow> \<exists>m. MonitorByID s mid = Inr m"
  by (auto simp: monitor_ids_def MonitorByID_def filter_empty_conv split: list.split)

text \<open>An alert never outlives its silence. After the stale sweep every alert that still fires was
  confirmed within the last three intervals; the sweep closes exactly the silent ones and leaves
  every other alert as it was.\<close>

lemma no_stale_alert_survives:
  assumes "alerts_inv (mw_db w)" and interval: "0 \<le> interval" "interval \<le> 2 ^ 61"
  shows "md_alerts (mw_db (resolveStale w atime interval now)) =
      map (\<lambda>a. if al_state a = AlertFiring \<and> al_last_seen_at a < atime - 3 * interval
             then a\<lparr>al_state := AlertResolved, al_resolved_at := Some now, al_resolve_reason := StoppedReporting\<rparr>
             else a) (md_alerts (mw_db w)) \<and>
    list_all (\<lambda>a. al_state a = AlertFiring \<longrightarrow> atime - 3 * interval \<le> al_last_seen_at a)
      (md_alerts (mw_db (resolveStale w atime interval now)))"
proof -
  have w3: "atime + wrap64 (- 3 * interval) = atime - 3 * interval" using interval by (simp add: wrap64_small)
  let ?stale = "\<lambda>a. al_state a = AlertFiring \<and> al_last_seen_at a < atime - 3 * interval"
  have "\<forall>a \<in> set (StaleAlerts (mw_db w) (atime - 3 * interval)). \<exists>m. MonitorByID (mw_db w) (al_monitor_id a) = Inr m"
    using assms(1) MonitorByID_exists by (auto simp: StaleAlerts_def alerts_inv_def)
  note db = resolve_fold_db[OF this refl, of now, folded w3, folded resolveStale_def, unfolded w3]
  have inj: "inj_on al_id (set (md_alerts (mw_db w)))" using assms(1) by (simp add: alerts_inv_def distinct_map)
  have "(al_id a \<in> al_id ` set (StaleAlerts (mw_db w) (atime - 3 * interval)) \<and> al_state a = AlertFiring) = ?stale a"
    if "a \<in> set (md_alerts (mw_db w))" for a
    using that inj by (auto simp: StaleAlerts_def dest: inj_onD)
  then have eq: "md_alerts (mw_db (resolveStale w atime interval now)) =
      map (\<lambda>a. if ?stale a
             then a\<lparr>al_state := AlertResolved, al_resolved_at := Some now, al_resolve_reason := StoppedReporting\<rparr>
             else a) (md_alerts (mw_db w))"
    unfolding db update_where_def by (intro map_cong) auto
  moreover have "list_all (\<lambda>a. al_state a = AlertFiring \<longrightarrow> atime - 3 * interval \<le> al_last_seen_at a)
      (md_alerts (mw_db (resolveStale w atime interval now)))"
    unfolding eq list_all_iff by auto
  ultimately show ?thesis by blast
qed

end
