(* ===== verification/Alerting.thy ===== *)
theory Alerting
  imports Alerts
begin

text \<open>
  What the monitors guarantee beyond one round: the cooldown between two runs of a rule's actions,
  the powers a rule can carry, where its signing secrets can go, and that every stored rule can be
  evaluated; and two ways in which a rule does not do what it says.
\<close>

section \<open>The cooldown\<close>

definition stamps :: "mdb \<Rightarrow> ident \<Rightarrow> string \<Rightarrow> int set" where
  "stamps s mid n = {t. \<exists>a \<in> set (md_alerts s). al_monitor_id a = mid \<and> al_container_name a = n \<and> al_actions_at a = Some t}"

lemma LastActionAt_stamps:
  "LastActionAt s mid n = (if stamps s mid n = {} then None else Some (Max (stamps s mid n)))"
proof -
  have set: "set (action_stamps s mid n) = stamps s mid n"
    by (auto simp: stamps_def action_stamps_def map_filter_def image_iff) (metis option.sel)
  show ?thesis
  proof (cases "action_stamps s mid n")
    case Nil
    then show ?thesis using set unfolding LastActionAt_def by simp
  next
    case (Cons t ts)
    then show ?thesis using max_of_Max[of "t # ts"] set[symmetric] unfolding LastActionAt_def by simp
  qed
qed

lemma finite_stamps: "finite (stamps s mid n)"
proof -
  have "stamps s mid n \<subseteq> (\<lambda>a. the (al_actions_at a)) ` set (md_alerts s)"
    unfolding stamps_def by force
  then show ?thesis by (rule finite_subset) simp
qed

lemma not_cooling:
  assumes "\<not> cooling s m a now" "t \<in> stamps s (mn_id m) (al_container_name a)"
    and c: "0 \<le> mn_action_cooldown_secs m" "mn_action_cooldown_secs m \<le> 24 * 60 * 60"
  shows "mn_action_cooldown_secs m * second \<le> now - t"
proof -
  have "t \<le> Max (stamps s (mn_id m) (al_container_name a))" using finite_stamps assms(2) by (rule Max_ge)
  moreover have "stamps s (mn_id m) (al_container_name a) \<noteq> {}" using assms(2) by blast
  moreover have "wrap64 (mn_action_cooldown_secs m * second) = mn_action_cooldown_secs m * second"
    using c by (intro wrap64_small) (simp_all add: second_def)
  ultimately show ?thesis using assms(1) by (auto simp: cooling_def LastActionAt_stamps)
qed

definition has_row :: "mdb \<Rightarrow> ident \<Rightarrow> string \<Rightarrow> ident \<Rightarrow> bool" where
  "has_row s mid n aid = list_ex (\<lambda>a. al_id a = aid \<and> al_monitor_id a = mid \<and> al_container_name a = n) (md_alerts s)"

lemma has_row_actions:
  "has_row (ClaimAlertActions s x now) mid n aid = has_row s mid n aid"
  "has_row (RecordAlertActions s x rs) mid n aid = has_row s mid n aid"
  by (simp_all add: has_row_def ClaimAlertActions_def RecordAlertActions_def list_ex_update_same)

lemma has_row_RunActions: "has_row (fst (RunActions dm s m a now)) mid n aid = has_row s mid n aid"
  by (simp add: RunActions_def Let_def has_row_actions)

lemma stamps_record: "stamps (RecordAlertActions s x rs) mid n = stamps s mid n"
proof -
  have "(\<exists>a \<in> set (md_alerts (RecordAlertActions s x rs)). al_monitor_id a = mid \<and> al_container_name a = n \<and> al_actions_at a = Some t) =
      (\<exists>a \<in> set (md_alerts s). al_monitor_id a = mid \<and> al_container_name a = n \<and> al_actions_at a = Some t)" for t
    unfolding list_ex_iff[symmetric] by (simp add: RecordAlertActions_def list_ex_update_same)
  then show ?thesis by (simp add: stamps_def)
qed

lemma stamps_claim:
  assumes "has_row s mid n aid"
  shows "now \<in> stamps (ClaimAlertActions s aid now) mid n"
    and "t \<in> stamps s mid n \<Longrightarrow> t \<le> now \<Longrightarrow> \<exists>u \<in> stamps (ClaimAlertActions s aid now) mid n. t \<le> u"
proof -
  obtain a where a: "a \<in> set (md_alerts s)" "al_id a = aid" "al_monitor_id a = mid" "al_container_name a = n"
    using assms unfolding has_row_def list_ex_iff by blast
  have "a\<lparr>al_actions_at := Some now\<rparr> \<in> set (md_alerts (ClaimAlertActions s aid now))"
    using a(1,2) by (simp add: ClaimAlertActions_def in_update_where) (rule bexI[of _ a], simp_all)
  then show "now \<in> stamps (ClaimAlertActions s aid now) mid n"
    unfolding stamps_def mem_Collect_eq by (rule bexI[rotated]) (simp add: a(3,4))
  then show "\<exists>u \<in> stamps (ClaimAlertActions s aid now) mid n. t \<le> u" if "t \<in> stamps s mid n" "t \<le> now"
    using that(2) by blast
qed

text \<open>A sequence of runs of one rule's actions, and the times at which they really acted.\<close>

fun run_all :: "daemon \<Rightarrow> monitor \<Rightarrow> mdb \<Rightarrow> (alert \<times> int) list \<Rightarrow> int list" where
  "run_all dm m s [] = []"
| "run_all dm m s ((a, now) # calls) =
     (let rest = run_all dm m (fst (RunActions dm s m a now)) calls
      in if cooling s m a now then rest else now # rest)"

lemma run_all_spaced:
  assumes "0 \<le> mn_action_cooldown_secs m" "mn_action_cooldown_secs m \<le> 24 * 60 * 60"
    and "\<forall>c \<in> set calls. al_container_name (fst c) = n \<and> has_row s (mn_id m) n (al_id (fst c))"
    and "\<forall>t \<in> set ts. \<exists>u \<in> stamps s (mn_id m) n. t \<le> u"
  shows "sorted_wrt (\<lambda>t u. mn_action_cooldown_secs m * second \<le> u - t) (run_all dm m s calls) \<and>
    (\<forall>t \<in> set ts. \<forall>u \<in> set (run_all dm m s calls). mn_action_cooldown_secs m * second \<le> u - t)"
  using assms(3,4)
proof (induction calls arbitrary: s ts)
  case (Cons c calls)
  obtain a now where c: "c = (a, now)" by (cases c)
  let ?s = "fst (RunActions dm s m a now)"
  have row: "al_container_name a = n" "has_row s (mn_id m) n (al_id a)" using Cons.prems(1) by (simp_all add: c)
  have rows: "\<forall>c \<in> set calls. al_container_name (fst c) = n \<and> has_row ?s (mn_id m) n (al_id (fst c))"
    using Cons.prems(1) by (simp add: has_row_RunActions)
  show ?case
  proof (cases "cooling s m a now")
    case True
    then have "stamps ?s (mn_id m) n = stamps s (mn_id m) n" by (simp add: RunActions_def stamps_record)
    with Cons.IH[OF rows, of ts] Cons.prems(2) True show ?thesis by (simp add: c)
  next
    case False
    have far: "mn_action_cooldown_secs m * second \<le> now - t" if "t \<in> set ts" for t
      using not_cooling[OF False _ assms(1,2)] Cons.prems(2) that row(1) by fastforce
    have nonneg: "0 \<le> mn_action_cooldown_secs m * second" using assms(1) by (simp add: second_def)
    have s: "stamps ?s (mn_id m) n = stamps (ClaimAlertActions s (al_id a) now) (mn_id m) n"
      using False by (simp add: RunActions_def Let_def stamps_record)
    have "\<forall>t \<in> set (now # ts). \<exists>u \<in> stamps ?s (mn_id m) n. t \<le> u"
      using stamps_claim(1)[OF row(2), of now] far nonneg unfolding s by fastforce
    from Cons.IH[OF rows this] far False show ?thesis by (simp add: c Let_def)
  qed
qed simp

text \<open>C33: a rule cannot become a restart loop. However often a rule fires on a target and whatever its
  actions do, two runs of its actions on that target start at least a cooldown apart.\<close>

theorem cooldown_between_runs:
  assumes "0 \<le> mn_action_cooldown_secs m" "mn_action_cooldown_secs m \<le> 24 * 60 * 60"
    and "\<forall>c \<in> set calls. al_container_name (fst c) = n \<and> has_row s (mn_id m) n (al_id (fst c))"
  shows "sorted_wrt (\<lambda>t u. mn_action_cooldown_secs m * second \<le> u - t) (run_all dm m s calls)"
  using run_all_spaced[OF assms, of "[]"] by simp

section \<open>What a saved rule can do\<close>

lemma check_actions_kinds:
  "check_actions as = Inr bs \<Longrightarrow> map ma_kind bs = map ma_kind as \<and> map ma_secret bs = map ma_secret as \<and>
     map ma_secret_enc bs = map ma_secret_enc as \<and> map ma_url bs = map (\<lambda>a. if ma_kind a = ''http'' then trim_space (ma_url a) else ma_url a) as \<and>
     (\<forall>a \<in> set as. actionCap (ma_kind a) \<noteq> None)"
proof (induction as arbitrary: bs)
  case (Cons a as)
  obtain b cs where b: "check_action a = Inr b" "check_actions as = Inr cs" "bs = b # cs"
    using Cons.prems by (auto split: sum.split_asm)
  have "ma_kind b = ma_kind a" "ma_secret b = ma_secret a" "ma_secret_enc b = ma_secret_enc a"
    "ma_url b = (if ma_kind a = ''http'' then trim_space (ma_url a) else ma_url a)" "actionCap (ma_kind a) \<noteq> None"
    using b(1) by (auto simp: check_action_def Let_def actionCap_def split: if_split_asm)
  with Cons.IH[OF b(2)] show ?case by (simp add: b(3))
qed simp

lemma validate_actions:
  assumes "validate m = Inr m'"
  shows "mn_env_id m' = mn_env_id m \<and> mn_id m' = mn_id m \<and> map ma_kind (mn_actions m') = map ma_kind (mn_actions m) \<and>
    map ma_secret (mn_actions m') = map ma_secret (mn_actions m) \<and>
    map ma_secret_enc (mn_actions m') = map ma_secret_enc (mn_actions m) \<and>
    map ma_url (mn_actions m') = map (\<lambda>a. if ma_kind a = ''http'' then trim_space (ma_url a) else ma_url a) (mn_actions m) \<and>
    (\<forall>a \<in> set (mn_actions m). actionCap (ma_kind a) \<noteq> None) \<and> (mn_actions m \<noteq> [] \<longrightarrow> mn_env_id m \<noteq> [])"
proof -
  obtain m1 where m1: "validateActions m = Inr m1" "m' = m1"
    using assms by (auto simp: validate_def split: if_split_asm sum.split_asm)
  show ?thesis
    using m1(1) check_actions_kinds unfolding m1(2)
    by (fastforce simp: validateActions_def Let_def split: if_split_asm sum.split_asm)
qed

definition sealed_ok :: "(string \<Rightarrow> string option) \<Rightarrow> monitor option \<Rightarrow> monitor_action \<Rightarrow> monitor_action \<Rightarrow> bool" where
  "sealed_ok seal prev a b \<longleftrightarrow> ma_kind b = ma_kind a \<and> ma_url b = ma_url a \<and> ma_secret b = [] \<and>
     (ma_secret_enc b \<noteq> [] \<longrightarrow> ma_kind a = ''http'' \<and>
        (ma_secret a \<noteq> [] \<and> seal (ma_secret a) = Some (ma_secret_enc b) \<or> ma_secret_enc b = kept_secret prev (ma_url a)))"

lemma seal_spec: "sealActionSecrets seal prev as = Some bs \<Longrightarrow> list_all2 (sealed_ok seal prev) as bs"
proof (induction as arbitrary: bs)
  case (Cons a as)
  then show ?case
    by (auto simp: sealed_ok_def split: option.split_asm if_split_asm)
qed simp

lemma kept_secret_from:
  assumes "kept_secret prev u \<noteq> []"
  obtains p q where "prev = Some p" "q \<in> set (mn_actions p)" "ma_kind q = ''http''" "ma_url q = trim_space u"
    "ma_secret_enc q = kept_secret prev u"
proof -
  obtain p q qs where p: "prev = Some p" and q: "filter (\<lambda>q. ma_kind q = ''http'' \<and> ma_url q = trim_space u \<and> ma_secret_enc q \<noteq> []) (mn_actions p) = q # qs"
    using assms by (auto simp: kept_secret_def split: option.split_asm list.split_asm)
  have "q \<in> set (filter (\<lambda>q. ma_kind q = ''http'' \<and> ma_url q = trim_space u \<and> ma_secret_enc q \<noteq> []) (mn_actions p))"
    unfolding q by simp
  then have "q \<in> set (mn_actions p) \<and> ma_kind q = ''http'' \<and> ma_url q = trim_space u" by (simp only: set_filter mem_Collect_eq)
  moreover have "kept_secret prev u = ma_secret_enc q" using p q by (simp add: kept_secret_def)
  ultimately show thesis using that[of p q] p by simp
qed

lemma missing_action_None:
  "missing_action caps env as = None \<Longrightarrow> a \<in> set as \<Longrightarrow> actionCap (ma_kind a) = Some (c, g) \<Longrightarrow>
     (if g then Has (Global caps) c else sm_Has caps c env)"
  by (induction as) (auto split: option.split_asm if_split_asm)

text \<open>What the two handlers have in common: the rule they save is a validated, scrubbed copy of the request
  with its secrets sealed, and the caller was checked against the request.\<close>

lemma saved_monitor:
  assumes "handleCreateMonitor caps seal s m i now = Saved m' s' \<and> prev = None \<or>
    handleUpdateMonitor caps seal s mid m now = Saved m' s' \<and> (\<exists>p. prev = Some p \<and> MonitorByID s mid = Inr p)"
  obtains m0 as v where "sealActionSecrets seal prev (mn_actions m) = Some as" "mn_env_id m0 = mn_env_id m"
    "validate (m0\<lparr>mn_actions := as\<rparr>) = Inr v" "mn_env_id m' = mn_env_id v"
    "mn_actions m' = map (\<lambda>a. a\<lparr>ma_has_secret := (ma_secret_enc a \<noteq> []), ma_secret := []\<rparr>) (mn_actions v)"
    "mayMonitor caps (mn_env_id m)" "missing_action caps (mn_env_id m) (mn_actions m) = None"
proof (cases "prev")
  case None
  then have h: "handleCreateMonitor caps seal s m i now = Saved m' s'" using assms by auto
  have may: "mayMonitor caps (mn_env_id m)" "missing_action caps (mn_env_id m) (mn_actions m) = None"
    using h by (cases "missingActionCap caps m"; auto simp: handleCreateMonitor_def missingActionCap_def split: if_split_asm)+
  obtain as c where as: "sealActionSecrets seal None (mn_actions m) = Some as"
    and c: "CreateMonitor s (m\<lparr>mn_actions := as\<rparr>) i now = Inr (c, s')" "m' = scrubActions c"
    using h by (auto simp: handleCreateMonitor_def split: if_split_asm option.split_asm sum.split_asm)
  obtain v where "validate (m\<lparr>mn_actions := as\<rparr>) = Inr v" "mn_env_id c = mn_env_id v" "mn_actions c = mn_actions v"
    using c(1) by (auto simp: CreateMonitor_def Let_def split: if_split_asm sum.split_asm)
  then show thesis using that[of as m v] None as may by (simp add: c(2) scrubActions_def)
next
  case (Some p)
  then have h: "handleUpdateMonitor caps seal s mid m now = Saved m' s'" "MonitorByID s mid = Inr p" using assms by auto
  have may: "mayMonitor caps (mn_env_id m)" "missing_action caps (mn_env_id m) (mn_actions m) = None"
    using h by (cases "missingActionCap caps (m\<lparr>mn_id := mid\<rparr>)"; auto simp: handleUpdateMonitor_def Let_def missingActionCap_def split: if_split_asm)+
  obtain as c where as: "sealActionSecrets seal (Some p) (mn_actions m) = Some as"
    and c: "UpdateMonitor s (m\<lparr>mn_id := mid, mn_actions := as\<rparr>) now = Inr (c, s')" "m' = scrubActions c"
    using h by (auto simp: handleUpdateMonitor_def Let_def split: if_split_asm option.split_asm sum.split_asm)
  obtain v where "validate (m\<lparr>mn_id := mid, mn_actions := as\<rparr>) = Inr v" "mn_env_id c = mn_env_id v" "mn_actions c = mn_actions v"
    using c(1) by (auto simp: UpdateMonitor_def Let_def split: if_split_asm sum.split_asm)
  then show thesis using that[of as "m\<lparr>mn_id := mid\<rparr>" v] Some as may by (simp add: c(2) scrubActions_def)
qed

lemma saved_kinds:
  assumes "list_all2 (sealed_ok seal prev) as0 as" "validate (m0\<lparr>mn_actions := as\<rparr>) = Inr v" "b \<in> set (mn_actions v)"
  obtains a where "a \<in> set as0" "ma_kind b = ma_kind a" "actionCap (ma_kind a) \<noteq> None" "mn_env_id v \<noteq> []" "mn_env_id v = mn_env_id m0"
    "ma_url b = (if ma_kind a = ''http'' then trim_space (ma_url a) else ma_url a)"
    "ma_secret_enc b \<noteq> [] \<Longrightarrow> ma_kind a = ''http'' \<and>
        (ma_secret a \<noteq> [] \<and> seal (ma_secret a) = Some (ma_secret_enc b) \<or> ma_secret_enc b = kept_secret prev (ma_url a))"
proof -
  note v = validate_actions[OF assms(2)]
  have len: "length (mn_actions v) = length as" using v by (auto dest: map_eq_imp_length_eq)
  obtain k where k: "k < length (mn_actions v)" "b = mn_actions v ! k" using assms(3) by (metis in_set_conv_nth)
  let ?c = "as ! k" and ?a = "as0 ! k"
  have kc: "k < length as" "k < length as0" using k len list_all2_lengthD[OF assms(1)] by simp_all
  have ok: "sealed_ok seal prev ?a ?c" using list_all2_nthD[OF assms(1) kc(2)] .
  have "map ma_kind (mn_actions v) ! k = map ma_kind as ! k" "map ma_secret_enc (mn_actions v) ! k = map ma_secret_enc as ! k"
    "map ma_url (mn_actions v) ! k = map (\<lambda>a. if ma_kind a = ''http'' then trim_space (ma_url a) else ma_url a) as ! k"
    using v by simp_all
  then have c: "ma_kind b = ma_kind ?c" "ma_secret_enc b = ma_secret_enc ?c"
    "ma_url b = (if ma_kind ?c = ''http'' then trim_space (ma_url ?c) else ma_url ?c)"
    using k kc by simp_all
  have "?c \<in> set as" using kc by simp
  then have "actionCap (ma_kind ?c) \<noteq> None" "as \<noteq> []" using v by auto
  with v c ok kc show thesis by (intro that[of ?a]) (auto simp: sealed_ok_def)
qed

text \<open>C34: a rule wields no power its author lacks. A rule is saved only by someone who may edit monitors
  where it watches, everywhere if it watches the fleet; a rule with actions is pinned to a host, and
  for each action its author holds there, or fleet-wide for a request to a URL, the capability the
  action uses. No plain secret comes back.\<close>

theorem rule_powers_are_held:
  assumes "handleCreateMonitor caps seal s m i now = Saved m' s' \<or> handleUpdateMonitor caps seal s mid m now = Saved m' s'"
  shows "mayMonitor caps (mn_env_id m') \<and>
    (\<forall>b \<in> set (mn_actions m'). mn_env_id m' \<noteq> [] \<and> ma_secret b = [] \<and>
       (\<exists>c g. actionCap (ma_kind b) = Some (c, g) \<and> (if g then Has (Global caps) c else sm_Has caps c (mn_env_id m'))))"
proof -
  obtain prev where "handleCreateMonitor caps seal s m i now = Saved m' s' \<and> prev = None \<or>
    handleUpdateMonitor caps seal s mid m now = Saved m' s' \<and> (\<exists>p. prev = Some p \<and> MonitorByID s mid = Inr p)"
    using assms by (auto simp: handleUpdateMonitor_def Let_def split: sum.split_asm if_split_asm)
  then obtain m0 as v where as: "sealActionSecrets seal prev (mn_actions m) = Some as" and m0: "mn_env_id m0 = mn_env_id m"
    and v: "validate (m0\<lparr>mn_actions := as\<rparr>) = Inr v" and m': "mn_env_id m' = mn_env_id v"
      "mn_actions m' = map (\<lambda>a. a\<lparr>ma_has_secret := (ma_secret_enc a \<noteq> []), ma_secret := []\<rparr>) (mn_actions v)"
    and may: "mayMonitor caps (mn_env_id m)" "missing_action caps (mn_env_id m) (mn_actions m) = None"
    by (rule saved_monitor)
  have env: "mn_env_id v = mn_env_id m" using validate_actions[OF v] m0 by simp
  have "mn_env_id m' \<noteq> [] \<and> ma_secret b = [] \<and>
       (\<exists>c g. actionCap (ma_kind b) = Some (c, g) \<and> (if g then Has (Global caps) c else sm_Has caps c (mn_env_id m')))"
    if b: "b \<in> set (mn_actions m')" for b
  proof -
    obtain q where q: "q \<in> set (mn_actions v)" "b = q\<lparr>ma_has_secret := (ma_secret_enc q \<noteq> []), ma_secret := []\<rparr>"
      using b unfolding m'(2) by auto
    obtain a where a: "a \<in> set (mn_actions m)" "ma_kind q = ma_kind a" "actionCap (ma_kind a) \<noteq> None" "mn_env_id v \<noteq> []"
      by (rule saved_kinds[OF seal_spec[OF as] v q(1)])
    obtain c g where cg: "actionCap (ma_kind a) = Some (c, g)" using a(3) by auto
    show ?thesis
      using a(2,4) cg missing_action_None[OF may(2) a(1) cg] by (simp add: q(2) m'(1) env)
  qed
  then show ?thesis using may(1) by (simp add: m'(1) env)
qed

text \<open>A signing secret stays with its URL. Every sealed secret a saved rule holds belongs to a request
  action and was either sealed from the secret sent with that action, or taken from the stored rule,
  where it was the secret of the same URL.\<close>

lemma secrets_stay_with_their_url:
  assumes "handleUpdateMonitor caps seal s mid m now = Saved m' s'" "MonitorByID s mid = Inr p"
    and "b \<in> set (mn_actions m')" "ma_secret_enc b \<noteq> []"
  shows "ma_kind b = ''http'' \<and>
    ((\<exists>a \<in> set (mn_actions m). ma_secret a \<noteq> [] \<and> seal (ma_secret a) = Some (ma_secret_enc b) \<and> trim_space (ma_url a) = ma_url b) \<or>
     (\<exists>a \<in> set (mn_actions p). ma_kind a = ''http'' \<and> ma_url a = ma_url b \<and> ma_secret_enc a = ma_secret_enc b))"
proof -
  have "handleCreateMonitor caps seal s m [] now = Saved m' s' \<and> Some p = None \<or>
    handleUpdateMonitor caps seal s mid m now = Saved m' s' \<and> (\<exists>q. Some p = Some q \<and> MonitorByID s mid = Inr q)"
    using assms(1,2) by simp
  then obtain m0 as v where as: "sealActionSecrets seal (Some p) (mn_actions m) = Some as"
    and v: "validate (m0\<lparr>mn_actions := as\<rparr>) = Inr v"
    and m': "mn_actions m' = map (\<lambda>a. a\<lparr>ma_has_secret := (ma_secret_enc a \<noteq> []), ma_secret := []\<rparr>) (mn_actions v)"
    by (rule saved_monitor)
  obtain q where q: "q \<in> set (mn_actions v)" "b = q\<lparr>ma_has_secret := (ma_secret_enc q \<noteq> []), ma_secret := []\<rparr>"
    using assms(3) unfolding m' by auto
  have enc: "ma_secret_enc q \<noteq> []" using assms(4) q(2) by simp
  obtain a where a: "a \<in> set (mn_actions m)" "ma_kind q = ma_kind a"
      "ma_url q = (if ma_kind a = ''http'' then trim_space (ma_url a) else ma_url a)"
    and sec: "ma_kind a = ''http'' \<and> (ma_secret a \<noteq> [] \<and> seal (ma_secret a) = Some (ma_secret_enc q) \<or>
        ma_secret_enc q = kept_secret (Some p) (ma_url a))"
    by (rule saved_kinds[OF seal_spec[OF as] v q(1)]) (use enc in blast)
  show ?thesis
  proof (cases "ma_secret a \<noteq> [] \<and> seal (ma_secret a) = Some (ma_secret_enc q)")
    case True
    then show ?thesis using a sec by (auto simp: q(2))
  next
    case False
    then have k: "ma_secret_enc q = kept_secret (Some p) (ma_url a)" using sec by blast
    with enc have "kept_secret (Some p) (ma_url a) \<noteq> []" by simp
    from kept_secret_from[OF this] obtain r where "r \<in> set (mn_actions p)" "ma_kind r = ''http''"
      "ma_url r = trim_space (ma_url a)" "ma_secret_enc r = ma_secret_enc q" unfolding k by auto
    then show ?thesis using a sec by (auto simp: q(2))
  qed
qed

section \<open>Stored rules\<close>

datatype monitor_op =
    OpCreateMonitor monitor ident int
  | OpUpdateMonitor monitor int
  | OpDeleteMonitor ident
  | OpSaveSettings monitor_settings int

fun monitor_apply :: "mdb \<Rightarrow> monitor_op \<Rightarrow> monitor_error + mdb" where
  "monitor_apply s (OpCreateMonitor m i now) = map_sum id snd (CreateMonitor s m i now)"
| "monitor_apply s (OpUpdateMonitor m now) = map_sum id snd (UpdateMonitor s m now)"
| "monitor_apply s (OpDeleteMonitor mid) = DeleteMonitor s mid"
| "monitor_apply s (OpSaveSettings m now) = SaveMonitorSettings s m now"

definition monitor_step :: "mdb \<Rightarrow> monitor_op \<Rightarrow> mdb" where
  "monitor_step s a = (case monitor_apply s a of Inl e \<Rightarrow> s | Inr s' \<Rightarrow> s')"

definition rule_ok :: "monitor \<times> stored_action list \<Rightarrow> bool" where
  "rule_ok r \<longleftrightarrow> metricColumns (mn_metric (fst r)) \<noteq> None \<and> comparisons (mn_op (fst r)) \<noteq> None \<and> 60 \<le> mn_duration_secs (fst r) \<and>
     (if PercentMetric (mn_metric (fst r)) then 0 \<le> mn_threshold (fst r) \<and> mn_threshold (fst r) \<le> 100 else 0 < mn_threshold (fst r)) \<and>
     (snd r \<noteq> [] \<longrightarrow> mn_env_id (fst r) \<noteq> [] \<and> length (snd r) \<le> 5 \<and>
        60 \<le> mn_action_cooldown_secs (fst r) \<and> mn_action_cooldown_secs (fst r) \<le> 24 * 60 * 60)"

definition rules_inv :: "mdb \<Rightarrow> bool" where
  "rules_inv s = list_all rule_ok (md_monitors s)"

lemma check_actions_length: "check_actions as = Inr bs \<Longrightarrow> length bs = length as"
  by (induction as arbitrary: bs) (auto split: sum.split_asm)

lemma validate_rule_ok:
  assumes "validate m = Inr v"
  shows "rule_ok (v\<lparr>mn_actions := [], mn_action_cooldown_secs := cooldown v\<rparr>, encodeActions (mn_actions v))"
proof -
  obtain m1 where m1: "validateActions m = Inr m1" "v = m1" and thr: "if PercentMetric (mn_metric v)
      then 0 \<le> mn_threshold v \<and> mn_threshold v \<le> 100 else 0 < mn_threshold v"
    and m: "metricColumns (mn_metric m) \<noteq> None" "comparisons (mn_op m) \<noteq> None" "60 \<le> mn_duration_secs m"
    using assms by (simp add: validate_def not_less not_le split: if_split_asm sum.split_asm)
  have "mn_metric v = mn_metric m" "mn_op v = mn_op m" "mn_duration_secs v = mn_duration_secs m" and
    "mn_actions v \<noteq> [] \<longrightarrow> mn_env_id v \<noteq> [] \<and> length (mn_actions v) \<le> 5 \<and>
        60 \<le> mn_action_cooldown_secs v \<and> mn_action_cooldown_secs v \<le> 24 * 60 * 60"
    using m1(1) check_actions_length unfolding m1(2)
    by (auto simp: validateActions_def Let_def DefaultActionCooldown_def split: if_split_asm sum.split_asm)
  with m thr show ?thesis by (simp add: rule_ok_def cooldown_def encodeActions_def DefaultActionCooldown_def)
qed

lemma list_all_update_where:
  "list_all q rs \<Longrightarrow> (\<And>r. r \<in> set rs \<Longrightarrow> q (f r)) \<Longrightarrow> list_all q (update_where p f rs)"
  by (auto simp: list_all_iff in_update_where)

lemma cooldown_stamped: "cooldown (m\<lparr>mn_id := i, mn_created_at := t, mn_updated_at := u\<rparr>) = cooldown m"
  by (simp add: cooldown_def)

lemma monitor_step_inv:
  assumes "rules_inv s"
  shows "rules_inv (monitor_step s a)"
proof (cases a)
  case (OpCreateMonitor m i now)
  have "rule_ok (v\<lparr>mn_id := x, mn_created_at := t, mn_updated_at := u, mn_actions := [], mn_action_cooldown_secs := cooldown v\<rparr>, encodeActions (mn_actions v))"
    if "validate m = Inr v" for v x t u
    using validate_rule_ok[OF that] unfolding rule_ok_def fst_conv snd_conv by (simp split: if_split_asm)
  then show ?thesis
    using assms OpCreateMonitor
    by (auto simp: monitor_step_def CreateMonitor_def Let_def rules_inv_def cooldown_stamped simp del: append.simps split: sum.split if_split_asm)
next
  case (OpUpdateMonitor m now)
  have "rule_ok (v\<lparr>mn_actions := [], mn_action_cooldown_secs := cooldown v, mn_created_at := t, mn_updated_at := u\<rparr>, encodeActions (mn_actions v))"
    if "validate m = Inr v" for v t u
    using validate_rule_ok[OF that] unfolding rule_ok_def fst_conv snd_conv by (simp split: if_split_asm)
  then show ?thesis
    using assms OpUpdateMonitor
    by (auto simp: monitor_step_def UpdateMonitor_def Let_def rules_inv_def resolveAlertsFor_def
        split: sum.split if_split_asm intro!: list_all_update_where)
qed (use assms in \<open>auto simp: monitor_step_def DeleteMonitor_def SaveMonitorSettings_def rules_inv_def list_all_iff split: sum.split if_split_asm\<close>)

interpretation monitor_machine: guarded_machine monitor_step rules_inv
  by unfold_locales (rule monitor_step_inv)

text \<open>Every stored rule can be evaluated. Whatever rules are written, changed and deleted, an enabled
  rule always has a metric and a comparison the evaluation knows, a window of at least a minute, and
  a threshold that some reading can cross; a rule with actions is pinned to one host, has at most
  five, and a cooldown between a minute and a day.\<close>

lemma stored_rules_evaluate:
  assumes "rules_inv s" "m \<in> set (EnabledMonitors (foldl monitor_step s ops))"
  shows "(\<exists>bs. Evaluate t m atime = Inr bs) \<and> 60 \<le> mn_duration_secs m \<and>
    (if PercentMetric (mn_metric m) then 0 \<le> mn_threshold m \<and> mn_threshold m \<le> 100 else 0 < mn_threshold m) \<and>
    (mn_actions m \<noteq> [] \<longrightarrow> mn_env_id m \<noteq> [] \<and> length (mn_actions m) \<le> 5 \<and>
       60 \<le> mn_action_cooldown_secs m \<and> mn_action_cooldown_secs m \<le> 24 * 60 * 60)"
proof -
  obtain r where r: "r \<in> set (md_monitors (foldl monitor_step s ops))" "m = scanMonitor r"
    using assms(2) by (auto simp: EnabledMonitors_def)
  then have "rule_ok r" using monitor_machine.run_inv[OF assms(1), of ops] by (auto simp: rules_inv_def list_all_iff)
  then show ?thesis
    by (auto simp: r(2) scanMonitor_def rule_ok_def Evaluate_def decodeActions_def split: option.split)
qed

section \<open>Where a rule goes wrong\<close>

definition cpu_rule :: monitor where
  "cpu_rule = \<lparr>mn_id = ''mon_1'', mn_name = ''cpu'', mn_enabled = True, mn_metric = ''cpu_pct'', mn_op = ''>'', mn_threshold = 80,
    mn_duration_secs = 60, mn_env_id = [], mn_stack = [], mn_container = [], mn_actions = [], mn_action_cooldown_secs = 900,
    mn_created_at = 0, mn_updated_at = 0\<rparr>"

definition reading :: "ident \<Rightarrow> string \<Rightarrow> int \<Rightarrow> rat \<Rightarrow> sample" where
  "reading env svc t v = \<lparr>sm_ts_unix = t, sm_env_id = env, sm_container_id = ''c'', sm_container_name = svc @ ''-1'', sm_stack = ''web'',
    sm_service = svc, sm_cpu_pct = v, sm_cpu_cores = 1, sm_mem_bytes = 0, sm_mem_pct = 0\<rparr>"

definition fleet_db :: "sample list \<Rightarrow> mdb" where
  "fleet_db rs = \<lparr>md_settings = None, md_monitors = [(cpu_rule, [])], md_alerts = [], md_samples = rs, md_environments = [''staging'', ''prod'']\<rparr>"

definition fleet_world :: "sample list \<Rightarrow> mon_world" where
  "fleet_world rs = \<lparr>mw_db = fleet_db rs, mw_minted = 0, mw_events = []\<rparr>"

definition count_id :: "nat \<Rightarrow> ident" where
  "count_id n = replicate n CHR ''+''"

text \<open>Two hosts that run a service of the same name share one alert. Staging's api is idle and
  production's is over the line for the whole window. In one round of a fleet-wide rule the alert of
  production is raised and then closed, as recovered, by staging's reading; so the rule ends the
  round silent, and the next round pages again.\<close>

lemma same_service_on_two_hosts_flaps:
  "(let w = Run count_id (fleet_world [reading ''prod'' ''api'' 990 95, reading ''prod'' ''api'' 960 95,
              reading ''staging'' ''api'' 990 1, reading ''staging'' ''api'' 960 1]) (1000 * second) (1000 * second);
        w2 = Run count_id (w\<lparr>mw_events := []\<rparr>) (1000 * second) (1001 * second)
    in (firing (mw_db w) ''mon_1'' ''api'', map (\<lambda>e. case e of Fired m env as \<Rightarrow> ''fired on '' @ env | Recovered a env r \<Rightarrow> ''recovered on '' @ env | _ \<Rightarrow> []) (mw_events w),
        map (\<lambda>e. case e of Fired m env as \<Rightarrow> ''fired on '' @ env | Recovered a env r \<Rightarrow> ''recovered on '' @ env | _ \<Rightarrow> []) (mw_events w2)))
   = (False, [''recovered on prod'', ''fired on prod''], [''recovered on prod'', ''fired on prod''])"
  by code_simp

text \<open>A window that is too long never fires. The length of a window has no upper bound; at ten thousand
  million seconds its arithmetic wraps round and the window begins in the future, so the rule is
  accepted and can never match a reading.\<close>

lemma huge_window_never_fires:
  "(\<exists>v. validate (cpu_rule\<lparr>mn_duration_secs := 10000000000\<rparr>) = Inr v) \<and>
   Evaluate s (cpu_rule\<lparr>mn_duration_secs := 10000000000\<rparr>) atime = Inr []"
proof -
  let ?m = "cpu_rule\<lparr>mn_duration_secs := 10000000000\<rparr>"
  have w: "wrap64 (- (10000000000 * second)) = 8446744073709551616" by (simp add: wrap64_def second_def)
  have "atime div second \<le> (atime + 8446744073709551616) div second"
    by (rule zdiv_mono1) (simp_all add: second_def)
  then have "window_from ?m atime \<ge> atime div second" by (simp add: window_from_def w)
  then have "\<not> selected ?m atime r" for r unfolding selected_def by linarith
  then have "filter (selected ?m atime) rs = []" for rs by simp
  then have "Evaluate s ?m atime = Inr []"
    by (simp add: Evaluate_def points_def group_by_def cpu_rule_def metricColumns_def comparisons_def)
  moreover have "validate ?m = Inr ?m"
    by (simp add: validate_def validateActions_def cpu_rule_def metricColumns_def comparisons_def PercentMetric_def trim_space_def is_space_def)
  ultimately show ?thesis by blast
qed

section \<open>Witnesses\<close>

definition busy_db :: mdb where
  "busy_db = fleet_db [reading ''prod'' ''api'' 990 95, reading ''prod'' ''api'' 960 95]"

definition busy_breach :: breach where
  "busy_breach = \<lparr>br_env_id = ''prod'', br_container_name = ''api'', br_container_id = ''c'', br_stack = ''web'',
     br_samples = 2, br_breaching = 2, br_worst = 95, br_best = 95\<rparr>"

lemma busy_Evaluate: "Evaluate busy_db cpu_rule (1000 * second) = Inr [busy_breach]"
  by code_simp

lemma busy_inv: "alerts_inv busy_db" "mn_id cpu_rule \<in> monitor_ids busy_db"
  "fresh_ids count_id \<lparr>mw_db = busy_db, mw_minted = 0, mw_events = []\<rparr>"
  by (auto simp: alerts_inv_def monitor_ids_def fresh_ids_def busy_db_def fleet_db_def count_id_def inj_def dest: arg_cong[of _ _ length])


definition open_alert :: "ident \<Rightarrow> int \<Rightarrow> alert" where
  "open_alert i seen = \<lparr>al_id = i, al_monitor_id = ''mon_1'', al_env_id = ''prod'', al_container_name = ''api'', al_container_id = ''c'',
     al_stack = ''web'', al_state = AlertFiring, al_value = 95, al_started_at = 0, al_last_seen_at = seen, al_resolved_at = None,
     al_resolve_reason = NoReason, al_actions_at = None, al_actions_log = []\<rparr>"

definition alerting_world :: mon_world where
  "alerting_world = \<lparr>mw_db = (fleet_db [])\<lparr>md_alerts := [open_alert ''alr_1'' 5]\<rparr>, mw_minted = 0, mw_events = []\<rparr>"

definition quiet_daemon :: daemon where
  "quiet_daemon = \<lparr>dm_cluster = (\<lambda>e. None),
     dm_restart_service = (\<lambda>s. None), dm_restart = (\<lambda>c. None), dm_exec = (\<lambda>c cmd t. Inr (0, [])), dm_replicas = (\<lambda>s. Inr (1, True)),
     dm_scale = (\<lambda>s n. None), dm_payload = (\<lambda>m a. []), dm_bad_url = (\<lambda>u. None), dm_open = (\<lambda>s. None),
     dm_hmac = (\<lambda>k b. []), dm_http = (\<lambda>r. Inr 200), dm_time = (\<lambda>t. []), dm_duration = (\<lambda>t. [])\<rparr>"

theorem cooldown_between_runs_witness:
  "sorted_wrt (\<lambda>t u. 900 * second \<le> u - t)
     (run_all quiet_daemon cpu_rule (mw_db alerting_world) [(open_alert ''alr_1'' 5, 0), (open_alert ''alr_1'' 5, 60 * second), (open_alert ''alr_1'' 5, 900 * second)]) \<and>
   run_all quiet_daemon cpu_rule (mw_db alerting_world) [(open_alert ''alr_1'' 5, 0), (open_alert ''alr_1'' 5, 60 * second), (open_alert ''alr_1'' 5, 900 * second)]
     = [0, 900 * second]"
proof
  show "run_all quiet_daemon cpu_rule (mw_db alerting_world) [(open_alert ''alr_1'' 5, 0), (open_alert ''alr_1'' 5, 60 * second), (open_alert ''alr_1'' 5, 900 * second)]
     = [0, 900 * second]" by code_simp
  have "has_row (mw_db alerting_world) (mn_id cpu_rule) ''api'' ''alr_1''" by code_simp
  moreover have "mn_action_cooldown_secs cpu_rule = 900" by (simp add: cpu_rule_def)
  ultimately show "sorted_wrt (\<lambda>t u. 900 * second \<le> u - t)
     (run_all quiet_daemon cpu_rule (mw_db alerting_world) [(open_alert ''alr_1'' 5, 0), (open_alert ''alr_1'' 5, 60 * second), (open_alert ''alr_1'' 5, 900 * second)])"
    using cooldown_between_runs[of cpu_rule "[(open_alert ''alr_1'' 5, 0), (open_alert ''alr_1'' 5, 60 * second), (open_alert ''alr_1'' 5, 900 * second)]"
        "''api''" "mw_db alerting_world" quiet_daemon]
    by (simp add: open_alert_def)
qed

text \<open>A rule of one host that posts to a URL, and the stored rule it replaces.\<close>

definition hook_action :: "string \<Rightarrow> string \<Rightarrow> monitor_action" where
  "hook_action secret enc = \<lparr>ma_kind = ''http'', ma_command = [], ma_timeout_secs = 0, ma_by = 0, ma_limit = 0, ma_url = ''https://x'',
     ma_secret = secret, ma_secret_enc = enc, ma_has_secret = True\<rparr>"

definition hook_rule :: "string \<Rightarrow> string \<Rightarrow> monitor" where
  "hook_rule secret enc = cpu_rule\<lparr>mn_env_id := ''prod'', mn_actions := [hook_action secret enc]\<rparr>"

definition hook_db :: mdb where
  "hook_db = (fleet_db [])\<lparr>md_monitors := [((hook_rule [] [])\<lparr>mn_actions := []\<rparr>, encodeActions [hook_action [] ''sealed''])]\<rparr>"

definition author :: scoped_mask where
  "author = \<lparr>Global = or_into (or_into [] (NS MonitorsEdit) (Bit MonitorsEdit)) (NS SettingsEdit) (Bit SettingsEdit), Env = []\<rparr>"

definition posted_rule :: monitor where
  "posted_rule = scrubActions (hook_rule [] ''sealed'')"

definition posted_db :: mdb where
  "posted_db = hook_db\<lparr>md_monitors := [((hook_rule [] [])\<lparr>mn_actions := [], mn_updated_at := 9\<rparr>, encodeActions [hook_action [] ''sealed''])]\<rparr>"

lemma author_saves:
  "handleUpdateMonitor author (\<lambda>x. None) hook_db ''mon_1'' (hook_rule [] []) 9 = Saved (posted_rule\<lparr>mn_updated_at := 9\<rparr>) posted_db"
  by code_simp

theorem rule_powers_are_held_witness:
  "mayMonitor author ''prod'' \<and> mn_actions posted_rule \<noteq> []"
  using rule_powers_are_held[OF disjI2[OF author_saves]]
  by (simp add: posted_rule_def scrubActions_def hook_rule_def)

end
