(* ===== verification/RouteTable.thy ===== *)
theory RouteTable
  imports Caps
begin

text \<open>
  The table of authenticated routes, \<^verbatim>\<open>apiRoutes\<close> of \<^verbatim>\<open>internal/api/server.go\<close>, in the order of the source
  and under its section headings. A route has its pattern, its capability and where that is checked,
  or the reason why it needs none, and the name of its handler. The types of the payloads and the
  names of the generated client methods are not read at run time and are left out.
\<close>

datatype scope_kind =
    scopeUnset | scopeNone | scopeGlobal | scopeEnv | scopeStack | scopeJob | scopeDeployment
  | scopeMonitor | scopeVolumeSource | scopeWebhook | scopeAny | scopeBody

record route =
  rt_pattern :: string
  rt_cap :: cap
  rt_scope :: scope_kind
  rt_open :: string
  rt_h :: string

definition rt :: "string \<Rightarrow> cap \<Rightarrow> scope_kind \<Rightarrow> string \<Rightarrow> string \<Rightarrow> route" where
  "rt p c s why h = \<lparr>rt_pattern = p, rt_cap = c, rt_scope = s, rt_open = why, rt_h = h\<rparr>"

definition no_cap :: cap where
  "no_cap = \<lparr>NS = [], Bit = 0\<rparr>"

definition routes_session :: "route list" where
  "routes_session =
    [rt ''GET /api/auth/me'' no_cap scopeNone ''a signed-in user may always read their own identity and permissions'' ''handleMe'',
     rt ''POST /api/auth/logout'' no_cap scopeNone ''ending your own session is not a privileged act'' ''handleLogout'',
     rt ''GET /api/tokens'' no_cap scopeNone ''your own credentials are yours to see; the response carries names and prefixes, never a secret'' ''handleListMyTokens'',
     rt ''POST /api/tokens'' no_cap scopeNone ''minting a credential for yourself is not a granted power; the handler refuses token-authenticated callers'' ''handleCreateToken'',
     rt ''DELETE /api/tokens/{id}'' no_cap scopeNone ''the handler enforces owner-or-users.edit, answering 404 either way'' ''handleDeleteToken'',
     rt ''GET /api/tokens/all'' UsersEdit scopeGlobal '''' ''handleListAllTokens'',
     rt ''GET /api/capabilities'' RolesView scopeGlobal '''' ''handleListCapabilities'',
     rt ''GET /api/openapi.json'' no_cap scopeNone ''the spec describes shapes, not data; any signed-in user or token holder may read what using the API would reveal anyway'' ''handleOpenAPISpec'']"

definition routes_clusters :: "route list" where
  "routes_clusters =
    [rt ''GET /api/clusters'' ClustersView scopeAny '''' ''handleListEnvironments'',
     rt ''POST /api/clusters/test-connection'' ClustersEdit scopeGlobal '''' ''handleTestSSHConnection'',
     rt ''POST /api/clusters'' ClustersEdit scopeGlobal '''' ''handleCreateSSHCluster'',
     rt ''POST /api/clusters/provision'' ClustersProvision scopeGlobal '''' ''handleProvision'',
     rt ''DELETE /api/clusters/{cluster}'' ClustersEdit scopeGlobal '''' ''handleDeleteCluster'',
     rt ''GET /api/clusters/{cluster}/info'' ClustersView scopeEnv '''' ''handleEnvInfo'',
     rt ''GET /api/clusters/{cluster}/df'' ClustersView scopeEnv '''' ''handleDiskUsage'',
     rt ''PATCH /api/clusters/{cluster}'' ClustersEdit scopeGlobal '''' ''handleRenameEnvironment'',
     rt ''GET /api/clusters/{cluster}/logging'' LoggingView scopeEnv '''' ''handleGetEnvLogConfig'',
     rt ''PUT /api/clusters/{cluster}/logging'' LoggingEdit scopeEnv '''' ''handleSaveEnvLogConfig'',
     rt ''DELETE /api/clusters/{cluster}/logging'' LoggingEdit scopeEnv '''' ''handleDeleteEnvLogConfig'',
     rt ''GET /api/clusters/{cluster}/cleanup'' SystemPrune scopeEnv '''' ''handleGetEnvCleanup'',
     rt ''PUT /api/clusters/{cluster}/cleanup'' SystemPrune scopeEnv '''' ''handleSaveEnvCleanup'',
     rt ''DELETE /api/clusters/{cluster}/cleanup'' SystemPrune scopeEnv '''' ''handleDeleteEnvCleanup'',
     rt ''POST /api/clusters/{cluster}/cleanup/run'' SystemPrune scopeEnv '''' ''handleRunCleanup'',
     rt ''GET /api/agents'' ClustersEdit scopeGlobal '''' ''handleListAgents'',
     rt ''POST /api/agents'' NodesEdit scopeBody '''' ''handleCreateAgent'',
     rt ''DELETE /api/agents/{id}'' ClustersEdit scopeGlobal '''' ''handleDeleteAgent'']"

definition routes_containers :: "route list" where
  "routes_containers =
    [rt ''GET /api/clusters/{cluster}/containers'' ContainersView scopeEnv '''' ''handleListContainers'',
     rt ''GET /api/clusters/{cluster}/containers/{id}'' ContainersView scopeEnv '''' ''handleInspectContainer'',
     rt ''GET /api/clusters/{cluster}/containers/{id}/logs'' ContainersView scopeEnv '''' ''handleContainerLogs'',
     rt ''GET /api/clusters/{cluster}/containers/{id}/stats'' ContainersView scopeEnv '''' ''handleStatsStream'',
     rt ''GET /api/clusters/{cluster}/stats'' ContainersView scopeEnv '''' ''handleStatsSnapshot'',
     rt ''GET /api/clusters/{cluster}/events'' ContainersView scopeEnv '''' ''handleEvents'',
     rt ''POST /api/clusters/{cluster}/containers/{id}/{action}'' ContainersEdit scopeEnv '''' ''handleContainerAction'',
     rt ''GET /api/clusters/{cluster}/containers/{id}/exec'' no_cap scopeNone ''a WebSocket upgrade is a GET; handleExec enforces containers.exec itself'' ''handleExec'']"

definition routes_resources_1 :: "route list" where
  "routes_resources_1 =
    [rt ''GET /api/clusters/{cluster}/services'' ServicesView scopeEnv '''' ''handleListServices'',
     rt ''GET /api/clusters/{cluster}/services/{id}'' ServicesView scopeEnv '''' ''handleInspectService'',
     rt ''GET /api/clusters/{cluster}/services/{id}/tasks'' ServicesView scopeEnv '''' ''handleListTasks'',
     rt ''GET /api/clusters/{cluster}/services/{id}/logs'' ServicesView scopeEnv '''' ''handleServiceLogs'',
     rt ''GET /api/clusters/{cluster}/nodes'' ClustersView scopeEnv '''' ''handleListNodes'',
     rt ''POST /api/clusters/{cluster}/services/{id}/scale'' ServicesEdit scopeEnv '''' ''handleScaleService'',
     rt ''POST /api/clusters/{cluster}/services/{id}/redeploy'' ServicesEdit scopeEnv '''' ''handleRedeployService'',
     rt ''POST /api/clusters/{cluster}/services/{id}/rollback'' ServicesEdit scopeEnv '''' ''handleRollbackService'',
     rt ''DELETE /api/clusters/{cluster}/services/{id}'' ServicesEdit scopeEnv '''' ''handleRemoveService'',
     rt ''POST /api/clusters/{cluster}/nodes'' NodesEdit scopeEnv '''' ''handleAddNode'',
     rt ''PATCH /api/clusters/{cluster}/nodes/{id}'' NodesEdit scopeEnv '''' ''handleUpdateNode'']"

definition routes_resources_2 :: "route list" where
  "routes_resources_2 =
    [rt ''DELETE /api/clusters/{cluster}/nodes/{id}'' NodesEdit scopeEnv '''' ''handleRemoveNode'',
     rt ''POST /api/clusters/{cluster}/swarm/init'' SwarmEdit scopeEnv '''' ''handleSwarmInit'',
     rt ''GET /api/clusters/{cluster}/swarm/tokens'' SwarmEdit scopeEnv '''' ''handleJoinTokens'',
     rt ''GET /api/clusters/{cluster}/swarm/task-history'' ClustersView scopeEnv '''' ''handleGetTaskHistory'',
     rt ''PUT /api/clusters/{cluster}/swarm/task-history'' SwarmEdit scopeEnv '''' ''handleSetTaskHistory'',
     rt ''POST /api/clusters/{cluster}/swarm/leave'' SwarmEdit scopeEnv '''' ''handleSwarmLeave'',
     rt ''GET /api/clusters/{cluster}/images'' ImagesView scopeEnv '''' ''handleListImages'',
     rt ''DELETE /api/clusters/{cluster}/images/{id}'' ImagesEdit scopeEnv '''' ''handleRemoveImage'',
     rt ''GET /api/clusters/{cluster}/networks'' NetworksView scopeEnv '''' ''handleListNetworks'',
     rt ''DELETE /api/clusters/{cluster}/networks/{id}'' NetworksEdit scopeEnv '''' ''handleRemoveNetwork'',
     rt ''GET /api/clusters/{cluster}/volumes'' VolumesView scopeEnv '''' ''handleListVolumes'',
     rt ''DELETE /api/clusters/{cluster}/volumes/{name}'' VolumesEdit scopeEnv '''' ''handleRemoveVolume'',
     rt ''POST /api/clusters/{cluster}/prune/{target}'' SystemPrune scopeEnv '''' ''handlePrune'']"

definition routes_stacks :: "route list" where
  "routes_stacks =
    [rt ''GET /api/stacks'' StacksView scopeAny '''' ''handleListStacks'',
     rt ''GET /api/stacks/{id}'' StacksView scopeStack '''' ''handleStackDetail'',
     rt ''GET /api/stacks/{id}/deployments'' StacksView scopeStack '''' ''handleListStackDeployments'',
     rt ''GET /api/stacks/{id}/env'' StacksView scopeStack '''' ''handleStackEnv'',
     rt ''GET /api/stacks/{id}/secrets'' StacksView scopeStack '''' ''handleStackSecrets'',
     rt ''GET /api/stacks/{id}/env/{key}/reveal'' SecretsReveal scopeStack '''' ''handleRevealStackEnv'',
     rt ''GET /api/stacks/{id}/secrets/{name}/reveal'' SecretsReveal scopeStack '''' ''handleRevealStackSecret'',
     rt ''POST /api/stacks'' StacksEdit scopeBody '''' ''handleCreateStack'',
     rt ''PUT /api/stacks/{id}'' StacksEdit scopeStack '''' ''handleUpdateStack'',
     rt ''DELETE /api/stacks/{id}'' StacksEdit scopeStack '''' ''handleDeleteStack'',
     rt ''PUT /api/stacks/{id}/env'' StacksEdit scopeStack '''' ''handleSetStackEnv'',
     rt ''PUT /api/stacks/{id}/secrets'' StacksEdit scopeStack '''' ''handleSetStackSecrets'',
     rt ''PUT /api/stacks/{id}/autodeploy'' StacksEdit scopeStack '''' ''handleSetAutoDeploy'',
     rt ''POST /api/stacks/{id}/{action}'' StacksEdit scopeStack '''' ''handleStackAction'']"

definition routes_compose :: "route list" where
  "routes_compose =
    [rt ''POST /api/compose/images'' StacksView scopeBody '''' ''handlePreviewComposeImages'',
     rt ''POST /api/compose/tag-check'' StacksView scopeBody '''' ''handleCheckImageTag'',
     rt ''POST /api/compose/latest-hint'' StacksView scopeBody '''' ''handleLatestImageTag'',
     rt ''POST /api/compose/rewrite'' StacksEdit scopeBody '''' ''handleRewriteComposeImages'']"

definition routes_webhooks :: "route list" where
  "routes_webhooks =
    [rt ''GET /api/webhooks'' WebhooksView scopeAny '''' ''handleListWebhooks'',
     rt ''POST /api/webhooks'' WebhooksEdit scopeBody '''' ''handleCreateWebhook'',
     rt ''PUT /api/webhooks/{id}'' WebhooksEdit scopeWebhook '''' ''handleUpdateWebhook'',
     rt ''POST /api/webhooks/{id}/rotate'' WebhooksEdit scopeWebhook '''' ''handleRotateWebhook'',
     rt ''DELETE /api/webhooks/{id}'' WebhooksEdit scopeWebhook '''' ''handleDeleteWebhook'']"

definition routes_volume_sources :: "route list" where
  "routes_volume_sources =
    [rt ''GET /api/volume-sources'' VolSourcesView scopeAny '''' ''handleListVolumeSources'',
     rt ''POST /api/volume-sources'' VolSourcesEdit scopeBody '''' ''handleCreateVolumeSource'',
     rt ''GET /api/volume-sources/{id}'' VolSourcesView scopeVolumeSource '''' ''handleGetVolumeSource'',
     rt ''PUT /api/volume-sources/{id}'' VolSourcesEdit scopeVolumeSource '''' ''handleUpdateVolumeSource'',
     rt ''DELETE /api/volume-sources/{id}'' VolSourcesEdit scopeVolumeSource '''' ''handleDeleteVolumeSource'',
     rt ''POST /api/volume-sources/{id}/sync'' VolSourcesEdit scopeVolumeSource '''' ''handleSyncVolumeSource'']"

definition routes_deployments :: "route list" where
  "routes_deployments =
    [rt ''GET /api/deployments'' StacksView scopeAny '''' ''handleRecentDeployments'',
     rt ''GET /api/deployments/{id}'' StacksView scopeDeployment '''' ''handleDeploymentDetail'',
     rt ''GET /api/deployments/{id}/logs'' StacksView scopeDeployment '''' ''handleDeploymentLogs'',
     rt ''POST /api/deployments/{id}/cancel'' StacksEdit scopeDeployment '''' ''handleCancelDeployment'',
     rt ''POST /api/deployments/{id}/redeploy'' StacksEdit scopeDeployment '''' ''handleRedeployDeployment'']"

definition routes_backups :: "route list" where
  "routes_backups =
    [rt ''GET /api/backups'' BackupsView scopeAny '''' ''handleListBackupJobs'',
     rt ''GET /api/backups/{id}/runs'' BackupsView scopeJob '''' ''handleBackupRuns'',
     rt ''GET /api/backups/{id}/snapshots'' BackupsView scopeJob '''' ''handleSnapshots'',
     rt ''POST /api/backups'' BackupsEdit scopeBody '''' ''handleCreateBackupJob'',
     rt ''DELETE /api/backups/{id}'' BackupsEdit scopeJob '''' ''handleDeleteBackupJob'',
     rt ''PUT /api/backups/{id}/schedule'' BackupsEdit scopeJob '''' ''handleSetBackupSchedule'',
     rt ''POST /api/backups/{id}/toggle'' BackupsEdit scopeJob '''' ''handleToggleBackupJob'',
     rt ''POST /api/backups/{id}/run'' BackupsEdit scopeJob '''' ''handleRunBackup'',
     rt ''GET /api/backups/{id}/download'' BackupsDownload scopeJob '''' ''handleSnapshotDownload'',
     rt ''POST /api/backups/{id}/restore'' BackupsRestore scopeJob '''' ''handleRestore'']"

definition routes_storage :: "route list" where
  "routes_storage =
    [rt ''GET /api/storage'' StorageView scopeAny '''' ''handleListStorage'',
     rt ''POST /api/storage'' StorageEdit scopeGlobal '''' ''handleCreateStorage'',
     rt ''PUT /api/storage/{id}'' StorageEdit scopeGlobal '''' ''handleUpdateStorage'',
     rt ''DELETE /api/storage/{id}'' StorageEdit scopeGlobal '''' ''handleDeleteStorage'',
     rt ''GET /api/registries'' RegistriesView scopeAny '''' ''handleListRegistries'',
     rt ''POST /api/registries'' RegistriesEdit scopeGlobal '''' ''handleCreateRegistry'',
     rt ''DELETE /api/registries/{id}'' RegistriesEdit scopeGlobal '''' ''handleDeleteRegistry'',
     rt ''GET /api/gitcreds'' GitCredsView scopeAny '''' ''handleListGitCredentials'',
     rt ''GET /api/gitcreds/host-keys'' GitCredsEdit scopeGlobal '''' ''handleDiscoverHostKeys'',
     rt ''POST /api/gitcreds'' GitCredsEdit scopeGlobal '''' ''handleCreateGitCredential'',
     rt ''POST /api/gitcreds/{id}/test'' GitCredsEdit scopeGlobal '''' ''handleTestGitCredential'',
     rt ''DELETE /api/gitcreds/{id}'' GitCredsEdit scopeGlobal '''' ''handleDeleteGitCredential'']"

definition routes_ssh_keys :: "route list" where
  "routes_ssh_keys =
    [rt ''GET /api/ssh-keys'' SSHKeysView scopeAny '''' ''handleListSSHKeys'',
     rt ''POST /api/ssh-keys'' SSHKeysEdit scopeGlobal '''' ''handleCreateSSHKey'',
     rt ''DELETE /api/ssh-keys/{id}'' SSHKeysEdit scopeGlobal '''' ''handleDeleteSSHKey'']"

definition routes_certs_1 :: "route list" where
  "routes_certs_1 =
    [rt ''GET /api/certs/cas'' CertsView scopeAny '''' ''handleListCAs'',
     rt ''POST /api/certs/cas'' CertsEdit scopeGlobal '''' ''handleCreateCA'',
     rt ''PUT /api/certs/cas/{id}'' CertsEdit scopeGlobal '''' ''handleUpdateCA'',
     rt ''POST /api/certs/cas/{id}/rotate'' CertsEdit scopeGlobal '''' ''handleRotateCA'',
     rt ''POST /api/certs/cas/{id}/activate'' CertsEdit scopeGlobal '''' ''handleActivateCA'',
     rt ''DELETE /api/certs/cas/{id}'' CertsEdit scopeGlobal '''' ''handleDeleteCA'',
     rt ''GET /api/certs/bundle'' CertsView scopeAny '''' ''handleTrustBundle'',
     rt ''GET /api/certs'' CertsView scopeAny '''' ''handleListCertificates'',
     rt ''POST /api/certs'' CertsEdit scopeGlobal '''' ''handleCreateCertificate'',
     rt ''PUT /api/certs/{id}'' CertsEdit scopeGlobal '''' ''handleUpdateCertificate'',
     rt ''POST /api/certs/{id}/renew'' CertsEdit scopeGlobal '''' ''handleRenewCertificate'',
     rt ''DELETE /api/certs/{id}'' CertsEdit scopeGlobal '''' ''handleDeleteCertificate'']"

definition routes_certs_2 :: "route list" where
  "routes_certs_2 =
    [rt ''GET /api/certs/deliveries'' CertsView scopeAny '''' ''handleListCertDeliveries'',
     rt ''POST /api/certs/deliveries'' CertsEdit scopeGlobal '''' ''handleCreateCertDelivery'',
     rt ''PUT /api/certs/deliveries/{id}'' CertsEdit scopeGlobal '''' ''handleUpdateCertDelivery'',
     rt ''POST /api/certs/deliveries/{id}/sync'' CertsEdit scopeGlobal '''' ''handleSyncCertDelivery'',
     rt ''DELETE /api/certs/deliveries/{id}'' CertsEdit scopeGlobal '''' ''handleDeleteCertDelivery'',
     rt ''GET /api/certs/fleet-deliveries'' FleetView scopeAny '''' ''handleListFleetDeliveries'',
     rt ''POST /api/certs/fleet-deliveries'' FleetEdit scopeGlobal '''' ''handleCreateFleetDelivery'',
     rt ''PUT /api/certs/fleet-deliveries/{id}'' FleetEdit scopeGlobal '''' ''handleUpdateFleetDelivery'',
     rt ''POST /api/certs/fleet-deliveries/{id}/sync'' FleetEdit scopeGlobal '''' ''handleSyncFleetDelivery'',
     rt ''DELETE /api/certs/fleet-deliveries/{id}'' FleetEdit scopeGlobal '''' ''handleDeleteFleetDelivery'',
     rt ''GET /api/keys'' KeysView scopeAny '''' ''handleListKeys'',
     rt ''POST /api/keys'' KeysEdit scopeGlobal '''' ''handleCreateKey'',
     rt ''DELETE /api/keys/{id}'' KeysEdit scopeGlobal '''' ''handleDeleteKey'']"

definition routes_keyrings :: "route list" where
  "routes_keyrings =
    [rt ''GET /api/keyrings'' KeyringsView scopeAny '''' ''handleListKeyrings'',
     rt ''POST /api/keyrings'' KeyringsEdit scopeGlobal '''' ''handleCreateKeyring'',
     rt ''PUT /api/keyrings/{id}'' KeyringsEdit scopeGlobal '''' ''handleUpdateKeyring'',
     rt ''POST /api/keyrings/{id}/rotate'' KeyringsEdit scopeGlobal '''' ''handleRotateKeyring'',
     rt ''POST /api/keyrings/{id}/versions/{vid}/retire'' KeyringsEdit scopeGlobal '''' ''handleRetireKeyringVersion'',
     rt ''DELETE /api/keyrings/{id}'' KeyringsEdit scopeGlobal '''' ''handleDeleteKeyring'',
     rt ''GET /api/keyrings/deliveries'' KeyringsView scopeAny '''' ''handleListKeyringDeliveries'',
     rt ''POST /api/keyrings/deliveries'' KeyringsEdit scopeGlobal '''' ''handleCreateKeyringDelivery'',
     rt ''POST /api/keyrings/deliveries/{id}/sync'' KeyringsEdit scopeGlobal '''' ''handleSyncKeyringDelivery'',
     rt ''DELETE /api/keyrings/deliveries/{id}'' KeyringsEdit scopeGlobal '''' ''handleDeleteKeyringDelivery'']"

definition routes_users :: "route list" where
  "routes_users =
    [rt ''GET /api/users'' UsersView scopeGlobal '''' ''handleListUsers'',
     rt ''POST /api/users'' UsersEdit scopeGlobal '''' ''handleCreateUser'',
     rt ''PATCH /api/users/{id}'' UsersEdit scopeGlobal '''' ''handleUpdateUser'',
     rt ''DELETE /api/users/{id}'' UsersEdit scopeGlobal '''' ''handleDeleteUser'',
     rt ''PUT /api/users/{id}/password'' UsersEdit scopeGlobal '''' ''handleSetUserPassword'',
     rt ''PUT /api/users/{id}/roles'' UsersEdit scopeGlobal '''' ''handleSetUserRoles'',
     rt ''POST /api/users/{id}/tokens'' UsersEdit scopeGlobal '''' ''handleCreateBotToken'',
     rt ''GET /api/roles'' RolesView scopeGlobal '''' ''handleListRoles'',
     rt ''POST /api/roles'' RolesEdit scopeGlobal '''' ''handleCreateRole'',
     rt ''PUT /api/roles/{id}'' RolesEdit scopeGlobal '''' ''handleUpdateRole'',
     rt ''DELETE /api/roles/{id}'' RolesEdit scopeGlobal '''' ''handleDeleteRole'']"

definition routes_monitors :: "route list" where
  "routes_monitors =
    [rt ''GET /api/clusters/{cluster}/metrics'' ContainersView scopeEnv '''' ''handleSeries'',
     rt ''GET /api/monitors'' MonitorsView scopeAny '''' ''handleListMonitors'',
     rt ''GET /api/monitors/alerts'' MonitorsView scopeAny '''' ''handleListAlerts'',
     rt ''POST /api/monitors'' MonitorsEdit scopeBody '''' ''handleCreateMonitor'',
     rt ''PUT /api/monitors/{id}'' MonitorsEdit scopeMonitor '''' ''handleUpdateMonitor'',
     rt ''DELETE /api/monitors/{id}'' MonitorsEdit scopeMonitor '''' ''handleDeleteMonitor'',
     rt ''GET /api/settings/monitoring'' MonitorsView scopeGlobal '''' ''handleGetMonitorSettings'',
     rt ''PUT /api/settings/monitoring'' MonitorsEdit scopeGlobal '''' ''handleSaveMonitorSettings'']"

definition routes_defaults :: "route list" where
  "routes_defaults =
    [rt ''GET /api/settings/logging'' LoggingView scopeGlobal '''' ''handleGetGlobalLogConfig'',
     rt ''PUT /api/settings/logging'' LoggingEdit scopeGlobal '''' ''handleSaveGlobalLogConfig'',
     rt ''DELETE /api/settings/logging'' LoggingEdit scopeGlobal '''' ''handleDeleteGlobalLogConfig'',
     rt ''GET /api/settings/cleanup'' SystemPrune scopeGlobal '''' ''handleGetGlobalCleanup'',
     rt ''PUT /api/settings/cleanup'' SystemPrune scopeGlobal '''' ''handleSaveGlobalCleanup'',
     rt ''DELETE /api/settings/cleanup'' SystemPrune scopeGlobal '''' ''handleDeleteGlobalCleanup'']"

definition routes_providers :: "route list" where
  "routes_providers =
    [rt ''GET /api/settings/oidc'' SettingsView scopeGlobal '''' ''handleListProviders'',
     rt ''POST /api/settings/oidc'' SettingsEdit scopeGlobal '''' ''handleCreateProvider'',
     rt ''PUT /api/settings/oidc/{id}'' SettingsEdit scopeGlobal '''' ''handleUpdateProvider'',
     rt ''DELETE /api/settings/oidc/{id}'' SettingsEdit scopeGlobal '''' ''handleDeleteProvider'',
     rt ''POST /api/settings/oidc/{id}/test'' SettingsEdit scopeGlobal '''' ''handleTestProvider'',
     rt ''GET /api/settings/oidc/{id}/mappings'' SettingsView scopeGlobal '''' ''handleListMappings'',
     rt ''POST /api/settings/oidc/{id}/mappings'' SettingsEdit scopeGlobal '''' ''handleCreateMapping'',
     rt ''DELETE /api/settings/oidc/{id}/mappings/{mapping}'' SettingsEdit scopeGlobal '''' ''handleDeleteMapping'']"

definition routes_notifications :: "route list" where
  "routes_notifications =
    [rt ''GET /api/settings/smtp'' SettingsView scopeGlobal '''' ''handleGetSMTP'',
     rt ''PUT /api/settings/smtp'' SettingsEdit scopeGlobal '''' ''handleSaveSMTP'',
     rt ''POST /api/settings/smtp/test'' SettingsEdit scopeGlobal '''' ''handleTestSMTP'',
     rt ''GET /api/notifications/events'' SettingsView scopeGlobal '''' ''handleListNotifyEvents'',
     rt ''GET /api/notifications/preview/{event}'' SettingsView scopeGlobal '''' ''handlePreviewNotification'',
     rt ''GET /api/notifications/failed'' SettingsView scopeGlobal '''' ''handleFailedNotifications'',
     rt ''GET /api/notifications/rules'' SettingsView scopeGlobal '''' ''handleListNotifyRules'',
     rt ''POST /api/notifications/rules'' SettingsEdit scopeGlobal '''' ''handleCreateNotifyRule'',
     rt ''DELETE /api/notifications/rules/{id}'' SettingsEdit scopeGlobal '''' ''handleDeleteNotifyRule'',
     rt ''GET /api/notifications/channels'' SettingsView scopeGlobal '''' ''handleListChannels'',
     rt ''POST /api/notifications/channels'' SettingsEdit scopeGlobal '''' ''handleCreateChannel'',
     rt ''POST /api/notifications/channels/{id}/test'' SettingsEdit scopeGlobal '''' ''handleTestChannel'',
     rt ''DELETE /api/notifications/channels/{id}'' SettingsEdit scopeGlobal '''' ''handleDeleteChannel'']"

definition routes_audit :: "route list" where
  "routes_audit =
    [rt ''GET /api/audit'' AuditView scopeAny '''' ''handleAudit'']"

definition routes_manifests :: "route list" where
  "routes_manifests =
    [rt ''POST /api/manifest/plan'' no_cap scopeNone ''authorization is per-resource: the handler preflights every declared resource against its own capability before reporting anything'' ''handleManifestPlan'',
     rt ''POST /api/manifest/apply'' no_cap scopeNone ''authorization is per-resource: the handler preflights every declared resource against its own capability before any mutation'' ''handleManifestApply'',
     rt ''GET /api/manifest/applies'' ManifestsView scopeGlobal '''' ''handleListManifestApplies'',
     rt ''GET /api/manifest/applies/{id}'' ManifestsView scopeGlobal '''' ''handleGetManifestApply'']"

definition apiRoutes :: "route list" where
  "apiRoutes =
     routes_session @
     routes_clusters @
     routes_containers @
     routes_resources_1 @
     routes_resources_2 @
     routes_stacks @
     routes_compose @
     routes_webhooks @
     routes_volume_sources @
     routes_deployments @
     routes_backups @
     routes_storage @
     routes_ssh_keys @
     routes_certs_1 @
     routes_certs_2 @
     routes_keyrings @
     routes_users @
     routes_monitors @
     routes_defaults @
     routes_providers @
     routes_notifications @
     routes_audit @
     routes_manifests"

lemmas route_lists = 
  apiRoutes_def routes_session_def routes_clusters_def routes_containers_def routes_resources_1_def routes_resources_2_def
  routes_stacks_def routes_compose_def routes_webhooks_def routes_volume_sources_def routes_deployments_def routes_backups_def
  routes_storage_def routes_ssh_keys_def routes_certs_1_def routes_certs_2_def routes_keyrings_def routes_users_def
  routes_monitors_def routes_defaults_def routes_providers_def routes_notifications_def routes_audit_def routes_manifests_def
  rt_def

end
