(* ===== verification/Accounts.thy ===== *)
theory Accounts
  imports Effective
begin

text \<open>
  Who a request is from: the sessions, API tokens and break-glass tokens of \<^verbatim>\<open>internal/store/models.go\<close>
  and \<^verbatim>\<open>internal/store/tokens.go\<close>, the session manager and the login throttle of \<^verbatim>\<open>internal/auth\<close>, and the
  sign-in and token handlers of \<^verbatim>\<open>internal/api/auth_handlers.go\<close> and \<^verbatim>\<open>internal/api/token_handlers.go\<close>.

  The role store of \<open>Roles\<close> holds the id, kind and disabled flag of a user; the other columns of the
  table, which only signing in reads, are the profiles. Times are nanoseconds. SHA-256, the password
  hash, the random source and the identity providers are arguments; so is the capability cache, which
  \<open>Caps\<close> models. A zero time is \<open>None\<close>.
\<close>

section \<open>The tables\<close>

record profile =
  pf_id :: ident
  pf_username :: string
  pf_password_hash :: string
  pf_sub :: string
  pf_oidc_provider :: ident
  pf_email :: string

record session =
  se_id :: string
  se_user_id :: ident
  se_break_glass :: bool
  se_expires_at :: int

record api_token =
  tk_id :: ident
  tk_user_id :: ident
  tk_name :: string
  tk_prefix :: string
  tk_hash :: string
  tk_expires_at :: "int option"
  tk_created_at :: int
  tk_last_used_at :: "int option"

record bucket =
  bk_count :: nat
  bk_until :: int

record state_entry =
  sx_verifier :: string
  sx_provider :: ident
  sx_expires_at :: int

record audit_row =
  au_action :: string
  au_target :: string
  au_outcome :: string

record accounts =
  ac_db :: db
  ac_profiles :: "profile list"
  ac_sessions :: "session list"
  ac_tokens :: "api_token list"
  ac_break_glass :: "(string \<times> int) list"
  ac_limiter :: "(string \<times> bucket) list"
  ac_states :: "(string \<times> state_entry) list"
  ac_audit :: "audit_row list"

definition minute :: int where
  "minute = 60 * second"

definition audited :: "accounts \<Rightarrow> string \<Rightarrow> string \<Rightarrow> string \<Rightarrow> accounts" where
  "audited s action target outcome =
     s\<lparr>ac_audit := ac_audit s @ [\<lparr>au_action = action, au_target = target, au_outcome = outcome\<rparr>]\<rparr>"

section \<open>Users\<close>

definition UserByID :: "accounts \<Rightarrow> ident \<Rightarrow> user option" where
  "UserByID s uid = (case filter (\<lambda>u. u_id u = uid) (users (ac_db s)) of [] \<Rightarrow> None | u # _ \<Rightarrow> Some u)"

text \<open>A NULL username or subject matches nothing; the columns are NULL when they would be empty.\<close>

definition joined :: "accounts \<Rightarrow> (profile \<Rightarrow> bool) \<Rightarrow> (user \<times> profile) option" where
  "joined s p =
     (case [(u, f). f \<leftarrow> ac_profiles s, p f, u \<leftarrow> users (ac_db s), u_id u = pf_id f] of [] \<Rightarrow> None | x # _ \<Rightarrow> Some x)"

definition UserByUsername :: "accounts \<Rightarrow> string \<Rightarrow> (user \<times> profile) option" where
  "UserByUsername s n = joined s (\<lambda>f. pf_username f \<noteq> [] \<and> pf_username f = n)"

definition UserBySub :: "accounts \<Rightarrow> ident \<Rightarrow> string \<Rightarrow> (user \<times> profile) option" where
  "UserBySub s pid sub =
     joined s (\<lambda>f. pf_oidc_provider f \<noteq> [] \<and> pf_sub f \<noteq> [] \<and> pf_oidc_provider f = pid \<and> pf_sub f = sub)"

definition Label :: "ident \<Rightarrow> profile option \<Rightarrow> string" where
  "Label uid f =
     (case f of None \<Rightarrow> uid
      | Some f \<Rightarrow> if pf_username f \<noteq> [] then pf_username f else if pf_email f \<noteq> [] then pf_email f else uid)"

definition profile_taken :: "accounts \<Rightarrow> profile \<Rightarrow> bool" where
  "profile_taken s f \<longleftrightarrow>
     list_ex (\<lambda>g. pf_id g = pf_id f \<or> pf_username f \<noteq> [] \<and> pf_username g = pf_username f \<or>
                  pf_sub f \<noteq> [] \<and> pf_oidc_provider f \<noteq> [] \<and> pf_sub g = pf_sub f \<and> pf_oidc_provider g = pf_oidc_provider f)
       (ac_profiles s) \<or>
     list_ex (\<lambda>u. u_id u = pf_id f) (users (ac_db s))"

definition CreateUser :: "accounts \<Rightarrow> string \<Rightarrow> profile \<Rightarrow> store_error + accounts" where
  "CreateUser s kind f =
     (if profile_taken s f then Inl ErrConstraint
      else Inr (s\<lparr>ac_db := (ac_db s)\<lparr>users := users (ac_db s) @ [\<lparr>u_id = pf_id f, u_kind = kind, u_disabled = False\<rparr>]\<rparr>,
                  ac_profiles := ac_profiles s @ [f]\<rparr>))"

definition SetUserEmail :: "accounts \<Rightarrow> ident \<Rightarrow> string \<Rightarrow> accounts" where
  "SetUserEmail s uid email = s\<lparr>ac_profiles := update_where (\<lambda>f. pf_id f = uid) (\<lambda>f. f\<lparr>pf_email := email\<rparr>) (ac_profiles s)\<rparr>"

section \<open>Sessions, tokens and break-glass tokens\<close>

definition CreateSession :: "accounts \<Rightarrow> session \<Rightarrow> store_error + accounts" where
  "CreateSession s se =
     (if list_ex (\<lambda>q. se_id q = se_id se) (ac_sessions s) \<or> UserByID s (se_user_id se) = None then Inl ErrConstraint
      else Inr (s\<lparr>ac_sessions := ac_sessions s @ [se]\<rparr>))"

definition DeleteSession :: "accounts \<Rightarrow> string \<Rightarrow> accounts" where
  "DeleteSession s sid = s\<lparr>ac_sessions := delete_where (\<lambda>q. se_id q = sid) (ac_sessions s)\<rparr>"

definition DeleteExpiredSessions :: "accounts \<Rightarrow> int \<Rightarrow> accounts" where
  "DeleteExpiredSessions s now = s\<lparr>ac_sessions := delete_where (\<lambda>q. se_expires_at q < now) (ac_sessions s)\<rparr>"

definition SessionUser :: "accounts \<Rightarrow> string \<Rightarrow> int \<Rightarrow> (user \<times> session) option \<times> accounts" where
  "SessionUser s sid now =
     (case [(u, q). q \<leftarrow> ac_sessions s, se_id q = sid, u \<leftarrow> users (ac_db s), u_id u = se_user_id q] of
        [] \<Rightarrow> (None, s)
      | (u, q) # _ \<Rightarrow>
          if se_expires_at q < now then (None, DeleteSession s sid)
          else if u_disabled u then (None, s)
          else (Some (u, q), s))"

definition Expired :: "api_token \<Rightarrow> int \<Rightarrow> bool" where
  "Expired t now = (case tk_expires_at t of None \<Rightarrow> False | Some e \<Rightarrow> e < now)"

definition CreateAPIToken :: "accounts \<Rightarrow> api_token \<Rightarrow> ident \<Rightarrow> int \<Rightarrow> store_error + (api_token \<times> accounts)" where
  "CreateAPIToken s t new_id now =
     (let t = t\<lparr>tk_id := (if tk_id t = [] then ''tok_'' @ new_id else tk_id t), tk_created_at := now\<rparr>
      in if list_ex (\<lambda>q. tk_id q = tk_id t \<or> tk_hash q = tk_hash t \<or> tk_user_id q = tk_user_id t \<and> tk_name q = tk_name t) (ac_tokens s)
            \<or> UserByID s (tk_user_id t) = None
         then Inl ErrConstraint
         else Inr (t, s\<lparr>ac_tokens := ac_tokens s @ [t]\<rparr>))"

definition APITokenByID :: "accounts \<Rightarrow> ident \<Rightarrow> api_token option" where
  "APITokenByID s tid = (case filter (\<lambda>t. tk_id t = tid) (ac_tokens s) of [] \<Rightarrow> None | t # _ \<Rightarrow> Some t)"

definition APITokenUser :: "accounts \<Rightarrow> string \<Rightarrow> int \<Rightarrow> (user \<times> api_token) option" where
  "APITokenUser s h now =
     (case [(u, t). t \<leftarrow> ac_tokens s, tk_hash t = h, u \<leftarrow> users (ac_db s), u_id u = tk_user_id t] of
        [] \<Rightarrow> None
      | (u, t) # _ \<Rightarrow> if Expired t now \<or> u_disabled u then None else Some (u, t))"

definition TouchAPIToken :: "accounts \<Rightarrow> ident \<Rightarrow> int \<Rightarrow> accounts" where
  "TouchAPIToken s tid now =
     s\<lparr>ac_tokens := update_where (\<lambda>t. tk_id t = tid) (\<lambda>t. t\<lparr>tk_last_used_at := Some now\<rparr>) (ac_tokens s)\<rparr>"

definition ListAPITokens :: "accounts \<Rightarrow> ident \<Rightarrow> api_token list" where
  "ListAPITokens s uid = order_desc tk_created_at (filter (\<lambda>t. tk_user_id t = uid) (ac_tokens s))"

definition AllAPITokens :: "accounts \<Rightarrow> api_token list" where
  "AllAPITokens s = order_desc tk_created_at (ac_tokens s)"

definition DeleteAPIToken :: "accounts \<Rightarrow> ident \<Rightarrow> accounts" where
  "DeleteAPIToken s tid = s\<lparr>ac_tokens := delete_where (\<lambda>t. tk_id t = tid) (ac_tokens s)\<rparr>"

definition CreateBreakGlassToken :: "accounts \<Rightarrow> string \<Rightarrow> int \<Rightarrow> store_error + accounts" where
  "CreateBreakGlassToken s h expires =
     (if list_ex (\<lambda>r. fst r = h) (ac_break_glass s) then Inl ErrConstraint
      else Inr (s\<lparr>ac_break_glass := ac_break_glass s @ [(h, expires)]\<rparr>))"

definition RedeemBreakGlassToken :: "accounts \<Rightarrow> string \<Rightarrow> int \<Rightarrow> bool \<times> accounts" where
  "RedeemBreakGlassToken s h now =
     (case filter (\<lambda>r. fst r = h) (ac_break_glass s) of
        [] \<Rightarrow> (False, s)
      | r # _ \<Rightarrow> (now < snd r, s\<lparr>ac_break_glass := delete_where (\<lambda>r. fst r = h) (ac_break_glass s)\<rparr>))"

section \<open>The session manager\<close>

definition TokenPrefix :: string where
  "TokenPrefix = ''daffa_''"

record credentials =
  cr_authorization :: string
  cr_cookie :: "string option"

definition Issue :: "(string \<Rightarrow> string) \<Rightarrow> accounts \<Rightarrow> ident \<Rightarrow> bool \<Rightarrow> string \<Rightarrow> int \<Rightarrow> int \<Rightarrow> store_error + (string \<times> accounts)" where
  "Issue hash s uid break_glass token ttl now =
     (let expires = (if break_glass then now + 60 * minute else now + ttl)
      in map_sum id (\<lambda>s. (token, s))
           (CreateSession s \<lparr>se_id = hash token, se_user_id = uid, se_break_glass = break_glass, se_expires_at = expires\<rparr>))"

definition Revoke :: "(string \<Rightarrow> string) \<Rightarrow> accounts \<Rightarrow> credentials \<Rightarrow> accounts" where
  "Revoke hash s cr = (case cr_cookie cr of None \<Rightarrow> s | Some c \<Rightarrow> DeleteSession s (hash c))"

record caller =
  ca_user :: user
  ca_caps :: scoped_mask
  ca_token :: "api_token option"

datatype resolved_request = NoSession | CapsUnavailable | Caller caller

definition resolveToken ::
  "(string \<Rightarrow> string) \<Rightarrow> (ident \<Rightarrow> scoped_mask option) \<Rightarrow> accounts \<Rightarrow> string \<Rightarrow> int \<Rightarrow> resolved_request \<times> accounts" where
  "resolveToken hash caps_of s secret now =
     (case APITokenUser s (hash secret) now of
        None \<Rightarrow> (NoSession, s)
      | Some (u, t) \<Rightarrow>
          (case caps_of (u_id u) of
             None \<Rightarrow> (CapsUnavailable, s)
           | Some m \<Rightarrow>
               if (case tk_last_used_at t of None \<Rightarrow> True | Some l \<Rightarrow> minute < now - l)
               then (Caller \<lparr>ca_user = u, ca_caps = m, ca_token = Some (t\<lparr>tk_last_used_at := Some now\<rparr>)\<rparr>, TouchAPIToken s (tk_id t) now)
               else (Caller \<lparr>ca_user = u, ca_caps = m, ca_token = Some t\<rparr>, s)))"

definition Resolve ::
  "(string \<Rightarrow> string) \<Rightarrow> (ident \<Rightarrow> scoped_mask option) \<Rightarrow> accounts \<Rightarrow> credentials \<Rightarrow> int \<Rightarrow> resolved_request \<times> accounts" where
  "Resolve hash caps_of s cr now =
     (if has_prefix (cr_authorization cr) (''Bearer '' @ TokenPrefix)
      then resolveToken hash caps_of s (trim_prefix (cr_authorization cr) ''Bearer '') now
      else if cr_cookie cr = None \<or> cr_cookie cr = Some [] then (NoSession, s)
      else (case SessionUser s (hash (the (cr_cookie cr))) now of
              (None, s) \<Rightarrow> (NoSession, s)
            | (Some (u, q), s) \<Rightarrow>
                (case caps_of (u_id u) of
                   None \<Rightarrow> (CapsUnavailable, s)
                 | Some m \<Rightarrow> (Caller \<lparr>ca_user = u, ca_caps = m, ca_token = None\<rparr>, s))))"

section \<open>The throttle\<close>

definition maxAttempts :: nat where
  "maxAttempts = 10"

definition limiterWindow :: int where
  "limiterWindow = 15 * minute"

definition Allow :: "(string \<times> bucket) list \<Rightarrow> string \<Rightarrow> int \<Rightarrow> bool" where
  "Allow l key now =
     (case map_of l key of
        None \<Rightarrow> True
      | Some b \<Rightarrow> if bk_until b < now then True else bk_count b < maxAttempts)"

definition Fail :: "(string \<times> bucket) list \<Rightarrow> string \<Rightarrow> int \<Rightarrow> (string \<times> bucket) list" where
  "Fail l key now =
     (case map_of l key of
        None \<Rightarrow> gput l key \<lparr>bk_count = 1, bk_until = now + limiterWindow\<rparr>
      | Some b \<Rightarrow> if bk_until b < now then gput l key \<lparr>bk_count = 1, bk_until = now + limiterWindow\<rparr>
                  else gput l key (b\<lparr>bk_count := Suc (bk_count b)\<rparr>))"

definition Reset :: "(string \<times> bucket) list \<Rightarrow> string \<Rightarrow> (string \<times> bucket) list" where
  "Reset l key = filter (\<lambda>r. fst r \<noteq> key) l"

section \<open>Signing in\<close>

record client_addr =
  cl_forwarded_for :: string
  cl_remote_host :: "string option"
  cl_remote_addr :: string

definition clientIP :: "bool \<Rightarrow> client_addr \<Rightarrow> string" where
  "clientIP trust_proxy c =
     (let seen = trim_space (last (split_on CHR '','' (cl_forwarded_for c)));
          direct = (case cl_remote_host c of None \<Rightarrow> cl_remote_addr c | Some h \<Rightarrow> h)
      in if trust_proxy \<and> cl_forwarded_for c \<noteq> [] \<and> seen \<noteq> [] then seen else direct)"

datatype login_result =
    LocalAuthDisabled | MissingFields | RateLimited | InvalidCredentials | LoginFailed store_error
  | SignedIn ident string

definition failLogin :: "accounts \<Rightarrow> string \<Rightarrow> string \<Rightarrow> int \<Rightarrow> accounts" where
  "failLogin s key username now = audited (s\<lparr>ac_limiter := Fail (ac_limiter s) key now\<rparr>) ''auth.login'' username ''denied''"

definition login_key :: "string \<Rightarrow> string \<Rightarrow> string" where
  "login_key username ip = username @ ''|'' @ ip"

definition handleLocalLogin ::
  "(string \<Rightarrow> string) \<Rightarrow> (string \<Rightarrow> string \<Rightarrow> bool) \<Rightarrow> bool \<Rightarrow> int \<Rightarrow> accounts \<Rightarrow> string \<Rightarrow> string \<Rightarrow> string \<Rightarrow> string \<Rightarrow> int \<Rightarrow>
   login_result \<times> accounts" where
  "handleLocalLogin hash verify local_auth ttl s username password ip token now =
     (let username = trim_space username; key = login_key username ip in
      if \<not> local_auth then (LocalAuthDisabled, s)
      else if username = [] \<or> password = [] then (MissingFields, s)
      else if \<not> Allow (ac_limiter s) key now then (RateLimited, audited s ''auth.login'' username ''denied'')
      else (case UserByUsername s username of
              None \<Rightarrow> (InvalidCredentials, failLogin s key username now)
            | Some (u, f) \<Rightarrow>
                if u_kind u \<noteq> ''local'' \<or> u_disabled u then (InvalidCredentials, failLogin s key username now)
                else if \<not> verify (pf_password_hash f) password then (InvalidCredentials, failLogin s key username now)
                else (let s = s\<lparr>ac_limiter := Reset (ac_limiter s) key\<rparr>
                      in (case Issue hash s (u_id u) False token ttl now of
                            Inl e \<Rightarrow> (LoginFailed e, s)
                          | Inr (tok, s) \<Rightarrow> (SignedIn (u_id u) tok, audited s ''auth.login'' [] ''ok'')))))"

definition handleLogout :: "(string \<Rightarrow> string) \<Rightarrow> accounts \<Rightarrow> credentials \<Rightarrow> accounts" where
  "handleLogout hash s cr = Revoke hash s cr"

section \<open>Identity providers\<close>

definition state_put :: "accounts \<Rightarrow> string \<Rightarrow> string \<Rightarrow> ident \<Rightarrow> int \<Rightarrow> accounts" where
  "state_put s state verifier provider now =
     s\<lparr>ac_states := gput (filter (\<lambda>r. \<not> sx_expires_at (snd r) < now) (ac_states s)) state
         \<lparr>sx_verifier = verifier, sx_provider = provider, sx_expires_at = now + 10 * minute\<rparr>\<rparr>"

definition state_take :: "accounts \<Rightarrow> string \<Rightarrow> int \<Rightarrow> state_entry option \<times> accounts" where
  "state_take s state now =
     (let s' = s\<lparr>ac_states := filter (\<lambda>r. fst r \<noteq> state) (ac_states s)\<rparr>
      in (case map_of (ac_states s) state of
            None \<Rightarrow> (None, s')
          | Some e \<Rightarrow> if sx_expires_at e < now then (None, s') else (Some e, s')))"

record identity =
  id_sub :: string
  id_email :: string

datatype oidc_result = ProviderRefused | UnknownProvider | BadState | ExchangeFailed | NoRoles | OIDCFailed store_error | UserDisabled | OIDCSignedIn ident string

definition hasLocalRole :: "(role_row \<times> member_row) list \<Rightarrow> bool" where
  "hasLocalRole ms = list_ex (\<lambda>m. rm_source (snd m) = ''local'') ms"

datatype oidc_user = RefusedNoRoles | RefusedStore store_error accounts | OIDCUser user accounts

text \<open>The grants are those the claims map to; \<open>default_role\<close> is empty when the provider has none.\<close>

definition resolveOIDCUser :: "accounts \<Rightarrow> ident \<Rightarrow> ident \<Rightarrow> grant list \<Rightarrow> identity \<Rightarrow> ident \<Rightarrow> oidc_user" where
  "resolveOIDCUser s provider default_role mapped i new_id =
     (let grants = (if mapped = [] \<and> default_role \<noteq> [] then [\<lparr>gr_role = default_role, gr_scope = scope_Global\<rparr>] else mapped)
      in (case UserBySub s provider (id_sub i) of
            Some (u, f) \<Rightarrow>
              if grants = [] \<and> \<not> hasLocalRole (UserRoles (ac_db s) (u_id u)) then RefusedNoRoles
              else (case SyncOIDCRoles (ac_db s) (u_id u) grants of
                      Inl e \<Rightarrow> RefusedStore e s
                    | Inr d \<Rightarrow>
                        (let s = s\<lparr>ac_db := d\<rparr>
                         in OIDCUser u (if id_email i \<noteq> [] \<and> id_email i \<noteq> pf_email f then SetUserEmail s (u_id u) (id_email i) else s)))
          | None \<Rightarrow>
              if grants = [] then RefusedNoRoles
              else (case CreateUser s ''oidc'' \<lparr>pf_id = new_id, pf_username = [], pf_password_hash = [], pf_sub = id_sub i,
                           pf_oidc_provider = provider, pf_email = id_email i\<rparr> of
                      Inl e \<Rightarrow> RefusedStore e s
                    | Inr s \<Rightarrow>
                        (case SyncOIDCRoles (ac_db s) new_id grants of
                           Inl e \<Rightarrow> RefusedStore e s
                         | Inr d \<Rightarrow> OIDCUser \<lparr>u_id = new_id, u_kind = ''oidc'', u_disabled = False\<rparr> (s\<lparr>ac_db := d\<rparr>)))))"

record provider =
  pv_id :: ident
  pv_default_role :: ident
  pv_exchange :: "string \<Rightarrow> string \<Rightarrow> identity option"
  pv_grants :: "identity \<Rightarrow> grant list"

definition handleOIDCStart :: "accounts \<Rightarrow> provider option \<Rightarrow> string \<Rightarrow> string \<Rightarrow> int \<Rightarrow> bool \<times> accounts" where
  "handleOIDCStart s rp state verifier now =
     (case rp of None \<Rightarrow> (False, s) | Some p \<Rightarrow> (True, state_put s state verifier (pv_id p) now))"

definition handleOIDCCallback ::
  "(string \<Rightarrow> string) \<Rightarrow> int \<Rightarrow> accounts \<Rightarrow> bool \<Rightarrow> provider option \<Rightarrow> string \<Rightarrow> string \<Rightarrow> ident \<Rightarrow> string \<Rightarrow> int \<Rightarrow> oidc_result \<times> accounts" where
  "handleOIDCCallback hash ttl s provider_error rp state code new_id token now =
     (if provider_error then (ProviderRefused, s)
      else case rp of
        None \<Rightarrow> (UnknownProvider, s)
      | Some p \<Rightarrow>
          (case state_take s state now of
             (None, s) \<Rightarrow> (BadState, s)
           | (Some st, s) \<Rightarrow>
               if sx_provider st \<noteq> pv_id p then (BadState, s)
               else (case pv_exchange p code (sx_verifier st) of
                       None \<Rightarrow> (ExchangeFailed, s)
                     | Some i \<Rightarrow>
                         (case resolveOIDCUser s (pv_id p) (pv_default_role p) (pv_grants p i) i new_id of
                            RefusedNoRoles \<Rightarrow> (NoRoles, audited s ''auth.login'' [] ''denied'')
                          | RefusedStore e s \<Rightarrow> (OIDCFailed e, s)
                          | OIDCUser u s \<Rightarrow>
                              if u_disabled u then (UserDisabled, s)
                              else (case Issue hash s (u_id u) False token ttl now of
                                      Inl e \<Rightarrow> (OIDCFailed e, s)
                                    | Inr (tok, s) \<Rightarrow> (OIDCSignedIn (u_id u) tok, audited s ''auth.login'' [] ''ok''))))))"

section \<open>Break-glass\<close>

definition MintBreakGlassToken :: "(string \<Rightarrow> string) \<Rightarrow> accounts \<Rightarrow> string \<Rightarrow> int \<Rightarrow> int \<Rightarrow> store_error + accounts" where
  "MintBreakGlassToken hash s token ttl now = CreateBreakGlassToken s (hash token) (now + ttl)"

definition breakGlassName :: string where
  "breakGlassName = ''break-glass''"

definition breakGlassAccount :: "accounts \<Rightarrow> ident \<Rightarrow> store_error + (user \<times> accounts)" where
  "breakGlassAccount s new_id =
     (case UserByUsername s breakGlassName of
        Some (u, f) \<Rightarrow> Inr (u, s)
      | None \<Rightarrow>
          (case CreateUser s ''local'' \<lparr>pf_id = new_id, pf_username = breakGlassName, pf_password_hash = [], pf_sub = [],
                  pf_oidc_provider = [], pf_email = []\<rparr> of
             Inl e \<Rightarrow> Inl e
           | Inr s \<Rightarrow> Inr (\<lparr>u_id = new_id, u_kind = ''local'', u_disabled = False\<rparr>, s)))"

definition breakGlassUser :: "accounts \<Rightarrow> ident \<Rightarrow> (store_error + user) \<times> accounts" where
  "breakGlassUser s new_id =
     (case breakGlassAccount s new_id of
        Inl e \<Rightarrow> (Inl e, s)
      | Inr (u, s) \<Rightarrow>
          (case AdminRole (ac_db s) of
             Inl e \<Rightarrow> (Inl e, s)
           | Inr r \<Rightarrow>
               (case GrantRole (ac_db s) (u_id u) (ro_id r) ''local'' scope_Global of
                  Inl e \<Rightarrow> (Inl e, s)
                | Inr d \<Rightarrow> (Inr u, s\<lparr>ac_db := d\<rparr>))))"

datatype break_glass_result = InvalidLink | BreakGlassFailed store_error | BreakGlassSignedIn ident string

definition handleBreakGlass ::
  "(string \<Rightarrow> string) \<Rightarrow> accounts \<Rightarrow> string \<Rightarrow> ident \<Rightarrow> string \<Rightarrow> int \<Rightarrow> break_glass_result \<times> accounts" where
  "handleBreakGlass hash s tok new_id token now =
     (case (if tok = [] then (False, s) else RedeemBreakGlassToken s (hash tok) now) of
        (False, s) \<Rightarrow> (InvalidLink, audited s ''auth.break_glass'' [] ''denied'')
      | (True, s) \<Rightarrow>
          (case breakGlassUser s new_id of
             (Inl e, s) \<Rightarrow> (BreakGlassFailed e, s)
           | (Inr u, s) \<Rightarrow>
               (case Issue hash s (u_id u) True token 0 now of
                  Inl e \<Rightarrow> (BreakGlassFailed e, s)
                | Inr (t, s) \<Rightarrow> (BreakGlassSignedIn (u_id u) t, audited s ''auth.break_glass'' [] ''ok''))))"

section \<open>API tokens\<close>

definition name_start :: "char \<Rightarrow> bool" where
  "name_start c \<longleftrightarrow> c \<in> set ''abcdefghijklmnopqrstuvwxyzABCDEFGHIJKLMNOPQRSTUVWXYZ0123456789''"

definition certName :: "string \<Rightarrow> bool" where
  "certName n =
     (case n of [] \<Rightarrow> False
      | c # cs \<Rightarrow> name_start c \<and> length cs \<le> 63 \<and> list_all (\<lambda>d. name_start d \<or> d \<in> set ''._-'') cs)"

datatype token_result = TokenCannot | NotABot | NoSuchUser | BadName | NegativeExpiry | NameTaken | Minted api_token string

definition mintToken ::
  "(string \<Rightarrow> string) \<Rightarrow> accounts \<Rightarrow> user \<Rightarrow> string \<Rightarrow> int \<Rightarrow> string \<Rightarrow> ident \<Rightarrow> int \<Rightarrow> token_result \<times> accounts" where
  "mintToken hash s owner name expires_days secret new_id now =
     (let name = trim_space name in
      if \<not> certName name then (BadName, s)
      else if expires_days < 0 then (NegativeExpiry, s)
      else (let secret = TokenPrefix @ secret;
                t = \<lparr>tk_id = [], tk_user_id = u_id owner, tk_name = name, tk_prefix = take (length TokenPrefix + 6) secret,
                     tk_hash = hash secret,
                     tk_expires_at = (if 0 < expires_days then Some (now + wrap64 (expires_days * 24 * 60 * minute)) else None),
                     tk_created_at = 0, tk_last_used_at = None\<rparr>
            in (case CreateAPIToken s t new_id now of
                  Inl e \<Rightarrow> (NameTaken, s)
                | Inr (t, s) \<Rightarrow> (Minted t secret, audited s ''token.create'' name ''ok''))))"

definition handleCreateToken ::
  "(string \<Rightarrow> string) \<Rightarrow> accounts \<Rightarrow> caller \<Rightarrow> string \<Rightarrow> int \<Rightarrow> string \<Rightarrow> ident \<Rightarrow> int \<Rightarrow> token_result \<times> accounts" where
  "handleCreateToken hash s c name days secret new_id now =
     (if ca_token c \<noteq> None then (TokenCannot, s) else mintToken hash s (ca_user c) name days secret new_id now)"

definition handleCreateBotToken ::
  "(string \<Rightarrow> string) \<Rightarrow> accounts \<Rightarrow> caller \<Rightarrow> ident \<Rightarrow> string \<Rightarrow> int \<Rightarrow> string \<Rightarrow> ident \<Rightarrow> int \<Rightarrow> token_result \<times> accounts" where
  "handleCreateBotToken hash s c uid name days secret new_id now =
     (if ca_token c \<noteq> None then (TokenCannot, s)
      else (case UserByID s uid of
              None \<Rightarrow> (NoSuchUser, s)
            | Some u \<Rightarrow> if u_kind u \<noteq> ''bot'' then (NotABot, s) else mintToken hash s u name days secret new_id now))"

datatype delete_token_result = DeleteTokenCannot | NoSuchToken | TokenRevoked

definition handleDeleteToken :: "accounts \<Rightarrow> caller \<Rightarrow> ident \<Rightarrow> delete_token_result \<times> accounts" where
  "handleDeleteToken s c tid =
     (if ca_token c \<noteq> None then (DeleteTokenCannot, s)
      else (case APITokenByID s tid of
              None \<Rightarrow> (NoSuchToken, s)
            | Some t \<Rightarrow>
                if tk_user_id t \<noteq> u_id (ca_user c) \<and> \<not> sm_Has (ca_caps c) UsersEdit [] then (NoSuchToken, s)
                else (TokenRevoked, audited (DeleteAPIToken s (tk_id t)) ''token.revoke'' (tk_name t) ''ok'')))"

end
