(* ===== verification/SignIn.thy ===== *)
theory SignIn
  imports Accounts
begin

text \<open>
  What signing in guarantees: a request is never attributed to anyone but the enabled owner of a live
  credential; the throttle bounds the passwords one address can try; a break-glass link works once and
  gives everything; API tokens are minted only for oneself or for a bot; and one way in which the
  recovery path does not recover.
\<close>

section \<open>Lookups\<close>

lemma join_hd:
  assumes "[(u, q). q \<leftarrow> qs, P q, u \<leftarrow> us, R q u] = (u, q) # rest"
  shows "q \<in> set qs" "P q" "u \<in> set us" "R q u"
proof -
  have "(u, q) \<in> set [(u, q). q \<leftarrow> qs, P q, u \<leftarrow> us, R q u]" unfolding assms by simp
  then show "q \<in> set qs" "P q" "u \<in> set us" "R q u" by (auto split: if_split_asm)
qed

lemma SessionUser_Some:
  assumes "SessionUser s sid now = (Some (u, q), s')"
  shows "q \<in> set (ac_sessions s)" "se_id q = sid" "u \<in> set (users (ac_db s))" "u_id u = se_user_id q"
    "now \<le> se_expires_at q" "\<not> u_disabled u" "s' = s"
proof -
  obtain rest where l: "[(u, q). q \<leftarrow> ac_sessions s, se_id q = sid, u \<leftarrow> users (ac_db s), u_id u = se_user_id q] = (u, q) # rest"
    and "now \<le> se_expires_at q" "\<not> u_disabled u" "s' = s"
    using assms by (auto simp: SessionUser_def split: list.split_asm if_split_asm prod.split_asm)
  then show "q \<in> set (ac_sessions s)" "se_id q = sid" "u \<in> set (users (ac_db s))" "u_id u = se_user_id q"
    "now \<le> se_expires_at q" "\<not> u_disabled u" "s' = s" using join_hd[OF l] by simp_all
qed

lemma APITokenUser_Some:
  assumes "APITokenUser s h now = Some (u, t)"
  shows "t \<in> set (ac_tokens s)" "tk_hash t = h" "u \<in> set (users (ac_db s))" "u_id u = tk_user_id t"
    "\<not> Expired t now" "\<not> u_disabled u"
proof -
  obtain rest where l: "[(u, t). t \<leftarrow> ac_tokens s, tk_hash t = h, u \<leftarrow> users (ac_db s), u_id u = tk_user_id t] = (u, t) # rest"
    and "\<not> Expired t now" "\<not> u_disabled u"
    using assms by (auto simp: APITokenUser_def split: list.split_asm if_split_asm prod.split_asm)
  then show "t \<in> set (ac_tokens s)" "tk_hash t = h" "u \<in> set (users (ac_db s))" "u_id u = tk_user_id t"
    "\<not> Expired t now" "\<not> u_disabled u" using join_hd[OF l] by simp_all
qed

definition live_session :: "(string \<Rightarrow> string) \<Rightarrow> accounts \<Rightarrow> credentials \<Rightarrow> int \<Rightarrow> ident \<Rightarrow> bool" where
  "live_session hash s cr now uid \<longleftrightarrow>
     (\<exists>c. cr_cookie cr = Some c \<and> list_ex (\<lambda>q. se_id q = hash c \<and> se_user_id q = uid \<and> now \<le> se_expires_at q) (ac_sessions s))"

definition live_token :: "(string \<Rightarrow> string) \<Rightarrow> accounts \<Rightarrow> credentials \<Rightarrow> int \<Rightarrow> ident \<Rightarrow> bool" where
  "live_token hash s cr now uid \<longleftrightarrow>
     (\<exists>secret. cr_authorization cr = ''Bearer '' @ secret \<and>
        list_ex (\<lambda>t. tk_hash t = hash secret \<and> tk_user_id t = uid \<and> \<not> Expired t now) (ac_tokens s))"

lemma bearer_secret: "has_prefix h (''Bearer '' @ p) \<Longrightarrow> h = ''Bearer '' @ trim_prefix h ''Bearer ''"
  by (auto simp: has_prefix_iff trim_prefix_def)

lemma Resolve_sound:
  assumes "Resolve hash caps_of s cr now = (Caller c, s')"
  shows "ca_user c \<in> set (users (ac_db s))" "\<not> u_disabled (ca_user c)" "caps_of (u_id (ca_user c)) = Some (ca_caps c)"
    "if ca_token c = None then live_session hash s cr now (u_id (ca_user c)) else live_token hash s cr now (u_id (ca_user c))"
proof -
  have "ca_user c \<in> set (users (ac_db s)) \<and> \<not> u_disabled (ca_user c) \<and> caps_of (u_id (ca_user c)) = Some (ca_caps c) \<and>
    (if ca_token c = None then live_session hash s cr now (u_id (ca_user c)) else live_token hash s cr now (u_id (ca_user c)))"
  proof (cases "has_prefix (cr_authorization cr) (''Bearer '' @ TokenPrefix)")
    case True
    let ?secret = "trim_prefix (cr_authorization cr) ''Bearer ''"
    have r: "resolveToken hash caps_of s ?secret now = (Caller c, s')"
      using assms True unfolding Resolve_def by (simp del: append.simps)
    obtain u t m where ut: "APITokenUser s (hash ?secret) now = Some (u, t)" and m: "caps_of (u_id u) = Some m"
      and c: "ca_user c = u" "ca_caps c = m" "ca_token c \<noteq> None"
      using r by (auto simp: resolveToken_def split: option.split_asm if_split_asm)
    have "live_token hash s cr now (u_id u)"
      unfolding live_token_def list_ex_iff
      using bearer_secret[OF True] APITokenUser_Some[OF ut] by metis
    then show ?thesis using APITokenUser_Some[OF ut] m c by auto
  next
    case False
    obtain k u q s1 m where k: "cr_cookie cr = Some k" and su: "SessionUser s (hash k) now = (Some (u, q), s1)"
      and m: "caps_of (u_id u) = Some m" and c: "ca_user c = u" "ca_caps c = m" "ca_token c = None"
      using assms False unfolding Resolve_def by (auto simp del: append.simps split: if_split_asm prod.split_asm option.split_asm)
    have "live_session hash s cr now (u_id u)"
      unfolding live_session_def list_ex_iff using k SessionUser_Some[OF su] by metis
    then show ?thesis using SessionUser_Some[OF su] m c by auto
  qed
  then show "ca_user c \<in> set (users (ac_db s))" "\<not> u_disabled (ca_user c)" "caps_of (u_id (ca_user c)) = Some (ca_caps c)"
    "if ca_token c = None then live_session hash s cr now (u_id (ca_user c)) else live_token hash s cr now (u_id (ca_user c))"
    by simp_all
qed

section \<open>The throttle\<close>

text \<open>A series of sign-in attempts under one name from one address.\<close>

fun login_all ::
  "(string \<Rightarrow> string) \<Rightarrow> (string \<Rightarrow> string \<Rightarrow> bool) \<Rightarrow> int \<Rightarrow> string \<Rightarrow> string \<Rightarrow> accounts \<Rightarrow> (string \<times> string \<times> int) list \<Rightarrow> login_result list" where
  "login_all hash verify ttl username ip s [] = []"
| "login_all hash verify ttl username ip s ((password, token, now) # tries) =
     (case handleLocalLogin hash verify True ttl s username password ip token now of
        (r, s') \<Rightarrow> r # login_all hash verify ttl username ip s' tries)"

lemma map_of_Fail:
  "map_of (Fail l key now) key =
     Some (case map_of l key of
             None \<Rightarrow> \<lparr>bk_count = 1, bk_until = now + limiterWindow\<rparr>
           | Some b \<Rightarrow> if bk_until b < now then \<lparr>bk_count = 1, bk_until = now + limiterWindow\<rparr> else b\<lparr>bk_count := Suc (bk_count b)\<rparr>)"
  by (simp add: Fail_def map_of_gput split: option.split)

definition wrong_guess :: "(string \<Rightarrow> string \<Rightarrow> bool) \<Rightarrow> accounts \<Rightarrow> string \<Rightarrow> string \<Rightarrow> bool" where
  "wrong_guess verify s username password =
     (case UserByUsername s (trim_space username) of None \<Rightarrow> True | Some (u, f) \<Rightarrow> \<not> verify (pf_password_hash f) password)"

lemma wrong_guess_fails:
  assumes "wrong_guess verify s username password" "handleLocalLogin hash verify True ttl s username password ip token now = (r, s')"
  defines "key \<equiv> login_key (trim_space username) ip"
  shows "(r = InvalidCredentials \<and> Allow (ac_limiter s) key now \<and> ac_limiter s' = Fail (ac_limiter s) key now \<or>
      r \<noteq> InvalidCredentials \<and> ac_limiter s' = ac_limiter s) \<and> ac_db s' = ac_db s \<and> ac_profiles s' = ac_profiles s"
  using assms(1,2) unfolding key_def
  by (auto simp: handleLocalLogin_def Let_def wrong_guess_def failLogin_def audited_def split: option.split_asm if_split_asm)

lemma wrong_guess_cong:
  "ac_db s' = ac_db s \<Longrightarrow> ac_profiles s' = ac_profiles s \<Longrightarrow> wrong_guess verify s' username p = wrong_guess verify s username p"
  unfolding wrong_guess_def UserByUsername_def joined_def by (simp only:)

lemma guesses_left:
  assumes "map_of (ac_limiter s) (login_key (trim_space username) ip) = Some b" "bk_count b \<le> maxAttempts"
    "\<forall>(p, tok, now) \<in> set tries. now \<le> bk_until b \<and> wrong_guess verify s username p"
  shows "length (filter (\<lambda>r. r = InvalidCredentials) (login_all hash verify ttl username ip s tries)) + bk_count b \<le> maxAttempts"
  using assms
proof (induction tries arbitrary: s b)
  case (Cons x tries)
  obtain p tok now where t: "x = (p, tok, now)" by (cases x)
  obtain r s' where r: "handleLocalLogin hash verify True ttl s username p ip tok now = (r, s')" by fastforce
  have g: "wrong_guess verify s username p" "now \<le> bk_until b" using Cons.prems(3) t by auto
  note f = wrong_guess_fails[OF g(1) r]
  have rest: "\<forall>(p, tok, now) \<in> set tries. now \<le> bk_until b \<and> wrong_guess verify s' username p"
    using Cons.prems(3) f wrong_guess_cong[of s' s] by auto
  show ?case
  proof (cases "r = InvalidCredentials")
    case True
    then have a: "Allow (ac_limiter s) (login_key (trim_space username) ip) now"
      and l: "ac_limiter s' = Fail (ac_limiter s) (login_key (trim_space username) ip) now" using f by auto
    have c: "bk_count b < maxAttempts" using a Cons.prems(1) g(2) by (simp add: Allow_def)
    have m: "map_of (ac_limiter s') (login_key (trim_space username) ip) = Some (b\<lparr>bk_count := Suc (bk_count b)\<rparr>)"
      using Cons.prems(1) g(2) by (simp add: l map_of_Fail)
    show ?thesis using Cons.IH[OF m] rest c True by (simp add: t r)
  next
    case False
    then have "map_of (ac_limiter s') (login_key (trim_space username) ip) = Some b" using f Cons.prems(1) by auto
    from Cons.IH[OF this Cons.prems(2) rest] False show ?thesis by (simp add: t r)
  qed
qed simp


section \<open>Break-glass\<close>

text \<open>One link, used again and again.\<close>

fun use_link :: "(string \<Rightarrow> string) \<Rightarrow> string \<Rightarrow> accounts \<Rightarrow> (ident \<times> string \<times> int) list \<Rightarrow> break_glass_result list" where
  "use_link hash tok s [] = []"
| "use_link hash tok s ((new_id, token, now) # uses) =
     (case handleBreakGlass hash s tok new_id token now of (r, s') \<Rightarrow> r # use_link hash tok s' uses)"

lemma breakGlassUser_keeps_links: "ac_break_glass (snd (breakGlassUser s i)) = ac_break_glass s"
proof -
  have "ac_break_glass s1 = ac_break_glass s" if "breakGlassAccount s i = Inr (u, s1)" for u s1
    using that by (auto simp: breakGlassAccount_def CreateUser_def split: option.split_asm if_split_asm)
  then show ?thesis by (auto simp: breakGlassUser_def split: sum.split)
qed

lemma Issue_Inr:
  assumes "Issue hash s uid b token ttl now = Inr (t, s')"
  shows "t = token" "s' = s\<lparr>ac_sessions := ac_sessions s @ [\<lparr>se_id = hash token, se_user_id = uid, se_break_glass = b,
      se_expires_at = (if b then now + 60 * minute else now + ttl)\<rparr>]\<rparr>"
    "\<not> list_ex (\<lambda>q. se_id q = hash token) (ac_sessions s)" "UserByID s uid \<noteq> None"
  using assms by (auto simp: Issue_def Let_def CreateSession_def split: if_split_asm)

lemma handleBreakGlass_links:
  "ac_break_glass (snd (handleBreakGlass hash s tok i token now)) = (if tok = [] then ac_break_glass s
     else delete_where (\<lambda>r. fst r = hash tok) (ac_break_glass s))"
proof -
  have gone: "ac_break_glass (snd (RedeemBreakGlassToken s h now)) = delete_where (\<lambda>r. fst r = h) (ac_break_glass s)" for h
    by (auto simp: RedeemBreakGlassToken_def delete_where_def filter_empty_conv intro!: filter_True[symmetric] split: list.split)
  have rest: "ac_break_glass (snd (case breakGlassUser s1 i of (Inl e, s) \<Rightarrow> (BreakGlassFailed e, s)
      | (Inr u, s) \<Rightarrow> (case Issue hash s (u_id u) True token 0 now of Inl e \<Rightarrow> (BreakGlassFailed e, s)
           | Inr (t, s) \<Rightarrow> (BreakGlassSignedIn (u_id u) t, audited s ''auth.break_glass'' [] ''ok'')))) = ac_break_glass s1" for s1
    using breakGlassUser_keeps_links[of s1 i]
    by (auto simp: audited_def dest: Issue_Inr(2) split: prod.split sum.split)
  show ?thesis
  proof (cases "tok = []")
    case False
    obtain b s1 where b: "RedeemBreakGlassToken s (hash tok) now = (b, s1)" by fastforce
    then have "ac_break_glass s1 = delete_where (\<lambda>r. fst r = hash tok) (ac_break_glass s)" using gone[of "hash tok"] by simp
    with False b rest[of s1] show ?thesis
      unfolding handleBreakGlass_def by (cases b) (simp_all add: audited_def del: append.simps)
  qed (simp add: handleBreakGlass_def audited_def)
qed

lemma dead_link: "list_all (\<lambda>r. fst r \<noteq> hash tok) (ac_break_glass s) \<Longrightarrow>
  list_all (\<lambda>r. r = InvalidLink) (use_link hash tok s uses)"
proof (induction uses arbitrary: s)
  case (Cons x uses)
  obtain i token now where x: "x = (i, token, now)" by (cases x)
  have none: "filter (\<lambda>r. fst r = hash tok) (ac_break_glass s) = []"
    using Cons.prems by (simp add: filter_empty_conv list_all_iff)
  have "handleBreakGlass hash s tok i token now = (InvalidLink, audited s ''auth.break_glass'' [] ''denied'')"
    by (simp add: handleBreakGlass_def RedeemBreakGlassToken_def none)
  with Cons.IH[of "audited s ''auth.break_glass'' [] ''denied''"] Cons.prems show ?case by (simp add: x audited_def)
qed simp


section \<open>A credential admits its owner\<close>

lemma filter_unique:
  assumes "u \<in> set us" "distinct (map k us)"
  shows "[(x, q). x \<leftarrow> us, k x = k u] = [(u, q)]"
  using assms
proof (induction us)
  case (Cons v us)
  show ?case
  proof (cases "u = v")
    case True
    have "k x \<noteq> k v" if "x \<in> set us" for x using that Cons.prems(2) by (metis distinct.simps(2) imageI list.simps(9) set_map)
    then have "[(x, q). x \<leftarrow> us, k x = k v] = []" by auto
    with True show ?thesis by simp
  next
    case False
    then have u: "u \<in> set us" using Cons.prems(1) by simp
    then have "k v \<noteq> k u" using Cons.prems(2) by (metis distinct.simps(2) imageI list.simps(9) set_map)
    with Cons.IH[OF u] Cons.prems(2) show ?thesis by simp
  qed
qed simp

lemma join_last:
  assumes "\<not> list_ex P qs" "P q" "u \<in> set us" "distinct (map k us)" "f q = k u"
  shows "[(u, q). q \<leftarrow> qs @ [q], P q, u \<leftarrow> us, k u = f q] = [(u, q)]"
proof -
  have "[(u, q). q \<leftarrow> qs, P q, u \<leftarrow> us, k u = f q] = []" using assms(1) by (auto simp: list_ex_iff)
  then show ?thesis using assms filter_unique[OF assms(3,4), of q] by simp
qed

lemma session_admits:
  assumes "ac_sessions s = qs @ [q]" "\<not> list_ex (\<lambda>p. se_id p = hash token) qs" "se_id q = hash token" "se_user_id q = u_id u"
    and "u \<in> set (users (ac_db s))" "distinct (map u_id (users (ac_db s)))" "\<not> u_disabled u" "token \<noteq> []"
    and "now \<le> se_expires_at q" "caps_of (u_id u) = Some m"
  shows "Resolve hash caps_of s \<lparr>cr_authorization = [], cr_cookie = Some token\<rparr> now =
    (Caller \<lparr>ca_user = u, ca_caps = m, ca_token = None\<rparr>, s)"
proof -
  have "SessionUser s (hash token) now = (Some (u, q), s)"
    unfolding SessionUser_def assms(1)
    using join_last[of "\<lambda>p. se_id p = hash token" qs q u _ u_id se_user_id, OF assms(2,3,5,6)] assms(4,7,9)
    by simp
  then show ?thesis using assms(8,10) by (simp add: Resolve_def has_prefix_def)
qed

lemma UserByUsername_Some:
  assumes "UserByUsername s n = Some (u, f)"
  shows "u \<in> set (users (ac_db s))" "f \<in> set (ac_profiles s)" "pf_username f = n" "u_id u = pf_id f"
proof -
  let ?P = "\<lambda>f. pf_username f \<noteq> [] \<and> pf_username f = n"
  obtain rest where l: "[(u, f). f \<leftarrow> ac_profiles s, ?P f, u \<leftarrow> users (ac_db s), u_id u = pf_id f] = (u, f) # rest"
    using assms unfolding UserByUsername_def joined_def by (auto split: list.split_asm)
  show "u \<in> set (users (ac_db s))" "f \<in> set (ac_profiles s)" "pf_username f = n" "u_id u = pf_id f"
    using join_hd[OF l] by simp_all
qed

lemma breakGlassAccount_ok:
  assumes "breakGlassAccount s i = Inr (u, s1)" "store_inv (ac_db s)" "distinct (map u_id (users (ac_db s)))"
    "\<forall>v f. UserByUsername s breakGlassName = Some (v, f) \<longrightarrow> \<not> u_disabled v"
  shows "u \<in> set (users (ac_db s1))" "\<not> u_disabled u" "store_inv (ac_db s1)" "distinct (map u_id (users (ac_db s1)))"
    "ac_sessions s1 = ac_sessions s"
proof -
  have "u \<in> set (users (ac_db s1)) \<and> \<not> u_disabled u \<and> store_inv (ac_db s1) \<and> distinct (map u_id (users (ac_db s1))) \<and>
    ac_sessions s1 = ac_sessions s"
  proof (cases "UserByUsername s breakGlassName")
    case (Some p)
    then obtain v f where p: "UserByUsername s breakGlassName = Some (v, f)" by (cases p) simp
    then have "u = v" "s1 = s" using assms(1) by (simp_all add: breakGlassAccount_def)
    then show ?thesis using assms(2-4) p UserByUsername_Some(1)[OF p] by blast
  next
    case None
    have inv: "store_inv (d\<lparr>users := users d @ us\<rparr>)" if "store_inv d" for d us
      using that by (auto simp: store_inv_def roles_inv_def members_ok_def has_admin_def admin_of_def admin_role_ids_def caps_key_def)
    show ?thesis
      using assms(1-3) None
      by (auto simp: breakGlassAccount_def CreateUser_def profile_taken_def list_ex_iff inv split: if_split_asm)
  qed
  then show "u \<in> set (users (ac_db s1))" "\<not> u_disabled u" "store_inv (ac_db s1)" "distinct (map u_id (users (ac_db s1)))"
    "ac_sessions s1 = ac_sessions s" by simp_all
qed

lemma AdminRole_Inr:
  assumes "AdminRole s = Inr r"
  shows "ro_id r \<in> set (admin_role_ids s)" "ro_id r \<in> set (map ro_id (roles s))"
proof -
  obtain q qs where q: "sort_key ro_created_at (filter (\<lambda>r. ro_is_admin r \<and> ro_builtin r) (roles s)) = q # qs"
    "r = hd (withCaps s [q])"
    using assms by (auto simp: AdminRole_def oneRole_def split: list.split_asm)
  have "q \<in> set (sort_key ro_created_at (filter (\<lambda>r. ro_is_admin r \<and> ro_builtin r) (roles s)))" unfolding q by simp
  then have "q \<in> set (roles s)" "ro_is_admin q" by simp_all
  moreover have "ro_id r = ro_id q" by (simp add: q(2) withCaps_def role_row.defs Let_def)
  ultimately show "ro_id r \<in> set (admin_role_ids s)" "ro_id r \<in> set (map ro_id (roles s))"
    by (auto simp: admin_role_ids_def)
qed

lemma GrantRole_Inr:
  assumes "GrantRole s uid rid src sc = Inr d"
  shows "users d = users s" "roles d = roles s" "admin_role_ids d = admin_role_ids s"
    "\<exists>m \<in> set (role_members d). rm_user_id m = uid \<and> rm_role_id m = rid \<and> rm_scope m = sc"
proof -
  show "users d = users s" "roles d = roles s" "admin_role_ids d = admin_role_ids s"
    using assms by (auto simp: GrantRole_def admin_role_ids_def split: sum.split_asm if_split_asm)
  have "\<exists>m \<in> set (role_members d). same_grant uid rid sc m"
  proof (cases "list_ex (same_grant uid rid sc) (role_members s)")
    case True
    then have "list_ex (same_grant uid rid sc) (update_where (same_grant uid rid sc) (\<lambda>m. m\<lparr>rm_source := src\<rparr>) (role_members s))"
      by (simp add: list_ex_update_same same_grant_def)
    then show ?thesis using assms True by (auto simp: GrantRole_def list_ex_iff split: sum.split_asm if_split_asm)
  next
    case False
    then show ?thesis using assms by (auto simp: GrantRole_def same_grant_def split: sum.split_asm if_split_asm)
  qed
  then show "\<exists>m \<in> set (role_members d). rm_user_id m = uid \<and> rm_role_id m = rid \<and> rm_scope m = sc"
    by (simp add: same_grant_def)
qed

lemma admin_grant_everything:
  assumes "store_inv s" "AdminRole s = Inr r" "GrantRole s uid (ro_id r) src scope_Global = Inr d"
    "c \<in> set AllCaps" "EffectiveMask d uid = Inr em"
  shows "Has (Global em) (def_cap c)"
proof -
  note g = GrantRole_Inr[OF assms(3)]
  have inv: "members_ok d" "caps_key d"
    using GrantRole_inv[OF _ assms(3)] assms(1) membership_caps_key(1)[OF assms(3)] by (auto simp: store_inv_def roles_inv_def)
  obtain q where q: "RoleByID d (ro_id r) = Inr q"
    using RoleByID_exists[of "ro_id r" d] AdminRole_Inr(2)[OF assms(2)] g(2) by auto
  have "ro_is_admin q" using RoleByID_admin[OF inv(1) q] AdminRole_Inr(1)[OF assms(2)] g(3) by simp
  then have "Has (Effective q) (def_cap c)" using Has_Everything[OF assms(4)] by (simp add: Effective_def)
  then have "grants_on d uid IsGlobal c"
    unfolding grants_on_def using g(4) q by (force simp: scope_Global_def IsGlobal_def)
  then show ?thesis using effective_global_iff[OF inv assms(4,5)] by simp
qed

definition store_caps :: "accounts \<Rightarrow> ident \<Rightarrow> scoped_mask option" where
  "store_caps s uid = (case EffectiveMask (ac_db s) uid of Inl e \<Rightarrow> None | Inr m \<Rightarrow> Some m)"

text \<open>C15: break-glass recovers. When a link is accepted and the break-glass account is enabled, the cookie
  it sets resolves for an hour to an account that holds every capability everywhere, whatever had
  been done to its roles.\<close>

theorem break_glass_holds_everything:
  assumes "handleBreakGlass hash s tok new_id token now = (BreakGlassSignedIn uid t, s')"
    and "store_inv (ac_db s)" "distinct (map u_id (users (ac_db s)))" "token \<noteq> []"
    and "\<forall>v f. UserByUsername s breakGlassName = Some (v, f) \<longrightarrow> \<not> u_disabled v"
    and "later \<le> now + 60 * minute"
  shows "\<exists>c. Resolve hash (store_caps s') s' \<lparr>cr_authorization = [], cr_cookie = Some t\<rparr> later = (Caller c, s') \<and>
    u_id (ca_user c) = uid \<and> (\<forall>d \<in> set AllCaps. Has (Global (ca_caps c)) (def_cap d))"
proof -
  obtain s1 u s2 s3 where r: "RedeemBreakGlassToken s (hash tok) now = (True, s1)"
    and b: "breakGlassUser s1 new_id = (Inr u, s2)" and i: "Issue hash s2 (u_id u) True token 0 now = Inr (t, s3)"
    and s': "s' = audited s3 ''auth.break_glass'' [] ''ok''" and uid: "uid = u_id u"
    using assms(1) by (auto simp: handleBreakGlass_def split: if_split_asm prod.split_asm bool.split_asm sum.split_asm)
  have s1: "ac_db s1 = ac_db s" "ac_profiles s1 = ac_profiles s" "ac_sessions s1 = ac_sessions s"
    using r by (auto simp: RedeemBreakGlassToken_def split: list.split_asm)
  obtain s1' r d where a: "breakGlassAccount s1 new_id = Inr (u, s1')" and adm: "AdminRole (ac_db s1') = Inr r"
    and g: "GrantRole (ac_db s1') (u_id u) (ro_id r) ''local'' scope_Global = Inr d" and s2: "s2 = s1'\<lparr>ac_db := d\<rparr>"
    using b by (auto simp: breakGlassUser_def split: sum.split_asm prod.split_asm)
  have en: "\<forall>v f. UserByUsername s1 breakGlassName = Some (v, f) \<longrightarrow> \<not> u_disabled v"
    using assms(5) unfolding UserByUsername_def joined_def s1 .
  note ok = breakGlassAccount_ok[OF a _ _ en, unfolded s1, OF assms(2,3)]
  note q = Issue_Inr[OF i]
  have us: "users (ac_db s') = users (ac_db s1')" "ac_db s' = d"
    using GrantRole_Inr(1)[OF g] by (simp_all add: s' audited_def q(2) s2)
  obtain em where em: "EffectiveMask (ac_db s') (u_id u) = Inr em" by (rule EffectiveMask_total)
  have all: "\<forall>c \<in> set AllCaps. Has (Global em) (def_cap c)"
    using admin_grant_everything[OF ok(3) adm g] em us(2) by simp
  have "Resolve hash (store_caps s') s' \<lparr>cr_authorization = [], cr_cookie = Some token\<rparr> later =
      (Caller \<lparr>ca_user = u, ca_caps = em, ca_token = None\<rparr>, s')"
    by (rule session_admits[where qs = "ac_sessions s2" and q = "\<lparr>se_id = hash token, se_user_id = u_id u,
          se_break_glass = True, se_expires_at = now + 60 * minute\<rparr>"])
      (use q ok us em assms(4,6) in \<open>simp_all add: s' audited_def store_caps_def\<close>)
  then show ?thesis using all by (intro exI[of _ "\<lparr>ca_user = u, ca_caps = em, ca_token = None\<rparr>"]) (simp add: q(1) uid)
qed

section \<open>API tokens\<close>

lemma mintToken_Minted:
  assumes "mintToken hash s owner name days secret0 i now = (Minted t secret, s')"
  shows "secret = TokenPrefix @ secret0" "tk_hash t = hash secret" "tk_user_id t = u_id owner" "certName (tk_name t)"
    "ac_tokens s' = ac_tokens s @ [t]" "ac_db s' = ac_db s" "\<not> list_ex (\<lambda>q. tk_hash q = hash secret) (ac_tokens s)"
    "tk_last_used_at t = None" "tk_expires_at t = (if 0 < days then Some (now + wrap64 (days * 24 * 60 * minute)) else None)"
  using assms
  by (auto simp: mintToken_def Let_def CreateAPIToken_def audited_def list_ex_iff split: if_split_asm sum.split_asm)

lemma token_admits:
  assumes "ac_tokens s = ts @ [t]" "\<not> list_ex (\<lambda>q. tk_hash q = hash secret) ts" "tk_hash t = hash secret" "tk_user_id t = u_id u"
    and "u \<in> set (users (ac_db s))" "distinct (map u_id (users (ac_db s)))" "\<not> u_disabled u" "\<not> Expired t now"
    and "caps_of (u_id u) = Some m" "has_prefix secret TokenPrefix" "tk_last_used_at t = None"
  shows "\<exists>c s'. Resolve hash caps_of s \<lparr>cr_authorization = ''Bearer '' @ secret, cr_cookie = k\<rparr> now = (Caller c, s') \<and>
    ca_user c = u \<and> ca_caps c = m \<and> ca_token c \<noteq> None"
proof -
  have au: "APITokenUser s (hash secret) now = Some (u, t)"
    unfolding APITokenUser_def assms(1)
    using join_last[of "\<lambda>p. tk_hash p = hash secret" ts t u _ u_id tk_user_id, OF assms(2,3,5,6)] assms(4,7,8)
    by simp
  have "has_prefix (''Bearer '' @ secret) (''Bearer '' @ TokenPrefix)" using assms(10) by (auto simp: has_prefix_iff)
  moreover have "trim_prefix (''Bearer '' @ secret) ''Bearer '' = secret" by (simp add: trim_prefix_def has_prefix_def)
  ultimately show ?thesis
    using au assms(9,11) unfolding Resolve_def resolveToken_def by (simp del: append.simps)
qed

text \<open>A token is its owner, and is minted by nobody else. A token is only ever minted from a session,
  for the person signed in or for a bot; the table keeps its hash; and from then on the secret, sent
  back as a bearer, resolves to that owner until it expires.\<close>

lemma minted_token_admits_owner:
  assumes "handleCreateToken hash s c name days raw i now = (Minted t secret, s') \<and> owner = ca_user c \<or>
    handleCreateBotToken hash s c bot name days raw i now = (Minted t secret, s') \<and> UserByID s bot = Some owner"
    and "owner \<in> set (users (ac_db s))" "distinct (map u_id (users (ac_db s)))" "\<not> u_disabled owner"
    and "\<not> Expired t later" "caps_of (u_id owner) = Some m"
  shows "ca_token c = None \<and> (owner = ca_user c \<or> u_kind owner = ''bot'') \<and>
    ac_tokens s' = ac_tokens s @ [t] \<and> tk_hash t = hash secret \<and>
    (\<exists>c' s''. Resolve hash caps_of s' \<lparr>cr_authorization = ''Bearer '' @ secret, cr_cookie = k\<rparr> later = (Caller c', s'') \<and>
       ca_user c' = owner \<and> ca_caps c' = m \<and> ca_token c' \<noteq> None)"
proof -
  have mint: "mintToken hash s owner name days raw i now = (Minted t secret, s')"
    and who: "ca_token c = None" "owner = ca_user c \<or> u_kind owner = ''bot''"
    using assms(1) by (auto simp: handleCreateToken_def handleCreateBotToken_def split: if_split_asm option.split_asm)
  note t = mintToken_Minted[OF mint]
  have "\<exists>c' s''. Resolve hash caps_of s' \<lparr>cr_authorization = ''Bearer '' @ secret, cr_cookie = k\<rparr> later = (Caller c', s'') \<and>
       ca_user c' = owner \<and> ca_caps c' = m \<and> ca_token c' \<noteq> None"
    by (rule token_admits[where ts = "ac_tokens s" and t = t]) (use t assms(2-6) in \<open>simp_all add: has_prefix_iff\<close>)
  then show ?thesis using who t(2,5) by blast
qed

section \<open>A front desk\<close>

definition desk_db :: db where
  "desk_db = office\<lparr>users := users office @ [\<lparr>u_id = ''bg'', u_kind = ''local'', u_disabled = False\<rparr>],
     role_members := role_members office @ [\<lparr>rm_user_id = ''bg'', rm_role_id = ''admin'', rm_source = ''local'', rm_scope = scope_Global\<rparr>]\<rparr>"

definition desk :: accounts where
  "desk = \<lparr>ac_db = desk_db, ac_profiles = [\<lparr>pf_id = ''bg'', pf_username = breakGlassName, pf_password_hash = [], pf_sub = [],
       pf_oidc_provider = [], pf_email = []\<rparr>],
     ac_sessions = [], ac_tokens = [], ac_break_glass = [(''link'', 100)], ac_limiter = [], ac_states = [], ac_audit = []\<rparr>"

text \<open>Break-glass reads only the id of the admin role.\<close>

lemma breakGlassUser_code [code]:
  "breakGlassUser s new_id =
     (case breakGlassAccount s new_id of
        Inl e \<Rightarrow> (Inl e, s)
      | Inr (u, s) \<Rightarrow>
          (case sort_key ro_created_at (filter (\<lambda>r. ro_is_admin r \<and> ro_builtin r) (roles (ac_db s))) of
             [] \<Rightarrow> (Inl ErrNotFound, s)
           | q # _ \<Rightarrow>
               (case GrantRole (ac_db s) (u_id u) (ro_id q) ''local'' scope_Global of
                  Inl e \<Rightarrow> (Inl e, s)
                | Inr d \<Rightarrow> (Inr u, s\<lparr>ac_db := d\<rparr>))))"
  unfolding breakGlassUser_def AdminRole_def oneRole_def
  by (auto simp: withCaps_def role_row.defs split: sum.split list.split)

text \<open>Break-glass can be locked out. While another administrator exists, the break-glass account may be
  disabled like any other. A link used after that is accepted and spent, and the sign-in is reported as
  a success, but the cookie it sets resolves to nobody.\<close>

lemma break_glass_locked_out:
  "(case SetUserDisabledGuarded desk_db ''bg'' True of
      Inl e \<Rightarrow> False
    | Inr d \<Rightarrow>
        (case handleBreakGlass (\<lambda>x. x) (desk\<lparr>ac_db := d\<rparr>) ''link'' ''new'' ''cookie'' 0 of
           (r, s') \<Rightarrow> r = BreakGlassSignedIn ''bg'' ''cookie'' \<and>
             fst (Resolve (\<lambda>x. x) (\<lambda>u. Some \<lparr>Global = [], Env = []\<rparr>) s' \<lparr>cr_authorization = [], cr_cookie = Some ''cookie''\<rparr> 1) = NoSession \<and>
             fst (handleBreakGlass (\<lambda>x. x) s' ''link'' ''new'' ''cookie2'' 2) = InvalidLink))"
  by code_simp


theorem break_glass_holds_everything_witness:
  "\<exists>c s'. Resolve (\<lambda>x. x) (store_caps s') s' \<lparr>cr_authorization = [], cr_cookie = Some ''cookie''\<rparr> 60 = (Caller c, s') \<and>
     Has (Global (ca_caps c)) StacksEdit"
proof -
  let ?r = "handleBreakGlass (\<lambda>x. x) desk ''link'' ''new'' ''cookie'' 0"
  have "fst ?r = BreakGlassSignedIn ''bg'' ''cookie''" by code_simp
  then have r: "?r = (BreakGlassSignedIn ''bg'' ''cookie'', snd ?r)" by (metis prod.collapse)
  have inv: "store_inv (ac_db desk)" unfolding store_inv_def by code_simp
  have ids: "distinct (map u_id (users (ac_db desk)))" by code_simp
  have "UserByUsername desk breakGlassName = Some (\<lparr>u_id = ''bg'', u_kind = ''local'', u_disabled = False\<rparr>, hd (ac_profiles desk))" by code_simp
  then have en: "\<forall>v f. UserByUsername desk breakGlassName = Some (v, f) \<longrightarrow> \<not> u_disabled v" by auto
  have "def_cap stacks_edit = StacksEdit" by code_simp
  moreover have "(60::int) \<le> 0 + 60 * minute" by (simp add: minute_def second_def)
  ultimately show ?thesis
    using break_glass_holds_everything[OF r inv ids _ en, of 60] stacks_edit_registered by force
qed

end
