(* ===== verification/Routes.thy ===== *)
theory Routes
  imports RouteTable SignIn Stacks Alerts
begin

text \<open>
  From a request to its handler: the cross-site check and the capability middlewares of
  \<^verbatim>\<open>internal/auth/middleware.go\<close>, the route tree and the guards of \<^verbatim>\<open>internal/api/server.go\<close>, and the
  guard of \<^verbatim>\<open>internal/api/webhook_handlers.go\<close>.

  The path of a request is its list of segments, cleaned and unescaped as \<^verbatim>\<open>net/http\<close> hands it over, and
  the host of its Origin header is parsed. A pattern is matched the way \<^verbatim>\<open>http.ServeMux\<close> does: a literal
  segment before a wildcard, and a GET pattern also for HEAD. Of the backup jobs, volume sources and
  webhooks the model has the columns the guards read.
\<close>

section \<open>Requests\<close>

record http_request =
  hr_method :: string
  hr_path :: "string list"
  hr_sec_fetch_site :: string
  hr_origin :: string
  hr_origin_host :: "string option"
  hr_host :: string
  hr_credentials :: credentials

definition lower_char :: "char \<Rightarrow> char" where
  "lower_char c = (if 65 \<le> (of_char c :: nat) \<and> (of_char c :: nat) \<le> 90 then char_of ((of_char c :: nat) + 32) else c)"

definition equal_fold :: "string \<Rightarrow> string \<Rightarrow> bool" where
  "equal_fold s t \<longleftrightarrow> map lower_char s = map lower_char t"

definition originMatches :: "string \<Rightarrow> http_request \<Rightarrow> bool" where
  "originMatches self_origin r =
     (if self_origin \<noteq> [] \<and> equal_fold (hr_origin r) self_origin then True
      else (case hr_origin_host r of None \<Rightarrow> False | Some h \<Rightarrow> equal_fold h (hr_host r)))"

definition safe_method :: "string \<Rightarrow> bool" where
  "safe_method m \<longleftrightarrow> m = ''GET'' \<or> m = ''HEAD'' \<or> m = ''OPTIONS''"

definition CSRF :: "string \<Rightarrow> http_request \<Rightarrow> bool" where
  "CSRF self_origin r =
     (if safe_method (hr_method r) then True
      else if hr_sec_fetch_site r \<noteq> [] then hr_sec_fetch_site r = ''same-origin'' \<or> hr_sec_fetch_site r = ''none''
      else if hr_origin r = [] then True
      else originMatches self_origin r)"

section \<open>Patterns\<close>

definition pattern_method :: "string \<Rightarrow> string" where
  "pattern_method p = takeWhile (\<lambda>c. c \<noteq> CHR '' '') p"

definition pattern_segments :: "string \<Rightarrow> string list" where
  "pattern_segments p = tl (split_on CHR ''/'' (tl (dropWhile (\<lambda>c. c \<noteq> CHR '' '') p)))"

definition wildcard :: "string \<Rightarrow> bool" where
  "wildcard seg = (case seg of [] \<Rightarrow> False | c # cs \<Rightarrow> c = CHR ''{'')"

definition wildcard_name :: "string \<Rightarrow> string" where
  "wildcard_name seg = butlast (tl seg)"

fun match_segments :: "string list \<Rightarrow> string list \<Rightarrow> (string \<times> string) list option" where
  "match_segments [] [] = Some []"
| "match_segments (p # ps) (x # xs) =
     (if wildcard p then (if x = [] then None else map_option (\<lambda>m. (wildcard_name p, x) # m) (match_segments ps xs))
      else if p = x then match_segments ps xs else None)"
| "match_segments _ _ = None"

definition method_matches :: "string \<Rightarrow> string \<Rightarrow> bool" where
  "method_matches p m \<longleftrightarrow> p = m \<or> p = ''GET'' \<and> m = ''HEAD''"

definition match_route :: "string \<Rightarrow> http_request \<Rightarrow> (string \<times> string) list option" where
  "match_route p r =
     (if method_matches (pattern_method p) (hr_method r) then match_segments (pattern_segments p) (hr_path r) else None)"

definition PathValue :: "(string \<times> string) list \<Rightarrow> string \<Rightarrow> string" where
  "PathValue vals n = (case map_of vals n of None \<Rightarrow> [] | Some v \<Rightarrow> v)"

text \<open>The mux prefers, from left to right, a literal segment to a wildcard.\<close>

definition mux :: "('r \<Rightarrow> string) \<Rightarrow> 'r list \<Rightarrow> http_request \<Rightarrow> ('r \<times> (string \<times> string) list) option" where
  "mux pat rs r =
     (case sort_key (\<lambda>(x, vals). map wildcard (pattern_segments (pat x))) [(x, vals). x \<leftarrow> rs, Some vals \<leftarrow> [match_route (pat x) r]] of
        [] \<Rightarrow> None | x # _ \<Rightarrow> Some x)"

section \<open>Guards\<close>

record scoped_row =
  sr_id :: ident
  sr_env_id :: ident

record site =
  si_accounts :: accounts
  si_stacks :: sdb
  si_monitors :: mdb
  si_jobs :: "scoped_row list"
  si_volume_sources :: "scoped_row list"
  si_webhooks :: "scoped_row list"

definition row_by_id :: "scoped_row list \<Rightarrow> ident \<Rightarrow> scoped_row option" where
  "row_by_id rows i = (case filter (\<lambda>r. sr_id r = i) rows of [] \<Rightarrow> None | r # _ \<Rightarrow> Some r)"

definition BackupJobByID :: "site \<Rightarrow> ident \<Rightarrow> scoped_row option" where
  "BackupJobByID s i = row_by_id (si_jobs s) i"

definition VolumeSourceByID :: "site \<Rightarrow> ident \<Rightarrow> scoped_row option" where
  "VolumeSourceByID s i = row_by_id (si_volume_sources s) i"

definition WebhookByID :: "site \<Rightarrow> ident \<Rightarrow> scoped_row option" where
  "WebhookByID s i = row_by_id (si_webhooks s) i"

text \<open>A guard passes, or fails with a status and a code; a denial is also written to the audit log.\<close>

datatype guard_result = Pass | Refuse nat string bool

definition Deny :: guard_result where
  "Deny = Refuse 403 ''forbidden'' True"

definition RequireCap :: "cap \<Rightarrow> ident option \<Rightarrow> scoped_mask \<Rightarrow> guard_result" where
  "RequireCap c scope caps =
     (let env = (case scope of None \<Rightarrow> [] | Some e \<Rightarrow> e) in if \<not> sm_Has caps c env then Deny else Pass)"

definition RequireCapAnywhere :: "cap \<Rightarrow> scoped_mask \<Rightarrow> guard_result" where
  "RequireCapAnywhere c caps = (if \<not> sm_HasAnywhere caps c then Deny else Pass)"

definition requireOnStack :: "site \<Rightarrow> cap \<Rightarrow> scoped_mask \<Rightarrow> ident \<Rightarrow> guard_result" where
  "requireOnStack s c caps i =
     (case StackByID (si_stacks s) i of
        Inl e \<Rightarrow> Refuse 404 ''no_such_stack'' False
      | Inr (st, _) \<Rightarrow> if \<not> sm_Has caps c (st_env_id st) then Refuse 404 ''no_such_stack'' True else Pass)"

definition requireOnDeployment :: "site \<Rightarrow> cap \<Rightarrow> scoped_mask \<Rightarrow> ident \<Rightarrow> guard_result" where
  "requireOnDeployment s c caps i =
     (case DeploymentByID (si_stacks s) i of
        Inl e \<Rightarrow> Refuse 404 ''no_such_deployment'' False
      | Inr d \<Rightarrow>
          (case StackByID (si_stacks s) (d_stack_id d) of
             Inl e \<Rightarrow> Refuse 404 ''no_such_deployment'' False
           | Inr (st, _) \<Rightarrow> if \<not> sm_Has caps c (st_env_id st) then Refuse 404 ''no_such_deployment'' True else Pass))"

definition requireOnJob :: "site \<Rightarrow> cap \<Rightarrow> scoped_mask \<Rightarrow> ident \<Rightarrow> guard_result" where
  "requireOnJob s c caps i =
     (case BackupJobByID s i of
        None \<Rightarrow> Refuse 404 ''no_such_job'' False
      | Some j \<Rightarrow> if \<not> sm_Has caps c (sr_env_id j) then Refuse 404 ''no_such_job'' True else Pass)"

definition requireOnMonitor :: "site \<Rightarrow> cap \<Rightarrow> scoped_mask \<Rightarrow> ident \<Rightarrow> guard_result" where
  "requireOnMonitor s c caps i =
     (case MonitorByID (si_monitors s) i of
        Inl e \<Rightarrow> Refuse 404 ''no_such_monitor'' False
      | Inr m \<Rightarrow>
          (let allowed = (if mn_env_id m = [] then Has (Global caps) c else sm_Has caps c (mn_env_id m))
           in if \<not> allowed then Refuse 404 ''no_such_monitor'' True else Pass))"

definition requireOnVolumeSource :: "site \<Rightarrow> cap \<Rightarrow> scoped_mask \<Rightarrow> ident \<Rightarrow> guard_result" where
  "requireOnVolumeSource s c caps i =
     (case VolumeSourceByID s i of
        None \<Rightarrow> Refuse 404 ''no_such_source'' False
      | Some v \<Rightarrow> if \<not> sm_Has caps c (sr_env_id v) then Refuse 404 ''no_such_source'' True else Pass)"

definition requireOnWebhook :: "site \<Rightarrow> cap \<Rightarrow> scoped_mask \<Rightarrow> ident \<Rightarrow> guard_result" where
  "requireOnWebhook s c caps i =
     (case WebhookByID s i of
        None \<Rightarrow> Refuse 404 ''no_such_webhook'' False
      | Some w \<Rightarrow>
          (let allowed = (if sr_env_id w = [] then Has (Global caps) c else sm_Has caps c (sr_env_id w))
           in if \<not> allowed then Refuse 404 ''no_such_webhook'' True else Pass))"

text \<open>A route without a scope is a panic at startup; here it refuses.\<close>

definition guard :: "site \<Rightarrow> route \<Rightarrow> scoped_mask \<Rightarrow> (string \<times> string) list \<Rightarrow> guard_result" where
  "guard s r caps vals =
     (case rt_scope r of
        scopeNone \<Rightarrow> Pass
      | scopeGlobal \<Rightarrow> RequireCap (rt_cap r) None caps
      | scopeEnv \<Rightarrow> RequireCap (rt_cap r) (Some (PathValue vals ''cluster'')) caps
      | scopeAny \<Rightarrow> RequireCapAnywhere (rt_cap r) caps
      | scopeStack \<Rightarrow> requireOnStack s (rt_cap r) caps (PathValue vals ''id'')
      | scopeDeployment \<Rightarrow> requireOnDeployment s (rt_cap r) caps (PathValue vals ''id'')
      | scopeJob \<Rightarrow> requireOnJob s (rt_cap r) caps (PathValue vals ''id'')
      | scopeMonitor \<Rightarrow> requireOnMonitor s (rt_cap r) caps (PathValue vals ''id'')
      | scopeVolumeSource \<Rightarrow> requireOnVolumeSource s (rt_cap r) caps (PathValue vals ''id'')
      | scopeWebhook \<Rightarrow> requireOnWebhook s (rt_cap r) caps (PathValue vals ''id'')
      | scopeBody \<Rightarrow> Pass
      | scopeUnset \<Rightarrow> Refuse 500 ''panic'' False)"

definition mayUseEnv :: "scoped_mask \<Rightarrow> cap \<Rightarrow> ident \<Rightarrow> guard_result" where
  "mayUseEnv caps c env = (if \<not> sm_Has caps c env then Deny else Pass)"

definition visible :: "scoped_mask \<Rightarrow> cap \<Rightarrow> bool \<times> ident list" where
  "visible caps c =
     (if Has (Global caps) c then (True, []) else (False, filter (\<lambda>i. Has (gget [] (Env caps) i) c) (sm_Envs caps)))"

section \<open>The route tree\<close>

definition publicRoutes :: "(string \<times> string) list" where
  "publicRoutes =
     [(''GET /healthz'', ''healthz''), (''POST /agents/enroll'', ''handleAgentEnroll''), (''GET /agents/connect'', ''handleAgentConnect''),
      (''POST /webhooks/{id}'', ''handleWebhookDelivery''), (''POST /webhooks/stacks/{id}'', ''handleLegacyStackWebhook''),
      (''POST /webhooks/volume-sources/{id}'', ''handleLegacyVolumeSourceWebhook''),
      (''GET /api/auth/config'', ''handleAuthConfig''), (''POST /api/auth/login'', ''handleLocalLogin''),
      (''GET /api/auth/oidc/start/{provider}'', ''handleOIDCStart''), (''GET /api/auth/callback/{provider}'', ''handleOIDCCallback''),
      (''GET /api/auth/break-glass'', ''handleBreakGlass'')]"

datatype response =
    CrossSite | Public string | SPA | Unauthenticated | AuthError | NoRoute
  | Refused nat string bool
  | Handled string "(string \<times> string) list" caller

definition serve_api :: "(string \<Rightarrow> string) \<Rightarrow> (ident \<Rightarrow> scoped_mask option) \<Rightarrow> site \<Rightarrow> http_request \<Rightarrow> int \<Rightarrow> response \<times> site" where
  "serve_api hash caps_of s r now =
     (case Resolve hash caps_of (si_accounts s) (hr_credentials r) now of
        (NoSession, a) \<Rightarrow> (Unauthenticated, s\<lparr>si_accounts := a\<rparr>)
      | (CapsUnavailable, a) \<Rightarrow> (AuthError, s\<lparr>si_accounts := a\<rparr>)
      | (Caller c, a) \<Rightarrow>
          (let s = s\<lparr>si_accounts := a\<rparr>
           in (case mux rt_pattern apiRoutes r of
                 None \<Rightarrow> (NoRoute, s)
               | Some (x, vals) \<Rightarrow>
                   (case guard s x (ca_caps c) vals of
                      Refuse n code audit \<Rightarrow> (Refused n code audit, s)
                    | Pass \<Rightarrow> (Handled (rt_h x) vals c, s)))))"

definition Handler :: "(string \<Rightarrow> string) \<Rightarrow> (ident \<Rightarrow> scoped_mask option) \<Rightarrow> site \<Rightarrow> http_request \<Rightarrow> int \<Rightarrow> response \<times> site" where
  "Handler hash caps_of s r now =
     (if \<not> CSRF [] r then (CrossSite, s)
      else (case mux fst publicRoutes r of
              Some ((p, h), vals) \<Rightarrow> (Public h, s)
            | None \<Rightarrow>
                (case hr_path r of
                   x # y # _ \<Rightarrow> if x = ''api'' then serve_api hash caps_of s r now else (SPA, s)
                 | _ \<Rightarrow> (SPA, s))))"

section \<open>Denials in the audit log\<close>

definition firstNonEmpty :: "string list \<Rightarrow> string" where
  "firstNonEmpty vs = (case filter (\<lambda>v. v \<noteq> []) vs of [] \<Rightarrow> [] | v # _ \<Rightarrow> v)"

definition resourceFromPath :: "string list \<Rightarrow> string" where
  "resourceFromPath path = (if 4 \<le> length path then trim_suffix (path ! 3) ''s'' else ''resource'')"

definition denial_action :: "http_request \<Rightarrow> (string \<times> string) list \<Rightarrow> string" where
  "denial_action r vals =
     (if PathValue vals ''action'' \<noteq> [] then ''container.'' @ PathValue vals ''action''
      else if PathValue vals ''target'' \<noteq> [] then ''prune.'' @ PathValue vals ''target''
      else if hr_path r \<noteq> [] \<and> last (hr_path r) = ''exec'' then ''container.exec''
      else if hr_method r = ''DELETE'' then resourceFromPath (hr_path r) @ ''.remove''
      else hr_method r @ '' /'' @ join ''/'' (hr_path r))"

definition denial_target :: "(string \<times> string) list \<Rightarrow> string" where
  "denial_target vals = firstNonEmpty [PathValue vals ''id'', PathValue vals ''name'']"

record denial =
  dn_user_id :: ident
  dn_env_id :: ident
  dn_action :: string
  dn_target :: string
  dn_reason :: string
  dn_held :: "string list"

definition recordDenial :: "http_request \<Rightarrow> (string \<times> string) list \<Rightarrow> caller \<Rightarrow> cap \<Rightarrow> denial" where
  "recordDenial r vals c x =
     \<lparr>dn_user_id = u_id (ca_user c), dn_env_id = PathValue vals ''cluster'', dn_action = denial_action r vals,
      dn_target = denial_target vals, dn_reason = ''missing_capability:'' @ cap_Name x, dn_held = Names (Global (ca_caps c))\<rparr>"

definition handleExec_check :: "caller \<Rightarrow> (string \<times> string) list \<Rightarrow> guard_result" where
  "handleExec_check c vals = (if \<not> sm_Has (ca_caps c) ContainersExec (PathValue vals ''cluster'') then Deny else Pass)"

end
