(* ===== verification/Access.thy ===== *)
theory Access
  imports Routes
begin

text \<open>
  What the route tree guarantees: nothing runs without a live credential and the capability its route
  names, where the object it names lives; a refusal never tells that an object exists; the table
  itself is complete and unambiguous; and some denials are written down under the wrong name.
\<close>

section \<open>Mediation\<close>

text \<open>Where the object of a route lives, and what it takes to use the route there.\<close>

definition lives_on :: "site \<Rightarrow> scope_kind \<Rightarrow> ident \<Rightarrow> ident option" where
  "lives_on s k i =
     (case k of
        scopeStack \<Rightarrow> (case StackByID (si_stacks s) i of Inl e \<Rightarrow> None | Inr (st, _) \<Rightarrow> Some (st_env_id st))
      | scopeDeployment \<Rightarrow>
          (case DeploymentByID (si_stacks s) i of
             Inl e \<Rightarrow> None
           | Inr d \<Rightarrow> (case StackByID (si_stacks s) (d_stack_id d) of Inl e \<Rightarrow> None | Inr (st, _) \<Rightarrow> Some (st_env_id st)))
      | scopeJob \<Rightarrow> map_option sr_env_id (BackupJobByID s i)
      | scopeMonitor \<Rightarrow> (case MonitorByID (si_monitors s) i of Inl e \<Rightarrow> None | Inr m \<Rightarrow> Some (mn_env_id m))
      | scopeVolumeSource \<Rightarrow> map_option sr_env_id (VolumeSourceByID s i)
      | scopeWebhook \<Rightarrow> map_option sr_env_id (WebhookByID s i)
      | _ \<Rightarrow> None)"

definition held_on :: "scoped_mask \<Rightarrow> cap \<Rightarrow> ident \<Rightarrow> bool" where
  "held_on caps c env \<longleftrightarrow> Has (Global caps) c \<or> env \<noteq> [] \<and> Has (gget [] (Env caps) env) c"

definition entity :: "scope_kind \<Rightarrow> bool" where
  "entity k \<longleftrightarrow> k \<in> {scopeStack, scopeDeployment, scopeJob, scopeMonitor, scopeVolumeSource, scopeWebhook}"

definition authorised :: "site \<Rightarrow> route \<Rightarrow> scoped_mask \<Rightarrow> (string \<times> string) list \<Rightarrow> bool" where
  "authorised s x caps vals \<longleftrightarrow>
     (if entity (rt_scope x) then \<exists>env. lives_on s (rt_scope x) (PathValue vals ''id'') = Some env \<and> held_on caps (rt_cap x) env
      else if rt_scope x = scopeGlobal then Has (Global caps) (rt_cap x)
      else if rt_scope x = scopeEnv then held_on caps (rt_cap x) (PathValue vals ''cluster'')
      else if rt_scope x = scopeAny then Has (Global caps) (rt_cap x) \<or> (\<exists>(e, m) \<in> set (Env caps). Has m (rt_cap x))
      else rt_scope x = scopeNone \<or> rt_scope x = scopeBody)"

lemma sm_Has_held_on: "sm_Has caps c env = held_on caps c env"
  by (simp add: sm_Has_def held_on_def)

lemmas entity_guards = requireOnStack_def requireOnDeployment_def requireOnJob_def requireOnMonitor_def
  requireOnVolumeSource_def requireOnWebhook_def

lemma entity_guard:
  assumes "entity (rt_scope x)"
  shows "\<exists>code. \<forall>s. guard s x caps vals =
    (case lives_on s (rt_scope x) (PathValue vals ''id'') of
       None \<Rightarrow> Refuse 404 code False
     | Some env \<Rightarrow> if held_on caps (rt_cap x) env then Pass else Refuse 404 code True)"
  using assms unfolding entity_def
  by (elim insertE emptyE)
    (intro exI allI; simp add: guard_def entity_guards lives_on_def sm_Has_held_on Let_def split: sum.split option.split prod.split;
     auto simp: held_on_def)+

lemma guard_Pass: "guard s x caps vals = Pass \<longleftrightarrow> authorised s x caps vals"
proof (cases "entity (rt_scope x)")
  case True
  obtain code where g: "\<forall>s. guard s x caps vals =
    (case lives_on s (rt_scope x) (PathValue vals ''id'') of
       None \<Rightarrow> Refuse 404 code False
     | Some env \<Rightarrow> if held_on caps (rt_cap x) env then Pass else Refuse 404 code True)"
    using entity_guard[OF True] by blast
  show ?thesis unfolding g[rule_format] using True by (simp add: authorised_def split: option.split)
next
  case False
  then show ?thesis
    by (cases "rt_scope x")
      (auto simp: authorised_def guard_def entity_def RequireCap_def RequireCapAnywhere_def Deny_def sm_Has_held_on held_on_def
        sm_HasAnywhere_def list_ex_iff Let_def)
qed

lemma mux_Some:
  assumes "mux pat rs r = Some (x, vals)"
  shows "x \<in> set rs" "match_route (pat x) r = Some vals"
proof -
  let ?cs = "[(x, vals). x \<leftarrow> rs, Some vals \<leftarrow> [match_route (pat x) r]]"
  obtain cs where "sort_key (\<lambda>(x, vals). map wildcard (pattern_segments (pat x))) ?cs = (x, vals) # cs"
    using assms unfolding mux_def by (auto split: list.split_asm)
  then have "(x, vals) \<in> set (sort_key (\<lambda>(x, vals). map wildcard (pattern_segments (pat x))) ?cs)" by simp
  then have "(x, vals) \<in> set ?cs" by (simp only: set_sort)
  then show "x \<in> set rs" "match_route (pat x) r = Some vals" by (auto split: option.split_asm)
qed

lemma site_accounts:
  "si_stacks (s\<lparr>si_accounts := a\<rparr>) = si_stacks s" "si_monitors (s\<lparr>si_accounts := a\<rparr>) = si_monitors s"
  "si_jobs (s\<lparr>si_accounts := a\<rparr>) = si_jobs s" "si_volume_sources (s\<lparr>si_accounts := a\<rparr>) = si_volume_sources s"
  "si_webhooks (s\<lparr>si_accounts := a\<rparr>) = si_webhooks s"
  by simp_all

lemma authorised_accounts: "authorised (s\<lparr>si_accounts := a\<rparr>) x caps vals = authorised s x caps vals"
  unfolding authorised_def lives_on_def BackupJobByID_def VolumeSourceByID_def WebhookByID_def site_accounts ..


section \<open>Refusals\<close>

fun reply :: "guard_result \<Rightarrow> (nat \<times> string) option" where
  "reply Pass = None"
| "reply (Refuse n code audit) = Some (n, code)"

text \<open>C7: a refusal gives nothing away. For a caller who may not use a stack, deployment, backup job,
  monitor, volume source or webhook, the answer is the same 404 whether the object exists or not:
  two states of the server in which the caller lacks it are not told apart.\<close>

theorem guards_hide_existence:
  assumes "entity (rt_scope x)" "\<not> authorised s x caps vals" "\<not> authorised s2 x caps vals"
  shows "reply (guard s x caps vals) = reply (guard s2 x caps vals) \<and> map_option fst (reply (guard s x caps vals)) = Some 404"
proof -
  obtain code where g: "\<forall>s. guard s x caps vals =
    (case lives_on s (rt_scope x) (PathValue vals ''id'') of
       None \<Rightarrow> Refuse 404 code False
     | Some env \<Rightarrow> if held_on caps (rt_cap x) env then Pass else Refuse 404 code True)"
    using entity_guard[OF assms(1)] by blast
  have "reply (guard q x caps vals) = Some (404, code)" if "\<not> authorised q x caps vals" for q
    using that assms(1) unfolding g[rule_format] by (auto simp: authorised_def split: option.split)
  then show ?thesis using assms(2,3) by simp
qed

section \<open>The table\<close>

lemmas registry_lists = AllCaps_def all_docker_def all_deploy_def all_data_def all_observe_def all_swarm_def all_certs_def
  all_keyrings_def all_sshkeys_def all_manifests_def all_admin_def mkdef_def

text \<open>What a row of the table must say: where it is checked, and either a capability of the registry or
  the reason it needs none; a capability checked on one cluster can be granted on one; a path that
  names the cluster or the object; and more than the right to look, for a route that writes.\<close>

definition reads :: "route \<Rightarrow> bool" where
  "reads x \<longleftrightarrow> has_prefix (rt_pattern x) ''GET '' \<or> rt_scope x = scopeBody"

definition declared :: "route \<Rightarrow> bool" where
  "declared x \<longleftrightarrow> rt_scope x \<noteq> scopeUnset \<and> (rt_scope x = scopeNone \<longleftrightarrow> rt_open x \<noteq> []) \<and>
     (rt_scope x = scopeNone \<longleftrightarrow> cap_IsZero (rt_cap x))"

definition grantable :: "route \<Rightarrow> bool" where
  "grantable x \<longleftrightarrow> rt_scope x = scopeNone \<or>
     list_ex (\<lambda>d. def_cap d = rt_cap x \<and> (rt_scope x = scopeGlobal \<or> def_scope d = ScopeEnv) \<and> (reads x \<or> def_mode d \<noteq> ModeView)) AllCaps"

definition addressed :: "route \<Rightarrow> bool" where
  "addressed x \<longleftrightarrow> (rt_scope x = scopeEnv \<longrightarrow> ''{cluster}'' \<in> set (pattern_segments (rt_pattern x))) \<and>
     (entity (rt_scope x) \<longrightarrow> ''{id}'' \<in> set (pattern_segments (rt_pattern x)))"

lemma routes_declared: "list_all declared apiRoutes"
  by code_simp

lemma routes_addressed: "list_all addressed apiRoutes"
  unfolding addressed_def entity_def by code_simp

lemma routes_grantable: "list_all grantable apiRoutes"
  unfolding apiRoutes_def list_all_append
  by (intro conjI; simp add: route_lists grantable_def reads_def has_prefix_def registry_lists)


section \<open>Ambiguity\<close>

text \<open>Two patterns overlap when some path matches both; \<^verbatim>\<open>http.ServeMux\<close> panics at startup unless one of
  them is then more specific than the other.\<close>

fun overlap :: "string list \<Rightarrow> string list \<Rightarrow> bool" where
  "overlap [] [] = True"
| "overlap (p # ps) (q # qs) =
     (if wildcard p then overlap ps qs else if wildcard q then overlap ps qs else if p = q then overlap ps qs else False)"
| "overlap _ _ = False"

definition compatible :: "string list \<Rightarrow> string list \<Rightarrow> bool" where
  "compatible p q =
     (if \<not> overlap p q then True
      else (let f = map wildcard p; g = map wildcard q in f \<noteq> g \<and> (list_all2 (\<le>) f g \<or> list_all2 (\<le>) g f)))"

text \<open>Every path of the table begins with the same segment.\<close>

definition of_method :: "string \<Rightarrow> route list \<Rightarrow> string list list" where
  "of_method m rs = map (\<lambda>x. tl (pattern_segments (rt_pattern x))) (filter (\<lambda>x. pattern_method (rt_pattern x) = m) rs)"

definition methods :: "string list" where
  "methods = [''GET'', ''POST'', ''PUT'', ''PATCH'', ''DELETE'']"

lemma table_methods: "list_all (\<lambda>x. pattern_method (rt_pattern x) \<in> set methods) apiRoutes"
  by code_simp

lemma get_compatible: "sorted_wrt compatible (of_method ''GET'' apiRoutes)"
  by code_simp

lemma post_compatible: "sorted_wrt compatible (of_method ''POST'' apiRoutes)"
  by code_simp

lemma put_compatible: "sorted_wrt compatible (of_method ''PUT'' apiRoutes)"
  by code_simp

lemma rest_compatible: "sorted_wrt compatible (of_method ''PATCH'' apiRoutes)" "sorted_wrt compatible (of_method ''DELETE'' apiRoutes)"
  by code_simp+

lemma table_compatible: "m \<in> set methods \<Longrightarrow> sorted_wrt compatible (of_method m apiRoutes)"
  using get_compatible post_compatible put_compatible rest_compatible by (auto simp: methods_def)

lemma sorted_wrt_map_distinct:
  "sorted_wrt P (map g xs) \<Longrightarrow> x \<in> set xs \<Longrightarrow> y \<in> set xs \<Longrightarrow> x \<noteq> y \<Longrightarrow> P (g x) (g y) \<or> P (g y) (g x)"
  by (induction xs) auto

lemma match_overlap: "match_segments p r = Some v \<Longrightarrow> match_segments q r = Some w \<Longrightarrow> overlap p q"
proof (induction p arbitrary: q r v w)
  case Nil
  then show ?case by (cases r; cases q) auto
next
  case (Cons a p)
  then show ?case by (cases r; cases q) (auto split: if_split_asm)
qed

lemma overlap_tl: "overlap p q \<Longrightarrow> overlap (tl p) (tl q)"
  by (cases "(p, q)" rule: overlap.cases) (auto split: if_split_asm)

lemma same_flags:
  assumes "x \<in> set apiRoutes" "y \<in> set apiRoutes" "match_route (rt_pattern x) r = Some v" "match_route (rt_pattern y) r = Some w"
    "map wildcard (pattern_segments (rt_pattern x)) = map wildcard (pattern_segments (rt_pattern y))"
  shows "x = y"
proof (rule ccontr)
  assume ne: "x \<noteq> y"
  let ?m = "pattern_method (rt_pattern x)" and ?p = "pattern_segments (rt_pattern x)" and ?q = "pattern_segments (rt_pattern y)"
  have ms: "?m \<in> set methods" "pattern_method (rt_pattern y) \<in> set methods"
    using table_methods assms(1,2) by (auto simp: list_all_iff)
  then have "?m \<noteq> ''HEAD''" "pattern_method (rt_pattern y) \<noteq> ''HEAD''" by (auto simp: methods_def)
  then have m: "pattern_method (rt_pattern y) = ?m"
    using assms(3,4) by (auto simp: match_route_def method_matches_def split: if_split_asm)
  have o: "overlap (tl ?p) (tl ?q)" "overlap (tl ?q) (tl ?p)"
    using assms(3,4) by (auto simp: match_route_def intro!: overlap_tl dest: match_overlap split: if_split_asm)
  have "compatible (tl ?p) (tl ?q) \<or> compatible (tl ?q) (tl ?p)"
    using sorted_wrt_map_distinct[OF table_compatible[OF ms(1), unfolded of_method_def], of x y] assms(1,2) m ne by simp
  then show False using o assms(5) by (simp add: compatible_def Let_def map_tl)
qed

lemma mset_candidates:
  assumes "mset rs = mset rs'"
  shows "mset [(x, vals). x \<leftarrow> rs, Some vals \<leftarrow> [f x]] = mset [(x, vals). x \<leftarrow> rs', Some vals \<leftarrow> [f x]]"
  using arg_cong[OF assms, of "\<lambda>M. \<Sum>\<^sub># (image_mset (\<lambda>x. mset [(x, vals). Some vals \<leftarrow> [f x]]) M)"]
  by (simp add: mset_concat sum_mset_sum_list comp_def flip: mset_map)

text \<open>C9: the table is unambiguous. Whatever the order in which the routes are registered, a request goes
  to the same route, so no route can be shadowed by another and the mux accepts the whole table.\<close>

theorem routing_ignores_order:
  assumes "mset rs = mset apiRoutes"
  shows "mux rt_pattern rs r = mux rt_pattern apiRoutes r"
proof -
  let ?c = "\<lambda>rs. [(x, vals). x \<leftarrow> rs, Some vals \<leftarrow> [match_route (rt_pattern x) r]]"
  let ?k = "\<lambda>(x, vals). map wildcard (pattern_segments (rt_pattern x))"
  have sets: "set rs = set apiRoutes" using assms by (metis set_mset_mset)
  have "inj_on ?k (set (?c rs))"
  proof (rule inj_onI)
    fix a b assume a: "a \<in> set (?c rs)" and b: "b \<in> set (?c rs)" and eq: "?k a = ?k b"
    obtain x v y w where xy: "a = (x, v)" "b = (y, w)" by (cases a, cases b)
    have "x \<in> set apiRoutes" "match_route (rt_pattern x) r = Some v" "y \<in> set apiRoutes" "match_route (rt_pattern y) r = Some w"
      using a b unfolding xy sets[symmetric] by (auto split: option.split_asm)
    with same_flags[of x y r v w] eq xy show "a = b" by auto
  qed
  then have "sort_key ?k (?c rs) = sort_key ?k (?c apiRoutes)"
    using mset_candidates[OF assms, of "\<lambda>x. match_route (rt_pattern x) r"]
    by (intro sort_key_inj_key_eq) simp_all
  then show ?thesis unfolding mux_def by simp
qed

section \<open>At the front desk\<close>

definition front :: site where
  "front = \<lparr>si_accounts = desk\<lparr>ac_sessions := [\<lparr>se_id = ''cookie'', se_user_id = ''ann'', se_break_glass = False, se_expires_at = 100\<rparr>]\<rparr>,
     si_stacks = blog_db, si_monitors = \<lparr>md_settings = None, md_monitors = [], md_alerts = [], md_samples = [], md_environments = [''h1'']\<rparr>,
     si_jobs = [], si_volume_sources = [], si_webhooks = []\<rparr>"

definition ann_caps :: scoped_mask where
  "ann_caps = \<lparr>Global = [], Env = [(''h1'', [(NSDeploy, 3)])]\<rparr>"

definition asks :: "string \<Rightarrow> string list \<Rightarrow> http_request" where
  "asks m path = \<lparr>hr_method = m, hr_path = path, hr_sec_fetch_site = [], hr_origin = [], hr_origin_host = None,
     hr_host = ''daffa.example'', hr_credentials = \<lparr>cr_authorization = [], cr_cookie = Some ''cookie''\<rparr>\<rparr>"

definition stack_delete :: route where
  "stack_delete = rt ''DELETE /api/stacks/{id}'' StacksEdit scopeStack '''' ''handleDeleteStack''"

lemma front_mux: "mux rt_pattern apiRoutes (asks ''DELETE'' [''api'', ''stacks'', ''s1'']) = Some (stack_delete, [(''id'', ''s1'')])"
  by code_simp


theorem guards_hide_existence_witness:
  "lives_on front scopeStack ''s1'' = Some ''h1'' \<and> lives_on (front\<lparr>si_stacks := blog_db\<lparr>sd_stacks := []\<rparr>\<rparr>) scopeStack ''s1'' = None \<and>
   reply (guard front stack_delete \<lparr>Global = [], Env = []\<rparr> [(''id'', ''s1'')]) =
     reply (guard (front\<lparr>si_stacks := blog_db\<lparr>sd_stacks := []\<rparr>\<rparr>) stack_delete \<lparr>Global = [], Env = []\<rparr> [(''id'', ''s1'')])"
proof (intro conjI)
  let ?gone = "front\<lparr>si_stacks := blog_db\<lparr>sd_stacks := []\<rparr>\<rparr>" and ?v = "[(''id'', ''s1'')]" and ?none = "\<lparr>Global = [], Env = []\<rparr>"
  show here: "lives_on front scopeStack ''s1'' = Some ''h1''" by code_simp
  show gone: "lives_on ?gone scopeStack ''s1'' = None" by code_simp
  have scope: "rt_scope stack_delete = scopeStack" "rt_cap stack_delete = StacksEdit" by code_simp+
  have e: "entity (rt_scope stack_delete)" unfolding scope by (simp add: entity_def)
  have "PathValue ?v ''id'' = ''s1''" by (simp add: PathValue_def)
  then have "\<not> authorised front stack_delete ?none ?v" "\<not> authorised ?gone stack_delete ?none ?v"
    unfolding authorised_def scope using here gone e by (simp_all add: held_on_def Has_def scope gget_def)
  from guards_hide_existence[OF e this]
  show "reply (guard front stack_delete ?none ?v) = reply (guard ?gone stack_delete ?none ?v)" by blast
qed

theorem routing_ignores_order_witness:
  "mux rt_pattern (rev apiRoutes) (asks ''DELETE'' [''api'', ''stacks'', ''s1'']) = Some (stack_delete, [(''id'', ''s1'')])"
  using routing_ignores_order[of "rev apiRoutes" "asks ''DELETE'' [''api'', ''stacks'', ''s1'']"] front_mux by simp

text \<open>A denial is labelled by guesswork. The audit line of a refused request is named after its path, on
  the assumption that only containers have an \<^verbatim>\<open>{action}\<close> and that every delete is under a cluster: a
  refused deployment of a stack is recorded as an action on a container, and a refused delete of a
  stack or of a backup job as the removal of a resource.\<close>

lemma stack_denials_are_mislabelled:
  "map (\<lambda>(m, path). map_option (\<lambda>(x, vals). denial_action (asks m path) vals) (mux rt_pattern apiRoutes (asks m path)))
     [(''POST'', [''api'', ''stacks'', ''s1'', ''up'']), (''DELETE'', [''api'', ''stacks'', ''s1'']), (''DELETE'', [''api'', ''backups'', ''j1''])] =
   [Some ''container.up'', Some ''resource.remove'', Some ''resource.remove'']"
  by code_simp

end
