(* ===== verification/Volumes.thy ===== *)
theory Volumes
  imports Prelude
begin

text \<open>
  Named volumes and the mirror that fills them: \<^verbatim>\<open>internal/volumes\<close> (\<^verbatim>\<open>volumes.go\<close>, \<^verbatim>\<open>manifest.go\<close>,
  \<^verbatim>\<open>filter.go\<close>) and the loop over the nodes that the volume sources, the certificate deliveries and the
  fleet deliveries share (\<^verbatim>\<open>volsource_sync.go\<close>, \<^verbatim>\<open>cert_delivery.go\<close>, \<^verbatim>\<open>fleet_delivery.go\<close>).

  A volume is the list of its files by their path below the mount point; directories are not rows of
  their own. The Docker daemon is described by an \<open>outage\<close>: which of the calls of a round fail, and how
  many files a failing copy or removal had already handled, in the order of the archive or of the
  command. An \<open>outage\<close> without failures is \<open>healthy\<close>.
\<close>

section \<open>Files, volumes and nodes\<close>

record vfile =
  vf_name :: string
  vf_data :: string
  vf_mode :: int

record stored_file =
  sf_data :: string
  sf_mode :: int
  sf_uid :: int
  sf_gid :: int

record node =
  vn_name :: string
  vn_volumes :: "(string \<times> (string \<times> stored_file) list) list"
  vn_restarted :: "string list"

datatype copy_outcome = Copied | NoVolumeCreate | NoHelper | CopiedOnly nat

datatype remove_outcome = Removed | NoRemoveHelper | RemovedOnly nat

record outage =
  ou_readable :: bool
  ou_write :: copy_outcome
  ou_remove :: remove_outcome
  ou_commit :: copy_outcome

definition healthy :: outage where
  "healthy = \<lparr>ou_readable = True, ou_write = Copied, ou_remove = Removed, ou_commit = Copied\<rparr>"

definition file_at :: "node \<Rightarrow> string \<Rightarrow> string \<Rightarrow> stored_file option" where
  "file_at n volume name = (case map_of (vn_volumes n) volume of None \<Rightarrow> None | Some fs \<Rightarrow> map_of fs name)"

definition set_volume :: "node \<Rightarrow> string \<Rightarrow> (string \<times> stored_file) list \<Rightarrow> node" where
  "set_volume n volume fs = n\<lparr>vn_volumes := gput (vn_volumes n) volume fs\<rparr>"

section \<open>The writer\<close>

definition defaultMode :: int where
  "defaultMode = 420"

definition tarFiles :: "vfile list \<Rightarrow> int \<Rightarrow> int \<Rightarrow> (string \<times> stored_file) list" where
  "tarFiles files uid gid =
     map (\<lambda>f. (vf_name f, \<lparr>sf_data = vf_data f, sf_mode = (if vf_mode f = 0 then defaultMode else vf_mode f), sf_uid = uid, sf_gid = gid\<rparr>))
       (sort_key vf_name files)"

definition unpack :: "(string \<times> stored_file) list \<Rightarrow> (string \<times> stored_file) list \<Rightarrow> (string \<times> stored_file) list" where
  "unpack fs archive = foldl (\<lambda>fs (n, f). gput fs n f) fs archive"

definition Write :: "node \<Rightarrow> string \<Rightarrow> vfile list \<Rightarrow> int \<Rightarrow> int \<Rightarrow> copy_outcome \<Rightarrow> bool \<times> node" where
  "Write n volume files uid gid outcome =
     (if outcome = NoVolumeCreate then (False, n)
      else (let fs = (case map_of (vn_volumes n) volume of None \<Rightarrow> [] | Some fs \<Rightarrow> fs); archive = tarFiles files uid gid
            in (case outcome of
                  CopiedOnly k \<Rightarrow> (False, set_volume n volume (unpack fs (take k archive)))
                | Copied \<Rightarrow> (True, set_volume n volume (unpack fs archive))
                | _ \<Rightarrow> (False, set_volume n volume fs))))"

datatype read_result = Content string | ErrNotExist | ErrNoVolume | ReadFailed

definition readLimit :: int where
  "readLimit = 8388608"

definition ReadFile :: "node \<Rightarrow> string \<Rightarrow> string \<Rightarrow> bool \<Rightarrow> read_result" where
  "ReadFile n volume name readable =
     (if \<not> readable then ReadFailed
      else (case map_of (vn_volumes n) volume of
              None \<Rightarrow> ErrNoVolume
            | Some fs \<Rightarrow>
                (case map_of fs name of
                   None \<Rightarrow> ErrNotExist
                 | Some f \<Rightarrow> if int (length (sf_data f)) > readLimit then ReadFailed else Content (sf_data f))))"

text \<open>A name that leaves the volume refuses the whole removal.\<close>

definition escapes :: "string \<Rightarrow> bool" where
  "escapes n =
     (let c = path_clean n in c = [] \<or> c = ''.'' \<or> c = ''..'' \<or> has_prefix c ''/'' \<or> has_prefix c ''../'')"

definition RemoveFiles :: "node \<Rightarrow> string \<Rightarrow> string list \<Rightarrow> remove_outcome \<Rightarrow> bool \<times> node" where
  "RemoveFiles n volume names outcome =
     (if names = [] then (True, n)
      else (case map_of (vn_volumes n) volume of
              None \<Rightarrow> (False, n)
            | Some fs \<Rightarrow>
                if list_ex escapes names then (False, n)
                else (let rm = (\<lambda>gone. set_volume n volume (filter (\<lambda>(k, f). k \<notin> set (map path_clean gone)) fs))
                      in (case outcome of
                            Removed \<Rightarrow> (True, rm names)
                          | RemovedOnly k \<Rightarrow> (False, rm (take k names))
                          | NoRemoveHelper \<Rightarrow> (False, n)))))"

section \<open>Manifests\<close>

definition ManifestName :: string where
  "ManifestName = ''.daffa-manifest''"

definition ManifestCerts :: string where
  "ManifestCerts = ''.daffa-certs-manifest''"

definition ManifestFleet :: string where
  "ManifestFleet = ''.daffa-fleet-manifest''"

definition Manifest :: "string \<Rightarrow> string \<Rightarrow> string list \<Rightarrow> string" where
  "Manifest commit hash names =
     ''# Written by Daffa. Do not edit: it is rewritten on every sync.'' @ nl @ ''# commit '' @ commit @ nl @ ''# hash '' @ hash @ nl @
     concat (map (\<lambda>n. n @ nl) names)"

definition ParseManifest :: "string \<Rightarrow> string list" where
  "ParseManifest b =
     filter (\<lambda>l. \<not> (l = [] \<or> has_prefix l ''#'')) (map trim_space (split_on (CHR 0x0A) b))"

section \<open>The mirror on one node\<close>

datatype node_error = ReadingManifest | WriteFailed | RemoveFailed | CommitFailed

definition restartTargets :: "node \<Rightarrow> string \<Rightarrow> node" where
  "restartTargets n targets = n\<lparr>vn_restarted := vn_restarted n @ fields_func is_space targets\<rparr>"

text \<open>Content first, then the stale files, then the manifest, alone, as the commit point.\<close>

definition mirror_node ::
  "string \<Rightarrow> string \<Rightarrow> string \<Rightarrow> vfile list \<Rightarrow> int \<Rightarrow> int \<Rightarrow> string \<Rightarrow> outage \<Rightarrow> node \<Rightarrow> node_error option \<times> node" where
  "mirror_node mname volume manifest files uid gid targets ou n =
     (case ReadFile n volume mname (ou_readable ou) of
        ReadFailed \<Rightarrow> (Some ReadingManifest, n)
      | prev \<Rightarrow>
          (let current = map vf_name files;
               stale = filter (\<lambda>x. x \<notin> set current) (case prev of Content b \<Rightarrow> ParseManifest b | _ \<Rightarrow> [])
           in (case Write n volume files uid gid (ou_write ou) of
                 (False, n) \<Rightarrow> (Some WriteFailed, n)
               | (True, n) \<Rightarrow>
                   (case RemoveFiles n volume stale (ou_remove ou) of
                      (False, n) \<Rightarrow> (Some RemoveFailed, n)
                    | (True, n) \<Rightarrow>
                        (case Write n volume [\<lparr>vf_name = mname, vf_data = manifest, vf_mode = 0\<rparr>] uid gid (ou_commit ou) of
                           (False, n) \<Rightarrow> (Some CommitFailed, n)
                         | (True, n) \<Rightarrow> (None, restartTargets n targets))))))"

text \<open>One round over the nodes of a cluster, each with its own fortune; a node that fails does not stop the others.\<close>

fun mirror_nodes ::
  "string \<Rightarrow> string \<Rightarrow> string \<Rightarrow> vfile list \<Rightarrow> int \<Rightarrow> int \<Rightarrow> string \<Rightarrow> (outage \<times> node) list \<Rightarrow> node_error list \<times> node list" where
  "mirror_nodes mname volume manifest files uid gid targets [] = ([], [])"
| "mirror_nodes mname volume manifest files uid gid targets ((ou, n) # rest) =
     (let (e, n) = mirror_node mname volume manifest files uid gid targets ou n;
          (es, ns) = mirror_nodes mname volume manifest files uid gid targets rest
      in ((case e of None \<Rightarrow> es | Some x \<Rightarrow> x # es), n # ns))"

section \<open>The desired state, before it is hashed\<close>

fun show_octal :: "nat \<Rightarrow> string" where
  "show_octal n = (if n < 8 then [char_of (48 + n)] else show_octal (n div 8) @ [char_of (48 + n mod 8)])"

definition show_octal_int :: "int \<Rightarrow> string" where
  "show_octal_int i = (if i < 0 then ''-'' @ show_octal (nat (- i)) else show_octal (nat i))"

definition nul :: string where
  "nul = [CHR 0x00]"

definition owner_text :: "int \<Rightarrow> int \<Rightarrow> string" where
  "owner_text uid gid = ''uid='' @ show_int uid @ '' gid='' @ show_int gid"

text \<open>The text a volume source hashes, and the text the deliveries hash, which has no modes.\<close>

definition source_text :: "vfile list \<Rightarrow> int \<Rightarrow> int \<Rightarrow> string" where
  "source_text files uid gid =
     concat (map (\<lambda>f. vf_name f @ nul @ show_octal_int (vf_mode f) @ nul @ show_nat (length (vf_data f)) @ nul @ vf_data f) files) @
     owner_text uid gid"

definition delivery_text :: "(string \<times> string) list \<Rightarrow> int \<Rightarrow> int \<Rightarrow> string" where
  "delivery_text files uid gid =
     concat (map (\<lambda>(n, d). n @ nul @ show_nat (length d) @ nul @ d) (sort_key fst files)) @ owner_text uid gid"

section \<open>Excludes of a volume backup\<close>

definition normalizeEntry :: "string \<Rightarrow> string" where
  "normalizeEntry name = path_clean (trim_prefix name ''./'')"

definition cleanExcludes :: "string list \<Rightarrow> string list" where
  "cleanExcludes es = filter (\<lambda>p. p \<noteq> [] \<and> p \<noteq> ''.'') (map normalizeEntry es)"

definition excluded :: "string \<Rightarrow> string list \<Rightarrow> bool" where
  "excluded name prefixes = (let n = normalizeEntry name in list_ex (\<lambda>p. n = p \<or> has_prefix n (p @ ''/'')) prefixes)"

definition FilterTar :: "(string \<times> string) list \<Rightarrow> string list \<Rightarrow> (string \<times> string) list" where
  "FilterTar src es =
     (let prefixes = cleanExcludes es in if prefixes = [] then src else filter (\<lambda>(name, body). \<not> excluded name prefixes) src)"

end
