(* ===== verification/Deliveries.thy ===== *)
theory Deliveries
  imports Volumes Accounts
begin

text \<open>
  Certificate material in volumes: the certificate, authority and delivery rows of
  \<^verbatim>\<open>internal/store/certs.go\<close> and \<^verbatim>\<open>internal/store/fleetdeliveries.go\<close>, the trust bundle of
  \<^verbatim>\<open>internal/api/cert_handlers.go\<close>, and the deliveries of \<^verbatim>\<open>internal/api/cert_delivery.go\<close> and
  \<^verbatim>\<open>internal/api/fleet_delivery.go\<close>: what a delivery carries, who may write a volume, the reconciler.

  The sealer, the digest and the parsing of a PEM block are parameters. Of the certificates and
  authorities the model keeps the columns a delivery reads. A delivery is stored with its join rows; the
  reads order them by the name of the certificate, as the queries do; \<^verbatim>\<open>last_error\<close> is reduced to whether
  there is one. The synchronisation that a save
  starts in the background runs right after it. The nodes of a connected cluster are known by name, and
  \<open>fate\<close> tells how the daemon of a node fares.
\<close>

section \<open>Rows\<close>

record cert_authority =
  ca_id :: ident
  ca_name :: string
  ca_cert_pem :: string
  ca_status :: string
  ca_rotates_id :: ident
  ca_overlap_until :: int

record certificate =
  ce_id :: ident
  ce_name :: string
  ce_env_id :: ident
  ce_ca_id :: ident
  ce_cert_pem :: string
  ce_chain_pem :: string
  ce_key_enc :: string

record delivery_cert =
  dc_cert_id :: ident
  dc_is_default :: bool

record cert_delivery =
  dl_id :: ident
  dl_env_id :: ident
  dl_certs :: "delivery_cert list"
  dl_volume :: string
  dl_mount_path :: string
  dl_uid :: int
  dl_gid :: int
  dl_traefik :: bool
  dl_restart_targets :: string
  dl_bundle_cas :: string
  dl_synced_hash :: string
  dl_synced_at :: "int option"
  dl_status :: string
  dl_failed :: bool
  dl_created_at :: int
  dl_created_by :: ident
  dl_protected :: bool

record fleet_group =
  fg_subdir :: string
  fg_bundle_cas :: string
  fg_cert_ids :: "ident list"

record fleet_delivery =
  fl_id :: ident
  fl_env_id :: ident
  fl_volume :: string
  fl_uid :: int
  fl_gid :: int
  fl_restart_targets :: string
  fl_groups :: "fleet_group list"
  fl_synced_hash :: string
  fl_synced_at :: "int option"
  fl_status :: string
  fl_failed :: bool
  fl_created_at :: int
  fl_created_by :: ident

record cdb =
  cd_authorities :: "cert_authority list"
  cd_certificates :: "certificate list"
  cd_deliveries :: "cert_delivery list"
  cd_fleet :: "fleet_delivery list"
  cd_environments :: "ident list"

record csite =
  cs_db :: cdb
  cs_nodes :: "(ident \<times> node list) list"

record crypto =
  cy_open :: "string \<Rightarrow> string option"
  cy_digest :: "string \<Rightarrow> string"
  cy_reencode :: "string \<Rightarrow> string option"

section \<open>The store\<close>

definition first_row :: "('r \<Rightarrow> bool) \<Rightarrow> 'r list \<Rightarrow> 'r option" where
  "first_row p rs = (case filter p rs of [] \<Rightarrow> None | r # _ \<Rightarrow> Some r)"

definition CertAuthorityByID :: "cdb \<Rightarrow> ident \<Rightarrow> cert_authority option" where
  "CertAuthorityByID s i = first_row (\<lambda>a. ca_id a = i) (cd_authorities s)"

definition ListCertAuthorities :: "cdb \<Rightarrow> cert_authority list" where
  "ListCertAuthorities s = sort_key ca_name (cd_authorities s)"

definition CertificateByID :: "cdb \<Rightarrow> ident \<Rightarrow> certificate option" where
  "CertificateByID s i = first_row (\<lambda>c. ce_id c = i) (cd_certificates s)"

definition cert_name_of :: "cdb \<Rightarrow> ident \<Rightarrow> string" where
  "cert_name_of s i = (case CertificateByID s i of None \<Rightarrow> [] | Some c \<Rightarrow> ce_name c)"

definition attachDeliveryCerts :: "cdb \<Rightarrow> cert_delivery \<Rightarrow> cert_delivery" where
  "attachDeliveryCerts s d =
     d\<lparr>dl_certs := sort_key (\<lambda>c. cert_name_of s (dc_cert_id c)) (filter (\<lambda>c. CertificateByID s (dc_cert_id c) \<noteq> None) (dl_certs d))\<rparr>"

definition DefaultCertMountPath :: string where
  "DefaultCertMountPath = ''/etc/traefik/dynamic-certs''"

text \<open>The join rows need a certificate and may not repeat one.\<close>

definition join_rows_ok :: "cdb \<Rightarrow> ident list \<Rightarrow> bool" where
  "join_rows_ok s ids \<longleftrightarrow> distinct ids \<and> list_all (\<lambda>i. CertificateByID s i \<noteq> None) ids"

definition CreateCertDelivery :: "cdb \<Rightarrow> cert_delivery \<Rightarrow> ident \<Rightarrow> int \<Rightarrow> (cert_delivery \<times> cdb) option" where
  "CreateCertDelivery s d i now =
     (let d = d\<lparr>dl_id := ''dlv_'' @ i, dl_volume := (if dl_volume d = [] then ''daffa-certs'' else dl_volume d),
                dl_mount_path := (if dl_mount_path d = [] then DefaultCertMountPath else dl_mount_path d),
                dl_status := (if dl_status d = [] then ''pending'' else dl_status d), dl_created_at := now\<rparr>
      in if list_ex (\<lambda>e. dl_id e = dl_id d) (cd_deliveries s) \<or> dl_env_id d \<notin> set (cd_environments s) \<or>
            dl_traefik d \<and> list_ex (\<lambda>e. dl_traefik e \<and> dl_env_id e = dl_env_id d \<and> dl_volume e = dl_volume d) (cd_deliveries s) \<or>
            \<not> join_rows_ok s (map dc_cert_id (dl_certs d))
         then None else Some (d, s\<lparr>cd_deliveries := cd_deliveries s @ [d]\<rparr>))"

definition UpdateCertDelivery :: "cdb \<Rightarrow> cert_delivery \<Rightarrow> cdb option" where
  "UpdateCertDelivery s d =
     (let d = d\<lparr>dl_mount_path := (if dl_mount_path d = [] then DefaultCertMountPath else dl_mount_path d)\<rparr>
      in if list_ex (\<lambda>e. dl_id e = dl_id d) (cd_deliveries s) \<and>
            (dl_traefik d \<and> list_ex (\<lambda>e. dl_traefik e \<and> dl_id e \<noteq> dl_id d \<and>
               list_ex (\<lambda>m. dl_id m = dl_id d \<and> dl_env_id m = dl_env_id e \<and> dl_volume m = dl_volume e) (cd_deliveries s)) (cd_deliveries s) \<or>
             \<not> join_rows_ok s (map dc_cert_id (dl_certs d)))
         then None
         else Some (s\<lparr>cd_deliveries := update_where (\<lambda>e. dl_id e = dl_id d)
                (\<lambda>e. e\<lparr>dl_uid := dl_uid d, dl_gid := dl_gid d, dl_traefik := dl_traefik d, dl_restart_targets := dl_restart_targets d,
                       dl_bundle_cas := dl_bundle_cas d, dl_mount_path := dl_mount_path d, dl_certs := dl_certs d\<rparr>) (cd_deliveries s)\<rparr>))"

definition CertDeliveryByID :: "cdb \<Rightarrow> ident \<Rightarrow> cert_delivery option" where
  "CertDeliveryByID s i = map_option (attachDeliveryCerts s) (first_row (\<lambda>d. dl_id d = i) (cd_deliveries s))"

definition TraefikDeliveryForVolume :: "cdb \<Rightarrow> ident \<Rightarrow> string \<Rightarrow> cert_delivery option" where
  "TraefikDeliveryForVolume s env volume =
     map_option (attachDeliveryCerts s) (first_row (\<lambda>d. dl_env_id d = env \<and> dl_volume d = volume \<and> dl_traefik d) (cd_deliveries s))"

definition DeliveriesForVolume :: "cdb \<Rightarrow> ident \<Rightarrow> string \<Rightarrow> cert_delivery list" where
  "DeliveriesForVolume s env volume =
     map (attachDeliveryCerts s) (sort_key dl_created_at (filter (\<lambda>d. dl_env_id d = env \<and> dl_volume d = volume) (cd_deliveries s)))"

definition AllCertDeliveries :: "cdb \<Rightarrow> cert_delivery list" where
  "AllCertDeliveries s = map (attachDeliveryCerts s) (sort_key dl_created_at (cd_deliveries s))"

definition MarkCertDeliverySynced :: "cdb \<Rightarrow> ident \<Rightarrow> string \<Rightarrow> bool \<Rightarrow> int \<Rightarrow> cdb" where
  "MarkCertDeliverySynced s i hash failed now =
     s\<lparr>cd_deliveries := update_where (\<lambda>d. dl_id d = i)
        (\<lambda>d. d\<lparr>dl_synced_hash := hash, dl_synced_at := Some now, dl_status := (if failed then ''error'' else ''ok''), dl_failed := failed\<rparr>)
        (cd_deliveries s)\<rparr>"

definition DeleteCertDelivery :: "cdb \<Rightarrow> ident \<Rightarrow> cdb" where
  "DeleteCertDelivery s i = s\<lparr>cd_deliveries := delete_where (\<lambda>d. dl_id d = i) (cd_deliveries s)\<rparr>"

definition replace_id :: "ident \<Rightarrow> ident \<Rightarrow> string \<Rightarrow> string" where
  "replace_id old new ids = join '' '' (map (\<lambda>i. if i = old then new else i) (fields_func is_space ids))"

definition ReplaceCAInDeliveryBundles :: "cdb \<Rightarrow> ident \<Rightarrow> ident \<Rightarrow> cdb" where
  "ReplaceCAInDeliveryBundles s old new =
     s\<lparr>cd_deliveries := update_where (\<lambda>d. old \<in> set (fields_func is_space (dl_bundle_cas d)))
        (\<lambda>d. d\<lparr>dl_bundle_cas := replace_id old new (dl_bundle_cas d)\<rparr>) (cd_deliveries s)\<rparr>"

text \<open>Fleet deliveries. The groups come back ordered by directory, their certificates by name.\<close>

definition attachFleetGroups :: "cdb \<Rightarrow> fleet_delivery \<Rightarrow> fleet_delivery" where
  "attachFleetGroups s d =
     d\<lparr>fl_groups := map (\<lambda>g. g\<lparr>fg_cert_ids := sort_key (cert_name_of s) (filter (\<lambda>i. CertificateByID s i \<noteq> None) (fg_cert_ids g))\<rparr>)
        (sort_key fg_subdir (fl_groups d))\<rparr>"

definition groups_ok :: "cdb \<Rightarrow> fleet_group list \<Rightarrow> bool" where
  "groups_ok s gs \<longleftrightarrow> distinct (map fg_subdir gs) \<and> join_rows_ok s (concat (map fg_cert_ids gs))"

definition CreateFleetDelivery :: "cdb \<Rightarrow> fleet_delivery \<Rightarrow> ident \<Rightarrow> int \<Rightarrow> (fleet_delivery \<times> cdb) option" where
  "CreateFleetDelivery s d i now =
     (let d = d\<lparr>fl_id := ''fdl_'' @ i, fl_volume := (if fl_volume d = [] then ''daffa-fleet-certs'' else fl_volume d),
                fl_status := (if fl_status d = [] then ''pending'' else fl_status d), fl_created_at := now\<rparr>
      in if list_ex (\<lambda>e. fl_id e = fl_id d) (cd_fleet s) \<or> fl_env_id d \<notin> set (cd_environments s) \<or> \<not> groups_ok s (fl_groups d)
         then None else Some (d, s\<lparr>cd_fleet := cd_fleet s @ [d]\<rparr>))"

definition UpdateFleetDelivery :: "cdb \<Rightarrow> fleet_delivery \<Rightarrow> cdb option" where
  "UpdateFleetDelivery s d =
     (if list_ex (\<lambda>e. fl_id e = fl_id d) (cd_fleet s) \<and> \<not> groups_ok s (fl_groups d) then None
      else Some (s\<lparr>cd_fleet := update_where (\<lambda>e. fl_id e = fl_id d)
             (\<lambda>e. e\<lparr>fl_uid := fl_uid d, fl_gid := fl_gid d, fl_restart_targets := fl_restart_targets d, fl_groups := fl_groups d\<rparr>) (cd_fleet s)\<rparr>))"

definition FleetDeliveryByID :: "cdb \<Rightarrow> ident \<Rightarrow> fleet_delivery option" where
  "FleetDeliveryByID s i = map_option (attachFleetGroups s) (first_row (\<lambda>d. fl_id d = i) (cd_fleet s))"

definition FleetDeliveryForVolume :: "cdb \<Rightarrow> ident \<Rightarrow> string \<Rightarrow> fleet_delivery option" where
  "FleetDeliveryForVolume s env volume =
     map_option (attachFleetGroups s) (first_row (\<lambda>d. fl_env_id d = env \<and> fl_volume d = volume) (cd_fleet s))"

definition AllFleetDeliveries :: "cdb \<Rightarrow> fleet_delivery list" where
  "AllFleetDeliveries s = map (attachFleetGroups s) (sort_key fl_created_at (cd_fleet s))"

definition MarkFleetDeliverySynced :: "cdb \<Rightarrow> ident \<Rightarrow> string \<Rightarrow> bool \<Rightarrow> int \<Rightarrow> cdb" where
  "MarkFleetDeliverySynced s i hash failed now =
     s\<lparr>cd_fleet := update_where (\<lambda>d. fl_id d = i)
        (\<lambda>d. d\<lparr>fl_synced_hash := hash, fl_synced_at := Some now, fl_status := (if failed then ''error'' else ''ok''), fl_failed := failed\<rparr>)
        (cd_fleet s)\<rparr>"

definition DeleteFleetDelivery :: "cdb \<Rightarrow> ident \<Rightarrow> cdb" where
  "DeleteFleetDelivery s i = s\<lparr>cd_fleet := delete_where (\<lambda>d. fl_id d = i) (cd_fleet s)\<rparr>"

definition ReplaceCAInFleetBundles :: "cdb \<Rightarrow> ident \<Rightarrow> ident \<Rightarrow> cdb" where
  "ReplaceCAInFleetBundles s old new =
     s\<lparr>cd_fleet := map (\<lambda>d. d\<lparr>fl_groups := update_where (\<lambda>g. old \<in> set (fields_func is_space (fg_bundle_cas g)))
        (\<lambda>g. g\<lparr>fg_bundle_cas := replace_id old new (fg_bundle_cas g)\<rparr>) (fl_groups d)\<rparr>) (cd_fleet s)\<rparr>"

section \<open>The trust bundle\<close>

definition selects :: "cert_authority list \<Rightarrow> ident list \<Rightarrow> cert_authority \<Rightarrow> bool" where
  "selects cas sel a =
     (if sel = [] then True
      else if ca_id a \<in> set sel then True
      else if ca_rotates_id a \<noteq> [] \<and> ca_status a = ''next'' \<and> ca_rotates_id a \<in> set sel then True
      else list_ex (\<lambda>b. ca_id b \<in> set sel \<and> ca_rotates_id b = ca_id a) cas)"

definition trusted :: "cert_authority \<Rightarrow> int \<Rightarrow> bool" where
  "trusted a now =
     (if ca_status a = ''active'' \<or> ca_status a = ''next'' then True
      else if ca_status a = ''retired'' then now < ca_overlap_until a
      else False)"

fun Bundle :: "(string \<Rightarrow> string option) \<Rightarrow> string list \<Rightarrow> string option" where
  "Bundle reencode [] = Some []"
| "Bundle reencode (p # ps) =
     (if trim_space p = [] then Bundle reencode ps
      else (case reencode p of None \<Rightarrow> None | Some t \<Rightarrow> map_option (\<lambda>r. t @ r) (Bundle reencode ps)))"

definition trustBundle :: "crypto \<Rightarrow> cdb \<Rightarrow> ident list \<Rightarrow> int \<Rightarrow> string option" where
  "trustBundle y s sel now =
     (let cas = ListCertAuthorities s
      in Bundle (cy_reencode y) (map ca_cert_pem (filter (\<lambda>a. selects cas sel a \<and> trusted a now) cas)))"

section \<open>What a delivery writes\<close>

datatype delivery_error =
    BundleUnreadable | CertGone | WrongEnvironment | KeyUnreadable | BadSubdir | NameClash | NotConnected
  | NodesFailed "node_error list"

definition traefik_pair :: "string \<Rightarrow> string \<Rightarrow> string \<Rightarrow> string \<Rightarrow> string" where
  "traefik_pair lead indent mount n =
     lead @ ''certFile: '' @ mount @ ''/'' @ n @ ''.crt'' @ nl @ indent @ ''keyFile: '' @ mount @ ''/'' @ n @ ''.key'' @ nl"

definition traefikFragment :: "string \<Rightarrow> string list \<Rightarrow> string \<Rightarrow> string" where
  "traefikFragment mount names default_name =
     ''# Written by Daffa. Do not edit: it is rewritten on every renewal.'' @ nl @ ''tls:'' @ nl @
     (if default_name \<noteq> [] then ''  stores:'' @ nl @ ''    default:'' @ nl @ ''      defaultCertificate:'' @ nl @
        traefik_pair ''        '' ''        '' mount default_name else []) @
     ''  certificates:'' @ nl @ concat (map (traefik_pair ''    - '' ''      '' mount) names)"

definition full_chain :: "certificate \<Rightarrow> string" where
  "full_chain c = ce_cert_pem c @ (if ce_chain_pem c \<noteq> [] then ce_chain_pem c else [])"

text \<open>The certificates a delivery carries, in order, each with the decision whether it is the default.\<close>

fun carried_files ::
  "crypto \<Rightarrow> cdb \<Rightarrow> ident \<Rightarrow> delivery_cert list \<Rightarrow> (string \<times> string) list \<Rightarrow> string list \<Rightarrow> string \<Rightarrow>
   delivery_error + ((string \<times> string) list \<times> string list \<times> string)" where
  "carried_files y s env [] files carried dflt = Inr (files, carried, dflt)"
| "carried_files y s env (dc # dcs) files carried dflt =
     (case CertificateByID s (dc_cert_id dc) of
        None \<Rightarrow> Inl CertGone
      | Some c \<Rightarrow>
          if ce_env_id c \<noteq> [] \<and> ce_env_id c \<noteq> env then Inl WrongEnvironment
          else (case cy_open y (ce_key_enc c) of
                  None \<Rightarrow> Inl KeyUnreadable
                | Some key \<Rightarrow>
                    carried_files y s env dcs (gput (gput files (ce_name c @ ''.crt'') (full_chain c)) (ce_name c @ ''.key'') key)
                      (carried @ [ce_name c]) (if dc_is_default dc then ce_name c else dflt)))"

definition deliveryFiles :: "crypto \<Rightarrow> cdb \<Rightarrow> cert_delivery \<Rightarrow> int \<Rightarrow> delivery_error + ((string \<times> string) list \<times> string)" where
  "deliveryFiles y s d now =
     (case trustBundle y s (fields_func is_space (dl_bundle_cas d)) now of
        None \<Rightarrow> Inl BundleUnreadable
      | Some bundle \<Rightarrow>
          (case carried_files y s (dl_env_id d) (dl_certs d) (if bundle \<noteq> [] then [(''ca-bundle.crt'', bundle)] else []) [] [] of
             Inl e \<Rightarrow> Inl e
           | Inr (files, carried, dflt) \<Rightarrow>
               (let files = (if dl_traefik d \<and> carried \<noteq> [] then gput files ''tls.yml'' (traefikFragment (dl_mount_path d) carried dflt) else files)
                in Inr (files, cy_digest y (delivery_text files (dl_uid d) (dl_gid d))))))"

section \<open>The reconciler\<close>

definition key_mode :: "string \<Rightarrow> int" where
  "key_mode name = (if has_suffix name ''.key'' then 384 else 420)"

definition delivery_vfiles :: "(string \<times> string) list \<Rightarrow> vfile list" where
  "delivery_vfiles files = map (\<lambda>(n, d). \<lparr>vf_name = n, vf_data = d, vf_mode = key_mode n\<rparr>) (sort_key fst files)"

definition delivery_manifest :: "string \<Rightarrow> (string \<times> string) list \<Rightarrow> string" where
  "delivery_manifest hash files = Manifest [] hash (map fst (sort_key fst files))"

definition mirror_env ::
  "string \<Rightarrow> (string \<Rightarrow> outage) \<Rightarrow> (ident \<times> node list) list \<Rightarrow> ident \<Rightarrow> string \<Rightarrow> string \<Rightarrow> vfile list \<Rightarrow> int \<Rightarrow> int \<Rightarrow> string \<Rightarrow>
   delivery_error option \<times> (ident \<times> node list) list" where
  "mirror_env mname fate envs env volume manifest files uid gid targets =
     (case map_of envs env of
        None \<Rightarrow> (Some NotConnected, envs)
      | Some nodes \<Rightarrow>
          (let (errs, nodes) = mirror_nodes mname volume manifest files uid gid targets (map (\<lambda>n. (fate (vn_name n), n)) nodes)
           in (if errs = [] then None else Some (NodesFailed errs), gput envs env nodes)))"

definition syncCertDelivery ::
  "crypto \<Rightarrow> (string \<Rightarrow> outage) \<Rightarrow> csite \<Rightarrow> cert_delivery \<Rightarrow> int \<Rightarrow> (string \<times> delivery_error option) \<times> csite" where
  "syncCertDelivery y fate s d now =
     (case deliveryFiles y (cs_db s) d now of
        Inl e \<Rightarrow> (([], Some e), s)
      | Inr (files, hash) \<Rightarrow>
          if hash = dl_synced_hash d \<and> dl_status d = ''ok'' then ((hash, None), s)
          else (let (e, envs) = mirror_env ManifestCerts fate (cs_nodes s) (dl_env_id d) (dl_volume d) (delivery_manifest hash files)
                      (delivery_vfiles files) (dl_uid d) (dl_gid d) (dl_restart_targets d)
                in ((hash, e), s\<lparr>cs_nodes := envs\<rparr>)))"

definition reportDeliverySync :: "crypto \<Rightarrow> (string \<Rightarrow> outage) \<Rightarrow> csite \<Rightarrow> cert_delivery \<Rightarrow> int \<Rightarrow> delivery_error option \<times> csite" where
  "reportDeliverySync y fate s d now =
     (let ((hash, e), s) = syncCertDelivery y fate s d now
      in if e = None \<and> hash = dl_synced_hash d \<and> dl_status d = ''ok'' then (None, s)
         else (e, s\<lparr>cs_db := MarkCertDeliverySynced (cs_db s) (dl_id d) hash (e \<noteq> None) now\<rparr>))"

section \<open>Fleet deliveries\<close>

text \<open>\<^verbatim>\<open>fleetSubdir\<close>: one level, lower case letters, digits and inner hyphens, at most 64 characters.\<close>

definition slug_char :: "char \<Rightarrow> bool" where
  "slug_char c \<longleftrightarrow> c \<in> set ''abcdefghijklmnopqrstuvwxyz0123456789''"

definition fleetSubdir :: "string \<Rightarrow> bool" where
  "fleetSubdir d \<longleftrightarrow> d \<noteq> [] \<and> length d \<le> 64 \<and> slug_char (hd d) \<and> slug_char (last d) \<and> list_all (\<lambda>c. slug_char c \<or> c = CHR ''-'') d"

fun fleet_certs ::
  "crypto \<Rightarrow> cdb \<Rightarrow> string \<Rightarrow> ident list \<Rightarrow> string list \<Rightarrow> ident list \<Rightarrow> (string \<times> string) list \<Rightarrow>
   delivery_error + (ident list \<times> (string \<times> string) list)" where
  "fleet_certs y s prefix [] seen derived files = Inr (derived, files)"
| "fleet_certs y s prefix (i # is) seen derived files =
     (case CertificateByID s i of
        None \<Rightarrow> Inl CertGone
      | Some c \<Rightarrow>
          if ce_name c \<in> set seen then Inl NameClash
          else (case cy_open y (ce_key_enc c) of
                  None \<Rightarrow> Inl KeyUnreadable
                | Some key \<Rightarrow>
                    fleet_certs y s prefix is (ce_name c # seen) (if ce_ca_id c \<noteq> [] then ce_ca_id c # derived else derived)
                      (gput (gput files (prefix @ ce_name c @ ''.crt'') (full_chain c)) (prefix @ ce_name c @ ''.key'') key)))"

definition group_prefix :: "fleet_group \<Rightarrow> string" where
  "group_prefix g = (if fg_subdir g \<noteq> [] then fg_subdir g @ ''/'' else [])"

definition sortedKeys :: "string list \<Rightarrow> string list" where
  "sortedKeys ks = sort (remdups ks)"

fun fleet_files :: "crypto \<Rightarrow> cdb \<Rightarrow> int \<Rightarrow> fleet_group list \<Rightarrow> (string \<times> string) list \<Rightarrow> delivery_error + (string \<times> string) list" where
  "fleet_files y s now [] files = Inr files"
| "fleet_files y s now (g # gs) files =
     (if fg_subdir g \<noteq> [] \<and> \<not> fleetSubdir (fg_subdir g) then Inl BadSubdir
      else (case fleet_certs y s (group_prefix g) (fg_cert_ids g) [] [] files of
              Inl e \<Rightarrow> Inl e
            | Inr (derived, files) \<Rightarrow>
                (let chosen = fields_func is_space (fg_bundle_cas g); selected = (if chosen = [] then sortedKeys derived else chosen)
                 in if selected = [] then fleet_files y s now gs files
                    else (case trustBundle y s selected now of
                            None \<Rightarrow> Inl BundleUnreadable
                          | Some bundle \<Rightarrow>
                              fleet_files y s now gs (if bundle \<noteq> [] then gput files (group_prefix g @ ''ca-bundle.crt'') bundle else files)))))"

definition fleetDeliveryFiles :: "crypto \<Rightarrow> cdb \<Rightarrow> fleet_delivery \<Rightarrow> int \<Rightarrow> delivery_error + ((string \<times> string) list \<times> string)" where
  "fleetDeliveryFiles y s d now =
     (case fleet_files y s now (fl_groups d) [] of
        Inl e \<Rightarrow> Inl e
      | Inr files \<Rightarrow> Inr (files, cy_digest y (delivery_text files (fl_uid d) (fl_gid d))))"

definition syncFleetDelivery ::
  "crypto \<Rightarrow> (string \<Rightarrow> outage) \<Rightarrow> csite \<Rightarrow> fleet_delivery \<Rightarrow> int \<Rightarrow> (string \<times> delivery_error option) \<times> csite" where
  "syncFleetDelivery y fate s d now =
     (case fleetDeliveryFiles y (cs_db s) d now of
        Inl e \<Rightarrow> (([], Some e), s)
      | Inr (files, hash) \<Rightarrow>
          if hash = fl_synced_hash d \<and> fl_status d = ''ok'' then ((hash, None), s)
          else (let (e, envs) = mirror_env ManifestFleet fate (cs_nodes s) (fl_env_id d) (fl_volume d) (delivery_manifest hash files)
                      (delivery_vfiles files) (fl_uid d) (fl_gid d) (fl_restart_targets d)
                in ((hash, e), s\<lparr>cs_nodes := envs\<rparr>)))"

definition reportFleetDeliverySync :: "crypto \<Rightarrow> (string \<Rightarrow> outage) \<Rightarrow> csite \<Rightarrow> fleet_delivery \<Rightarrow> int \<Rightarrow> delivery_error option \<times> csite" where
  "reportFleetDeliverySync y fate s d now =
     (let ((hash, e), s) = syncFleetDelivery y fate s d now
      in if e = None \<and> hash = fl_synced_hash d \<and> fl_status d = ''ok'' then (None, s)
         else (e, s\<lparr>cs_db := MarkFleetDeliverySynced (cs_db s) (fl_id d) hash (e \<noteq> None) now\<rparr>))"

text \<open>The sweep: the certificate deliveries, then the fleet deliveries, both read before the loop.\<close>

definition resyncDeliveries :: "crypto \<Rightarrow> (string \<Rightarrow> outage) \<Rightarrow> csite \<Rightarrow> int \<Rightarrow> csite" where
  "resyncDeliveries y fate s now =
     (let s = foldl (\<lambda>s d. snd (reportDeliverySync y fate s d now)) s (AllCertDeliveries (cs_db s))
      in foldl (\<lambda>s d. snd (reportFleetDeliverySync y fate s d now)) s (AllFleetDeliveries (cs_db s)))"

section \<open>Who owns a name in a volume\<close>

definition delivery_owned :: "cdb \<Rightarrow> cert_delivery \<Rightarrow> string list" where
  "delivery_owned s d =
     [''tls.yml'', ''ca-bundle.crt'', ManifestCerts] @
     concat (map (\<lambda>dc. case CertificateByID s (dc_cert_id dc) of None \<Rightarrow> [] | Some c \<Rightarrow> [ce_name c @ ''.crt'', ce_name c @ ''.key'']) (dl_certs d))"

definition refuseDeliveryOwnedNames :: "cdb \<Rightarrow> ident \<Rightarrow> string \<Rightarrow> string list \<Rightarrow> string option" where
  "refuseDeliveryOwnedNames s env volume names =
     (case TraefikDeliveryForVolume s env volume of
        None \<Rightarrow> None
      | Some d \<Rightarrow> first_row (\<lambda>n. n \<in> set (delivery_owned s d)) names)"

definition fleetOwnedNames :: "cdb \<Rightarrow> ident \<Rightarrow> string \<Rightarrow> string list" where
  "fleetOwnedNames s env volume =
     (case FleetDeliveryForVolume s env volume of
        None \<Rightarrow> []
      | Some d \<Rightarrow> ManifestFleet # concat (map (\<lambda>g. (group_prefix g @ ''ca-bundle.crt'') #
          concat (map (\<lambda>i. case CertificateByID s i of None \<Rightarrow> []
             | Some c \<Rightarrow> [group_prefix g @ ce_name c @ ''.crt'', group_prefix g @ ce_name c @ ''.key'']) (fg_cert_ids g))) (fl_groups d)))"

definition refuseFleetOwnedNames :: "cdb \<Rightarrow> ident \<Rightarrow> string \<Rightarrow> string list \<Rightarrow> string option" where
  "refuseFleetOwnedNames s env volume names = first_row (\<lambda>n. n \<in> set (fleetOwnedNames s env volume)) names"

definition refuseSecondTraefikDelivery :: "cdb \<Rightarrow> cert_delivery \<Rightarrow> bool" where
  "refuseSecondTraefikDelivery s d =
     (if \<not> dl_traefik d then False
      else (case TraefikDeliveryForVolume s (dl_env_id d) (dl_volume d) of None \<Rightarrow> False | Some e \<Rightarrow> dl_id e \<noteq> dl_id d))"

definition refuseFleetVolumeClash :: "cdb \<Rightarrow> fleet_delivery \<Rightarrow> bool" where
  "refuseFleetVolumeClash s d =
     (if DeliveriesForVolume s (fl_env_id d) (fl_volume d) \<noteq> [] then True
      else (case FleetDeliveryForVolume s (fl_env_id d) (fl_volume d) of None \<Rightarrow> False | Some e \<Rightarrow> fl_id e \<noteq> fl_id d))"

section \<open>Saving a certificate delivery\<close>

record delivery_request =
  dr_env_id :: ident
  dr_certs :: "delivery_cert list"
  dr_volume :: string
  dr_mount_path :: string
  dr_uid :: int
  dr_gid :: int
  dr_traefik :: bool
  dr_restart_targets :: string
  dr_bundle_cas :: "ident list"

datatype delivery_reply =
    BadRequest string | Conflict string | NoSuchDelivery | ProtectedDelivery | StoreFailed | SyncFailed delivery_error | Done

text \<open>The loop keeps the ids seen, the names taken, the number of defaults and the rows so far.\<close>

fun resolve_certs ::
  "cdb \<Rightarrow> ident \<Rightarrow> delivery_cert list \<Rightarrow> ident list \<Rightarrow> string list \<Rightarrow> nat \<Rightarrow> delivery_cert list \<Rightarrow> string + delivery_cert list" where
  "resolve_certs s env [] seen names defaults out = (if defaults > 1 then Inl ''multiple_defaults'' else Inr out)"
| "resolve_certs s env (rc # rcs) seen names defaults out =
     (if dc_cert_id rc = [] \<or> dc_cert_id rc \<in> set seen then resolve_certs s env rcs seen names defaults out
      else (case CertificateByID s (dc_cert_id rc) of
              None \<Rightarrow> Inl ''no_such_cert''
            | Some c \<Rightarrow>
                if ce_env_id c \<noteq> [] \<and> ce_env_id c \<noteq> env then Inl ''wrong_environment''
                else if ce_name c \<in> set names then Inl ''name_collision''
                else resolve_certs s env rcs (dc_cert_id rc # seen) (ce_name c # names)
                       (if dc_is_default rc then Suc defaults else defaults) (out @ [rc])))"

definition resolveDeliveryCerts :: "cdb \<Rightarrow> ident \<Rightarrow> delivery_cert list \<Rightarrow> string + delivery_cert list" where
  "resolveDeliveryCerts s env reqs = resolve_certs s env reqs [] [] 0 []"

definition cleanMountPath :: "string \<Rightarrow> string option" where
  "cleanMountPath p =
     (let p = trim_space p; c = path_clean p
      in if p = [] then Some DefaultCertMountPath
         else if \<not> has_prefix p ''/'' then None
         else if c = ''/'' then None
         else if ''..'' \<in> set (split_on (CHR ''/'') c) then None
         else Some c)"

fun bundle_refusal :: "cdb \<Rightarrow> ident list \<Rightarrow> string option" where
  "bundle_refusal s [] = None"
| "bundle_refusal s (i # is) =
     (case CertAuthorityByID s i of
        None \<Rightarrow> Some ''no_such_ca''
      | Some a \<Rightarrow> if ca_status a = ''next'' then Some ''staged_ca'' else bundle_refusal s is)"

definition new_delivery :: "delivery_request \<Rightarrow> delivery_cert list \<Rightarrow> string \<Rightarrow> ident \<Rightarrow> cert_delivery" where
  "new_delivery req certs mount user =
     \<lparr>dl_id = [], dl_env_id = dr_env_id req, dl_certs = certs, dl_volume = dr_volume req, dl_mount_path = mount, dl_uid = dr_uid req,
      dl_gid = dr_gid req, dl_traefik = dr_traefik req, dl_restart_targets = trim_space (dr_restart_targets req),
      dl_bundle_cas = join '' '' (dr_bundle_cas req), dl_synced_hash = [], dl_synced_at = None, dl_status = [], dl_failed = False,
      dl_created_at = 0, dl_created_by = user, dl_protected = False\<rparr>"

definition handleCreateCertDelivery ::
  "crypto \<Rightarrow> (string \<Rightarrow> outage) \<Rightarrow> csite \<Rightarrow> delivery_request \<Rightarrow> ident \<Rightarrow> ident \<Rightarrow> int \<Rightarrow> delivery_reply \<times> csite" where
  "handleCreateCertDelivery y fate s req user i now =
     (if map_of (cs_nodes s) (dr_env_id req) = None then (BadRequest ''not_connected'', s)
      else (case resolveDeliveryCerts (cs_db s) (dr_env_id req) (dr_certs req) of
        Inl code \<Rightarrow> (BadRequest code, s)
      | Inr certs \<Rightarrow>
          if dr_volume req \<noteq> [] \<and> \<not> certName (dr_volume req) then (BadRequest ''bad_name'', s)
          else (case cleanMountPath (dr_mount_path req) of
            None \<Rightarrow> (BadRequest ''bad_mount_path'', s)
          | Some mount \<Rightarrow>
              (case bundle_refusal (cs_db s) (dr_bundle_cas req) of
                 Some code \<Rightarrow> (BadRequest code, s)
               | None \<Rightarrow>
                   (let d = new_delivery req certs mount user
                    in if refuseSecondTraefikDelivery (cs_db s) d then (Conflict ''traefik_volume_taken'', s)
                       else if FleetDeliveryForVolume (cs_db s) (dl_env_id d) (dl_volume d) \<noteq> None then (Conflict ''volume_taken'', s)
                       else (case CreateCertDelivery (cs_db s) d i now of
                               None \<Rightarrow> (StoreFailed, s)
                             | Some (d, db) \<Rightarrow> (Done, snd (reportDeliverySync y fate (s\<lparr>cs_db := db\<rparr>) d now))))))))"

definition handleUpdateCertDelivery ::
  "crypto \<Rightarrow> (string \<Rightarrow> outage) \<Rightarrow> csite \<Rightarrow> ident \<Rightarrow> delivery_request \<Rightarrow> int \<Rightarrow> delivery_reply \<times> csite" where
  "handleUpdateCertDelivery y fate s i req now =
     (case CertDeliveryByID (cs_db s) i of
        None \<Rightarrow> (NoSuchDelivery, s)
      | Some d \<Rightarrow>
          (case resolveDeliveryCerts (cs_db s) (dl_env_id d) (dr_certs req) of
             Inl code \<Rightarrow> (BadRequest code, s)
           | Inr certs \<Rightarrow>
               (case cleanMountPath (dr_mount_path req) of
                  None \<Rightarrow> (BadRequest ''bad_mount_path'', s)
                | Some mount \<Rightarrow>
                    (case bundle_refusal (cs_db s) (dr_bundle_cas req) of
                       Some code \<Rightarrow> (BadRequest code, s)
                     | None \<Rightarrow>
                         (let d = d\<lparr>dl_certs := certs, dl_mount_path := mount, dl_uid := dr_uid req, dl_gid := dr_gid req,
                                    dl_traefik := dr_traefik req, dl_restart_targets := trim_space (dr_restart_targets req),
                                    dl_bundle_cas := join '' '' (dr_bundle_cas req)\<rparr>
                          in if refuseSecondTraefikDelivery (cs_db s) d then (Conflict ''traefik_volume_taken'', s)
                             else (case UpdateCertDelivery (cs_db s) d of
                                     None \<Rightarrow> (StoreFailed, s)
                                   | Some db \<Rightarrow> (Done, snd (reportDeliverySync y fate (s\<lparr>cs_db := db\<rparr>) (d\<lparr>dl_synced_hash := []\<rparr>) now))))))))"

definition handleSyncCertDelivery :: "crypto \<Rightarrow> (string \<Rightarrow> outage) \<Rightarrow> csite \<Rightarrow> ident \<Rightarrow> int \<Rightarrow> delivery_reply \<times> csite" where
  "handleSyncCertDelivery y fate s i now =
     (case CertDeliveryByID (cs_db s) i of
        None \<Rightarrow> (NoSuchDelivery, s)
      | Some d \<Rightarrow>
          (case reportDeliverySync y fate s (d\<lparr>dl_synced_hash := []\<rparr>) now of
             (Some e, s) \<Rightarrow> (SyncFailed e, s)
           | (None, s) \<Rightarrow> (Done, s)))"

definition handleDeleteCertDelivery :: "csite \<Rightarrow> ident \<Rightarrow> delivery_reply \<times> csite" where
  "handleDeleteCertDelivery s i =
     (case CertDeliveryByID (cs_db s) i of
        None \<Rightarrow> (NoSuchDelivery, s)
      | Some d \<Rightarrow> if dl_protected d then (ProtectedDelivery, s) else (Done, s\<lparr>cs_db := DeleteCertDelivery (cs_db s) (dl_id d)\<rparr>))"

section \<open>Saving a fleet delivery\<close>

record group_request =
  gq_subdir :: string
  gq_bundle_cas :: "ident list"
  gq_certs :: "ident list"

record fleet_request =
  fr_env_id :: ident
  fr_volume :: string
  fr_uid :: int
  fr_gid :: int
  fr_restart_targets :: string
  fr_groups :: "group_request list"

text \<open>The certificates of one group: ids seen in it, names taken in it, ids placed in any group, and the rows so far.\<close>

fun resolve_group ::
  "cdb \<Rightarrow> ident list \<Rightarrow> ident list \<Rightarrow> string list \<Rightarrow> ident list \<Rightarrow> ident list \<Rightarrow> string + (ident list \<times> ident list)" where
  "resolve_group s [] seen names placed out = Inr (placed, out)"
| "resolve_group s (i # is) seen names placed out =
     (if i = [] \<or> i \<in> set seen then resolve_group s is seen names placed out
      else if i \<in> set placed then Inl ''cert_in_two_groups''
      else (case CertificateByID s i of
              None \<Rightarrow> Inl ''no_such_cert''
            | Some c \<Rightarrow>
                if ce_name c \<in> set names then Inl ''name_collision''
                else resolve_group s is (i # seen) (ce_name c # names) (i # placed) (out @ [i])))"

fun resolve_groups ::
  "cdb \<Rightarrow> group_request list \<Rightarrow> string list \<Rightarrow> ident list \<Rightarrow> fleet_group list \<Rightarrow> string + fleet_group list" where
  "resolve_groups s [] subdirs placed out = Inr out"
| "resolve_groups s (r # rs) subdirs placed out =
     (if gq_subdir r \<noteq> [] \<and> \<not> fleetSubdir (gq_subdir r) then Inl ''bad_subdir''
      else if gq_subdir r \<in> set subdirs then Inl ''duplicate_subdir''
      else (case bundle_refusal s (gq_bundle_cas r) of
              Some code \<Rightarrow> Inl code
            | None \<Rightarrow>
                (case resolve_group s (gq_certs r) [] [] placed [] of
                   Inl code \<Rightarrow> Inl code
                 | Inr (placed, certs) \<Rightarrow>
                     resolve_groups s rs (gq_subdir r # subdirs) placed
                       (out @ [\<lparr>fg_subdir = gq_subdir r, fg_bundle_cas = join '' '' (gq_bundle_cas r), fg_cert_ids = certs\<rparr>]))))"

definition resolveFleetGroups :: "cdb \<Rightarrow> group_request list \<Rightarrow> string + fleet_group list" where
  "resolveFleetGroups s reqs = (if reqs = [] then Inl ''no_groups'' else resolve_groups s reqs [] [] [])"

definition handleCreateFleetDelivery ::
  "crypto \<Rightarrow> (string \<Rightarrow> outage) \<Rightarrow> csite \<Rightarrow> fleet_request \<Rightarrow> ident \<Rightarrow> ident \<Rightarrow> int \<Rightarrow> delivery_reply \<times> csite" where
  "handleCreateFleetDelivery y fate s req user i now =
     (if map_of (cs_nodes s) (fr_env_id req) = None then (BadRequest ''not_connected'', s)
      else if fr_volume req \<noteq> [] \<and> \<not> certName (fr_volume req) then (BadRequest ''bad_name'', s)
      else (case resolveFleetGroups (cs_db s) (fr_groups req) of
        Inl code \<Rightarrow> (BadRequest code, s)
      | Inr groups \<Rightarrow>
          (let d = \<lparr>fl_id = [], fl_env_id = fr_env_id req, fl_volume = (if fr_volume req = [] then ''daffa-fleet-certs'' else fr_volume req),
                    fl_uid = fr_uid req, fl_gid = fr_gid req, fl_restart_targets = trim_space (fr_restart_targets req), fl_groups = groups,
                    fl_synced_hash = [], fl_synced_at = None, fl_status = [], fl_failed = False, fl_created_at = 0, fl_created_by = user\<rparr>
           in if refuseFleetVolumeClash (cs_db s) d then (Conflict ''volume_taken'', s)
              else (case CreateFleetDelivery (cs_db s) d i now of
                      None \<Rightarrow> (StoreFailed, s)
                    | Some (d, db) \<Rightarrow> (Done, snd (reportFleetDeliverySync y fate (s\<lparr>cs_db := db\<rparr>) d now))))))"

definition handleUpdateFleetDelivery ::
  "crypto \<Rightarrow> (string \<Rightarrow> outage) \<Rightarrow> csite \<Rightarrow> ident \<Rightarrow> fleet_request \<Rightarrow> int \<Rightarrow> delivery_reply \<times> csite" where
  "handleUpdateFleetDelivery y fate s i req now =
     (case FleetDeliveryByID (cs_db s) i of
        None \<Rightarrow> (NoSuchDelivery, s)
      | Some d \<Rightarrow>
          (case resolveFleetGroups (cs_db s) (fr_groups req) of
             Inl code \<Rightarrow> (BadRequest code, s)
           | Inr groups \<Rightarrow>
               (let d = d\<lparr>fl_uid := fr_uid req, fl_gid := fr_gid req, fl_restart_targets := trim_space (fr_restart_targets req), fl_groups := groups\<rparr>
                in (case UpdateFleetDelivery (cs_db s) d of
                      None \<Rightarrow> (StoreFailed, s)
                    | Some db \<Rightarrow> (Done, snd (reportFleetDeliverySync y fate (s\<lparr>cs_db := db\<rparr>) (d\<lparr>fl_synced_hash := []\<rparr>) now))))))"

definition handleSyncFleetDelivery :: "crypto \<Rightarrow> (string \<Rightarrow> outage) \<Rightarrow> csite \<Rightarrow> ident \<Rightarrow> int \<Rightarrow> delivery_reply \<times> csite" where
  "handleSyncFleetDelivery y fate s i now =
     (case FleetDeliveryByID (cs_db s) i of
        None \<Rightarrow> (NoSuchDelivery, s)
      | Some d \<Rightarrow>
          (case reportFleetDeliverySync y fate s (d\<lparr>fl_synced_hash := []\<rparr>) now of
             (Some e, s) \<Rightarrow> (SyncFailed e, s)
           | (None, s) \<Rightarrow> (Done, s)))"

definition handleDeleteFleetDelivery :: "csite \<Rightarrow> ident \<Rightarrow> delivery_reply \<times> csite" where
  "handleDeleteFleetDelivery s i =
     (case FleetDeliveryByID (cs_db s) i of
        None \<Rightarrow> (NoSuchDelivery, s)
      | Some d \<Rightarrow> (Done, s\<lparr>cs_db := DeleteFleetDelivery (cs_db s) (fl_id d)\<rparr>))"

end
