(* ===== verification/Mirror.thy ===== *)
theory Mirror
  imports Volumes
begin

text \<open>
  What a mirrored round guarantees, for every writer that keeps a manifest: it touches nothing but its
  own files however the daemon fails, a round that succeeds leaves exactly what was asked for, and the
  manifest reads back as it was written.
\<close>

section \<open>Volumes after a call\<close>

lemma file_at_set_volume: "file_at (set_volume n v fs) v' k = (if v' = v then map_of fs k else file_at n v' k)"
  by (simp add: file_at_def set_volume_def map_of_gput)

definition as_stored :: "int \<Rightarrow> int \<Rightarrow> vfile \<Rightarrow> stored_file" where
  "as_stored uid gid f = \<lparr>sf_data = vf_data f, sf_mode = (if vf_mode f = 0 then defaultMode else vf_mode f), sf_uid = uid, sf_gid = gid\<rparr>"

definition wanted :: "vfile list \<Rightarrow> int \<Rightarrow> int \<Rightarrow> string \<Rightarrow> stored_file option" where
  "wanted files uid gid k = map_of (map (\<lambda>f. (vf_name f, as_stored uid gid f)) files) k"

lemma wanted_None: "wanted files uid gid k = None \<longleftrightarrow> k \<notin> vf_name ` set files"
  by (force simp: wanted_def map_of_eq_None_iff)

lemma tarFiles_names: "fst ` set (tarFiles files uid gid) = vf_name ` set files"
  by (force simp: tarFiles_def)

lemma map_of_tarFiles:
  assumes "distinct (map vf_name files)"
  shows "map_of (tarFiles files uid gid) = wanted files uid gid"
proof
  fix k
  let ?g = "\<lambda>f. (vf_name f, as_stored uid gid f)"
  have t: "tarFiles files uid gid = map ?g (sort_key vf_name files)" by (simp add: tarFiles_def as_stored_def)
  have "distinct (map vf_name (sort_key vf_name files))" using assms by (metis distinct_map distinct_sort set_sort)
  then have "map_of (map ?g (sort_key vf_name files)) = map_of (map ?g files)"
    using assms by (intro map_of_inject_set[THEN iffD2]) (simp_all add: comp_def)
  then show "map_of (tarFiles files uid gid) k = wanted files uid gid k" unfolding t wanted_def by simp
qed

lemma map_of_unpack: "map_of (unpack fs archive) = map_of fs ++ map_of (rev archive)"
  unfolding unpack_def by (induction archive arbitrary: fs) (auto simp: map_of_gput map_add_assoc)

lemma unpack_other: "k \<notin> fst ` set archive \<Longrightarrow> map_of (unpack fs archive) k = map_of fs k"
  by (simp add: map_of_unpack map_add_dom_app_simps(3) dom_map_of_conv_image_fst)

lemma map_of_rev_distinct: "distinct (map fst xs) \<Longrightarrow> map_of (rev xs) = map_of xs"
  by (intro map_of_inject_set[THEN iffD2]) (simp_all flip: rev_map)

lemma unpack_distinct:
  "distinct (map fst archive) \<Longrightarrow> map_of (unpack fs archive) k = (case map_of archive k of None \<Rightarrow> map_of fs k | Some f \<Rightarrow> Some f)"
  by (simp add: map_of_unpack map_add_def map_of_rev_distinct split: option.split)

lemma map_of_filter_keys: "map_of (filter (\<lambda>(k, f). k \<notin> S) fs) k = (if k \<in> S then None else map_of fs k)"
  by (induction fs) auto

section \<open>One call of the writer\<close>

lemma file_at_volume: "map_of (vn_volumes n) v = Some fs \<Longrightarrow> file_at n v k = map_of fs k"
  "map_of (vn_volumes n) v = None \<Longrightarrow> file_at n v k = None"
  by (simp_all add: file_at_def)

lemma Write_other:
  assumes "Write n v files uid gid out = (b, n')" "v' \<noteq> v \<or> k \<notin> vf_name ` set files"
  shows "file_at n' v' k = file_at n v' k"
proof (cases "v' = v")
  case False
  then show ?thesis using assms(1) by (auto simp: Write_def Let_def file_at_set_volume split: if_split_asm copy_outcome.split_asm)
next
  case True
  let ?fs = "case map_of (vn_volumes n) v of None \<Rightarrow> [] | Some fs \<Rightarrow> fs"
  have k: "k \<notin> fst ` set (tarFiles files uid gid)" using assms(2) True by (simp add: tarFiles_names)
  then have "k \<notin> fst ` set (take m (tarFiles files uid gid))" for m by (meson image_mono set_take_subset subsetD)
  then have "map_of (unpack ?fs (tarFiles files uid gid)) k = map_of ?fs k" "map_of (unpack ?fs (take m (tarFiles files uid gid))) k = map_of ?fs k" for m
    using k by (simp_all add: unpack_other)
  moreover have "map_of ?fs k = file_at n v k" by (simp add: file_at_def split: option.split)
  ultimately show ?thesis
    using assms(1) True by (auto simp: Write_def Let_def file_at_set_volume split: if_split_asm copy_outcome.split_asm)
qed

lemma Write_ok:
  assumes "Write n v files uid gid out = (True, n')" "distinct (map vf_name files)"
  shows "file_at n' v k = (case wanted files uid gid k of None \<Rightarrow> file_at n v k | Some f \<Rightarrow> Some f)"
    "map_of (vn_volumes n') v \<noteq> None"
proof -
  let ?fs = "case map_of (vn_volumes n) v of None \<Rightarrow> [] | Some fs \<Rightarrow> fs"
  have n': "n' = set_volume n v (unpack ?fs (tarFiles files uid gid))"
    using assms(1) by (auto simp: Write_def Let_def split: if_split_asm copy_outcome.split_asm)
  have "distinct (map fst (tarFiles files uid gid))"
    using assms(2) by (simp add: tarFiles_def comp_def) (metis distinct_map distinct_sort set_sort)
  then show "file_at n' v k = (case wanted files uid gid k of None \<Rightarrow> file_at n v k | Some f \<Rightarrow> Some f)"
    unfolding n' file_at_set_volume by (simp add: unpack_distinct map_of_tarFiles[OF assms(2)]) (simp add: file_at_def split: option.split)
  show "map_of (vn_volumes n') v \<noteq> None" unfolding n' by (simp add: set_volume_def map_of_gput)
qed

lemma RemoveFiles_other:
  assumes "RemoveFiles n v names out = (b, n')" "v' \<noteq> v \<or> k \<notin> path_clean ` set names"
  shows "file_at n' v' k = file_at n v' k"
proof -
  have "k \<notin> path_clean ` set (take m names)" if "v' = v" for m using assms(2) that by (meson image_mono set_take_subset subsetD)
  then show ?thesis
    using assms
    by (auto simp: RemoveFiles_def Let_def file_at_set_volume map_of_filter_keys file_at_volume
        split: if_split_asm option.split_asm remove_outcome.split_asm)
qed

lemma RemoveFiles_ok:
  assumes "RemoveFiles n v names out = (True, n')"
  shows "file_at n' v k = (if k \<in> path_clean ` set names then None else file_at n v k)"
  using assms
  by (auto simp: RemoveFiles_def Let_def file_at_set_volume map_of_filter_keys file_at_volume
      split: if_split_asm option.split_asm remove_outcome.split_asm)

lemma file_at_restart [simp]: "file_at (restartTargets n t) v k = file_at n v k"
  by (simp add: file_at_def restartTargets_def)

section \<open>One round on one node\<close>

text \<open>The names the manifest of a volume lists.\<close>

definition listed :: "node \<Rightarrow> string \<Rightarrow> string \<Rightarrow> string list" where
  "listed n v mname = (case file_at n v mname of None \<Rightarrow> [] | Some f \<Rightarrow> ParseManifest (sf_data f))"

lemma ReadFile_listed:
  "ReadFile n v mname rd = r \<Longrightarrow> r \<noteq> ReadFailed \<Longrightarrow> (case r of Content b \<Rightarrow> ParseManifest b | _ \<Rightarrow> []) = listed n v mname"
  by (auto simp: ReadFile_def listed_def file_at_def split: if_split_asm option.split_asm)

lemma mirror_node_cases:
  assumes "mirror_node mname v man files uid gid t ou n = (e, n')"
  obtains (unread) "e = Some ReadingManifest" "n' = n"
  | (copying) b n1 where "Write n v files uid gid (ou_write ou) = (b, n1)" "n' = n1" "e \<noteq> None"
  | (removing) b n1 n2 where "Write n v files uid gid (ou_write ou) = (True, n1)"
      "RemoveFiles n1 v (filter (\<lambda>x. x \<notin> vf_name ` set files) (listed n v mname)) (ou_remove ou) = (b, n2)" "n' = n2" "e \<noteq> None"
  | (committing) b n1 n2 n3 where "Write n v files uid gid (ou_write ou) = (True, n1)"
      "RemoveFiles n1 v (filter (\<lambda>x. x \<notin> vf_name ` set files) (listed n v mname)) (ou_remove ou) = (True, n2)"
      "Write n2 v [\<lparr>vf_name = mname, vf_data = man, vf_mode = 0\<rparr>] uid gid (ou_commit ou) = (b, n3)"
      "n' = (if b then restartTargets n3 t else n3)" "e = (if b then None else Some CommitFailed)"
proof (cases "ReadFile n v mname (ou_readable ou) = ReadFailed")
  case True
  then show ?thesis using assms by (intro unread) (simp_all add: mirror_node_def)
next
  case False
  let ?stale = "filter (\<lambda>x. x \<notin> vf_name ` set files) (listed n v mname)"
  obtain b1 n1 where w: "Write n v files uid gid (ou_write ou) = (b1, n1)" by (cases "Write n v files uid gid (ou_write ou)")
  obtain b2 n2 where r: "RemoveFiles n1 v ?stale (ou_remove ou) = (b2, n2)" by (cases "RemoveFiles n1 v ?stale (ou_remove ou)")
  let ?man = "[\<lparr>vf_name = mname, vf_data = man, vf_mode = 0\<rparr>]"
  obtain b3 n3 where c: "Write n2 v ?man uid gid (ou_commit ou) = (b3, n3)" by (cases "Write n2 v ?man uid gid (ou_commit ou)")
  have "mirror_node mname v man files uid gid t ou n =
      (if \<not> b1 then (Some WriteFailed, n1) else if \<not> b2 then (Some RemoveFailed, n2)
       else if \<not> b3 then (Some CommitFailed, n3) else (None, restartTargets n3 t))"
    using False ReadFile_listed[OF refl False] w r c
    unfolding mirror_node_def Let_def by (cases "ReadFile n v mname (ou_readable ou)") (simp_all split: bool.split)
  then show ?thesis
    using assms w r c copying[of b1 n1] removing[of n1 b2 n2] committing[of n1 n2 b3 n3] by (cases b1; cases b2; cases b3) auto
qed

lemma mirror_node_other:
  assumes "mirror_node mname v man files uid gid t ou n = (e, n')"
    and "v' \<noteq> v \<or> k \<noteq> mname \<and> k \<notin> vf_name ` set files \<and> k \<notin> path_clean ` set (listed n v mname)"
  shows "file_at n' v' k = file_at n v' k"
  using assms(1)
proof (cases rule: mirror_node_cases)
  case unread
  then show ?thesis by simp
next
  case (copying b n1)
  then show ?thesis using Write_other[of n v files uid gid _ b n1 v' k] assms(2) by auto
next
  case (removing b n1 n2)
  then show ?thesis
    using Write_other[OF removing(1), of v' k] RemoveFiles_other[OF removing(2), of v' k] assms(2) by auto
next
  case (committing b n1 n2 n3)
  then show ?thesis
    using Write_other[OF committing(1), of v' k] RemoveFiles_other[OF committing(2), of v' k] Write_other[OF committing(3), of v' k] assms(2) by auto
qed

text \<open>Names a manifest can carry: clean, inside the volume, one line, no comment.\<close>

definition plain_name :: "string \<Rightarrow> bool" where
  "plain_name n \<longleftrightarrow> path_clean n = n \<and> \<not> escapes n \<and> CHR 0x0A \<notin> set n \<and> trim_space n = n \<and> \<not> has_prefix n ''#''"

lemma plain_name_not_Nil: "plain_name n \<Longrightarrow> n \<noteq> []"
  by (auto simp: plain_name_def escapes_def Let_def)

lemma path_clean_plain: "\<forall>n \<in> S. plain_name n \<Longrightarrow> path_clean ` S = S"
  by (force simp: plain_name_def)

lemma mirror_node_exact:
  assumes "mirror_node mname v man files uid gid t ou n = (None, n')" "distinct (map vf_name files)"
    and "\<forall>x \<in> set (listed n v mname). plain_name x"
  shows "file_at n' v k =
    (if k = mname then Some \<lparr>sf_data = man, sf_mode = defaultMode, sf_uid = uid, sf_gid = gid\<rparr>
     else case wanted files uid gid k of
       Some f \<Rightarrow> Some f
     | None \<Rightarrow> if k \<in> set (listed n v mname) then None else file_at n v k)"
  using assms(1)
proof (cases rule: mirror_node_cases)
  case (committing b n1 n2 n3)
  let ?stale = "filter (\<lambda>x. x \<notin> vf_name ` set files) (listed n v mname)"
  let ?man = "[\<lparr>vf_name = mname, vf_data = man, vf_mode = 0\<rparr>]"
  have c: "Write n2 v ?man uid gid (ou_commit ou) = (True, n3)" "n' = restartTargets n3 t" using committing(3-5) by (simp_all split: if_split_asm)
  have "path_clean ` set ?stale = {x \<in> set (listed n v mname). x \<notin> vf_name ` set files}"
    using path_clean_plain[of "set ?stale"] assms(3) by auto
  then have "file_at n2 v k = (if k \<in> set (listed n v mname) \<and> k \<notin> vf_name ` set files then None else file_at n1 v k)"
    using RemoveFiles_ok[OF committing(2), of k] by simp
  moreover have "wanted ?man uid gid k = (if k = mname then Some \<lparr>sf_data = man, sf_mode = defaultMode, sf_uid = uid, sf_gid = gid\<rparr> else None)"
    by (simp add: wanted_def as_stored_def)
  ultimately show ?thesis
    using Write_ok(1)[OF committing(1) assms(2), of k] Write_ok(1)[OF c(1), of k] wanted_None[of files uid gid k]
    by (auto simp: c(2) split: option.split)
qed (simp_all)

section \<open>Manifests\<close>

lemma split_on_line: "CHR 0x0A \<notin> set w \<Longrightarrow> split_on (CHR 0x0A) (w @ nl @ s) = w # split_on (CHR 0x0A) s"
  by (induction w) (auto simp: nl_def)

lemma split_on_lines:
  "\<forall>n \<in> set ns. CHR 0x0A \<notin> set n \<Longrightarrow> split_on (CHR 0x0A) (concat (map (\<lambda>n. n @ nl) ns)) = ns @ [[]]"
  by (induction ns) (simp_all add: split_on_line del: append_assoc add: append_assoc[of _ nl])

lemma has_prefix_hash: "has_prefix (CHR ''#'' # s) ''#''"
  by (simp add: has_prefix_def)

lemma trim_space_hash: "\<exists>s'. trim_space (CHR ''#'' # s) = CHR ''#'' # s'"
proof -
  have h: "\<not> is_space (CHR ''#'')" by (simp add: is_space_def)
  have "dropWhile is_space (rev s @ [CHR ''#'']) = dropWhile is_space (rev s) @ [CHR ''#''] \<or> dropWhile is_space (rev s @ [CHR ''#'']) = [CHR ''#'']"
    using h by (auto simp: dropWhile_append)
  then show ?thesis using h by (auto simp: trim_space_def) (metis rev_rev_ident)
qed

lemma comment_skipped: "trim_space (CHR ''#'' # s) = [] \<or> has_prefix (trim_space (CHR ''#'' # s)) ''#''"
  using trim_space_hash[of s] by (auto simp: has_prefix_def)

lemma trim_space_Nil [simp]: "trim_space [] = []"
  by (simp add: trim_space_def)

definition manifest_head :: "string \<Rightarrow> string \<Rightarrow> string list" where
  "manifest_head commit hash =
     [''# Written by Daffa. Do not edit: it is rewritten on every sync.'', ''# commit '' @ commit, ''# hash '' @ hash]"

lemma Manifest_lines: "Manifest commit hash names = concat (map (\<lambda>n. n @ nl) (manifest_head commit hash @ names))"
  by (simp only: Manifest_def manifest_head_def map_append list.map concat_append concat.simps append_assoc append_Nil2 append_Nil)

lemma head_skipped: "\<forall>l \<in> set (manifest_head commit hash). trim_space l = [] \<or> has_prefix (trim_space l) ''#''"
  using comment_skipped by (simp add: manifest_head_def)

lemma ParseManifest_Manifest:
  assumes "\<forall>n \<in> set names. plain_name n" "CHR 0x0A \<notin> set commit" "CHR 0x0A \<notin> set hash"
  shows "ParseManifest (Manifest commit hash names) = names"
proof -
  let ?keep = "\<lambda>l. \<not> (l = [] \<or> has_prefix l ''#'')"
  have "\<forall>l \<in> set (manifest_head commit hash @ names). CHR 0x0A \<notin> set l"
    using assms by (simp add: manifest_head_def plain_name_def)
  then have "split_on (CHR 0x0A) (Manifest commit hash names) = manifest_head commit hash @ names @ [[]]"
    unfolding Manifest_lines by (simp only: split_on_lines append_assoc)
  then have "ParseManifest (Manifest commit hash names) =
      filter ?keep (map trim_space (manifest_head commit hash)) @ filter ?keep (map trim_space names)"
    by (simp add: ParseManifest_def)
  moreover have "filter ?keep (map trim_space (manifest_head commit hash)) = []"
    using head_skipped[of commit hash] by (auto simp: filter_empty_conv)
  moreover have "filter ?keep (map trim_space names) = names"
    using assms(1) plain_name_not_Nil by (induction names) (auto simp: plain_name_def)
  ultimately show ?thesis by simp
qed

section \<open>The contract of a mirrored writer\<close>

text \<open>
  A writer owns a manifest name and turns what it delivers into files and into the manifest that lists
  them. What its manifest lists must be readable back: then a round prunes what the round before had
  delivered, no more and no less.
\<close>

locale mirrored =
  fixes mname :: string
    and payload :: "'d \<Rightarrow> vfile list"
    and head :: "'d \<Rightarrow> string"
    and ok :: "'d \<Rightarrow> bool"
  assumes names_plain: "ok d \<Longrightarrow> f \<in> set (payload d) \<Longrightarrow> plain_name (vf_name f)"
    and names_distinct: "ok d \<Longrightarrow> distinct (map vf_name (payload d))"
    and not_manifest: "ok d \<Longrightarrow> mname \<notin> vf_name ` set (payload d)"
    and head_lists: "ok d \<Longrightarrow> set (ParseManifest (head d)) = vf_name ` set (payload d)"
begin

lemma round_lists:
  assumes "mirror_node mname v (head d) (payload d) uid gid t ou n = (None, n')" "ok d"
    and "\<forall>x \<in> set (listed n v mname). plain_name x"
  shows "set (listed n' v mname) = vf_name ` set (payload d)" "\<forall>x \<in> set (listed n' v mname). plain_name x"
proof -
  have "file_at n' v mname = Some \<lparr>sf_data = head d, sf_mode = defaultMode, sf_uid = uid, sf_gid = gid\<rparr>"
    using mirror_node_exact[OF assms(1) names_distinct[OF assms(2)] assms(3), of mname] by simp
  then show *: "set (listed n' v mname) = vf_name ` set (payload d)" using head_lists[OF assms(2)] by (simp add: listed_def)
  show "\<forall>x \<in> set (listed n' v mname). plain_name x" unfolding * using names_plain[OF assms(2)] by blast
qed

text \<open>Two rounds that succeed, with anything in between that leaves the files of the writer alone.\<close>

lemma two_rounds:
  assumes "mirror_node mname v (head d1) (payload d1) u1 g1 t1 o1 n0 = (None, n1)" "ok d1" "\<forall>x \<in> set (listed n0 v mname). plain_name x"
    and "\<forall>k. k = mname \<or> k \<in> vf_name ` set (payload d1) \<longrightarrow> file_at n2 v k = file_at n1 v k"
    and "mirror_node mname v (head d2) (payload d2) u2 g2 t2 o2 n2 = (None, n3)" "ok d2"
  shows "file_at n3 v k =
    (if k = mname then Some \<lparr>sf_data = head d2, sf_mode = defaultMode, sf_uid = u2, sf_gid = g2\<rparr>
     else case wanted (payload d2) u2 g2 k of
       Some f \<Rightarrow> Some f
     | None \<Rightarrow> if k \<in> vf_name ` set (payload d1) then None else file_at n2 v k)"
proof -
  have "listed n2 v mname = listed n1 v mname" using assms(4) by (simp add: listed_def)
  then have "set (listed n2 v mname) = vf_name ` set (payload d1)" "\<forall>x \<in> set (listed n2 v mname). plain_name x"
    using round_lists[OF assms(1-3)] by simp_all
  then show ?thesis using mirror_node_exact[OF assms(5) names_distinct[OF assms(6)], of k] by simp
qed

text \<open>Whatever the daemon does, the manifest changes only in the last step of a round.\<close>

lemma manifest_last:
  assumes "mirror_node mname v (head d) (payload d) uid gid t ou n = (Some e, n')" "ok d" "e \<noteq> CommitFailed"
    and "\<forall>x \<in> set (listed n v mname). plain_name x" "mname \<notin> set (listed n v mname)"
  shows "file_at n' v mname = file_at n v mname"
  using assms(1)
proof (cases rule: mirror_node_cases)
  case (copying b n1)
  then show ?thesis using Write_other[OF copying(1), of v mname] not_manifest[OF assms(2)] by simp
next
  case (removing b n1 n2)
  have "mname \<notin> path_clean ` set (filter (\<lambda>x. x \<notin> vf_name ` set (payload d)) (listed n v mname))"
    using path_clean_plain[of "set (filter (\<lambda>x. x \<notin> vf_name ` set (payload d)) (listed n v mname))"] assms(4,5) by auto
  then show ?thesis
    using Write_other[OF removing(1), of v mname] RemoveFiles_other[OF removing(2), of v mname] not_manifest[OF assms(2)] removing(3) by simp
next
  case (committing b n1 n2 n3)
  then show ?thesis using assms(3) by (simp split: if_split_asm)
qed simp

end

section \<open>The hashed text\<close>

declare show_nat.simps [simp del] show_octal.simps [simp del]

definition digits_value :: "nat \<Rightarrow> string \<Rightarrow> nat" where
  "digits_value b s = foldl (\<lambda>a c. a * b + (of_char c - 48)) 0 s"

lemma digits_value_simps [simp]: "digits_value b (s @ [c]) = digits_value b s * b + (of_char c - 48)" "digits_value b [c] = of_char c - 48"
  by (simp_all add: digits_value_def)

definition digit :: "char \<Rightarrow> bool" where
  "digit c \<longleftrightarrow> 48 \<le> (of_char c :: nat) \<and> (of_char c :: nat) \<le> 57"

lemma show_nat_value: "digits_value 10 (show_nat n) = n"
proof (induction n rule: less_induct)
  case (less n)
  then show ?case by (subst show_nat.simps) (simp add: less.IH[of "n div 10"])
qed

lemma show_octal_value: "digits_value 8 (show_octal n) = n"
proof (induction n rule: less_induct)
  case (less n)
  then show ?case by (subst show_octal.simps) (simp add: less.IH[of "n div 8"])
qed

lemma show_nat_digits: "list_all digit (show_nat n)"
proof (induction n rule: less_induct)
  case (less n)
  then show ?case by (subst show_nat.simps) (simp add: less.IH[of "n div 10"] digit_def, presburger)
qed

lemma show_octal_digits: "list_all digit (show_octal n)"
proof (induction n rule: less_induct)
  case (less n)
  then show ?case by (subst show_octal.simps) (simp add: less.IH[of "n div 8"] digit_def, presburger)
qed

lemma minus_not_digit: "\<not> digit (CHR ''-'')" "\<not> digit (CHR '' '')" "\<not> digit (CHR 0x00)"
  by (simp_all add: digit_def)

lemma list_all_not_in: "list_all P xs \<Longrightarrow> \<not> P x \<Longrightarrow> x \<notin> set xs"
  by (auto simp: list_all_iff)

lemma signed_inj:
  fixes i j :: int
  assumes "(if i < 0 then ''-'' @ f (nat (- i)) else f (nat i)) = (if j < 0 then ''-'' @ f (nat (- j)) else f (nat j))"
    and "\<And>n. CHR ''-'' \<notin> set (f n)" "\<And>m n. f m = f n \<Longrightarrow> m = n"
  shows "i = j"
proof -
  have "f m \<noteq> CHR ''-'' # s" for m s using assms(2)[of m] by auto
  then show ?thesis using assms(1,3) by (auto split: if_split_asm) (metis assms(3) eq_nat_nat_iff neg_equal_iff_equal neg_0_le_iff_le not_less order_less_imp_le)+
qed

lemma show_int_inj: "show_int i = show_int j \<Longrightarrow> i = j"
  unfolding show_int_def by (erule signed_inj) (use list_all_not_in[OF show_nat_digits minus_not_digit(1)] show_nat_value in \<open>auto, metis\<close>)

lemma show_octal_int_inj: "show_octal_int i = show_octal_int j \<Longrightarrow> i = j"
  unfolding show_octal_int_def by (erule signed_inj) (use list_all_not_in[OF show_octal_digits minus_not_digit(1)] show_octal_value in \<open>auto, metis\<close>)

lemma numbers_no: "CHR 0x00 \<notin> set (show_int i)" "CHR '' '' \<notin> set (show_int i)" "CHR 0x00 \<notin> set (show_octal_int i)" "CHR 0x00 \<notin> set (show_nat n)"
  using list_all_not_in[OF show_nat_digits minus_not_digit(2)] list_all_not_in[OF show_nat_digits minus_not_digit(3)]
    list_all_not_in[OF show_octal_digits minus_not_digit(3)]
  by (simp_all add: show_int_def show_octal_int_def)

lemma cut_first: "a @ [c] @ x = b @ [c] @ y \<Longrightarrow> c \<notin> set a \<Longrightarrow> c \<notin> set b \<Longrightarrow> a = b \<and> x = y"
  by (induction a arbitrary: b) (auto simp: append_eq_Cons_conv Cons_eq_append_conv)

lemma owner_text_inj: "owner_text u g = owner_text u' g' \<Longrightarrow> u = u' \<and> g = g'"
  using cut_first[of "show_int u" "CHR '' ''" "''gid='' @ show_int g" "show_int u'" "''gid='' @ show_int g'"] numbers_no(2) show_int_inj
  by (auto simp: owner_text_def)

lemma owner_text_no_nul: "CHR 0x00 \<notin> set (owner_text u g)"
  using numbers_no(1) by (simp add: owner_text_def)

lemma source_text_simps:
  "source_text [] u g = owner_text u g"
  "source_text (f # fs) u g = vf_name f @ [CHR 0x00] @ show_octal_int (vf_mode f) @ [CHR 0x00] @ show_nat (length (vf_data f)) @ [CHR 0x00] @
     vf_data f @ source_text fs u g"
  by (simp_all add: source_text_def nul_def)

lemma owner_not_source: "owner_text u g \<noteq> source_text (f # fs) u' g'"
proof
  assume "owner_text u g = source_text (f # fs) u' g'"
  moreover have "CHR 0x00 \<in> set (source_text (f # fs) u' g')" by (simp add: source_text_simps)
  ultimately show False using owner_text_no_nul[of u g] by simp
qed

lemma source_text_inj:
  assumes "source_text fs u g = source_text fs' u' g'" "\<forall>f \<in> set fs \<union> set fs'. CHR 0x00 \<notin> set (vf_name f)"
  shows "fs = fs' \<and> u = u' \<and> g = g'"
  using assms
proof (induction fs fs' rule: list_induct2')
  case 1
  then show ?case by (simp add: source_text_simps(1) owner_text_inj)
next
  case (2 f fs)
  then show ?case using owner_not_source[of u' g' f fs u g] by (simp only: source_text_simps(1))
next
  case (3 f fs)
  then show ?case using owner_not_source[of u g f fs u' g'] by (simp only: source_text_simps(1))
next
  case (4 f fs f' fs')
  note e = 4(2)[unfolded source_text_simps(2)]
  have names: "CHR 0x00 \<notin> set (vf_name f)" "CHR 0x00 \<notin> set (vf_name f')" using 4(3) by auto
  note a = cut_first[OF e names]
  note b = cut_first[OF a[THEN conjunct2] numbers_no(3) numbers_no(3)]
  note c = cut_first[OF b[THEN conjunct2] numbers_no(4) numbers_no(4)]
  have "length (vf_data f) = length (vf_data f')" using c by (metis show_nat_value)
  then have d: "vf_data f = vf_data f'" "source_text fs u g = source_text fs' u' g'" using c by simp_all
  have "vf_mode f = vf_mode f'" using b show_octal_int_inj by blast
  then have "f = f'" using a d(1) by simp
  moreover have "fs = fs' \<and> u = u' \<and> g = g'" using 4(1)[OF d(2)] 4(3) by simp
  ultimately show ?case by simp
qed

section \<open>Properties\<close>

lemma mirror_nodes_nth:
  "mirror_nodes mname v man files uid gid t ons = (es, ns) \<Longrightarrow>
     length ns = length ons \<and> (\<forall>i < length ons. \<exists>e. mirror_node mname v man files uid gid t (fst (ons ! i)) (snd (ons ! i)) = (e, ns ! i))"
proof (induction ons arbitrary: es ns)
  case (Cons on ons)
  then show ?case by (cases on) (auto simp: Let_def nth_Cons split: prod.split_asm nat.split)
qed simp

text \<open>C24: a round touches only its own files. However the daemons of the nodes fail, in whatever call and
  after however many files, a round over the nodes of a cluster leaves every other volume of every node as
  it was, and in its own volume every file that it does not write and that its manifest did not list.\<close>

theorem mirror_touches_only_its_own:
  assumes "mirror_nodes mname v man files uid gid t ons = (es, ns)" "i < length ons"
    and "v' \<noteq> v \<or> k \<noteq> mname \<and> k \<notin> vf_name ` set files \<and> k \<notin> path_clean ` set (listed (snd (ons ! i)) v mname)"
  shows "length ns = length ons \<and> file_at (ns ! i) v' k = file_at (snd (ons ! i)) v' k"
  using mirror_nodes_nth[OF assms(1)] assms(2) mirror_node_other[OF _ assms(3)] by metis

definition app_node :: node where
  "app_node = \<lparr>vn_name = ''n'', vn_volumes = [(''v'', [(''app.db'', \<lparr>sf_data = ''rows'', sf_mode = 384, sf_uid = 0, sf_gid = 0\<rparr>),
     (''old'', \<lparr>sf_data = [], sf_mode = 420, sf_uid = 0, sf_gid = 0\<rparr>),
     (ManifestName, \<lparr>sf_data = ''old'' @ nl, sf_mode = 420, sf_uid = 0, sf_gid = 0\<rparr>)])], vn_restarted = []\<rparr>"

definition new_files :: "vfile list" where
  "new_files = [\<lparr>vf_name = ''new'', vf_data = ''x'', vf_mode = 0\<rparr>]"

definition broken_round :: "node_error list \<times> node list" where
  "broken_round = mirror_nodes ManifestName ''v'' (Manifest [] [] [''new'']) new_files 0 0 [] [(healthy\<lparr>ou_remove := RemovedOnly 1\<rparr>, app_node)]"

theorem mirror_touches_only_its_own_witness:
  "fst broken_round = [RemoveFailed] \<and> file_at (snd broken_round ! 0) ''v'' ''app.db'' = file_at app_node ''v'' ''app.db''"
proof
  show "fst broken_round = [RemoveFailed]" by code_simp
  have "''app.db'' \<noteq> ManifestName \<and> ''app.db'' \<notin> vf_name ` set new_files \<and> ''app.db'' \<notin> path_clean ` set (listed app_node ''v'' ManifestName)"
    by code_simp
  then show "file_at (snd broken_round ! 0) ''v'' ''app.db'' = file_at app_node ''v'' ''app.db''"
    using mirror_touches_only_its_own[of ManifestName "''v''" "Manifest [] [] [''new'']" new_files 0 0 "[]" "[(healthy\<lparr>ou_remove := RemovedOnly 1\<rparr>, app_node)]"
        "fst broken_round" "snd broken_round" 0 "''v''" "''app.db''"]
    by (simp add: broken_round_def)
qed

text \<open>C36: a manifest reads back. The list of files a round commits to a volume is read back by the next
  round as exactly that list, in its order, whatever the commit and the hash of its header are, as long as
  the names are clean paths inside the volume on one line.\<close>

theorem manifest_roundtrip:
  assumes "\<forall>n \<in> set names. path_clean n = n \<and> \<not> escapes n \<and> CHR 0x0A \<notin> set n \<and> trim_space n = n \<and> \<not> has_prefix n ''#''"
    and "CHR 0x0A \<notin> set commit" "CHR 0x0A \<notin> set hash"
  shows "ParseManifest (Manifest commit hash names) = names"
  using assms by (intro ParseManifest_Manifest) (simp_all add: plain_name_def)

theorem manifest_roundtrip_witness:
  "ParseManifest (Manifest ''c0ffee'' ''h1'' [''conf.d/app.yml'', ''motd'']) = [''conf.d/app.yml'', ''motd'']"
proof (rule manifest_roundtrip)
  show "\<forall>n \<in> set [''conf.d/app.yml'', ''motd'']. path_clean n = n \<and> \<not> escapes n \<and> CHR 0x0A \<notin> set n \<and> trim_space n = n \<and> \<not> has_prefix n ''#''"
    by code_simp
qed code_simp+

text \<open>The hashed text identifies the desired state. Two lists of files, with their modes and the owner
  they are written for, that give the same text to hash are the same, so a volume source is left alone only
  when nothing about it has changed or the hash itself collides.\<close>

lemma hashed_text_identifies_the_state:
  assumes "source_text fs u g = source_text fs' u' g'"
    and "\<forall>f \<in> set fs \<union> set fs'. CHR 0x00 \<notin> set (vf_name f)"
  shows "fs = fs' \<and> u = u' \<and> g = g'"
  using assms by (rule source_text_inj)

end
