(* ===== verification/Material.thy ===== *)
theory Material
  imports Deliveries Mirror
begin

text \<open>
  What the deliveries guarantee: the keys in a volume are the keys of the certificates its delivery
  carries, a round prunes what the round before had written, one volume has one kind of delivery as
  long as a request names it; and the ways in which these promises fail.
\<close>

section \<open>Names of delivered files\<close>

definition seg_ok :: "string \<Rightarrow> bool" where
  "seg_ok e \<longleftrightarrow> e \<noteq> [] \<and> e \<noteq> ''.'' \<and> e \<noteq> ''..'' \<and> CHR ''/'' \<notin> set e"

lemma clean_elems_ok: "list_all seg_ok es \<Longrightarrow> clean_elems r acc es = rev acc @ es"
  by (induction es arbitrary: acc) (auto simp: seg_ok_def)

lemma join_not_Nil: "ws \<noteq> [] \<Longrightarrow> list_all seg_ok ws \<Longrightarrow> \<exists>c cs. join ''/'' ws = c # cs \<and> c \<noteq> CHR ''/''"
  by (induction "''/''" ws rule: join.induct) (auto simp: seg_ok_def neq_Nil_conv)

lemma path_clean_segs:
  assumes "list_all seg_ok ws" "ws \<noteq> []"
  shows "path_clean (join ''/'' ws) = join ''/'' ws"
proof -
  obtain c cs where j: "join ''/'' ws = c # cs" "c \<noteq> CHR ''/''" using join_not_Nil[OF assms(2,1)] by blast
  have "\<forall>w \<in> set ws. CHR ''/'' \<notin> set w" using assms(1) by (auto simp: list_all_iff seg_ok_def)
  then have "split_on (CHR ''/'') (join ''/'' ws) = ws" using split_on_join assms(2) by blast
  then show ?thesis using j clean_elems_ok[OF assms(1), of _ "[]"] by (simp add: path_clean_def has_prefix_def Let_def)
qed

lemma not_escapes_segs:
  assumes "list_all seg_ok ws" "ws \<noteq> []"
  shows "\<not> escapes (join ''/'' ws)"
proof -
  obtain w vs where w: "ws = w # vs" using assms(2) by (cases ws) auto
  have j: "join ''/'' ws = (if vs = [] then w else w @ ''/'' @ join ''/'' vs)" unfolding w by (cases vs) auto
  have ok: "seg_ok w" using assms(1) w by simp
  have "\<not> has_prefix (join ''/'' ws) ''../''"
  proof
    assume "has_prefix (join ''/'' ws) ''../''"
    then obtain t where "join ''/'' ws = ''../'' @ t" by (auto simp: has_prefix_iff)
    moreover have "w \<noteq> ''..''" "CHR ''/'' \<notin> set w" using ok by (auto simp: seg_ok_def)
    ultimately show False unfolding j by (auto split: if_split_asm simp: append_eq_Cons_conv)
  qed
  moreover have "join ''/'' ws \<noteq> ''.''" "join ''/'' ws \<noteq> ''..''"
    using ok unfolding j by (auto simp: seg_ok_def append_eq_Cons_conv)
  moreover have "join ''/'' ws \<noteq> []" "\<not> has_prefix (join ''/'' ws) ''/''"
    using join_not_Nil[OF assms(2,1)] by (auto simp: has_prefix_def)
  ultimately show ?thesis by (simp add: escapes_def path_clean_segs[OF assms] Let_def)
qed

text \<open>The path elements a delivery writes: a letter or digit, then letters, digits, dots, dashes and underscores.\<close>

definition name_char :: "char \<Rightarrow> bool" where
  "name_char c \<longleftrightarrow> name_start c \<or> c \<in> set ''._-''"

definition file_seg :: "string \<Rightarrow> bool" where
  "file_seg e \<longleftrightarrow> e \<noteq> [] \<and> name_start (hd e) \<and> list_all name_char e"

lemma name_start_not: "name_start c \<Longrightarrow> c \<noteq> CHR ''.'' \<and> c \<noteq> CHR ''#'' \<and> c \<noteq> CHR ''/''"
  by (auto simp: name_start_def)

lemma name_char_not: "name_char c \<Longrightarrow> c \<noteq> CHR ''/'' \<and> c \<noteq> CHR 0x0A \<and> \<not> is_space c \<and> c \<noteq> CHR 0x00"
  unfolding name_char_def name_start_def by (elim disjE) (auto simp: is_space_def)

lemma name_chars_not: "list_all name_char e \<Longrightarrow> CHR ''/'' \<notin> set e \<and> CHR 0x0A \<notin> set e \<and> list_all (\<lambda>c. \<not> is_space c) e"
  using name_char_not by (auto simp: list_all_iff)

lemma file_seg_ok: "file_seg e \<Longrightarrow> seg_ok e"
  using name_chars_not name_start_not[of "hd e"] by (auto simp: file_seg_def seg_ok_def)

lemma dropWhile_none: "list_all (\<lambda>c. \<not> P c) s \<Longrightarrow> dropWhile P s = s"
  by (cases s) auto

lemma trim_space_none: "list_all (\<lambda>c. \<not> is_space c) s \<Longrightarrow> trim_space s = s"
  by (simp add: trim_space_def dropWhile_none list_all_rev)

lemma plain_segs:
  assumes "list_all file_seg ws" "ws \<noteq> []" "length ws \<le> 2"
  shows "plain_name (join ''/'' ws)"
proof -
  have ok: "list_all seg_ok ws" using assms(1) file_seg_ok by (auto simp: list_all_iff)
  have chars: "\<forall>w \<in> set ws. CHR ''/'' \<notin> set w \<and> CHR 0x0A \<notin> set w \<and> list_all (\<lambda>c. \<not> is_space c) w"
    using assms(1) name_chars_not by (auto simp: list_all_iff file_seg_def)
  consider w where "ws = [w]" | d w where "ws = [d, w]"
    using assms(2,3) by (cases ws; cases "tl ws") (auto simp: neq_Nil_conv)
  then show ?thesis
  proof cases
    case 1
    then show ?thesis
      using path_clean_segs[OF ok assms(2)] not_escapes_segs[OF ok assms(2)] chars trim_space_none[of w] assms(1) name_start_not[of "hd w"]
      by (cases w) (auto simp: plain_name_def file_seg_def has_prefix_def)
  next
    case 2
    have "list_all (\<lambda>c. \<not> is_space c) (d @ ''/'' @ w)" using chars 2 by (simp add: is_space_def)
    then show ?thesis
      using path_clean_segs[OF ok assms(2)] not_escapes_segs[OF ok assms(2)] chars trim_space_none[of "d @ ''/'' @ w"] assms(1) name_start_not[of "hd d"] 2
      by (cases d) (auto simp: plain_name_def file_seg_def has_prefix_def)
  qed
qed

lemma certName_file_seg: "certName n \<Longrightarrow> list_all name_char ext \<Longrightarrow> file_seg (n @ ext)"
  by (cases n) (auto simp: certName_def file_seg_def name_char_def list_all_iff)

lemma fleetSubdir_file_seg:
  assumes "fleetSubdir d"
  shows "file_seg d"
proof -
  have "slug_char c \<Longrightarrow> name_start c" for c by (auto simp: slug_char_def name_start_def)
  then show ?thesis using assms by (cases d) (auto simp: fleetSubdir_def file_seg_def name_char_def list_all_iff)
qed

lemma extensions: "list_all name_char ''.crt''" "list_all name_char ''.key''" "file_seg ''ca-bundle.crt''" "file_seg ''tls.yml''"
  by (simp_all add: name_char_def name_start_def file_seg_def)

section \<open>Whose keys\<close>

text \<open>A certificate a delivery to a cluster may carry, and what one file of it holds.\<close>

definition carries :: "cdb \<Rightarrow> ident \<Rightarrow> delivery_cert list \<Rightarrow> certificate \<Rightarrow> bool" where
  "carries s env dcs c \<longleftrightarrow> (\<exists>dc \<in> set dcs. CertificateByID s (dc_cert_id dc) = Some c) \<and> (ce_env_id c = [] \<or> ce_env_id c = env)"

definition file_of :: "crypto \<Rightarrow> certificate \<Rightarrow> string \<Rightarrow> string \<Rightarrow> string \<Rightarrow> bool" where
  "file_of y c prefix n x \<longleftrightarrow>
     n = prefix @ ce_name c @ ''.crt'' \<and> x = full_chain c \<or> n = prefix @ ce_name c @ ''.key'' \<and> cy_open y (ce_key_enc c) = Some x"

lemma carried_files_Inr:
  "carried_files y s env dcs files carried dflt = Inr (fs, ca, df) \<Longrightarrow>
     (gmap_ok files \<longrightarrow> gmap_ok fs) \<and>
     (\<forall>n x. map_of fs n = Some x \<longrightarrow> map_of files n = Some x \<or> (\<exists>c. carries s env dcs c \<and> file_of y c [] n x))"
proof (induction dcs arbitrary: files carried dflt)
  case Nil
  then show ?case by simp
next
  case (Cons dc dcs)
  obtain c key where c: "CertificateByID s (dc_cert_id dc) = Some c" "ce_env_id c = [] \<or> ce_env_id c = env" "cy_open y (ce_key_enc c) = Some key"
    using Cons.prems by (auto split: option.split_asm if_split_asm)
  let ?files = "gput (gput files (ce_name c @ ''.crt'') (full_chain c)) (ce_name c @ ''.key'') key"
  have r: "carried_files y s env dcs ?files (carried @ [ce_name c]) (if dc_is_default dc then ce_name c else dflt) = Inr (fs, ca, df)"
    using Cons.prems c by (simp split: if_split_asm)
  have here: "carries s env (dc # dcs) c" and there: "\<And>q. carries s env dcs q \<Longrightarrow> carries s env (dc # dcs) q"
    using c(1,2) by (auto simp: carries_def)
  have "map_of ?files n = Some x \<Longrightarrow> map_of files n = Some x \<or> file_of y c [] n x" for n x
    using c(3) by (auto simp: map_of_gput file_of_def split: if_split_asm)
  then show ?case using Cons.IH[OF r] here there gmap_ok_gput by (metis (no_types, lifting))
qed

definition key_name :: "string \<Rightarrow> bool" where
  "key_name n \<longleftrightarrow> has_suffix n ''.key''"

lemma key_name_simps: "key_name (b @ ''.key'')" "\<not> key_name (b @ ''.crt'')" "\<not> key_name ''ca-bundle.crt''" "\<not> key_name ''tls.yml''"
  by (simp_all add: key_name_def has_suffix_def has_prefix_def)

lemma deliveryFiles_Inr:
  assumes "deliveryFiles y s d now = Inr (files, hash)"
  shows "gmap_ok files" "hash = cy_digest y (delivery_text files (dl_uid d) (dl_gid d))"
    "map_of files n = Some x \<Longrightarrow> n = ''ca-bundle.crt'' \<or> n = ''tls.yml'' \<or> (\<exists>c. carries s (dl_env_id d) (dl_certs d) c \<and> file_of y c [] n x)"
proof -
  obtain b fs ca df where b: "carried_files y s (dl_env_id d) (dl_certs d) (if b \<noteq> [] then [(''ca-bundle.crt'', b)] else []) [] [] = Inr (fs, ca, df)"
    and f: "files = (if dl_traefik d \<and> ca \<noteq> [] then gput fs ''tls.yml'' (traefikFragment (dl_mount_path d) ca df) else fs)"
    and h: "hash = cy_digest y (delivery_text files (dl_uid d) (dl_gid d))"
    using assms by (auto simp: deliveryFiles_def Let_def split: option.split_asm sum.split_asm prod.split_asm)
  note c = carried_files_Inr[OF b]
  show "hash = cy_digest y (delivery_text files (dl_uid d) (dl_gid d))" by (fact h)
  have "gmap_ok (if b \<noteq> [] then [(''ca-bundle.crt'', b)] else [])" by (simp add: gmap_ok_def)
  then show "gmap_ok files" using c f by simp
  show "n = ''ca-bundle.crt'' \<or> n = ''tls.yml'' \<or> (\<exists>c. carries s (dl_env_id d) (dl_certs d) c \<and> file_of y c [] n x)" if "map_of files n = Some x"
  proof (cases "n = ''tls.yml''")
    case False
    then have "map_of fs n = Some x" using that f by (auto simp: map_of_gput split: if_split_asm)
    then show ?thesis using c by (auto split: if_split_asm)
  qed simp
qed

text \<open>C26: material stays in its cluster. Whatever a certificate delivery writes under the name of a key is
  the opened key of a certificate the delivery carries, and that certificate is either shared or belongs
  to the cluster of the delivery.\<close>

theorem keys_stay_in_their_cluster:
  assumes "deliveryFiles y s d now = Inr (files, hash)" "map_of files n = Some x" "has_suffix n ''.key''"
  shows "\<exists>c dc. dc \<in> set (dl_certs d) \<and> CertificateByID s (dc_cert_id dc) = Some c \<and> (ce_env_id c = [] \<or> ce_env_id c = dl_env_id d) \<and>
    n = ce_name c @ ''.key'' \<and> cy_open y (ce_key_enc c) = Some x"
proof -
  have k: "key_name n" using assms(3) by (simp add: key_name_def)
  then obtain c where "carries s (dl_env_id d) (dl_certs d) c" "file_of y c [] n x"
    using deliveryFiles_Inr(3)[OF assms(1,2)] key_name_simps by auto
  then show ?thesis using k key_name_simps by (auto simp: carries_def file_of_def)
qed

section \<open>The writers\<close>

text \<open>What holds of the stored certificates: names that can be files, which every handler that creates one checks.\<close>

definition names_ok :: "cdb \<Rightarrow> bool" where
  "names_ok s \<longleftrightarrow> list_all (\<lambda>c. certName (ce_name c)) (cd_certificates s)"

lemma first_row_Some: "first_row p rs = Some r \<Longrightarrow> r \<in> set rs \<and> p r"
  by (auto simp: first_row_def split: list.split_asm dest: filter_eq_ConsD)

lemma names_okD: "names_ok s \<Longrightarrow> CertificateByID s i = Some c \<Longrightarrow> certName (ce_name c)"
  by (auto simp: names_ok_def CertificateByID_def list_all_iff dest: first_row_Some)

lemma fleet_certs_Inr:
  "fleet_certs y s prefix is seen derived files = Inr (dv, fs) \<Longrightarrow>
     (gmap_ok files \<longrightarrow> gmap_ok fs) \<and>
     (\<forall>n x. map_of fs n = Some x \<longrightarrow> map_of files n = Some x \<or> (\<exists>i c. i \<in> set is \<and> CertificateByID s i = Some c \<and> file_of y c prefix n x))"
proof (induction "is" arbitrary: seen derived files)
  case Nil
  then show ?case by simp
next
  case (Cons i "is")
  obtain c key where c: "CertificateByID s i = Some c" "cy_open y (ce_key_enc c) = Some key"
    using Cons.prems by (auto split: option.split_asm if_split_asm)
  let ?files = "gput (gput files (prefix @ ce_name c @ ''.crt'') (full_chain c)) (prefix @ ce_name c @ ''.key'') key"
  have r: "fleet_certs y s prefix is (ce_name c # seen) (if ce_ca_id c \<noteq> [] then ce_ca_id c # derived else derived) ?files = Inr (dv, fs)"
    using Cons.prems c by (simp split: if_split_asm)
  have "map_of ?files n = Some x \<Longrightarrow> map_of files n = Some x \<or> file_of y c prefix n x" for n x
    using c(2) by (auto simp: map_of_gput file_of_def split: if_split_asm)
  then show ?case using Cons.IH[OF r] c(1) gmap_ok_gput by (metis (no_types, lifting) list.set_intros)
qed

text \<open>A file of one group of a fleet delivery.\<close>

definition group_file :: "crypto \<Rightarrow> cdb \<Rightarrow> fleet_group \<Rightarrow> string \<Rightarrow> string \<Rightarrow> bool" where
  "group_file y s g n x \<longleftrightarrow> (fg_subdir g = [] \<or> fleetSubdir (fg_subdir g)) \<and>
     (n = group_prefix g @ ''ca-bundle.crt'' \<or>
      (\<exists>i c. i \<in> set (fg_cert_ids g) \<and> CertificateByID s i = Some c \<and> file_of y c (group_prefix g) n x))"

lemma fleet_files_Inr:
  "fleet_files y s now gs files = Inr fs \<Longrightarrow>
     (gmap_ok files \<longrightarrow> gmap_ok fs) \<and>
     (\<forall>n x. map_of fs n = Some x \<longrightarrow> map_of files n = Some x \<or> (\<exists>g \<in> set gs. group_file y s g n x))"
proof (induction gs arbitrary: files)
  case Nil
  then show ?case by simp
next
  case (Cons g gs)
  obtain dv f1 where dir: "fg_subdir g = [] \<or> fleetSubdir (fg_subdir g)"
    and c: "fleet_certs y s (group_prefix g) (fg_cert_ids g) [] [] files = Inr (dv, f1)"
    using Cons.prems by (auto split: if_split_asm sum.split_asm)
  obtain f2 where f2: "fleet_files y s now gs f2 = Inr fs" and two: "f2 = f1 \<or> (\<exists>b. f2 = gput f1 (group_prefix g @ ''ca-bundle.crt'') b)"
    using Cons.prems dir c by (auto simp: Let_def split: if_split_asm option.split_asm)
  note one = fleet_certs_Inr[OF c]
  have "gmap_ok files \<longrightarrow> gmap_ok f2" using one two by auto
  moreover have "map_of files n = Some x \<or> group_file y s g n x" if "map_of f2 n = Some x" for n x
  proof -
    have "n = group_prefix g @ ''ca-bundle.crt'' \<or> map_of f1 n = Some x" using that two by (auto simp: map_of_gput split: if_split_asm)
    then show ?thesis using one dir unfolding group_file_def by blast
  qed
  ultimately show ?case using Cons.IH[OF f2] by (metis list.set_intros)
qed

lemma group_file_plain:
  assumes "group_file y s g n x" "names_ok s"
  shows "plain_name n" "n \<noteq> ManifestFleet" "n \<noteq> ManifestCerts"
proof -
  obtain e where e: "file_seg e" "n = group_prefix g @ e" and d: "fg_subdir g = [] \<or> fleetSubdir (fg_subdir g)"
  proof (cases "n = group_prefix g @ ''ca-bundle.crt''")
    case True
    then show ?thesis using that[of "''ca-bundle.crt''"] extensions(3) assms(1) by (auto simp: group_file_def)
  next
    case False
    then obtain c i where c: "CertificateByID s i = Some c" "file_of y c (group_prefix g) n x" and dir: "fg_subdir g = [] \<or> fleetSubdir (fg_subdir g)"
      using assms(1) by (auto simp: group_file_def)
    have "file_seg (ce_name c @ ''.crt'')" "file_seg (ce_name c @ ''.key'')"
      using certName_file_seg[OF names_okD[OF assms(2) c(1)]] extensions by blast+
    then show ?thesis using that c(2) dir by (auto simp: file_of_def)
  qed
  have h: "name_start (hd n)"
    using e d fleetSubdir_file_seg by (auto simp: group_prefix_def file_seg_def hd_append)
  show "n \<noteq> ManifestFleet" "n \<noteq> ManifestCerts" using name_start_not[OF h] by (auto simp: ManifestFleet_def ManifestCerts_def)
  show "plain_name n"
  proof (cases "fg_subdir g = []")
    case True
    then show ?thesis using plain_segs[of "[e]"] e by (simp add: group_prefix_def)
  next
    case False
    then show ?thesis using plain_segs[of "[fg_subdir g, e]"] e d fleetSubdir_file_seg by (simp add: group_prefix_def)
  qed
qed

lemma delivery_vfiles_names: "map vf_name (delivery_vfiles files) = map fst (sort_key fst files)"
  by (simp add: delivery_vfiles_def comp_def case_prod_beta)

lemma delivery_vfiles_set: "vf_name ` set (delivery_vfiles files) = fst ` set files"
  by (force simp: delivery_vfiles_def)

lemma sorted_names_distinct: "gmap_ok files \<Longrightarrow> distinct (map fst (sort_key fst files))"
  by (metis distinct_map distinct_sort gmap_ok_def set_sort)

lemma delivery_manifest_lists:
  assumes "\<forall>n \<in> fst ` set files. plain_name n" "CHR 0x0A \<notin> set hash"
  shows "set (ParseManifest (delivery_manifest hash files)) = fst ` set files"
  unfolding delivery_manifest_def using ParseManifest_Manifest[of "map fst (sort_key fst files)" "[]" hash] assms by simp

type_synonym cert_round = "crypto \<times> cdb \<times> cert_delivery \<times> int"

type_synonym fleet_round = "crypto \<times> cdb \<times> fleet_delivery \<times> int"

definition cert_payload :: "cert_round \<Rightarrow> (string \<times> string) list \<times> string" where
  "cert_payload = (\<lambda>(y, s, d, now). case deliveryFiles y s d now of Inl e \<Rightarrow> ([], []) | Inr p \<Rightarrow> p)"

definition cert_ok :: "cert_round \<Rightarrow> bool" where
  "cert_ok = (\<lambda>(y, s, d, now). names_ok s \<and> (\<exists>files hash. deliveryFiles y s d now = Inr (files, hash) \<and> CHR 0x0A \<notin> set hash))"

definition fleet_payload :: "fleet_round \<Rightarrow> (string \<times> string) list \<times> string" where
  "fleet_payload = (\<lambda>(y, s, d, now). case fleetDeliveryFiles y s d now of Inl e \<Rightarrow> ([], []) | Inr p \<Rightarrow> p)"

definition fleet_ok :: "fleet_round \<Rightarrow> bool" where
  "fleet_ok = (\<lambda>(y, s, d, now). names_ok s \<and> (\<exists>files hash. fleetDeliveryFiles y s d now = Inr (files, hash) \<and> CHR 0x0A \<notin> set hash))"

lemma cert_ok_names:
  assumes "cert_ok r"
  shows "gmap_ok (fst (cert_payload r))" "\<forall>n \<in> fst ` set (fst (cert_payload r)). plain_name n \<and> n \<noteq> ManifestCerts" "CHR 0x0A \<notin> set (snd (cert_payload r))"
proof -
  obtain y s d now files hash where r: "r = (y, s, d, now)" "names_ok s" "deliveryFiles y s d now = Inr (files, hash)" "CHR 0x0A \<notin> set hash"
    using assms by (cases r) (auto simp: cert_ok_def)
  note f = deliveryFiles_Inr[OF r(3)]
  show "gmap_ok (fst (cert_payload r))" "CHR 0x0A \<notin> set (snd (cert_payload r))" using f(1) r by (simp_all add: cert_payload_def)
  have "file_seg n" if nx: "(n, x) \<in> set files" for n x
  proof -
    have "map_of files n = Some x" using nx f(1) by (simp add: gmap_ok_def)
    then consider "n = ''ca-bundle.crt''" | "n = ''tls.yml''" | c where "carries s (dl_env_id d) (dl_certs d) c" "file_of y c [] n x"
      using f(3) by blast
    then show ?thesis
    proof cases
      case 3
      then have "certName (ce_name c)" using names_okD[OF r(2)] by (auto simp: carries_def)
      then show ?thesis using 3(2) certName_file_seg extensions by (auto simp: file_of_def)
    qed (simp_all add: extensions)
  qed
  moreover have "plain_name n \<and> n \<noteq> ManifestCerts" if "file_seg n" for n
    using plain_segs[of "[n]"] that name_start_not[of "hd n"] by (auto simp: file_seg_def ManifestCerts_def)
  ultimately show "\<forall>n \<in> fst ` set (fst (cert_payload r)). plain_name n \<and> n \<noteq> ManifestCerts" using r by (auto simp: cert_payload_def)
qed

lemma fleet_ok_names:
  assumes "fleet_ok r"
  shows "gmap_ok (fst (fleet_payload r))" "\<forall>n \<in> fst ` set (fst (fleet_payload r)). plain_name n \<and> n \<noteq> ManifestFleet" "CHR 0x0A \<notin> set (snd (fleet_payload r))"
proof -
  obtain y s d now files hash where r: "r = (y, s, d, now)" "names_ok s" "fleetDeliveryFiles y s d now = Inr (files, hash)" "CHR 0x0A \<notin> set hash"
    using assms by (cases r) (auto simp: fleet_ok_def)
  have ff: "fleet_files y s now (fl_groups d) [] = Inr files" using r(3) by (simp add: fleetDeliveryFiles_def split: sum.split_asm)
  note f = fleet_files_Inr[OF ff]
  show g: "gmap_ok (fst (fleet_payload r))" and "CHR 0x0A \<notin> set (snd (fleet_payload r))" using f r by (simp_all add: fleet_payload_def)
  have p: "fst (fleet_payload r) = files" using r by (simp add: fleet_payload_def)
  have "plain_name n \<and> n \<noteq> ManifestFleet" if "(n, x) \<in> set files" for n x
  proof -
    have "map_of files n = Some x" using that g p by (simp add: gmap_ok_def)
    then obtain grp where "group_file y s grp n x" using f by auto
    then show ?thesis using group_file_plain[OF _ r(2)] by blast
  qed
  then show "\<forall>n \<in> fst ` set (fst (fleet_payload r)). plain_name n \<and> n \<noteq> ManifestFleet" unfolding p by auto
qed

interpretation cert_writer: mirrored ManifestCerts "\<lambda>r. delivery_vfiles (fst (cert_payload r))"
  "\<lambda>r. delivery_manifest (snd (cert_payload r)) (fst (cert_payload r))" cert_ok
proof
  fix r f assume r: "cert_ok r"
  note n = cert_ok_names[OF r]
  show "distinct (map vf_name (delivery_vfiles (fst (cert_payload r))))" using sorted_names_distinct[OF n(1)] by (simp only: delivery_vfiles_names)
  show "ManifestCerts \<notin> vf_name ` set (delivery_vfiles (fst (cert_payload r)))" using n(2) by (auto simp: delivery_vfiles_set)
  show "set (ParseManifest (delivery_manifest (snd (cert_payload r)) (fst (cert_payload r)))) = vf_name ` set (delivery_vfiles (fst (cert_payload r)))"
    unfolding delivery_vfiles_set using n by (intro delivery_manifest_lists) auto
  assume "f \<in> set (delivery_vfiles (fst (cert_payload r)))"
  then show "plain_name (vf_name f)" using n(2) delivery_vfiles_set[of "fst (cert_payload r)"] by blast
qed

interpretation fleet_writer: mirrored ManifestFleet "\<lambda>r. delivery_vfiles (fst (fleet_payload r))"
  "\<lambda>r. delivery_manifest (snd (fleet_payload r)) (fst (fleet_payload r))" fleet_ok
proof
  fix r f assume r: "fleet_ok r"
  note n = fleet_ok_names[OF r]
  show "distinct (map vf_name (delivery_vfiles (fst (fleet_payload r))))" using sorted_names_distinct[OF n(1)] by (simp only: delivery_vfiles_names)
  show "ManifestFleet \<notin> vf_name ` set (delivery_vfiles (fst (fleet_payload r)))" using n(2) by (auto simp: delivery_vfiles_set)
  show "set (ParseManifest (delivery_manifest (snd (fleet_payload r)) (fst (fleet_payload r)))) = vf_name ` set (delivery_vfiles (fst (fleet_payload r)))"
    unfolding delivery_vfiles_set using n by (intro delivery_manifest_lists) auto
  assume "f \<in> set (delivery_vfiles (fst (fleet_payload r)))"
  then show "plain_name (vf_name f)" using n(2) delivery_vfiles_set[of "fst (fleet_payload r)"] by blast
qed

section \<open>Rounds over a cluster\<close>

lemma mirror_nodes_ok:
  "mirror_nodes mname v man files uid gid t ons = ([], ns') \<Longrightarrow>
     list_all2 (\<lambda>(ou, n) n'. mirror_node mname v man files uid gid t ou n = (None, n')) ons ns'"
  by (induction mname v man files uid gid t ons arbitrary: ns' rule: mirror_nodes.induct)
    (auto split: prod.split_asm option.split_asm)

lemma mirror_env_ok:
  assumes "mirror_env mname fate envs env v man files uid gid t = (None, envs')" "map_of envs env = Some ns"
  obtains ns' where "map_of envs' env = Some ns'" "length ns' = length ns"
    "\<And>i. i < length ns \<Longrightarrow> mirror_node mname v man files uid gid t (fate (vn_name (ns ! i))) (ns ! i) = (None, ns' ! i)"
proof -
  obtain ns' where m: "mirror_nodes mname v man files uid gid t (map (\<lambda>n. (fate (vn_name n), n)) ns) = ([], ns')" "envs' = gput envs env ns'"
    using assms by (auto simp: mirror_env_def split: prod.split_asm if_split_asm)
  note l = mirror_nodes_ok[OF m(1)]
  show ?thesis
  proof (rule that)
    show "map_of envs' env = Some ns'" using m(2) by (simp add: map_of_gput)
    show "length ns' = length ns" using list_all2_lengthD[OF l] by simp
    show "mirror_node mname v man files uid gid t (fate (vn_name (ns ! i))) (ns ! i) = (None, ns' ! i)" if "i < length ns" for i
      using list_all2_nthD[OF l, of i] that by simp
  qed
qed

lemma map_of_map_keyed: "map_of (map (\<lambda>p. (fst p, g p)) l) k = map_option (\<lambda>x. g (k, x)) (map_of l k)"
  by (induction l) auto

lemma wanted_delivery:
  assumes "gmap_ok files"
  shows "wanted (delivery_vfiles files) uid gid k = map_option (\<lambda>x. \<lparr>sf_data = x, sf_mode = key_mode k, sf_uid = uid, sf_gid = gid\<rparr>) (map_of files k)"
proof -
  let ?g = "\<lambda>(n, x). \<lparr>sf_data = x, sf_mode = key_mode n, sf_uid = uid, sf_gid = gid\<rparr>"
  have "map (\<lambda>f. (vf_name f, as_stored uid gid f)) (delivery_vfiles files) = map (\<lambda>p. (fst p, ?g p)) (sort_key fst files)"
    by (auto simp: delivery_vfiles_def as_stored_def key_mode_def split: if_split_asm)
  moreover have "map_of (sort_key fst files) = map_of files"
    using assms sorted_names_distinct[OF assms] by (intro map_of_inject_set[THEN iffD2]) (simp_all add: gmap_ok_def)
  ultimately show ?thesis by (simp add: wanted_def map_of_map_keyed)
qed

lemma syncCertDelivery_round:
  assumes "syncCertDelivery y fate s d now = ((h, None), s')" "deliveryFiles y (cs_db s) d now = Inr (files, h)"
    and "h \<noteq> dl_synced_hash d \<or> dl_status d \<noteq> ''ok''" "map_of (cs_nodes s) (dl_env_id d) = Some ns"
  obtains ns' where "map_of (cs_nodes s') (dl_env_id d) = Some ns'" "length ns' = length ns" "cs_db s' = cs_db s"
    "\<And>i. i < length ns \<Longrightarrow> mirror_node ManifestCerts (dl_volume d) (delivery_manifest h files) (delivery_vfiles files)
        (dl_uid d) (dl_gid d) (dl_restart_targets d) (fate (vn_name (ns ! i))) (ns ! i) = (None, ns' ! i)"
proof -
  let ?m = "mirror_env ManifestCerts fate (cs_nodes s) (dl_env_id d) (dl_volume d) (delivery_manifest h files) (delivery_vfiles files)
      (dl_uid d) (dl_gid d) (dl_restart_targets d)"
  have "syncCertDelivery y fate s d now = ((h, fst ?m), s\<lparr>cs_nodes := snd ?m\<rparr>)"
    unfolding syncCertDelivery_def assms(2) using assms(3) by (auto simp: case_prod_beta)
  then have m: "?m = (None, snd ?m)" "s' = s\<lparr>cs_nodes := snd ?m\<rparr>" using assms(1) by (auto simp: prod_eq_iff)
  show ?thesis by (rule mirror_env_ok[OF m(1) assms(4)]) (rule that, use m(2) in simp_all)
qed

text \<open>C25: a delivery leaves exactly what it carries. Take two rounds of a certificate delivery that really
  write and both succeed, with anything in between that leaves its files alone. On every node of the
  cluster the second round has put every file it carries, with its content and its mode, has removed every
  file the first round had written that it does not carry any more, keys above all, and has changed
  nothing else.\<close>

theorem delivery_leaves_what_it_carries:
  assumes "syncCertDelivery y fate s0 d now = ((h, None), s1)" "deliveryFiles y (cs_db s0) d now = Inr (files, h)"
    and "h \<noteq> dl_synced_hash d \<or> dl_status d \<noteq> ''ok''"
    and "syncCertDelivery y fate' s2 d' now' = ((h', None), s3)" "deliveryFiles y (cs_db s2) d' now' = Inr (files', h')"
    and "h' \<noteq> dl_synced_hash d' \<or> dl_status d' \<noteq> ''ok''"
    and "dl_env_id d = env" "dl_env_id d' = env" "dl_volume d = v" "dl_volume d' = v"
    and "names_ok (cs_db s0)" "names_ok (cs_db s2)" "\<forall>t. CHR 0x0A \<notin> set (cy_digest y t)"
    and "map_of (cs_nodes s0) env = Some ns0" "\<forall>n \<in> set ns0. \<forall>x \<in> set (listed n v ManifestCerts). plain_name x"
    and "map_of (cs_nodes s1) env = Some ns1" "map_of (cs_nodes s2) env = Some ns2" "length ns2 = length ns1"
    and "\<forall>i < length ns1. \<forall>k. k = ManifestCerts \<or> k \<in> fst ` set files \<longrightarrow> file_at (ns2 ! i) v k = file_at (ns1 ! i) v k"
    and "i < length ns1"
  shows "\<exists>ns3. map_of (cs_nodes s3) env = Some ns3 \<and> length ns3 = length ns2 \<and>
    file_at (ns3 ! i) v k =
      (if k = ManifestCerts then Some \<lparr>sf_data = delivery_manifest h' files', sf_mode = defaultMode, sf_uid = dl_uid d', sf_gid = dl_gid d'\<rparr>
       else case map_of files' k of
         Some x \<Rightarrow> Some \<lparr>sf_data = x, sf_mode = key_mode k, sf_uid = dl_uid d', sf_gid = dl_gid d'\<rparr>
       | None \<Rightarrow> if k \<in> fst ` set files then None else file_at (ns2 ! i) v k)"
proof -
  let ?r = "(y, cs_db s0, d, now)" and ?r' = "(y, cs_db s2, d', now')"
  have h: "CHR 0x0A \<notin> set h" "CHR 0x0A \<notin> set h'" using deliveryFiles_Inr(2)[OF assms(2)] deliveryFiles_Inr(2)[OF assms(5)] assms(13) by simp_all
  have ok: "cert_ok ?r" "cert_ok ?r'" using assms(2,5,11,12) h by (auto simp: cert_ok_def)
  have p: "cert_payload ?r = (files, h)" "cert_payload ?r' = (files', h')" using assms(2,5) by (simp_all add: cert_payload_def)
  obtain ns1' where one: "map_of (cs_nodes s1) env = Some ns1'" "length ns1' = length ns0"
    "\<And>i. i < length ns0 \<Longrightarrow> mirror_node ManifestCerts v (delivery_manifest h files) (delivery_vfiles files)
        (dl_uid d) (dl_gid d) (dl_restart_targets d) (fate (vn_name (ns0 ! i))) (ns0 ! i) = (None, ns1' ! i)"
    using syncCertDelivery_round[OF assms(1-3), unfolded assms(7,9), OF assms(14)] by metis
  obtain ns3 where two: "map_of (cs_nodes s3) env = Some ns3" "length ns3 = length ns2"
    "\<And>i. i < length ns2 \<Longrightarrow> mirror_node ManifestCerts v (delivery_manifest h' files') (delivery_vfiles files')
        (dl_uid d') (dl_gid d') (dl_restart_targets d') (fate' (vn_name (ns2 ! i))) (ns2 ! i) = (None, ns3 ! i)"
    using syncCertDelivery_round[OF assms(4-6), unfolded assms(8,10), OF assms(17)] by metis
  have ns1: "ns1' = ns1" using one(1) assms(16) by simp
  have i: "i < length ns0" "i < length ns2" using assms(18,20) one(2) ns1 by simp_all
  have plain0: "\<forall>x \<in> set (listed (ns0 ! i) v ManifestCerts). plain_name x" using assms(15) nth_mem[OF i(1)] by blast
  have frame: "\<forall>k. k = ManifestCerts \<or> k \<in> vf_name ` set (delivery_vfiles (fst (cert_payload ?r))) \<longrightarrow> file_at (ns2 ! i) v k = file_at (ns1 ! i) v k"
    using assms(19,20) unfolding p delivery_vfiles_set by simp
  have "file_at (ns3 ! i) v k =
    (if k = ManifestCerts then Some \<lparr>sf_data = delivery_manifest h' files', sf_mode = defaultMode, sf_uid = dl_uid d', sf_gid = dl_gid d'\<rparr>
     else case wanted (delivery_vfiles files') (dl_uid d') (dl_gid d') k of
       Some f \<Rightarrow> Some f
     | None \<Rightarrow> if k \<in> vf_name ` set (delivery_vfiles files) then None else file_at (ns2 ! i) v k)"
    using cert_writer.two_rounds[OF _ ok(1) plain0 frame _ ok(2), unfolded p fst_conv snd_conv, OF one(3)[OF i(1), unfolded ns1] two(3)[OF i(2)]] .
  then show ?thesis
    using two(1,2) by (auto simp: wanted_delivery[OF deliveryFiles_Inr(1)[OF assms(5)]] delivery_vfiles_set split: option.split)
qed

section \<open>A cluster with three certificates\<close>

definition plain_crypto :: crypto where
  "plain_crypto = \<lparr>cy_open = Some, cy_digest = (\<lambda>t. take 3 (filter (\<lambda>c. c \<noteq> CHR 0x0A) t)), cy_reencode = Some\<rparr>"

definition a_cert :: "ident \<Rightarrow> string \<Rightarrow> certificate" where
  "a_cert i name = \<lparr>ce_id = i, ce_name = name, ce_env_id = ''e1'', ce_ca_id = [], ce_cert_pem = ''PEM'', ce_chain_pem = [], ce_key_enc = ''KEY''\<rparr>"

definition bare_node :: "string \<Rightarrow> node" where
  "bare_node name = \<lparr>vn_name = name, vn_volumes = [], vn_restarted = []\<rparr>"

definition edge :: csite where
  "edge = \<lparr>cs_db = \<lparr>cd_authorities = [], cd_certificates = [a_cert ''c1'' ''web'', a_cert ''c2'' ''api'', a_cert ''c3'' ''old''], cd_deliveries = [],
       cd_fleet = [], cd_environments = [''e1'']\<rparr>, cs_nodes = [(''e1'', [bare_node ''n1''])]\<rparr>"

definition asks_for :: "string \<Rightarrow> ident \<Rightarrow> delivery_request" where
  "asks_for volume cert = \<lparr>dr_env_id = ''e1'', dr_certs = [\<lparr>dc_cert_id = cert, dc_is_default = False\<rparr>], dr_volume = volume, dr_mount_path = ''/c'',
     dr_uid = 0, dr_gid = 0, dr_traefik = False, dr_restart_targets = [], dr_bundle_cas = []\<rparr>"

definition fine :: "string \<Rightarrow> outage" where
  "fine n = healthy"

definition to_certs :: "ident \<Rightarrow> cert_delivery" where
  "to_certs cert = new_delivery (asks_for ''certs'' cert) [\<lparr>dc_cert_id = cert, dc_is_default = False\<rparr>] ''/c'' ''ann''"

definition web_files :: "(string \<times> string) list" where
  "web_files = [(''web.crt'', ''PEM''), (''web.key'', ''KEY'')]"

definition api_files :: "(string \<times> string) list" where
  "api_files = [(''api.crt'', ''PEM''), (''api.key'', ''KEY'')]"

lemma web_delivery_files: "\<exists>h. deliveryFiles plain_crypto (cs_db edge) (to_certs ''c1'') 0 = Inr (web_files, h)"
proof -
  have "case_sum (\<lambda>e. False) (\<lambda>(f, h). f = web_files) (deliveryFiles plain_crypto (cs_db edge) (to_certs ''c1'') 0)" by code_simp
  then show ?thesis by (auto split: sum.split_asm)
qed

theorem keys_stay_in_their_cluster_witness:
  "\<exists>c dc. dc \<in> set (dl_certs (to_certs ''c1'')) \<and> CertificateByID (cs_db edge) (dc_cert_id dc) = Some c \<and> (ce_env_id c = [] \<or> ce_env_id c = ''e1'') \<and>
    ''web.key'' = ce_name c @ ''.key'' \<and> cy_open plain_crypto (ce_key_enc c) = Some ''KEY''"
proof -
  obtain h where "deliveryFiles plain_crypto (cs_db edge) (to_certs ''c1'') 0 = Inr (web_files, h)" using web_delivery_files by blast
  moreover have "map_of web_files ''web.key'' = Some ''KEY''" "has_suffix ''web.key'' ''.key''" "dl_env_id (to_certs ''c1'') = ''e1''" by code_simp+
  ultimately show ?thesis using keys_stay_in_their_cluster[of plain_crypto "cs_db edge" "to_certs ''c1''" 0 web_files h "''web.key''" "''KEY''"] by simp
qed

definition first_sync :: "(string \<times> delivery_error option) \<times> csite" where
  "first_sync = syncCertDelivery plain_crypto fine edge (to_certs ''c1'') 0"

definition second_sync :: "(string \<times> delivery_error option) \<times> csite" where
  "second_sync = syncCertDelivery plain_crypto fine (snd first_sync) (to_certs ''c2'') 1"

definition nodes_of :: "csite \<Rightarrow> node list" where
  "nodes_of s = (case map_of (cs_nodes s) ''e1'' of None \<Rightarrow> [] | Some ns \<Rightarrow> ns)"

lemma two_syncs:
  "syncCertDelivery plain_crypto fine edge (to_certs ''c1'') 0 = ((fst (fst first_sync), None), snd first_sync)"
  "syncCertDelivery plain_crypto fine (snd first_sync) (to_certs ''c2'') 1 = ((fst (fst second_sync), None), snd second_sync)"
  "deliveryFiles plain_crypto (cs_db edge) (to_certs ''c1'') 0 = Inr (web_files, fst (fst first_sync))"
  "deliveryFiles plain_crypto (cs_db (snd first_sync)) (to_certs ''c2'') 1 = Inr (api_files, fst (fst second_sync))"
  "dl_status (to_certs ''c1'') \<noteq> ''ok''" "dl_status (to_certs ''c2'') \<noteq> ''ok''"
  "names_ok (cs_db edge)" "names_ok (cs_db (snd first_sync))" "map_of (cs_nodes edge) ''e1'' = Some [bare_node ''n1'']"
  "listed (bare_node ''n1'') ''certs'' ManifestCerts = []" "length (nodes_of (snd first_sync)) = 1"
  "map_of (cs_nodes (snd first_sync)) ''e1'' = Some (nodes_of (snd first_sync))"
  "map_of (cs_nodes (snd second_sync)) ''e1'' = Some (nodes_of (snd second_sync))"
  "dl_env_id (to_certs c) = ''e1''" "dl_volume (to_certs c) = ''certs''" "CHR 0x0A \<notin> set (cy_digest plain_crypto x)"
  by (code_simp, code_simp, code_simp, code_simp, code_simp, code_simp, code_simp, code_simp, code_simp, code_simp, code_simp, code_simp, code_simp)
     (auto simp: to_certs_def new_delivery_def asks_for_def plain_crypto_def dest: in_set_takeD)

theorem delivery_leaves_what_it_carries_witness:
  "file_at (nodes_of (snd first_sync) ! 0) ''certs'' ''web.key'' \<noteq> None \<and> file_at (nodes_of (snd second_sync) ! 0) ''certs'' ''web.key'' = None"
proof
  show "file_at (nodes_of (snd first_sync) ! 0) ''certs'' ''web.key'' \<noteq> None" by code_simp
  have k: "''web.key'' \<noteq> ManifestCerts" "map_of api_files ''web.key'' = None" "''web.key'' \<in> fst ` set web_files" by code_simp+
  show "file_at (nodes_of (snd second_sync) ! 0) ''certs'' ''web.key'' = None"
    using delivery_leaves_what_it_carries[OF two_syncs(1) two_syncs(3) _ two_syncs(2) two_syncs(4),
       of "''e1''" "''certs''" "[bare_node ''n1'']" "nodes_of (snd first_sync)" "nodes_of (snd first_sync)" 0 "''web.key''"]
      two_syncs k by simp
qed

end
