(* ===== verification/Mishaps.thy ===== *)
theory Mishaps
  imports Material
begin

text \<open>
  The ways in which the promises of the deliveries fail, each played through on a small cluster.
\<close>

section \<open>Rounds that end badly\<close>

definition rm_fails :: "string \<Rightarrow> outage" where
  "rm_fails n = healthy\<lparr>ou_remove := RemovedOnly 0\<rparr>"

definition on_node :: "csite \<Rightarrow> nat \<Rightarrow> string \<Rightarrow> string \<Rightarrow> bool" where
  "on_node s i volume name = (case map_of (cs_nodes s) ''e1'' of None \<Rightarrow> False | Some ns \<Rightarrow> file_at (ns ! i) volume name \<noteq> None)"

definition statuses :: "csite \<Rightarrow> string list" where
  "statuses s = map dl_status (cd_deliveries (cs_db s))"

definition web_delivered :: csite where
  "web_delivered = snd (handleCreateCertDelivery plain_crypto fine edge (asks_for ''certs'' ''c1'') ''ann'' ''1'' 0)"

definition api_delivered :: "delivery_reply \<times> csite" where
  "api_delivered = handleCreateCertDelivery plain_crypto fine web_delivered (asks_for ''certs'' ''c2'') ''ann'' ''2'' 1"

definition both_swept :: csite where
  "both_swept = resyncDeliveries plain_crypto fine (snd api_delivered) 2"

text \<open>Two deliveries to one volume delete each other's keys. Several deliveries without a Traefik
  fragment may share a volume, but they share its manifest too: the second one takes the files of the
  first for its own stale ones and removes them. Both are reported as delivered, and the sweep, which
  trusts the hashes, never puts the first one's key back.\<close>

lemma shared_volume_loses_keys:
  "on_node web_delivered 0 ''certs'' ''web.key'' \<and> fst api_delivered = Done \<and> statuses both_swept = [''ok'', ''ok''] \<and>
   on_node both_swept 0 ''certs'' ''api.key'' \<and> \<not> on_node both_swept 0 ''certs'' ''web.key''"
  by (intro conjI) code_simp+

definition api_interrupted :: csite where
  "api_interrupted = snd (handleUpdateCertDelivery plain_crypto rm_fails web_delivered ''dlv_1'' (asks_for ''certs'' ''c2'') 1)"

definition old_delivered :: csite where
  "old_delivered = snd (handleUpdateCertDelivery plain_crypto fine api_interrupted ''dlv_1'' (asks_for ''certs'' ''c3'') 2)"

text \<open>An interrupted round leaves a key behind. When the removal of stale files fails, the new files
  are in the volume but the old manifest stays. If the next round carries something else, it prunes what
  the old manifest lists and never learns of the files of the round in between: the delivery is in order
  again and the key of a certificate it no longer carries is still on the node.\<close>

lemma interrupted_round_strands_key:
  "statuses api_interrupted = [''error''] \<and> statuses old_delivered = [''ok''] \<and> on_node old_delivered 0 ''certs'' ''old.key'' \<and>
   \<not> on_node old_delivered 0 ''certs'' ''web.key'' \<and> on_node old_delivered 0 ''certs'' ''api.key''"
  by (intro conjI) code_simp+

definition node_joined :: csite where
  "node_joined = web_delivered\<lparr>cs_nodes := map (\<lambda>(e, ns). (e, ns @ [bare_node ''n2''])) (cs_nodes web_delivered)\<rparr>"

text \<open>A node that joins later is never filled. The hash says what was delivered, not where: a node
  that joins the cluster after a round gets nothing from any sweep until the content changes, and the
  delivery stays in order.\<close>

lemma late_node_stays_empty:
  "statuses (resyncDeliveries plain_crypto fine node_joined 1) = [''ok''] \<and>
   on_node (resyncDeliveries plain_crypto fine node_joined 1) 0 ''certs'' ''web.key'' \<and>
   \<not> on_node (resyncDeliveries plain_crypto fine node_joined 1) 1 ''certs'' ''web.key''"
  by (intro conjI) code_simp+

definition fleet_first :: "delivery_reply \<times> csite" where
  "fleet_first = handleCreateFleetDelivery plain_crypto fine edge \<lparr>fr_env_id = ''e1'', fr_volume = ''daffa-certs'', fr_uid = 0, fr_gid = 0,
     fr_restart_targets = [], fr_groups = [\<lparr>gq_subdir = [], gq_bundle_cas = [], gq_certs = [''c3'']\<rparr>]\<rparr> ''ann'' ''1'' 0"

text \<open>A request that leaves the volume out gets the default name after the check for a fleet delivery.\<close>

lemma default_volume_escapes_exclusivity:
  "fst fleet_first = Done \<and>
   fst (handleCreateCertDelivery plain_crypto fine (snd fleet_first) (asks_for ''daffa-certs'' ''c1'') ''ann'' ''2'' 1) = Conflict ''volume_taken'' \<and>
   fst (handleCreateCertDelivery plain_crypto fine (snd fleet_first) (asks_for [] ''c1'') ''ann'' ''2'' 1) = Done"
  by (intro conjI) code_simp+

text \<open>A certificate called \<^verbatim>\<open>ca-bundle\<close> takes the place of the trust bundle.\<close>

definition rooted :: "certificate list \<Rightarrow> cdb" where
  "rooted cs = (cs_db edge)\<lparr>cd_authorities := [\<lparr>ca_id = ''r'', ca_name = ''root'', ca_cert_pem = ''ROOT'', ca_status = ''active'',
     ca_rotates_id = [], ca_overlap_until = 0\<rparr>], cd_certificates := cs\<rparr>"

lemma certificate_named_ca_bundle:
  "map_option (\<lambda>(files, h). map_of files ''ca-bundle.crt'') (case deliveryFiles plain_crypto (rooted [a_cert ''c1'' ''ca-bundle''])
       (new_delivery (asks_for ''certs'' ''c1'') [\<lparr>dc_cert_id = ''c1'', dc_is_default = False\<rparr>] ''/certs'' ''ann'') 0 of Inl e \<Rightarrow> None | Inr p \<Rightarrow> Some p) =
     Some (Some ''PEM'')"
  by code_simp

definition consumer_node :: node where
  "consumer_node = \<lparr>vn_name = ''n'', vn_volumes = [(''v'', [(''acme.json'', \<lparr>sf_data = ''accounts'', sf_mode = 384, sf_uid = 0, sf_gid = 0\<rparr>)])], vn_restarted = []\<rparr>"

definition odd_name :: string where
  "odd_name = ''x'' @ nl @ ''acme.json''"

definition odd_round :: "node_error option \<times> node" where
  "odd_round = mirror_node ManifestName ''v'' (Manifest [] [] [odd_name]) [\<lparr>vf_name = odd_name, vf_data = [], vf_mode = 0\<rparr>] 0 0 [] healthy consumer_node"

definition next_round :: "node_error option \<times> node" where
  "next_round = mirror_node ManifestName ''v'' (Manifest [] [] [''y'']) [\<lparr>vf_name = ''y'', vf_data = [], vf_mode = 0\<rparr>] 0 0 [] healthy (snd odd_round)"

text \<open>A file whose name has a line break makes the next round remove a file of the consumer.\<close>

lemma line_break_prunes_more:
  "fst odd_round = None \<and> fst next_round = None \<and> file_at (snd odd_round) ''v'' ''acme.json'' \<noteq> None \<and> file_at (snd next_round) ''v'' ''acme.json'' = None"
  by (intro conjI) code_simp+

end
