(* ===== verification/Sources.thy ===== *)
theory Sources
  imports Deliveries Stacks
begin

text \<open>
  Volume sources: the rows of \<^verbatim>\<open>internal/store/volsources.go\<close> and \<^verbatim>\<open>internal/store/webhooks.go\<close>, the walk of a
  git subtree of \<^verbatim>\<open>internal/stacks/tree.go\<close>, the reconciler of \<^verbatim>\<open>internal/api/volsource_sync.go\<close> and the
  handlers of \<^verbatim>\<open>internal/api/volsource_handlers.go\<close>.

  The git server is a parameter: a clone gives the commit and, for a directory, the entries the walker
  meets there, names relative to the directory. The last delivery of a webhook is kept as the value its JSON
  column encodes. A warning is the name of the file it is about;
  \<^verbatim>\<open>last_error\<close> is reduced to whether there is one.
\<close>

section \<open>Rows\<close>

record delivery_result =
  vd_kind :: string
  vd_id :: ident
  vd_name :: string
  vd_env_id :: ident
  vd_status :: string
  vd_reason :: string
  vd_deployment_id :: ident

record delivery_record =
  rc_event :: string
  rc_ref :: string
  rc_repos :: "string list"
  rc_results :: "delivery_result list"

record webhook =
  wh_id :: ident
  wh_name :: string
  wh_env_id :: ident
  wh_secret_enc :: string
  wh_last_delivery_at :: "int option"
  wh_last_delivery :: "delivery_record option"
  wh_created_at :: int
  wh_created_by :: ident

record volume_source =
  vo_id :: ident
  vo_env_id :: ident
  vo_volume :: string
  vo_source_kind :: string
  vo_git_url :: string
  vo_git_ref :: string
  vo_git_path :: string
  vo_git_credential_id :: ident
  vo_uid :: int
  vo_gid :: int
  vo_stack_id :: ident
  vo_restart_targets :: string
  vo_auto_sync :: bool
  vo_webhook_id :: ident
  vo_synced_hash :: string
  vo_synced_commit :: string
  vo_synced_at :: "int option"
  vo_status :: string
  vo_failed :: bool
  vo_warnings :: string
  vo_created_at :: int
  vo_created_by :: ident

record vsite =
  vs_cs :: csite
  vs_stacks :: sdb
  vs_webhooks :: "webhook list"
  vs_sources :: "volume_source list"
  vs_files :: "(ident \<times> vfile) list"

section \<open>The store\<close>

definition WebhookRow :: "vsite \<Rightarrow> ident \<Rightarrow> webhook option" where
  "WebhookRow s i = first_row (\<lambda>w. wh_id w = i) (vs_webhooks s)"

definition CreateVolumeSource :: "vsite \<Rightarrow> volume_source \<Rightarrow> ident \<Rightarrow> int \<Rightarrow> (volume_source \<times> vsite) option" where
  "CreateVolumeSource s v i now =
     (let v = v\<lparr>vo_id := ''vsr_'' @ i, vo_status := (if vo_status v = [] then ''pending'' else vo_status v),
                vo_source_kind := (if vo_source_kind v = [] then ''git'' else vo_source_kind v), vo_created_at := now\<rparr>
      in if list_ex (\<lambda>q. vo_id q = vo_id v \<or> vo_env_id q = vo_env_id v \<and> vo_volume q = vo_volume v) (vs_sources s) \<or>
            vo_env_id v \<notin> set (cd_environments (cs_db (vs_cs s))) \<or>
            vo_webhook_id v \<noteq> [] \<and> WebhookRow s (vo_webhook_id v) = None
         then None else Some (v, s\<lparr>vs_sources := vs_sources s @ [v]\<rparr>))"

definition SourceRow :: "vsite \<Rightarrow> ident \<Rightarrow> volume_source option" where
  "SourceRow s i = first_row (\<lambda>v. vo_id v = i) (vs_sources s)"

definition VolumeSourceByVolume :: "vsite \<Rightarrow> ident \<Rightarrow> string \<Rightarrow> volume_source option" where
  "VolumeSourceByVolume s env volume = first_row (\<lambda>v. vo_env_id v = env \<and> vo_volume v = volume) (vs_sources s)"

definition ListVolumeSources :: "vsite \<Rightarrow> bool \<Rightarrow> ident list \<Rightarrow> volume_source list" where
  "ListVolumeSources s global envs = sort_key vo_created_at (filter (\<lambda>v. envIn global envs (vo_env_id v)) (vs_sources s))"

definition VolumeSourcesByStack :: "vsite \<Rightarrow> ident \<Rightarrow> volume_source list" where
  "VolumeSourcesByStack s sid = sort_key vo_volume (filter (\<lambda>v. vo_stack_id v = sid) (vs_sources s))"

definition UpdateVolumeSource :: "vsite \<Rightarrow> volume_source \<Rightarrow> vsite option" where
  "UpdateVolumeSource s v =
     (if list_ex (\<lambda>q. vo_id q = vo_id v) (vs_sources s) \<and> vo_webhook_id v \<noteq> [] \<and> WebhookRow s (vo_webhook_id v) = None then None
      else Some (s\<lparr>vs_sources := update_where (\<lambda>q. vo_id q = vo_id v)
             (\<lambda>q. q\<lparr>vo_source_kind := vo_source_kind v, vo_git_url := vo_git_url v, vo_git_ref := vo_git_ref v, vo_git_path := vo_git_path v,
                    vo_git_credential_id := vo_git_credential_id v, vo_uid := vo_uid v, vo_gid := vo_gid v, vo_stack_id := vo_stack_id v,
                    vo_restart_targets := vo_restart_targets v, vo_auto_sync := vo_auto_sync v, vo_webhook_id := vo_webhook_id v\<rparr>) (vs_sources s)\<rparr>))"

definition MarkVolumeSourceSynced :: "vsite \<Rightarrow> ident \<Rightarrow> string \<Rightarrow> string \<Rightarrow> string \<Rightarrow> bool \<Rightarrow> int \<Rightarrow> vsite" where
  "MarkVolumeSourceSynced s i hash commit warnings failed now =
     s\<lparr>vs_sources := update_where (\<lambda>v. vo_id v = i)
        (\<lambda>v. v\<lparr>vo_synced_hash := hash, vo_synced_commit := commit, vo_synced_at := Some now, vo_status := (if failed then ''error'' else ''ok''),
               vo_failed := failed, vo_warnings := warnings\<rparr>) (vs_sources s)\<rparr>"

definition DeleteVolumeSource :: "vsite \<Rightarrow> ident \<Rightarrow> vsite" where
  "DeleteVolumeSource s i =
     s\<lparr>vs_sources := delete_where (\<lambda>v. vo_id v = i) (vs_sources s), vs_files := delete_where (\<lambda>f. fst f = i) (vs_files s)\<rparr>"

definition SetVolSourceFiles :: "vsite \<Rightarrow> ident \<Rightarrow> vfile list \<Rightarrow> vsite" where
  "SetVolSourceFiles s i files = s\<lparr>vs_files := delete_where (\<lambda>f. fst f = i) (vs_files s) @ map (\<lambda>f. (i, f)) files\<rparr>"

definition VolSourceFiles :: "vsite \<Rightarrow> ident \<Rightarrow> vfile list" where
  "VolSourceFiles s i = sort_key vf_name (map snd (filter (\<lambda>f. fst f = i) (vs_files s)))"

section \<open>A git subtree\<close>

datatype filemode = ModeDir | ModeSymlink | ModeSubmodule | ModeRegular | ModeExecutable | ModeDeprecated | ModeOther

record tree_entry =
  te_name :: string
  te_mode :: filemode
  te_data :: string

record resolved_tree =
  tr_files :: "vfile list"
  tr_commit :: string
  tr_warnings :: "string list"

type_synonym git_remote = "string \<Rightarrow> string \<Rightarrow> ident \<Rightarrow> (string \<times> (string \<Rightarrow> tree_entry list option)) option"

datatype tree_error =
    NoClone | NoDirectory | SymlinkRefused string | SubmoduleRefused string | ModeRefused string | LeavesSubtree string
  | TooManyFiles | FileTooBig string | TreeTooBig | EmptyTree

definition maxTreeFiles :: int where
  "maxTreeFiles = 4096"

definition maxTreeFileBytes :: int where
  "maxTreeFileBytes = 8388608"

definition maxTreeBytes :: int where
  "maxTreeBytes = 33554432"

fun contains :: "string \<Rightarrow> string \<Rightarrow> bool" where
  "contains [] sub = (sub = [])"
| "contains (c # cs) sub = (if has_prefix (c # cs) sub then True else contains cs sub)"

definition looksLikePrivateKey :: "string \<Rightarrow> bool" where
  "looksLikePrivateKey b \<longleftrightarrow> contains b ''AGE-SECRET-KEY-'' \<or> contains b ''PRIVATE KEY-----''"

definition leaves_subtree :: "string \<Rightarrow> bool" where
  "leaves_subtree name \<longleftrightarrow> name \<noteq> path_clean name \<or> has_prefix name ''/'' \<or> name = ''..'' \<or> has_prefix name ''../'' \<or> contains name ''/../''"

fun walk_tree :: "tree_entry list \<Rightarrow> vfile list \<Rightarrow> string list \<Rightarrow> int \<Rightarrow> tree_error + (vfile list \<times> string list)" where
  "walk_tree [] files warnings tot = Inr (files, warnings)"
| "walk_tree (e # es) files warnings tot =
     (case te_mode e of
        ModeDir \<Rightarrow> walk_tree es files warnings tot
      | ModeSymlink \<Rightarrow> Inl (SymlinkRefused (te_name e))
      | ModeSubmodule \<Rightarrow> Inl (SubmoduleRefused (te_name e))
      | ModeOther \<Rightarrow> Inl (ModeRefused (te_name e))
      | m \<Rightarrow>
          if leaves_subtree (te_name e) then Inl (LeavesSubtree (te_name e))
          else if maxTreeFiles \<le> int (length files) then Inl TooManyFiles
          else if maxTreeFileBytes < int (length (te_data e)) then Inl (FileTooBig (te_name e))
          else if maxTreeBytes < tot + int (length (te_data e)) then Inl TreeTooBig
          else walk_tree es (files @ [\<lparr>vf_name = te_name e, vf_data = te_data e, vf_mode = (if m = ModeExecutable then 493 else 420)\<rparr>])
                 (if looksLikePrivateKey (te_data e) then warnings @ [te_name e] else warnings) (tot + int (length (te_data e))))"

definition treeFiles :: "(string \<Rightarrow> tree_entry list option) \<Rightarrow> string \<Rightarrow> tree_error + (vfile list \<times> string list)" where
  "treeFiles dirs dir =
     (case dirs (path_clean (trim_prefix dir ''/'')) of
        None \<Rightarrow> Inl NoDirectory
      | Some es \<Rightarrow>
          (case walk_tree es [] [] 0 of
             Inl e \<Rightarrow> Inl e
           | Inr (files, warnings) \<Rightarrow> if files = [] then Inl EmptyTree else Inr (sort_key vf_name files, warnings)))"

definition ResolveTree :: "git_remote \<Rightarrow> volume_source \<Rightarrow> tree_error + resolved_tree" where
  "ResolveTree git v =
     (case git (vo_git_url v) (vo_git_ref v) (vo_git_credential_id v) of
        None \<Rightarrow> Inl NoClone
      | Some (commit, dirs) \<Rightarrow>
          (case treeFiles dirs (vo_git_path v) of
             Inl e \<Rightarrow> Inl e
           | Inr (files, warnings) \<Rightarrow> Inr \<lparr>tr_files = files, tr_commit = commit, tr_warnings = warnings\<rparr>))"

section \<open>The reconciler\<close>

datatype source_error = TreeFailed tree_error | FileClash string | SourceFailed delivery_error

definition inlineTree :: "vsite \<Rightarrow> volume_source \<Rightarrow> resolved_tree" where
  "inlineTree s v = \<lparr>tr_files = VolSourceFiles s (vo_id v), tr_commit = [], tr_warnings = []\<rparr>"

definition desired_tree :: "git_remote \<Rightarrow> vsite \<Rightarrow> volume_source \<Rightarrow> tree_error + resolved_tree" where
  "desired_tree git s v = (if vo_source_kind v = ''inline'' then Inr (inlineTree s v) else ResolveTree git v)"

definition volumeSourceHash :: "crypto \<Rightarrow> resolved_tree \<Rightarrow> int \<Rightarrow> int \<Rightarrow> string" where
  "volumeSourceHash y t uid gid = cy_digest y (source_text (tr_files t) uid gid)"

definition refuseDeliveryFileClash :: "cdb \<Rightarrow> volume_source \<Rightarrow> string list \<Rightarrow> string option" where
  "refuseDeliveryFileClash s v names =
     (case refuseDeliveryOwnedNames s (vo_env_id v) (vo_volume v) names of
        Some n \<Rightarrow> Some n
      | None \<Rightarrow> refuseFleetOwnedNames s (vo_env_id v) (vo_volume v) names)"

definition syncVolumeSource ::
  "git_remote \<Rightarrow> crypto \<Rightarrow> (string \<Rightarrow> outage) \<Rightarrow> vsite \<Rightarrow> volume_source \<Rightarrow> (string \<times> string \<times> string \<times> source_error option) \<times> vsite" where
  "syncVolumeSource git y fate s v =
     (case desired_tree git s v of
        Inl e \<Rightarrow> (([], [], [], Some (TreeFailed e)), s)
      | Inr t \<Rightarrow>
          (let hash = volumeSourceHash y t (vo_uid v) (vo_gid v); commit = tr_commit t; warnings = join nl (tr_warnings t);
               names = map vf_name (tr_files t)
           in if hash = vo_synced_hash v \<and> vo_status v = ''ok'' then ((hash, commit, warnings, None), s)
              else (case refuseDeliveryFileClash (cs_db (vs_cs s)) v names of
                      Some n \<Rightarrow> ((hash, commit, warnings, Some (FileClash n)), s)
                    | None \<Rightarrow>
                        (let (e, envs) = mirror_env ManifestName fate (cs_nodes (vs_cs s)) (vo_env_id v) (vo_volume v) (Manifest commit hash names)
                               (tr_files t) (vo_uid v) (vo_gid v) (vo_restart_targets v)
                         in ((hash, commit, warnings, map_option SourceFailed e), s\<lparr>vs_cs := (vs_cs s)\<lparr>cs_nodes := envs\<rparr>\<rparr>)))))"

definition reportVolumeSourceSync ::
  "git_remote \<Rightarrow> crypto \<Rightarrow> (string \<Rightarrow> outage) \<Rightarrow> vsite \<Rightarrow> volume_source \<Rightarrow> int \<Rightarrow> source_error option \<times> vsite" where
  "reportVolumeSourceSync git y fate s v now =
     (let ((hash, commit, warnings, e), s) = syncVolumeSource git y fate s v
      in if e = None \<and> hash = vo_synced_hash v \<and> commit = vo_synced_commit v \<and> vo_status v = ''ok'' then (None, s)
         else (e, MarkVolumeSourceSynced s (vo_id v) hash commit warnings (e \<noteq> None) now))"

text \<open>A deploy first syncs the sources of its stack, and after each the deliveries into the same volume.\<close>

definition on_deliveries :: "vsite \<Rightarrow> (csite \<Rightarrow> delivery_error option \<times> csite) \<Rightarrow> bool \<times> vsite" where
  "on_deliveries s f = (case f (vs_cs s) of (e, cs) \<Rightarrow> (e = None, s\<lparr>vs_cs := cs\<rparr>))"

fun sync_deliveries :: "crypto \<Rightarrow> (string \<Rightarrow> outage) \<Rightarrow> int \<Rightarrow> cert_delivery list \<Rightarrow> bool \<times> vsite \<Rightarrow> bool \<times> vsite" where
  "sync_deliveries y fate now [] (good, s) = (good, s)"
| "sync_deliveries y fate now (d # ds) (good, s) =
     (case on_deliveries s (\<lambda>cs. reportDeliverySync y fate cs d now) of (g, s) \<Rightarrow> sync_deliveries y fate now ds (good \<and> g, s))"

definition sync_one_source ::
  "git_remote \<Rightarrow> crypto \<Rightarrow> (string \<Rightarrow> outage) \<Rightarrow> int \<Rightarrow> volume_source \<Rightarrow> bool \<times> vsite \<Rightarrow> bool \<times> vsite" where
  "sync_one_source git y fate now v acc =
     (case acc of (good, s) \<Rightarrow>
        (case reportVolumeSourceSync git y fate s v now of
           (Some e, s) \<Rightarrow> (False, s)
         | (None, s) \<Rightarrow>
             (case sync_deliveries y fate now (DeliveriesForVolume (cs_db (vs_cs s)) (vo_env_id v) (vo_volume v)) (good, s) of
                (good, s) \<Rightarrow>
                  (case FleetDeliveryForVolume (cs_db (vs_cs s)) (vo_env_id v) (vo_volume v) of
                     None \<Rightarrow> (good, s)
                   | Some d \<Rightarrow>
                       (case on_deliveries s (\<lambda>cs. reportFleetDeliverySync y fate cs d now) of (g, s) \<Rightarrow> (good \<and> g, s))))))"

definition syncStackVolumeSources :: "git_remote \<Rightarrow> crypto \<Rightarrow> (string \<Rightarrow> outage) \<Rightarrow> vsite \<Rightarrow> ident \<Rightarrow> int \<Rightarrow> bool \<times> vsite" where
  "syncStackVolumeSources git y fate s sid now =
     foldl (\<lambda>acc v. sync_one_source git y fate now v acc) (True, s) (VolumeSourcesByStack s sid)"

section \<open>Saving a source\<close>

record source_request =
  sq_env_id :: ident
  sq_volume :: string
  sq_source_kind :: string
  sq_git_url :: string
  sq_git_ref :: string
  sq_git_path :: string
  sq_git_credential_id :: ident
  sq_files :: "vfile list"
  sq_uid :: int
  sq_gid :: int
  sq_stack_id :: ident
  sq_restart_targets :: string
  sq_auto_sync :: bool
  sq_webhook_id :: ident

datatype source_reply =
    SourceRefused string | SourceConflict string | SourceForbidden | NoSuchSource | SourceStoreFailed | GitUnreachable tree_error
  | SourceSyncFailed source_error | SourceDone

definition dockerVolumeName :: "string \<Rightarrow> bool" where
  "dockerVolumeName n =
     (case n of [] \<Rightarrow> False
      | c # cs \<Rightarrow> name_start c \<and> length cs \<le> 127 \<and> list_all (\<lambda>d. name_start d \<or> d \<in> set ''_.-'') cs)"

definition linkableWebhook :: "vsite \<Rightarrow> ident \<Rightarrow> ident \<Rightarrow> string + ident" where
  "linkableWebhook s wid env =
     (if wid = [] then Inr []
      else (case WebhookRow s wid of
              None \<Rightarrow> Inl ''no_such_webhook''
            | Some w \<Rightarrow> if wh_env_id w \<noteq> [] \<and> wh_env_id w \<noteq> env then Inl ''other_cluster'' else Inr (wh_id w)))"

fun source_files :: "vfile list \<Rightarrow> string list \<Rightarrow> vfile list \<Rightarrow> string + vfile list" where
  "source_files [] seen out = Inr out"
| "source_files (f # fs) seen out =
     (let p = trim_space (vf_name f)
      in if p = [] then Inl ''no_path''
         else if has_prefix p ''/'' \<or> p \<noteq> path_clean p \<or> has_prefix p ''../'' \<or> p = ''..'' then Inl ''unclean_path''
         else if p \<in> set seen then Inl ''duplicate_path''
         else source_files fs (p # seen) (out @ [f\<lparr>vf_name := p\<rparr>]))"

definition volSourceFilesFromRequest :: "vfile list \<Rightarrow> string + vfile list" where
  "volSourceFilesFromRequest fs = source_files fs [] []"

definition stack_refusal :: "vsite \<Rightarrow> ident \<Rightarrow> ident \<Rightarrow> string option" where
  "stack_refusal s sid env =
     (if sid = [] then None
      else (case StackByID (vs_stacks s) sid of
              Inl e \<Rightarrow> Some ''no_such_stack''
            | Inr (st, _) \<Rightarrow> if st_env_id st \<noteq> env then Some ''other_host'' else None))"

definition common_fields :: "source_request \<Rightarrow> string \<Rightarrow> volume_source \<Rightarrow> volume_source" where
  "common_fields req kind v =
     v\<lparr>vo_source_kind := kind, vo_uid := sq_uid req, vo_gid := sq_gid req, vo_stack_id := sq_stack_id req,
       vo_restart_targets := trim_space (sq_restart_targets req)\<rparr>"

definition apply_git :: "vsite \<Rightarrow> source_request \<Rightarrow> volume_source \<Rightarrow> source_reply + volume_source" where
  "apply_git s req v =
     (if trim_space (sq_git_url req) = [] then Inl (SourceRefused ''no_repository'')
      else if sq_git_credential_id req \<noteq> [] \<and> sq_git_credential_id req \<notin> set (sd_git_credentials (vs_stacks s))
      then Inl (SourceRefused ''no_such_credential'')
      else (case linkableWebhook s (sq_webhook_id req) (vo_env_id v) of
              Inl code \<Rightarrow> Inl (SourceRefused code)
            | Inr wid \<Rightarrow>
                if sq_auto_sync req \<and> wid = [] then Inl (SourceRefused ''no_webhook'')
                else Inr (common_fields req ''git''
                       (v\<lparr>vo_git_url := trim_space (sq_git_url req), vo_git_ref := trim_space (sq_git_ref req),
                          vo_git_path := trim_space (sq_git_path req), vo_git_credential_id := sq_git_credential_id req,
                          vo_auto_sync := sq_auto_sync req, vo_webhook_id := wid\<rparr>))))"

definition apply_inline :: "vsite \<Rightarrow> source_request \<Rightarrow> volume_source \<Rightarrow> source_reply + volume_source" where
  "apply_inline s req v =
     (if sq_files req = [] then Inl (SourceRefused ''no_files'')
      else (case volSourceFilesFromRequest (sq_files req) of
              Inl code \<Rightarrow> Inl (SourceRefused code)
            | Inr files \<Rightarrow>
                (case refuseDeliveryFileClash (cs_db (vs_cs s)) v (map vf_name files) of
                   Some n \<Rightarrow> Inl (SourceConflict n)
                 | None \<Rightarrow> Inr (common_fields req ''inline''
                      (v\<lparr>vo_git_url := [], vo_git_ref := [], vo_git_path := [], vo_git_credential_id := [],
                         vo_auto_sync := False, vo_webhook_id := []\<rparr>)))))"

definition request_kind :: "source_request \<Rightarrow> volume_source \<Rightarrow> string" where
  "request_kind req v =
     (let kind = (if sq_source_kind req = [] then vo_source_kind v else sq_source_kind req) in if kind = [] then ''git'' else kind)"

definition applyVolumeSourceRequest :: "vsite \<Rightarrow> source_request \<Rightarrow> volume_source \<Rightarrow> source_reply + volume_source" where
  "applyVolumeSourceRequest s req v =
     (if sq_uid req < 0 \<or> sq_gid req < 0 then Inl (SourceRefused ''negative_owner'')
      else (case stack_refusal s (sq_stack_id req) (vo_env_id v) of
              Some code \<Rightarrow> Inl (SourceRefused code)
            | None \<Rightarrow>
                if request_kind req v = ''git'' then apply_git s req v
                else if request_kind req v = ''inline'' then apply_inline s req v
                else Inl (SourceRefused ''bad_kind'')))"

definition new_source :: "source_request \<Rightarrow> ident \<Rightarrow> volume_source" where
  "new_source req user =
     \<lparr>vo_id = [], vo_env_id = sq_env_id req, vo_volume = sq_volume req, vo_source_kind = [], vo_git_url = [], vo_git_ref = [], vo_git_path = [],
      vo_git_credential_id = [], vo_uid = 0, vo_gid = 0, vo_stack_id = [], vo_restart_targets = [], vo_auto_sync = False, vo_webhook_id = [],
      vo_synced_hash = [], vo_synced_commit = [], vo_synced_at = None, vo_status = [], vo_failed = False, vo_warnings = [], vo_created_at = 0,
      vo_created_by = user\<rparr>"

definition store_inline :: "vsite \<Rightarrow> volume_source \<Rightarrow> source_request \<Rightarrow> vsite" where
  "store_inline s v req = (case volSourceFilesFromRequest (sq_files req) of Inl e \<Rightarrow> SetVolSourceFiles s (vo_id v) [] | Inr files \<Rightarrow> SetVolSourceFiles s (vo_id v) files)"

definition handleCreateVolumeSource ::
  "git_remote \<Rightarrow> crypto \<Rightarrow> (string \<Rightarrow> outage) \<Rightarrow> vsite \<Rightarrow> scoped_mask \<Rightarrow> source_request \<Rightarrow> ident \<Rightarrow> ident \<Rightarrow> int \<Rightarrow> source_reply \<times> vsite" where
  "handleCreateVolumeSource git y fate s caps req user i now =
     (if \<not> sm_Has caps VolSourcesEdit (sq_env_id req) then (SourceForbidden, s)
      else if map_of (cs_nodes (vs_cs s)) (sq_env_id req) = None then (SourceRefused ''not_connected'', s)
      else if \<not> dockerVolumeName (sq_volume req) then (SourceRefused ''bad_name'', s)
      else (case applyVolumeSourceRequest s req (new_source req user) of
              Inl r \<Rightarrow> (r, s)
            | Inr v \<Rightarrow>
                (case CreateVolumeSource s v i now of
                   None \<Rightarrow> (SourceRefused ''volume_has_source'', s)
                 | Some (v, s) \<Rightarrow>
                     (let s = (if vo_source_kind v = ''inline'' then store_inline s v req else s)
                      in (SourceDone, snd (reportVolumeSourceSync git y fate s v now))))))"

definition handleUpdateVolumeSource ::
  "git_remote \<Rightarrow> crypto \<Rightarrow> (string \<Rightarrow> outage) \<Rightarrow> vsite \<Rightarrow> ident \<Rightarrow> source_request \<Rightarrow> int \<Rightarrow> source_reply \<times> vsite" where
  "handleUpdateVolumeSource git y fate s i req now =
     (case SourceRow s i of
        None \<Rightarrow> (NoSuchSource, s)
      | Some v0 \<Rightarrow>
          (let switching = (sq_source_kind req \<noteq> [] \<and> sq_source_kind req \<noteq> vo_source_kind v0)
           in if switching \<and> (vo_source_kind v0 \<noteq> ''inline'' \<or> sq_source_kind req \<noteq> ''git'') then (SourceRefused ''switch'', s)
              else (case applyVolumeSourceRequest s req v0 of
                      Inl r \<Rightarrow> (r, s)
                    | Inr v \<Rightarrow>
                        (case (if switching then ResolveTree git v else Inr \<lparr>tr_files = [], tr_commit = [], tr_warnings = []\<rparr>) of
                           Inl e \<Rightarrow> (GitUnreachable e, s)
                         | Inr _ \<Rightarrow>
                             (case UpdateVolumeSource s v of
                                None \<Rightarrow> (SourceStoreFailed, s)
                              | Some s \<Rightarrow>
                                  (let s = (if switching then SetVolSourceFiles s (vo_id v) []
                                            else if vo_source_kind v = ''inline'' then store_inline s v req else s)
                                   in (SourceDone, snd (reportVolumeSourceSync git y fate s v now))))))))"

definition handleDeleteVolumeSource :: "vsite \<Rightarrow> ident \<Rightarrow> source_reply \<times> vsite" where
  "handleDeleteVolumeSource s i =
     (case SourceRow s i of None \<Rightarrow> (NoSuchSource, s) | Some v \<Rightarrow> (SourceDone, DeleteVolumeSource s (vo_id v)))"

definition handleSyncVolumeSource ::
  "git_remote \<Rightarrow> crypto \<Rightarrow> (string \<Rightarrow> outage) \<Rightarrow> vsite \<Rightarrow> ident \<Rightarrow> int \<Rightarrow> source_reply \<times> vsite" where
  "handleSyncVolumeSource git y fate s i now =
     (case SourceRow s i of
        None \<Rightarrow> (NoSuchSource, s)
      | Some v \<Rightarrow>
          (case reportVolumeSourceSync git y fate s (v\<lparr>vo_synced_hash := []\<rparr>) now of
             (Some e, s) \<Rightarrow> (SourceSyncFailed e, s)
           | (None, s) \<Rightarrow> (SourceDone, s)))"

definition touchesSubtree :: "string list \<Rightarrow> string \<Rightarrow> bool" where
  "touchesSubtree files subtree =
     (let dir = path_clean (trim_prefix subtree ''/'')
      in if dir = [] \<or> dir = ''.'' then True
         else list_ex (\<lambda>f. let f = path_clean (trim_prefix f ''/'') in f = dir \<or> has_prefix f (dir @ ''/'')) files)"

end
