(* ===== verification/Watch.thy ===== *)
theory Watch
  imports Prelude
begin

text \<open>
  What a push has to touch: \<^verbatim>\<open>internal/stacks/watch.go\<close>. A pattern is compiled to a regular expression over
  the characters of a path; the model has the five constructs the compiler emits and matches them by
  backtracking. A path is a list of bytes, so one character of the expression is one UTF-8 sequence, or a
  single byte where the path is not valid UTF-8. The compiler works byte by byte: a pattern byte above 127
  stands for the character with that number.
\<close>

section \<open>Characters\<close>

definition byte :: "char \<Rightarrow> nat" where
  "byte c = of_char c"

definition cont :: "nat \<Rightarrow> nat \<Rightarrow> char \<Rightarrow> bool" where
  "cont lo hi c \<longleftrightarrow> lo \<le> byte c \<and> byte c \<le> hi"

fun rune_len :: "string \<Rightarrow> nat" where
  "rune_len [] = 0"
| "rune_len (c # cs) =
     (let b = byte c
      in if b < 194 \<or> 244 < b then 1
         else if b < 224 then (case cs of d # _ \<Rightarrow> if cont 128 191 d then 2 else 1 | _ \<Rightarrow> 1)
         else if b < 240
         then (case cs of
                 d # e # _ \<Rightarrow> if cont (if b = 224 then 160 else 128) (if b = 237 then 159 else 191) d \<and> cont 128 191 e then 3 else 1
               | _ \<Rightarrow> 1)
         else (case cs of
                 d # e # f # _ \<Rightarrow>
                   if cont (if b = 240 then 144 else 128) (if b = 244 then 143 else 191) d \<and> cont 128 191 e \<and> cont 128 191 f then 4 else 1
               | _ \<Rightarrow> 1))"

definition utf8 :: "char \<Rightarrow> string" where
  "utf8 c = (if byte c < 128 then [c] else [char_of (192 + byte c div 64), char_of (128 + byte c mod 64)])"

lemma rune_len_pos: "s \<noteq> [] \<Longrightarrow> 0 < rune_len s"
  by (cases s) (auto simp: Let_def split: list.split)

section \<open>Patterns\<close>

datatype glob = Deep | OptSlash | Star | One | Exactly char

fun globRegexp :: "string \<Rightarrow> glob list" where
  "globRegexp [] = []"
| "globRegexp (c # r) =
     (if c = CHR ''*''
      then (case r of
              d # r2 \<Rightarrow>
                if d = CHR ''*''
                then Deep # (case r2 of
                               e # r3 \<Rightarrow> if e = CHR ''/'' then OptSlash # globRegexp r3 else globRegexp r2
                             | [] \<Rightarrow> [])
                else Star # globRegexp r
            | [] \<Rightarrow> [Star])
      else if c = CHR ''?'' then One # globRegexp r
      else Exactly c # globRegexp r)"

function glob_match :: "glob list \<Rightarrow> string \<Rightarrow> bool" where
  "glob_match [] s = (s = [])"
| "glob_match (Exactly c # ts) s = (if has_prefix s (utf8 c) then glob_match ts (drop (length (utf8 c)) s) else False)"
| "glob_match (OptSlash # ts) s = (if glob_match ts s then True else if s \<noteq> [] \<and> hd s = CHR ''/'' then glob_match ts (tl s) else False)"
| "glob_match (One # ts) s = (if s \<noteq> [] \<and> hd s \<noteq> CHR ''/'' then glob_match ts (drop (rune_len s) s) else False)"
| "glob_match (Star # ts) s =
     (if glob_match ts s then True else if s \<noteq> [] \<and> hd s \<noteq> CHR ''/'' then glob_match (Star # ts) (drop (rune_len s) s) else False)"
| "glob_match (Deep # ts) s =
     (if glob_match ts s then True else if s \<noteq> [] \<and> hd s \<noteq> CHR 0x0A then glob_match (Deep # ts) (drop (rune_len s) s) else False)"
  by pat_completeness auto
termination
  by (relation "measure (\<lambda>(ts, s). length ts + length s)") (auto simp: rune_len_pos)

definition matchGlob :: "string \<Rightarrow> string \<Rightarrow> bool" where
  "matchGlob pattern name =
     (let p = trim_prefix (trim_space pattern) ''/''
      in if p = [] then False else glob_match (globRegexp (if has_suffix p ''/'' then p @ ''**'' else p)) name)"

definition WatchPatterns :: "string \<Rightarrow> string \<Rightarrow> string list" where
  "WatchPatterns watch compose =
     (let out = filter (\<lambda>p. p \<noteq> []) (map trim_space (fields_func (\<lambda>c. c = CHR 0x0A \<or> c = CHR 0x0D \<or> c = CHR '','') watch))
      in if out \<noteq> [] then out else [if compose = [] then ''docker-compose.yml'' else compose])"

definition Matches :: "string list \<Rightarrow> string list \<Rightarrow> bool" where
  "Matches changed patterns =
     list_ex (\<lambda>f. let f = trim_prefix (path_clean f) ''/'' in list_ex (\<lambda>p. matchGlob p f) patterns) changed"

section \<open>What the patterns mean\<close>

definition literal_char :: "char \<Rightarrow> bool" where
  "literal_char c \<longleftrightarrow> byte c < 128 \<and> c \<noteq> CHR ''*'' \<and> c \<noteq> CHR ''?''"

lemma globRegexp_literal: "list_all literal_char p \<Longrightarrow> globRegexp (p @ r) = map Exactly p @ globRegexp r"
  by (induction p) (auto simp: literal_char_def)

declare glob_match.simps [simp del]

lemma glob_match_literal: "list_all literal_char p \<Longrightarrow> glob_match (map Exactly p @ ts) s \<longleftrightarrow> (\<exists>r. s = p @ r \<and> glob_match ts r)"
proof (induction p arbitrary: s)
  case (Cons c p)
  then show ?case by (cases s) (auto simp: glob_match.simps(2) utf8_def literal_char_def has_prefix_def)
qed simp

lemma cont_high: "cont lo hi d \<Longrightarrow> 128 \<le> lo \<Longrightarrow> 128 \<le> byte d"
  by (simp add: cont_def)

lemma rune_tail:
  "rune_len (c # cs) = 1
   \<or> (\<exists>d r. cs = d # r \<and> rune_len (c # cs) = 2 \<and> 128 \<le> byte d)
   \<or> (\<exists>d e r. cs = d # e # r \<and> rune_len (c # cs) = 3 \<and> 128 \<le> byte d \<and> 128 \<le> byte e)
   \<or> (\<exists>d e f r. cs = d # e # f # r \<and> rune_len (c # cs) = 4 \<and> 128 \<le> byte d \<and> 128 \<le> byte e \<and> 128 \<le> byte f)"
  by (auto simp: Let_def cont_high split: list.split)

lemma rune_len_no_newline:
  assumes "s \<noteq> []" "hd s \<noteq> CHR 0x0A"
  shows "CHR 0x0A \<notin> set (take (rune_len s) s)"
proof -
  obtain c cs where s: "s = c # cs" using assms(1) by (cases s) auto
  have "byte (CHR 0x0A) < 128" by (simp add: byte_def)
  then have "128 \<le> byte d \<Longrightarrow> d \<noteq> CHR 0x0A" for d by auto
  then show ?thesis using rune_tail[of c cs] assms(2) unfolding s by (elim disjE exE conjE) (auto simp del: rune_len.simps simp: numeral_eq_Suc)
qed

lemma glob_match_deep: "glob_match [Deep] s \<longleftrightarrow> CHR 0x0A \<notin> set s"
proof (induction s rule: length_induct)
  case (1 s)
  have step: "glob_match [Deep] s = (if s = [] then True else if s \<noteq> [] \<and> hd s \<noteq> CHR 0x0A then glob_match [Deep] (drop (rune_len s) s) else False)"
    by (subst glob_match.simps(6)) (simp add: glob_match.simps(1))
  show ?case
  proof (cases "s = [] \<or> hd s = CHR 0x0A")
    case True
    then show ?thesis using step by (cases s) auto
  next
    case False
    then have "glob_match [Deep] (drop (rune_len s) s) \<longleftrightarrow> CHR 0x0A \<notin> set (drop (rune_len s) s)" using 1 rune_len_pos[of s] by auto
    moreover have "set s = set (take (rune_len s) s) \<union> set (drop (rune_len s) s)" by (metis append_take_drop_id set_append)
    ultimately show ?thesis using False rune_len_no_newline[of s] step by auto
  qed
qed

text \<open>A pattern as an operator would write it: plain characters, neither blank nor slashed at its ends.\<close>

definition plain_pattern :: "string \<Rightarrow> bool" where
  "plain_pattern p \<longleftrightarrow> p \<noteq> [] \<and> list_all literal_char p \<and> trim_space p = p \<and> \<not> has_prefix p ''/'' \<and> \<not> has_suffix p ''/''"

lemma matchGlob_plain:
  assumes "plain_pattern p"
  shows "matchGlob p f \<longleftrightarrow> f = p"
proof -
  have "globRegexp p = map Exactly p @ []" using assms globRegexp_literal[of p "[]"] by (simp add: plain_pattern_def)
  then show ?thesis
    using assms glob_match_literal[of p "[]" f] by (auto simp: matchGlob_def plain_pattern_def trim_prefix_def Let_def glob_match.simps(1))
qed

lemma globRegexp_deep: "globRegexp ''**'' = [Deep]"
  by simp

lemma trim_space_slash:
  assumes "trim_space p = p" "p \<noteq> []"
  shows "trim_space (p @ ''/'') = p @ ''/''"
proof -
  have "\<not> is_space (hd p)"
  proof
    assume sp: "is_space (hd p)"
    have "length (dropWhile is_space p) < length p" using assms(2) sp by (cases p) (auto simp: le_imp_less_Suc length_dropWhile_le)
    moreover have "length (trim_space p) \<le> length (dropWhile is_space p)" by (simp add: trim_space_def) (metis length_dropWhile_le length_rev)
    ultimately show False using assms(1) by simp
  qed
  moreover have "\<not> is_space (CHR ''/'')" by (simp add: is_space_def)
  ultimately show ?thesis using assms(2) by (cases p) (simp_all add: trim_space_def)
qed

lemma matchGlob_below:
  assumes "plain_pattern p"
  shows "matchGlob (p @ ''/'') f \<longleftrightarrow> (\<exists>r. f = p @ ''/'' @ r \<and> CHR 0x0A \<notin> set r)"
proof -
  have lit: "list_all literal_char (p @ ''/'')" using assms by (simp add: plain_pattern_def literal_char_def byte_def)
  have g: "globRegexp ((p @ ''/'') @ ''**'') = map Exactly (p @ ''/'') @ [Deep]"
    using globRegexp_literal[OF lit, of "''**''"] globRegexp_deep by (simp only:)
  have t: "trim_prefix (trim_space (p @ ''/'')) ''/'' = p @ ''/''"
    using assms trim_space_slash[of p] by (cases p) (auto simp: plain_pattern_def trim_prefix_def has_prefix_def)
  have "matchGlob (p @ ''/'') f \<longleftrightarrow> glob_match (map Exactly (p @ ''/'') @ [Deep]) f"
    unfolding matchGlob_def Let_def t by (simp add: has_suffix_def has_prefix_def g[simplified])
  also have "\<dots> \<longleftrightarrow> (\<exists>r. f = (p @ ''/'') @ r \<and> glob_match [Deep] r)" by (rule glob_match_literal[OF lit])
  finally show ?thesis by (simp add: glob_match_deep)
qed

text \<open>A watched path means what it says. A pattern of plain characters is touched by a push exactly
  when the push changes the file of that name, and the same pattern with a slash at its end exactly when it
  changes a file somewhere below that directory.\<close>

lemma watched_paths_mean_what_they_say:
  assumes "p \<noteq> []" "list_all (\<lambda>c. (of_char c :: nat) < 128 \<and> c \<noteq> CHR ''*'' \<and> c \<noteq> CHR ''?'') p" "trim_space p = p"
    and "\<not> has_prefix p ''/''" "\<not> has_suffix p ''/''"
  shows "(Matches changed [p] \<longleftrightarrow> (\<exists>f \<in> set changed. trim_prefix (path_clean f) ''/'' = p)) \<and>
    (Matches changed [p @ ''/''] \<longleftrightarrow> (\<exists>f \<in> set changed. \<exists>r. trim_prefix (path_clean f) ''/'' = p @ ''/'' @ r \<and> CHR 0x0A \<notin> set r))"
proof -
  have "plain_pattern p" using assms by (simp add: plain_pattern_def literal_char_def[abs_def] byte_def)
  then show ?thesis by (simp add: Matches_def list_ex_iff matchGlob_plain matchGlob_below Let_def)
qed

section \<open>Patterns that do not\<close>

lemma split_on_pieces: "w \<in> set (split_on c s) \<Longrightarrow> c \<notin> set w"
  by (induction s arbitrary: w) (auto split: if_split_asm list.split_asm, blast?)

lemma clean_elems_pieces: "e \<in> set (clean_elems r acc es) \<Longrightarrow> e \<in> set acc \<or> e = ''..'' \<or> e \<in> set es \<and> e \<noteq> ''.'' \<and> e \<noteq> []"
  by (induction r acc es rule: clean_elems.induct) (auto split: if_split_asm list.split_asm)

lemma join_first_dot: "has_prefix (join ''/'' es) ''./'' \<Longrightarrow> \<forall>e \<in> set es. CHR ''/'' \<notin> set e \<Longrightarrow> hd es = ''.''"
proof (induction "''/''" es rule: join.induct)
  case (2 w)
  then show ?case by (auto simp: has_prefix_iff)
next
  case (3 w v ws)
  then show ?case by (auto simp: has_prefix_iff append_eq_Cons_conv Cons_eq_append_conv)
qed (simp add: has_prefix_def)

lemma join_no_slash: "\<forall>e \<in> set es. CHR ''/'' \<notin> set e \<and> e \<noteq> [] \<Longrightarrow> \<not> has_prefix (join ''/'' es) ''/''"
  by (cases es; cases "tl es"; cases "hd es") (auto simp: has_prefix_def)

lemma path_clean_no_dot: "\<not> has_prefix (trim_prefix (path_clean f) ''/'') ''./''"
proof
  assume pre: "has_prefix (trim_prefix (path_clean f) ''/'') ''./''"
  let ?es = "clean_elems (has_prefix f ''/'') [] (split_on (CHR ''/'') f)"
  have es: "\<forall>e \<in> set ?es. CHR ''/'' \<notin> set e \<and> e \<noteq> ''.'' \<and> e \<noteq> []" using clean_elems_pieces split_on_pieces by fastforce
  have "has_prefix (join ''/'' ?es) ''./''"
  proof (cases "has_prefix f ''/''")
    case True
    then show ?thesis using pre by (simp add: path_clean_def Let_def trim_prefix_def has_prefix_def)
  next
    case False
    let ?b = "join ''/'' ?es"
    have "path_clean f = (if ?b = [] then ''.'' else ?b)" using False by (simp add: path_clean_def Let_def)
    moreover have "\<not> has_prefix ?b ''/''" using es join_no_slash[of ?es] by simp
    ultimately show ?thesis using pre by (auto simp: trim_prefix_def has_prefix_def split: if_split_asm)
  qed
  then have "hd ?es = ''.''" "?es \<noteq> []" using join_first_dot[of ?es] es by (auto simp: has_prefix_def)
  then show False using es by (metis hd_in_set)
qed

text \<open>The default pattern is the path of the compose file as it was entered, but changed files are cleaned: a
  stack whose compose file is given as \<^verbatim>\<open>./compose.yml\<close> deploys by hand and is never deployed by a push.\<close>

lemma dot_slash_is_never_touched: "\<not> Matches changed (WatchPatterns [] ''./compose.yml'')"
proof -
  have "plain_pattern ''./compose.yml''" by code_simp
  moreover have "WatchPatterns [] ''./compose.yml'' = [''./compose.yml'']" by code_simp
  moreover have "trim_prefix (path_clean f) ''/'' \<noteq> ''./compose.yml''" for f using path_clean_no_dot[of f] by (auto simp: has_prefix_def)
  ultimately show ?thesis by (simp add: Matches_def list_ex_iff matchGlob_plain Let_def)
qed

text \<open>The slash after two stars is optional on its own, so the name after it may be the end of a longer one.\<close>

lemma deep_slash_matches_more: "matchGlob ''conf/**/app.yml'' ''conf/myapp.yml''"
  by code_simp

text \<open>A letter outside ASCII in a pattern does not match itself.\<close>

lemma umlaut_is_never_touched: "\<not> matchGlob [CHR 0xC3, CHR 0xA4] [CHR 0xC3, CHR 0xA4]"
  by code_simp

end
