(* ===== verification/Webhooks.thy ===== *)
theory Webhooks
  imports Sources Watch Pipeline Routes
begin

text \<open>
  Webhooks: \<^verbatim>\<open>internal/api/webhook_handlers.go\<close> and the rows of \<^verbatim>\<open>internal/store/webhooks.go\<close>.

  A delivery answers the forge first and acts afterwards: \<open>deliverWebhook\<close> returns the reply, the state and
  the job that is left, \<open>runDelivery\<close> is that job. Its targets run one after the other here. The HMAC,
  sealing, \<^verbatim>\<open>net/url\<close> and the JSON decoder are parameters: a parsed URL is its host with and without the port,
  and its path; a payload is what the decoder fills in. The reason of a failed target is the message of the
  failed deployment, and empty where the code has the text of another error.
\<close>

section \<open>Rows\<close>

record hook_audit =
  ha_env_id :: ident
  ha_action :: string
  ha_target :: string
  ha_outcome :: string

record hsite =
  hs_v :: vsite
  hs_w :: world
  hs_audit :: "hook_audit list"

text \<open>The stacks refer to the webhooks by the column \<open>sd_webhooks\<close> of their own tables.\<close>

definition set_webhooks :: "vsite \<Rightarrow> webhook list \<Rightarrow> vsite" where
  "set_webhooks s ws = s\<lparr>vs_webhooks := ws, vs_stacks := (vs_stacks s)\<lparr>sd_webhooks := map wh_id ws\<rparr>\<rparr>"

datatype webhook_error = ErrWebhookNameTaken | WebhookConstraint

definition CreateWebhook :: "vsite \<Rightarrow> webhook \<Rightarrow> ident \<Rightarrow> int \<Rightarrow> webhook_error + (webhook \<times> vsite)" where
  "CreateWebhook s w i now =
     (let w = w\<lparr>wh_id := (if wh_id w = [] then ''whk_'' @ i else wh_id w), wh_created_at := now, wh_last_delivery_at := None, wh_last_delivery := None\<rparr>
      in if list_ex (\<lambda>q. wh_id q = wh_id w \<or> wh_name q = wh_name w) (vs_webhooks s) then Inl ErrWebhookNameTaken
         else if wh_env_id w \<noteq> [] \<and> wh_env_id w \<notin> set (cd_environments (cs_db (vs_cs s))) then Inl WebhookConstraint
         else Inr (w, set_webhooks s (vs_webhooks s @ [w])))"

definition WebhookByName :: "vsite \<Rightarrow> string \<Rightarrow> webhook option" where
  "WebhookByName s n = first_row (\<lambda>w. wh_name w = n) (vs_webhooks s)"

definition ListWebhooks :: "vsite \<Rightarrow> bool \<Rightarrow> ident list \<Rightarrow> webhook list" where
  "ListWebhooks s global envs = sort_key wh_name (filter (\<lambda>w. global \<or> wh_env_id w \<in> set envs \<or> wh_env_id w = []) (vs_webhooks s))"

definition RenameWebhook :: "vsite \<Rightarrow> ident \<Rightarrow> string \<Rightarrow> webhook_error + vsite" where
  "RenameWebhook s i n =
     (if list_ex (\<lambda>q. wh_id q = i) (vs_webhooks s) \<and> list_ex (\<lambda>q. wh_id q \<noteq> i \<and> wh_name q = n) (vs_webhooks s) then Inl ErrWebhookNameTaken
      else Inr (s\<lparr>vs_webhooks := update_where (\<lambda>q. wh_id q = i) (\<lambda>q. q\<lparr>wh_name := n\<rparr>) (vs_webhooks s)\<rparr>))"

definition SetWebhookSecret :: "vsite \<Rightarrow> ident \<Rightarrow> string \<Rightarrow> vsite" where
  "SetWebhookSecret s i sealed = s\<lparr>vs_webhooks := update_where (\<lambda>q. wh_id q = i) (\<lambda>q. q\<lparr>wh_secret_enc := sealed\<rparr>) (vs_webhooks s)\<rparr>"

definition RecordWebhookDelivery :: "vsite \<Rightarrow> ident \<Rightarrow> delivery_record \<Rightarrow> int \<Rightarrow> vsite" where
  "RecordWebhookDelivery s i rec now =
     s\<lparr>vs_webhooks := update_where (\<lambda>q. wh_id q = i) (\<lambda>q. q\<lparr>wh_last_delivery_at := Some now, wh_last_delivery := Some rec\<rparr>) (vs_webhooks s)\<rparr>"

definition WebhookInUse :: "vsite \<Rightarrow> ident \<Rightarrow> nat" where
  "WebhookInUse s i = count_where (\<lambda>q. st_webhook_id q = i) (sd_stacks (vs_stacks s)) + count_where (\<lambda>v. vo_webhook_id v = i) (vs_sources s)"

definition DeleteWebhook :: "vsite \<Rightarrow> ident \<Rightarrow> webhook_error + vsite" where
  "DeleteWebhook s i =
     (if list_ex (\<lambda>q. wh_id q = i) (vs_webhooks s) \<and>
         (list_ex (\<lambda>q. st_webhook_id q = i) (sd_stacks (vs_stacks s)) \<or> list_ex (\<lambda>v. vo_webhook_id v = i) (vs_sources s))
      then Inl WebhookConstraint else Inr (set_webhooks s (delete_where (\<lambda>q. wh_id q = i) (vs_webhooks s))))"

definition StacksByWebhook :: "vsite \<Rightarrow> ident \<Rightarrow> stack list" where
  "StacksByWebhook s i = sort_key st_name (filter (\<lambda>q. st_webhook_id q = i) (sd_stacks (vs_stacks s)))"

definition VolumeSourcesByWebhook :: "vsite \<Rightarrow> ident \<Rightarrow> volume_source list" where
  "VolumeSourcesByWebhook s i = sort_key vo_volume (filter (\<lambda>v. vo_webhook_id v = i) (vs_sources s))"

section \<open>The payload\<close>

record payload =
  pl_ref :: string
  pl_before :: string
  pl_after :: string
  pl_repository :: "string list"
  pl_project :: "string list"
  pl_commits :: "(string list \<times> string list \<times> string list) list"

record hook_crypto =
  hc_hmac :: "string \<Rightarrow> string \<Rightarrow> string"
  hc_open :: "string \<Rightarrow> string option"
  hc_seal :: "string \<Rightarrow> string option"
  hc_url :: "string \<Rightarrow> (string \<times> string \<times> string) option"
  hc_decode :: "string \<Rightarrow> payload option"

record push =
  pu_ref :: string
  pu_test :: bool
  pu_files :: "string list"
  pu_repos :: "string list"

definition to_lower :: "string \<Rightarrow> string" where
  "to_lower s = map lower_char s"

definition trim_char :: "char \<Rightarrow> string \<Rightarrow> string" where
  "trim_char c s = rev (dropWhile (\<lambda>x. x = c) (rev (dropWhile (\<lambda>x. x = c) s)))"

definition after_last :: "char \<Rightarrow> string \<Rightarrow> string" where
  "after_last c s = rev (takeWhile (\<lambda>x. x \<noteq> c) (rev s))"

definition after_first :: "char \<Rightarrow> string \<Rightarrow> string" where
  "after_first c s = tl (dropWhile (\<lambda>x. x \<noteq> c) s)"

text \<open>Host and path of a repository: the \<^verbatim>\<open>scp\<close> form by hand, any other through the URL parser.\<close>

definition repo_parts :: "(string \<Rightarrow> (string \<times> string \<times> string) option) \<Rightarrow> string \<Rightarrow> (string \<times> string) option" where
  "repo_parts url raw =
     (if \<not> contains raw ''://''
      then (let rest = after_last (CHR ''@'') raw
            in if CHR '':'' \<notin> set rest then None else Some (takeWhile (\<lambda>x. x \<noteq> CHR '':'') rest, after_first (CHR '':'') rest))
      else (case url raw of
              None \<Rightarrow> None
            | Some (host, hostname, p) \<Rightarrow> if host = [] then None else Some (hostname, p)))"

definition repoKey :: "(string \<Rightarrow> (string \<times> string \<times> string) option) \<Rightarrow> string \<Rightarrow> string" where
  "repoKey url raw =
     (let raw = trim_space raw
      in if raw = [] then []
         else (case repo_parts url raw of
                 None \<Rightarrow> []
               | Some (host, p) \<Rightarrow>
                   (let p = trim_suffix (trim_char (CHR ''/'') p) ''.git''
                    in if host = [] \<or> p = [] then [] else to_lower (host @ ''/'' @ p))))"

definition isAPIRepoKey :: "string \<Rightarrow> bool" where
  "isAPIRepoKey k =
     (if has_prefix k ''api.'' then True
      else (let p = after_first (CHR ''/'') k in has_prefix p ''api/v1/repos/'' \<or> has_prefix p ''api/v4/projects/''))"

definition add_new :: "string list \<Rightarrow> string \<Rightarrow> string list" where
  "add_new xs x = (if x \<in> set xs then xs else xs @ [x])"

definition parsePush :: "hook_crypto \<Rightarrow> string \<Rightarrow> push option" where
  "parsePush hc body =
     (case hc_decode hc body of
        None \<Rightarrow> None
      | Some pl \<Rightarrow>
          Some \<lparr>pu_ref = pl_ref pl, pu_test = (pl_before pl \<noteq> [] \<and> pl_before pl = pl_after pl),
            pu_files = foldl add_new [] (concat (map (\<lambda>(a, m, r). a @ m @ r) (pl_commits pl))),
            pu_repos = foldl add_new [] (filter (\<lambda>k. k \<noteq> [] \<and> \<not> isAPIRepoKey k) (map (repoKey (hc_url hc)) (pl_repository pl @ pl_project pl)))\<rparr>)"

definition fromRepo :: "(string \<Rightarrow> (string \<times> string \<times> string) option) \<Rightarrow> push \<Rightarrow> string \<Rightarrow> bool" where
  "fromRepo url p git = (let want = repoKey url git in if pu_repos p = [] \<or> want = [] then True else want \<in> set (pu_repos p))"

definition norm_ref :: "string \<Rightarrow> string" where
  "norm_ref s = trim_prefix (trim_prefix s ''refs/heads/'') ''refs/tags/''"

definition refMatches :: "string \<Rightarrow> string \<Rightarrow> bool" where
  "refMatches pushed tracked \<longleftrightarrow> norm_ref pushed = norm_ref tracked"

section \<open>Planning\<close>

definition ignored :: "delivery_result \<Rightarrow> string \<Rightarrow> delivery_result" where
  "ignored r why = r\<lparr>vd_status := ''ignored'', vd_reason := why\<rparr>"

definition stack_verdict :: "(string \<Rightarrow> (string \<times> string \<times> string) option) \<Rightarrow> push \<Rightarrow> stack \<Rightarrow> delivery_result" where
  "stack_verdict url p st =
     (let res = \<lparr>vd_kind = ''stack'', vd_id = st_id st, vd_name = st_name st, vd_env_id = st_env_id st, vd_status = [], vd_reason = [], vd_deployment_id = []\<rparr>
      in if \<not> st_auto_deploy st then ignored res ''auto-deploy is paused on this stack''
         else if st_source_kind st \<noteq> ''git'' then ignored res ''this stack has no git source to push to''
         else if \<not> fromRepo url p (st_git_url st)
         then ignored res (''push was for '' @ join '', '' (pu_repos p) @ '', this stack tracks '' @ repoKey url (st_git_url st))
         else if pu_ref p \<noteq> [] \<and> st_git_ref st \<noteq> [] \<and> \<not> refMatches (pu_ref p) (st_git_ref st)
         then ignored res (''push was to '' @ pu_ref p @ '', this stack tracks '' @ st_git_ref st)
         else if pu_files p \<noteq> [] \<and> \<not> Matches (pu_files p) (WatchPatterns (st_watch_paths st) (st_git_path st))
         then ignored res ''no watched path was changed''
         else res\<lparr>vd_status := ''deploying''\<rparr>)"

definition source_verdict ::
  "(string \<Rightarrow> (string \<times> string \<times> string) option) \<Rightarrow> push \<Rightarrow> (ident \<times> string) list \<Rightarrow> volume_source \<Rightarrow> delivery_result" where
  "source_verdict url p deploying v =
     (let res = \<lparr>vd_kind = ''volume_source'', vd_id = vo_id v, vd_name = vo_volume v, vd_env_id = vo_env_id v, vd_status = [], vd_reason = [], vd_deployment_id = []\<rparr>
      in if \<not> vo_auto_sync v then ignored res ''auto-sync is paused on this source''
         else if vo_source_kind v \<noteq> ''git'' then ignored res ''this source has no git repository to push to''
         else if \<not> fromRepo url p (vo_git_url v)
         then ignored res (''push was for '' @ join '', '' (pu_repos p) @ '', this source tracks '' @ repoKey url (vo_git_url v))
         else if pu_ref p \<noteq> [] \<and> vo_git_ref v \<noteq> [] \<and> \<not> refMatches (pu_ref p) (vo_git_ref v)
         then ignored res (''push was to '' @ pu_ref p @ '', this source tracks '' @ vo_git_ref v)
         else if pu_files p \<noteq> [] \<and> \<not> touchesSubtree (pu_files p) (vo_git_path v)
         then ignored res (''no file under '' @ path_clean (''/'' @ vo_git_path v) @ '' was changed'')
         else if gget [] deploying (vo_stack_id v) \<noteq> []
         then res\<lparr>vd_status := ''covered'', vd_reason := ''synced by the deploy of '' @ gget [] deploying (vo_stack_id v)\<rparr>
         else res\<lparr>vd_status := ''syncing''\<rparr>)"

definition deploying_stacks :: "(string \<Rightarrow> (string \<times> string \<times> string) option) \<Rightarrow> push \<Rightarrow> stack list \<Rightarrow> (ident \<times> string) list" where
  "deploying_stacks url p sts =
     foldl (\<lambda>m st. if vd_status (stack_verdict url p st) = ''deploying'' then gput m (st_id st) (st_name st) else m) [] sts"

definition planDelivery ::
  "(string \<Rightarrow> (string \<times> string \<times> string) option) \<Rightarrow> push \<Rightarrow> stack list \<Rightarrow> volume_source list \<Rightarrow> delivery_result list" where
  "planDelivery url p sts vs = map (stack_verdict url p) sts @ map (source_verdict url p (deploying_stacks url p sts)) vs"

section \<open>Signatures\<close>

record hook_request =
  hq_headers :: "(string \<times> string) list"
  hq_body :: string
  hq_readable :: bool

definition header :: "hook_request \<Rightarrow> string \<Rightarrow> string" where
  "header r n = gget [] (hq_headers r) n"

definition maxWebhookBody :: int where
  "maxWebhookBody = 5242880"

definition checkHMAC :: "hook_crypto \<Rightarrow> string \<Rightarrow> string \<Rightarrow> string \<Rightarrow> bool" where
  "checkHMAC hc got body secret \<longleftrightarrow> trim_space got = hc_hmac hc secret body"

definition verifySignature :: "hook_crypto \<Rightarrow> hook_request \<Rightarrow> string \<Rightarrow> bool" where
  "verifySignature hc r secret =
     (let hub = header r ''X-Hub-Signature-256''; forge = firstNonEmpty [header r ''X-Forgejo-Signature'', header r ''X-Gitea-Signature''];
          tok = header r ''X-Gitlab-Token''
      in if hub \<noteq> [] then checkHMAC hc (trim_prefix hub ''sha256='') (hq_body r) secret
         else if forge \<noteq> [] then checkHMAC hc forge (hq_body r) secret
         else if tok \<noteq> [] then tok = secret
         else False)"

definition isPing :: "hook_request \<Rightarrow> bool" where
  "isPing r = equal_fold (firstNonEmpty [header r ''X-GitHub-Event'', header r ''X-Forgejo-Event'', header r ''X-Gitea-Event'', header r ''X-Gitlab-Event'']) ''ping''"

section \<open>Deliveries\<close>

datatype hook_reply =
    HookNotFound | HookUnreadable | BadSignature | Pong | NotAPush | TestPong | Answered bool "delivery_result list"

record delivery_job =
  jb_webhook :: ident
  jb_record :: delivery_record
  jb_stacks :: "stack list"
  jb_sources :: "volume_source list"

definition audit :: "hsite \<Rightarrow> ident \<Rightarrow> string \<Rightarrow> string \<Rightarrow> string \<Rightarrow> hsite" where
  "audit s env action target oc = s\<lparr>hs_audit := hs_audit s @ [\<lparr>ha_env_id = env, ha_action = action, ha_target = target, ha_outcome = oc\<rparr>]\<rparr>"

definition recordDelivery :: "hsite \<Rightarrow> ident \<Rightarrow> delivery_record \<Rightarrow> int \<Rightarrow> hsite" where
  "recordDelivery s i rec now = s\<lparr>hs_v := RecordWebhookDelivery (hs_v s) i rec now\<rparr>"

definition acts :: "delivery_result \<Rightarrow> bool" where
  "acts r \<longleftrightarrow> vd_status r = ''deploying'' \<or> vd_status r = ''syncing''"

definition answer_push :: "hook_crypto \<Rightarrow> hsite \<Rightarrow> webhook \<Rightarrow> push \<Rightarrow> int \<Rightarrow> hook_reply \<times> hsite \<times> delivery_job option" where
  "answer_push hc s wh p now =
     (let sts = StacksByWebhook (hs_v s) (wh_id wh); vs = VolumeSourcesByWebhook (hs_v s) (wh_id wh);
          results = planDelivery (hc_url hc) p sts vs;
          rec = \<lparr>rc_event = ''push'', rc_ref = pu_ref p, rc_repos = pu_repos p, rc_results = results\<rparr>;
          acting = list_ex acts results
      in (Answered acting results, recordDelivery s (wh_id wh) rec now,
          if acting then Some \<lparr>jb_webhook = wh_id wh, jb_record = rec, jb_stacks = sts, jb_sources = vs\<rparr> else None))"

definition deliverWebhook :: "hook_crypto \<Rightarrow> hsite \<Rightarrow> webhook \<Rightarrow> hook_request \<Rightarrow> int \<Rightarrow> hook_reply \<times> hsite \<times> delivery_job option" where
  "deliverWebhook hc s wh r now =
     (if \<not> hq_readable r \<or> maxWebhookBody < int (length (hq_body r)) then (HookUnreadable, s, None)
      else (let denied = audit s (wh_env_id wh) ''webhook.delivery'' (wh_name wh) ''denied''
            in case hc_open hc (wh_secret_enc wh) of
                 None \<Rightarrow> (HookNotFound, denied, None)
               | Some secret \<Rightarrow>
                   if secret = [] then (HookNotFound, denied, None)
                   else if \<not> verifySignature hc r secret then (BadSignature, denied, None)
                   else if isPing r
                   then (Pong, recordDelivery s (wh_id wh) \<lparr>rc_event = ''ping'', rc_ref = [], rc_repos = [], rc_results = []\<rparr> now, None)
                   else (case parsePush hc (hq_body r) of
                           None \<Rightarrow> (NotAPush, s, None)
                         | Some p \<Rightarrow>
                             if pu_test p
                             then (TestPong, recordDelivery s (wh_id wh) \<lparr>rc_event = ''test'', rc_ref = pu_ref p, rc_repos = pu_repos p, rc_results = []\<rparr> now, None)
                             else answer_push hc s wh p now)))"

definition handleWebhookDelivery :: "hook_crypto \<Rightarrow> hsite \<Rightarrow> ident \<Rightarrow> hook_request \<Rightarrow> int \<Rightarrow> hook_reply \<times> hsite \<times> delivery_job option" where
  "handleWebhookDelivery hc s i r now =
     (case WebhookRow (hs_v s) i of None \<Rightarrow> (HookNotFound, s, None) | Some wh \<Rightarrow> deliverWebhook hc s wh r now)"

definition deliverLinked :: "hook_crypto \<Rightarrow> hsite \<Rightarrow> ident \<Rightarrow> hook_request \<Rightarrow> int \<Rightarrow> hook_reply \<times> hsite \<times> delivery_job option" where
  "deliverLinked hc s i r now =
     (case WebhookRow (hs_v s) i of None \<Rightarrow> (HookNotFound, s, None) | Some wh \<Rightarrow> deliverWebhook hc s wh r now)"

definition handleLegacyStackWebhook :: "hook_crypto \<Rightarrow> hsite \<Rightarrow> ident \<Rightarrow> hook_request \<Rightarrow> int \<Rightarrow> hook_reply \<times> hsite \<times> delivery_job option" where
  "handleLegacyStackWebhook hc s i r now =
     (case StackByID (vs_stacks (hs_v s)) i of
        Inl e \<Rightarrow> (HookNotFound, s, None)
      | Inr (st, _) \<Rightarrow> if st_webhook_id st = [] then (HookNotFound, s, None) else deliverLinked hc s (st_webhook_id st) r now)"

definition handleLegacyVolumeSourceWebhook ::
  "hook_crypto \<Rightarrow> hsite \<Rightarrow> ident \<Rightarrow> hook_request \<Rightarrow> int \<Rightarrow> hook_reply \<times> hsite \<times> delivery_job option" where
  "handleLegacyVolumeSourceWebhook hc s i r now =
     (case SourceRow (hs_v s) i of
        None \<Rightarrow> (HookNotFound, s, None)
      | Some v \<Rightarrow> if vo_webhook_id v = [] then (HookNotFound, s, None) else deliverLinked hc s (vo_webhook_id v) r now)"

section \<open>The job behind a delivery\<close>

text \<open>A deploy started by a push has no user. Two nested deployments are enough, so it always returns.\<close>

definition deploy_target :: "docker \<Rightarrow> hsite \<Rightarrow> stack \<Rightarrow> (deploy_result \<times> hsite) option" where
  "deploy_target dk s st =
     (case deploy 2 dk ((hs_w s)\<lparr>w_db := vs_stacks (hs_v s)\<rparr>) st ''up'' ''webhook'' [] None of
        None \<Rightarrow> None
      | Some (w, r) \<Rightarrow> Some (r, s\<lparr>hs_w := w, hs_v := (hs_v s)\<lparr>vs_stacks := w_db w\<rparr>\<rparr>))"

definition run_deploy :: "docker \<Rightarrow> hsite \<Rightarrow> stack \<Rightarrow> delivery_result \<Rightarrow> delivery_result \<times> hsite" where
  "run_deploy dk s st res =
     (let failed = (\<lambda>s why. (res\<lparr>vd_status := ''failed'', vd_reason := why\<rparr>, audit s (st_env_id st) ''stack.webhook'' (st_name st) ''error''))
      in case deploy_target dk s st of
           None \<Rightarrow> failed s []
         | Some (deploy_result.Deployed dep, s) \<Rightarrow>
             (res\<lparr>vd_status := ''deployed'', vd_deployment_id := d_id dep\<rparr>, audit s (st_env_id st) ''stack.webhook'' (st_name st) ''ok'')
         | Some (deploy_result.Refused e, s) \<Rightarrow>
             if e = ErrRunInProgress
             then (res\<lparr>vd_status := ''skipped'', vd_reason := ''a deploy was already running for this stack''\<rparr>,
                   audit s (st_env_id st) ''stack.webhook'' (st_name st) ''ok'')
             else failed s []
         | Some (deploy_result.Failed msg, s) \<Rightarrow> failed s msg
         | Some (deploy_result.UnknownEngine, s) \<Rightarrow> failed s [])"

definition run_sync ::
  "git_remote \<Rightarrow> crypto \<Rightarrow> (string \<Rightarrow> outage) \<Rightarrow> int \<Rightarrow> hsite \<Rightarrow> volume_source \<Rightarrow> delivery_result \<Rightarrow> delivery_result \<times> hsite" where
  "run_sync git y fate now s v res =
     (case reportVolumeSourceSync git y fate (hs_v s) v now of
        (Some e, vs) \<Rightarrow>
          (res\<lparr>vd_status := ''failed'', vd_reason := []\<rparr>, audit (s\<lparr>hs_v := vs\<rparr>) (vo_env_id v) ''volsource.webhook'' (vo_volume v) ''error'')
      | (None, vs) \<Rightarrow> (res\<lparr>vd_status := ''synced''\<rparr>, audit (s\<lparr>hs_v := vs\<rparr>) (vo_env_id v) ''volsource.webhook'' (vo_volume v) ''ok''))"

definition run_target ::
  "docker \<Rightarrow> git_remote \<Rightarrow> crypto \<Rightarrow> (string \<Rightarrow> outage) \<Rightarrow> int \<Rightarrow> delivery_job \<Rightarrow> hsite \<Rightarrow> delivery_result \<Rightarrow> delivery_result \<times> hsite" where
  "run_target dk git y fate now job s res =
     (if vd_status res = ''deploying''
      then (case first_row (\<lambda>st. st_id st = vd_id res) (jb_stacks job) of None \<Rightarrow> (res, s) | Some st \<Rightarrow> run_deploy dk s st res)
      else if vd_status res = ''syncing''
      then (case first_row (\<lambda>v. vo_id v = vd_id res) (jb_sources job) of None \<Rightarrow> (res, s) | Some v \<Rightarrow> run_sync git y fate now s v res)
      else (res, s))"

fun run_targets ::
  "docker \<Rightarrow> git_remote \<Rightarrow> crypto \<Rightarrow> (string \<Rightarrow> outage) \<Rightarrow> int \<Rightarrow> delivery_job \<Rightarrow> hsite \<Rightarrow> delivery_result list \<Rightarrow> delivery_result list \<times> hsite" where
  "run_targets dk git y fate now job s [] = ([], s)"
| "run_targets dk git y fate now job s (res # rest) =
     (case run_target dk git y fate now job s res of
        (r, s) \<Rightarrow> (case run_targets dk git y fate now job s rest of (rs, s) \<Rightarrow> (r # rs, s)))"

definition runDelivery :: "docker \<Rightarrow> git_remote \<Rightarrow> crypto \<Rightarrow> (string \<Rightarrow> outage) \<Rightarrow> int \<Rightarrow> hsite \<Rightarrow> delivery_job \<Rightarrow> hsite" where
  "runDelivery dk git y fate now s job =
     (case run_targets dk git y fate now job s (rc_results (jb_record job)) of
        (rs, s) \<Rightarrow> recordDelivery s (jb_webhook job) ((jb_record job)\<lparr>rc_results := rs\<rparr>) now)"

section \<open>What a caller sees of a webhook\<close>

record target_view =
  tv_kind :: string
  tv_id :: ident
  tv_name :: string
  tv_env_id :: ident
  tv_paused :: bool

record hook_view =
  hv_id :: ident
  hv_targets :: "target_view list"
  hv_hidden :: nat
  hv_last :: "delivery_record option"

definition view_cap :: "string \<Rightarrow> cap" where
  "view_cap kind = (if kind = ''volume_source'' then VolSourcesView else StacksView)"

definition viewWebhook :: "scoped_mask \<Rightarrow> vsite \<Rightarrow> webhook \<Rightarrow> hook_view" where
  "viewWebhook caps s wh =
     (let sts = StacksByWebhook s (wh_id wh); vs = VolumeSourcesByWebhook s (wh_id wh)
      in \<lparr>hv_id = wh_id wh,
          hv_targets =
            map (\<lambda>st. \<lparr>tv_kind = ''stack'', tv_id = st_id st, tv_name = st_name st, tv_env_id = st_env_id st, tv_paused = (\<not> st_auto_deploy st)\<rparr>)
              (filter (\<lambda>st. sm_Has caps StacksView (st_env_id st)) sts) @
            map (\<lambda>v. \<lparr>tv_kind = ''volume_source'', tv_id = vo_id v, tv_name = vo_volume v, tv_env_id = vo_env_id v, tv_paused = (\<not> vo_auto_sync v)\<rparr>)
              (filter (\<lambda>v. sm_Has caps VolSourcesView (vo_env_id v)) vs),
          hv_hidden = count_where (\<lambda>st. \<not> sm_Has caps StacksView (st_env_id st)) sts + count_where (\<lambda>v. \<not> sm_Has caps VolSourcesView (vo_env_id v)) vs,
          hv_last = map_option (\<lambda>rec. rec\<lparr>rc_results := filter (\<lambda>r. sm_Has caps (view_cap (vd_kind r)) (vd_env_id r)) (rc_results rec)\<rparr>)
            (if wh_last_delivery_at wh = None then None else wh_last_delivery wh)\<rparr>)"

definition handleListWebhooks :: "scoped_mask \<Rightarrow> vsite \<Rightarrow> bool \<Rightarrow> ident list \<Rightarrow> hook_view list" where
  "handleListWebhooks caps s global envs = map (viewWebhook caps s) (ListWebhooks s global envs)"

section \<open>Managing webhooks\<close>

datatype manage_reply = HookForbidden | HookRefused string | HookConflict string | HookStoreError | NoSuchHook | HookSecret ident string | HookDone

definition validWebhookName :: "string \<Rightarrow> bool" where
  "validWebhookName n \<longleftrightarrow> n \<noteq> [] \<and> length n \<le> 128 \<and> trim_space n = n \<and> CHR 0x0D \<notin> set n \<and> CHR 0x0A \<notin> set n"

definition createWebhook :: "hook_crypto \<Rightarrow> hsite \<Rightarrow> string \<Rightarrow> ident \<Rightarrow> ident \<Rightarrow> string \<Rightarrow> ident \<Rightarrow> int \<Rightarrow> (manage_reply + webhook) \<times> hsite" where
  "createWebhook hc s name env user secret i now =
     (case hc_seal hc secret of
        None \<Rightarrow> (Inl HookStoreError, s)
      | Some sealed \<Rightarrow>
          (case CreateWebhook (hs_v s) \<lparr>wh_id = [], wh_name = name, wh_env_id = env, wh_secret_enc = sealed, wh_last_delivery_at = None,
                  wh_last_delivery = None, wh_created_at = 0, wh_created_by = user\<rparr> i now of
             Inl ErrWebhookNameTaken \<Rightarrow> (Inl (HookRefused ''webhook_name_taken''), s)
           | Inl WebhookConstraint \<Rightarrow> (Inl HookStoreError, s)
           | Inr (w, vs) \<Rightarrow> (Inr w, audit (s\<lparr>hs_v := vs\<rparr>) env ''webhook.create'' name ''ok'')))"

definition handleCreateWebhook ::
  "hook_crypto \<Rightarrow> hsite \<Rightarrow> scoped_mask \<Rightarrow> string \<Rightarrow> ident \<Rightarrow> ident \<Rightarrow> string \<Rightarrow> ident \<Rightarrow> int \<Rightarrow> manage_reply \<times> hsite" where
  "handleCreateWebhook hc s caps name env user secret i now =
     (if env = [] \<and> \<not> Has (Global caps) WebhooksEdit then (HookForbidden, s)
      else if env \<noteq> [] \<and> \<not> sm_Has caps WebhooksEdit env then (HookForbidden, s)
      else if env \<noteq> [] \<and> env \<notin> set (cd_environments (cs_db (vs_cs (hs_v s)))) then (HookRefused ''no_such_cluster'', s)
      else if \<not> validWebhookName (trim_space name) then (HookRefused ''bad_name'', s)
      else (case createWebhook hc s (trim_space name) env user secret i now of
              (Inl e, s) \<Rightarrow> (e, s)
            | (Inr w, s) \<Rightarrow> (HookSecret (wh_id w) secret, s)))"

definition handleUpdateWebhook :: "hsite \<Rightarrow> webhook \<Rightarrow> string \<Rightarrow> ident \<Rightarrow> manage_reply \<times> hsite" where
  "handleUpdateWebhook s wh name env =
     (if env \<noteq> [] \<and> env \<noteq> wh_env_id wh then (HookRefused ''scope_fixed'', s)
      else if \<not> validWebhookName (trim_space name) then (HookRefused ''bad_name'', s)
      else (case RenameWebhook (hs_v s) (wh_id wh) (trim_space name) of
              Inl e \<Rightarrow> (HookRefused ''webhook_name_taken'', s)
            | Inr vs \<Rightarrow> (HookDone, audit (s\<lparr>hs_v := vs\<rparr>) (wh_env_id wh) ''webhook.rename'' (trim_space name) ''ok'')))"

definition handleRotateWebhook :: "hook_crypto \<Rightarrow> hsite \<Rightarrow> webhook \<Rightarrow> string \<Rightarrow> manage_reply \<times> hsite" where
  "handleRotateWebhook hc s wh secret =
     (case hc_seal hc secret of
        None \<Rightarrow> (HookStoreError, s)
      | Some sealed \<Rightarrow>
          (HookSecret (wh_id wh) secret,
           audit (s\<lparr>hs_v := SetWebhookSecret (hs_v s) (wh_id wh) sealed\<rparr>) (wh_env_id wh) ''webhook.rotate'' (wh_name wh) ''ok''))"

definition handleDeleteWebhook :: "hsite \<Rightarrow> webhook \<Rightarrow> manage_reply \<times> hsite" where
  "handleDeleteWebhook s wh =
     (if 0 < WebhookInUse (hs_v s) (wh_id wh) then (HookConflict ''webhook_in_use'', s)
      else (case DeleteWebhook (hs_v s) (wh_id wh) of
              Inl e \<Rightarrow> (HookStoreError, s)
            | Inr vs \<Rightarrow> (HookDone, audit (s\<lparr>hs_v := vs\<rparr>) (wh_env_id wh) ''webhook.delete'' (wh_name wh) ''ok'')))"

definition freeWebhookName :: "vsite \<Rightarrow> string \<Rightarrow> string \<Rightarrow> string \<Rightarrow> string" where
  "freeWebhookName s base cluster fresh =
     (if WebhookByName s base = None then base
      else if WebhookByName s (base @ ''-'' @ cluster) = None then base @ ''-'' @ cluster
      else base @ ''-'' @ to_lower (take 6 fresh))"

record autodeploy_request =
  aq_enabled :: bool
  aq_watch_paths :: string
  aq_webhook_id :: ident
  aq_create_webhook :: bool

definition linked_webhook ::
  "hook_crypto \<Rightarrow> hsite \<Rightarrow> scoped_mask \<Rightarrow> stack \<Rightarrow> autodeploy_request \<Rightarrow> string \<Rightarrow> ident \<Rightarrow> string \<Rightarrow> string \<Rightarrow> ident \<Rightarrow> int \<Rightarrow> (manage_reply + ident) \<times> hsite" where
  "linked_webhook hc s caps st req cluster user fresh secret i now =
     (if aq_create_webhook req
      then (if \<not> sm_Has caps WebhooksEdit (st_env_id st) then (Inl HookForbidden, s)
            else (case createWebhook hc s (freeWebhookName (hs_v s) (st_name st) cluster fresh) (st_env_id st) user secret i now of
                    (Inl e, s) \<Rightarrow> (Inl e, s)
                  | (Inr w, s) \<Rightarrow> (Inr (wh_id w), s)))
      else (case linkableWebhook (hs_v s) (aq_webhook_id req) (st_env_id st) of
              Inl code \<Rightarrow> (Inl (HookRefused code), s)
            | Inr wid \<Rightarrow> (Inr wid, s)))"

definition handleSetAutoDeploy ::
  "hook_crypto \<Rightarrow> hsite \<Rightarrow> scoped_mask \<Rightarrow> stack \<Rightarrow> autodeploy_request \<Rightarrow> string \<Rightarrow> ident \<Rightarrow> string \<Rightarrow> string \<Rightarrow> ident \<Rightarrow> int \<Rightarrow> manage_reply \<times> hsite" where
  "handleSetAutoDeploy hc s caps st req cluster user fresh secret i now =
     (if (aq_enabled req \<or> aq_webhook_id req \<noteq> [] \<or> aq_create_webhook req) \<and> st_source_kind st \<noteq> ''git'' then (HookRefused ''no_git_source'', s)
      else (case linked_webhook hc s caps st req cluster user fresh secret i now of
              (Inl e, s) \<Rightarrow> (e, s)
            | (Inr wid, s) \<Rightarrow>
                if aq_enabled req \<and> wid = [] then (HookRefused ''no_webhook'', s)
                else (case SetStackAutoDeploy (vs_stacks (hs_v s)) (st_id st) (aq_enabled req) wid (trim_space (aq_watch_paths req)) of
                        Inl e \<Rightarrow> (HookStoreError, s)
                      | Inr db \<Rightarrow>
                          (if aq_create_webhook req then HookSecret wid secret else HookDone,
                           audit (s\<lparr>hs_v := (hs_v s)\<lparr>vs_stacks := db\<rparr>\<rparr>) (st_env_id st) ''stack.autodeploy'' (st_name st) ''ok''))))"

end
