(* ===== verification/Pushes.thy ===== *)
theory Pushes
  imports Webhooks Deploys Material
begin

text \<open>
  What the webhooks guarantee: nothing happens without the secret, a push acts on a target exactly when its
  rules hold, and a webhook that is pinned to a cluster only ever acts in that cluster; and where a push
  does more or less than its record says.
\<close>

section \<open>Signatures\<close>

lemma verifySignature_carries:
  "verifySignature hc r secret \<Longrightarrow>
     trim_space (trim_prefix (header r ''X-Hub-Signature-256'') ''sha256='') = hc_hmac hc secret (hq_body r) \<or>
     (\<exists>h \<in> {''X-Forgejo-Signature'', ''X-Gitea-Signature''}. trim_space (header r h) = hc_hmac hc secret (hq_body r)) \<or>
     header r ''X-Gitlab-Token'' = secret"
  by (auto simp: verifySignature_def checkHMAC_def firstNonEmpty_def Let_def split: if_split_asm)

lemma deliverWebhook_signed:
  assumes "deliverWebhook hc s wh r now = (reply, s', job)"
  shows "(\<exists>secret. hc_open hc (wh_secret_enc wh) = Some secret \<and> secret \<noteq> [] \<and> verifySignature hc r secret) \<or>
    hs_v s' = hs_v s \<and> hs_w s' = hs_w s \<and> job = None \<and> reply \<in> {HookNotFound, HookUnreadable, BadSignature}"
  using assms by (auto simp: deliverWebhook_def audit_def Let_def split: if_split_asm option.split_asm)

text \<open>The old addresses of a stack and of a volume source are the address of their webhook.\<close>

lemma legacy_is_an_alias:
  "handleLegacyStackWebhook hc s i r now = (HookNotFound, s, None) \<or> (\<exists>j. handleLegacyStackWebhook hc s i r now = handleWebhookDelivery hc s j r now)"
  "handleLegacyVolumeSourceWebhook hc s i r now = (HookNotFound, s, None) \<or>
     (\<exists>j. handleLegacyVolumeSourceWebhook hc s i r now = handleWebhookDelivery hc s j r now)"
proof -
  have "deliverLinked hc s j r now = handleWebhookDelivery hc s j r now" for j by (simp add: deliverLinked_def handleWebhookDelivery_def)
  then show
    "handleLegacyStackWebhook hc s i r now = (HookNotFound, s, None) \<or> (\<exists>j. handleLegacyStackWebhook hc s i r now = handleWebhookDelivery hc s j r now)"
    "handleLegacyVolumeSourceWebhook hc s i r now = (HookNotFound, s, None) \<or>
     (\<exists>j. handleLegacyVolumeSourceWebhook hc s i r now = handleWebhookDelivery hc s j r now)"
    by (auto simp: handleLegacyStackWebhook_def handleLegacyVolumeSourceWebhook_def split: sum.split option.split)
qed

text \<open>C5: nothing happens without the secret. Through any of the three delivery addresses, a request that
  changes a row, starts a job or is answered as accepted carries the HMAC of its exact body under the secret
  of a stored webhook, or that secret itself as a GitLab token.\<close>

theorem unsigned_deliveries_do_nothing:
  assumes "(reply, s', job) \<in> {handleWebhookDelivery hc s i r now, handleLegacyStackWebhook hc s i r now, handleLegacyVolumeSourceWebhook hc s i r now}"
    and "hs_v s' \<noteq> hs_v s \<or> hs_w s' \<noteq> hs_w s \<or> job \<noteq> None \<or> reply \<notin> {HookNotFound, HookUnreadable, BadSignature}"
  shows "\<exists>wh secret. wh \<in> set (vs_webhooks (hs_v s)) \<and> hc_open hc (wh_secret_enc wh) = Some secret \<and> secret \<noteq> [] \<and>
    (trim_space (trim_prefix (header r ''X-Hub-Signature-256'') ''sha256='') = hc_hmac hc secret (hq_body r) \<or>
     (\<exists>h \<in> {''X-Forgejo-Signature'', ''X-Gitea-Signature''}. trim_space (header r h) = hc_hmac hc secret (hq_body r)) \<or>
     header r ''X-Gitlab-Token'' = secret)"
proof -
  obtain j where j: "handleWebhookDelivery hc s j r now = (reply, s', job)"
    using assms legacy_is_an_alias[of hc s i r now] by (metis empty_iff fst_conv insert_iff snd_conv)
  then obtain wh where wh: "WebhookRow (hs_v s) j = Some wh" "deliverWebhook hc s wh r now = (reply, s', job)"
    using assms(2) by (auto simp: handleWebhookDelivery_def split: option.split_asm)
  then have "wh \<in> set (vs_webhooks (hs_v s))" by (auto simp: WebhookRow_def first_row_def split: list.split_asm dest: filter_eq_ConsD)
  then show ?thesis using deliverWebhook_signed[OF wh(2)] assms(2) verifySignature_carries[of hc r] by blast
qed

section \<open>Planning\<close>

text \<open>The rules a push has to meet, the same for both kinds of target but for the paths.\<close>

definition push_rules :: "(string \<Rightarrow> (string \<times> string \<times> string) option) \<Rightarrow> push \<Rightarrow> bool \<Rightarrow> string \<Rightarrow> string \<Rightarrow> string \<Rightarrow> bool \<Rightarrow> bool" where
  "push_rules url p enabled kind git ref hit \<longleftrightarrow>
     enabled \<and> kind = ''git'' \<and> (pu_repos p = [] \<or> repoKey url git = [] \<or> repoKey url git \<in> set (pu_repos p)) \<and>
     (pu_ref p = [] \<or> ref = [] \<or> norm_ref (pu_ref p) = norm_ref ref) \<and> (pu_files p = [] \<or> hit)"

definition stack_rules :: "(string \<Rightarrow> (string \<times> string \<times> string) option) \<Rightarrow> push \<Rightarrow> stack \<Rightarrow> bool" where
  "stack_rules url p st \<longleftrightarrow>
     push_rules url p (st_auto_deploy st) (st_source_kind st) (st_git_url st) (st_git_ref st)
       (Matches (pu_files p) (WatchPatterns (st_watch_paths st) (st_git_path st)))"

definition source_rules :: "(string \<Rightarrow> (string \<times> string \<times> string) option) \<Rightarrow> push \<Rightarrow> volume_source \<Rightarrow> bool" where
  "source_rules url p v \<longleftrightarrow>
     push_rules url p (vo_auto_sync v) (vo_source_kind v) (vo_git_url v) (vo_git_ref v) (touchesSubtree (pu_files p) (vo_git_path v))"

lemmas rule_defs = push_rules_def fromRepo_def refMatches_def ignored_def Let_def

lemma stack_verdict_status: "vd_status (stack_verdict url p st) = (if stack_rules url p st then ''deploying'' else ''ignored'')"
  by (simp add: stack_verdict_def stack_rules_def rule_defs)

lemma verdict_ids [simp]:
  "vd_id (stack_verdict url p st) = st_id st" "vd_env_id (stack_verdict url p st) = st_env_id st"
  "vd_id (source_verdict url p m v) = vo_id v" "vd_env_id (source_verdict url p m v) = vo_env_id v"
  by (simp_all add: stack_verdict_def source_verdict_def ignored_def Let_def)

lemma source_verdict_status:
  "vd_status (source_verdict url p m v) =
     (if \<not> source_rules url p v then ''ignored'' else if gget [] m (vo_stack_id v) \<noteq> [] then ''covered'' else ''syncing'')"
  by (simp add: source_verdict_def source_rules_def rule_defs)

lemma deploying_fold:
  assumes "\<forall>st \<in> set sts. st_name st \<noteq> []"
  shows "gget [] (foldl (\<lambda>m st. if vd_status (stack_verdict url p st) = ''deploying'' then gput m (st_id st) (st_name st) else m) m sts) i \<noteq> [] \<longleftrightarrow>
    gget [] m i \<noteq> [] \<or> (\<exists>st \<in> set sts. st_id st = i \<and> stack_rules url p st)"
  using assms by (induction sts arbitrary: m) (auto simp: stack_verdict_status)

lemma deploying_stacks_iff:
  "\<forall>st \<in> set sts. st_name st \<noteq> [] \<Longrightarrow> gget [] (deploying_stacks url p sts) i \<noteq> [] \<longleftrightarrow> (\<exists>st \<in> set sts. st_id st = i \<and> stack_rules url p st)"
  unfolding deploying_stacks_def using deploying_fold[of sts url p "[]" i] by simp


section \<open>Links\<close>

definition linked :: "webhook list \<Rightarrow> ident \<Rightarrow> ident \<Rightarrow> bool" where
  "linked ws env wid \<longleftrightarrow> wid = [] \<or> (\<exists>w \<in> set ws. wh_id w = wid \<and> (wh_env_id w = [] \<or> wh_env_id w = env))"

definition links_ok :: "vsite \<Rightarrow> bool" where
  "links_ok s \<longleftrightarrow>
     sd_webhooks (vs_stacks s) = map wh_id (vs_webhooks s) \<and> distinct (map wh_id (vs_webhooks s)) \<and>
     distinct (map st_id (sd_stacks (vs_stacks s))) \<and> distinct (map vo_id (vs_sources s)) \<and>
     (\<forall>st \<in> set (sd_stacks (vs_stacks s)). linked (vs_webhooks s) (st_env_id st) (st_webhook_id st)) \<and>
     (\<forall>v \<in> set (vs_sources s). linked (vs_webhooks s) (vo_env_id v) (vo_webhook_id v))"

lemma linked_append: "linked ws env wid \<Longrightarrow> linked (ws @ ws') env wid"
  by (auto simp: linked_def)

lemma linked_update:
  assumes "\<And>q. wh_id (f q) = wh_id q" "\<And>q. wh_env_id (f q) = wh_env_id q"
  shows "linked (update_where p f ws) env wid = linked ws env wid"
proof -
  let ?on = "\<lambda>w. wh_id w = wid \<and> (wh_env_id w = [] \<or> wh_env_id w = env)"
  have "list_ex ?on (update_where p f ws) = list_ex ?on ws" using assms by (intro list_ex_update_same) simp
  then show ?thesis by (simp add: linked_def list_ex_iff)
qed

lemma linkable_linked: "linkableWebhook s wid env = Inr w \<Longrightarrow> linked (vs_webhooks s) env w"
  by (auto simp: linkableWebhook_def linked_def WebhookRow_def first_row_def split: if_split_asm option.split_asm list.split_asm dest!: filter_eq_ConsD)

lemma links_ok_hooks:
  assumes "links_ok s" "map wh_id ws = map wh_id (vs_webhooks s)" "\<And>env wid. linked ws env wid = linked (vs_webhooks s) env wid"
  shows "links_ok (s\<lparr>vs_webhooks := ws\<rparr>)"
  using assms by (simp add: links_ok_def)

lemma RenameWebhook_links: "links_ok s \<Longrightarrow> RenameWebhook s i n = Inr s' \<Longrightarrow> links_ok s'"
  by (auto simp: RenameWebhook_def split: if_split_asm intro!: links_ok_hooks map_update_where linked_update)

lemma SetWebhookSecret_links: "links_ok s \<Longrightarrow> links_ok (SetWebhookSecret s i e)"
  unfolding SetWebhookSecret_def by (intro links_ok_hooks map_update_where linked_update) simp_all

lemma RecordWebhookDelivery_links: "links_ok s \<Longrightarrow> links_ok (RecordWebhookDelivery s i rec now)"
  unfolding RecordWebhookDelivery_def by (intro links_ok_hooks map_update_where linked_update) simp_all

lemma CreateWebhook_links:
  assumes "links_ok s" "CreateWebhook s w i now = Inr (w', s')"
  shows "links_ok s'" "vs_webhooks s' = vs_webhooks s @ [w']" "wh_env_id w' = wh_env_id w" "sd_stacks (vs_stacks s') = sd_stacks (vs_stacks s)"
proof -
  have w': "s' = set_webhooks s (vs_webhooks s @ [w'])" "wh_env_id w' = wh_env_id w" "wh_id w' \<notin> set (map wh_id (vs_webhooks s))"
    using assms(2) unfolding CreateWebhook_def Let_def by (auto simp: list_ex_iff simp del: append_Cons split: if_split_asm)
  then show "links_ok s'" using assms(1) by (auto simp: links_ok_def set_webhooks_def linked_append)
  show "vs_webhooks s' = vs_webhooks s @ [w']" "wh_env_id w' = wh_env_id w" "sd_stacks (vs_stacks s') = sd_stacks (vs_stacks s)"
    using w' by (simp_all add: set_webhooks_def)
qed

lemma DeleteWebhook_links:
  assumes "links_ok s" "DeleteWebhook s i = Inr s'"
  shows "links_ok s'"
proof (cases "\<exists>w \<in> set (vs_webhooks s). wh_id w = i")
  case True
  have s': "s' = set_webhooks s (delete_where (\<lambda>q. wh_id q = i) (vs_webhooks s))" using assms(2) by (simp add: DeleteWebhook_def split: if_split_asm)
  have un: "\<forall>st \<in> set (sd_stacks (vs_stacks s)). st_webhook_id st \<noteq> i" "\<forall>v \<in> set (vs_sources s). vo_webhook_id v \<noteq> i"
    using assms(2) True by (auto simp: DeleteWebhook_def list_ex_iff split: if_split_asm)
  have "linked ws env wid \<Longrightarrow> wid \<noteq> i \<Longrightarrow> linked (delete_where (\<lambda>q. wh_id q = i) ws) env wid" for ws env wid
    by (auto simp: linked_def set_delete_where)
  moreover have "distinct (map wh_id (delete_where (\<lambda>q. wh_id q = i) (vs_webhooks s)))"
    using assms(1) by (simp add: links_ok_def delete_where_def distinct_map_filter)
  ultimately show ?thesis using assms(1) un unfolding s' by (simp add: links_ok_def set_webhooks_def)
next
  case False
  then have "delete_where (\<lambda>q. wh_id q = i) (vs_webhooks s) = vs_webhooks s" by (auto simp: delete_where_def filter_id_conv)
  then show ?thesis using assms by (auto simp: DeleteWebhook_def set_webhooks_def links_ok_def split: if_split_asm)
qed

lemma links_ok_stacks:
  assumes "links_ok s" "sd_webhooks db = sd_webhooks (vs_stacks s)" "distinct (map st_id (sd_stacks db))"
    and "\<forall>st \<in> set (sd_stacks db). linked (vs_webhooks s) (st_env_id st) (st_webhook_id st)"
  shows "links_ok (s\<lparr>vs_stacks := db\<rparr>)"
  using assms by (simp add: links_ok_def)

lemma SetStackAutoDeploy_links:
  assumes "links_ok s" "SetStackAutoDeploy (vs_stacks s) sid on wid watch = Inr db"
    and "\<forall>st \<in> set (sd_stacks (vs_stacks s)). st_id st = sid \<longrightarrow> linked (vs_webhooks s) (st_env_id st) wid"
  shows "links_ok (s\<lparr>vs_stacks := db\<rparr>)"
proof (rule links_ok_stacks[OF assms(1)])
  have db: "db = (vs_stacks s)\<lparr>sd_stacks := update_where (\<lambda>q. st_id q = sid)
      (\<lambda>q. q\<lparr>st_auto_deploy := on, st_webhook_id := wid, st_watch_paths := watch\<rparr>) (sd_stacks (vs_stacks s))\<rparr>"
    using assms(2) by (simp add: SetStackAutoDeploy_def split: if_split_asm)
  show "sd_webhooks db = sd_webhooks (vs_stacks s)" "distinct (map st_id (sd_stacks db))"
    using assms(1) by (simp_all add: db links_ok_def map_update_where)
  show "\<forall>st \<in> set (sd_stacks db). linked (vs_webhooks s) (st_env_id st) (st_webhook_id st)"
    using assms(1,3) by (auto simp: db links_ok_def in_update_where)
qed

lemma UpdateStackSource_links:
  assumes "links_ok s" "UpdateStackSource (vs_stacks s) st = Inr db"
  shows "links_ok (s\<lparr>vs_stacks := db\<rparr>)"
proof (rule links_ok_stacks[OF assms(1)])
  have db: "sd_webhooks db = sd_webhooks (vs_stacks s)" "\<exists>f. sd_stacks db = update_where (\<lambda>q. st_id q = st_id st) f (sd_stacks (vs_stacks s)) \<and>
      (\<forall>q. st_id (f q) = st_id q \<and> st_env_id (f q) = st_env_id q \<and> st_webhook_id (f q) = st_webhook_id q)"
    using assms(2) by (auto simp: UpdateStackSource_def split: if_split_asm)
  then show "sd_webhooks db = sd_webhooks (vs_stacks s)" by simp
  show "distinct (map st_id (sd_stacks db))" using assms(1) db(2) by (auto simp: links_ok_def map_update_where)
  show "\<forall>st \<in> set (sd_stacks db). linked (vs_webhooks s) (st_env_id st) (st_webhook_id st)"
    using assms(1) db(2) by (auto simp: links_ok_def in_update_where)
qed

lemma CreateStack_links:
  assumes "links_ok s" "CreateStack (vs_stacks s) st i now = Inr db"
  shows "links_ok (s\<lparr>vs_stacks := db\<rparr>)"
proof (rule links_ok_stacks[OF assms(1)])
  have "sd_webhooks db = sd_webhooks (vs_stacks s) \<and>
      (\<exists>q. sd_stacks db = sd_stacks (vs_stacks s) @ [q] \<and> st_webhook_id q = [] \<and> (\<forall>x \<in> set (sd_stacks (vs_stacks s)). st_id x \<noteq> st_id q))"
    using assms(2) by (auto simp: CreateStack_def Let_def list_ex_iff split: if_split_asm)
  then show "sd_webhooks db = sd_webhooks (vs_stacks s)" "distinct (map st_id (sd_stacks db))"
    "\<forall>st \<in> set (sd_stacks db). linked (vs_webhooks s) (st_env_id st) (st_webhook_id st)"
    using assms(1) by (auto simp: links_ok_def linked_def[of _ _ "[]"]) metis
qed

lemma DeleteStack_links: "links_ok s \<Longrightarrow> links_ok (s\<lparr>vs_stacks := DeleteStack (vs_stacks s) i\<rparr>)"
  by (rule links_ok_stacks) (auto simp: DeleteStack_def links_ok_def delete_where_def distinct_map_filter)

subsection \<open>Volume sources\<close>

definition same_hooks :: "vsite \<Rightarrow> vsite \<Rightarrow> bool" where
  "same_hooks s s' \<longleftrightarrow> vs_webhooks s' = vs_webhooks s \<and> vs_stacks s' = vs_stacks s \<and>
     map (\<lambda>v. (vo_id v, vo_env_id v, vo_webhook_id v)) (vs_sources s') = map (\<lambda>v. (vo_id v, vo_env_id v, vo_webhook_id v)) (vs_sources s)"

lemma same_hooks_links: "same_hooks s s' \<Longrightarrow> links_ok s \<Longrightarrow> links_ok s'"
proof -
  assume same: "same_hooks s s'" and ok: "links_ok s"
  let ?t = "\<lambda>v. (vo_id v, vo_env_id v, vo_webhook_id v)"
  have m: "map ?t (vs_sources s') = map ?t (vs_sources s)" using same by (simp add: same_hooks_def)
  have "map vo_id (vs_sources s') = map vo_id (vs_sources s)" using arg_cong[OF m, of "map fst"] by (simp add: comp_def)
  moreover have "linked ws (vo_env_id v) (vo_webhook_id v)"
    if "v \<in> set (vs_sources s')" "\<forall>v \<in> set (vs_sources s). linked ws (vo_env_id v) (vo_webhook_id v)" for v ws
  proof -
    have "?t v \<in> ?t ` set (vs_sources s')" using that(1) by (rule imageI)
    then have "?t v \<in> ?t ` set (vs_sources s)" unfolding set_map[symmetric] m .
    then obtain u where "u \<in> set (vs_sources s)" "?t v = ?t u" by (rule imageE)
    then show ?thesis using that(2) by simp
  qed
  ultimately show ?thesis using ok same by (auto simp: links_ok_def same_hooks_def)
qed

lemma same_hooks_refl [simp]: "same_hooks s s"
  by (simp add: same_hooks_def)

lemma same_hooks_trans: "same_hooks s t \<Longrightarrow> same_hooks t u \<Longrightarrow> same_hooks s u"
  by (simp add: same_hooks_def)

lemma same_hooks_files [simp]: "same_hooks s (SetVolSourceFiles t i fs) = same_hooks s t" "same_hooks s (t\<lparr>vs_cs := cs\<rparr>) = same_hooks s t"
  by (simp_all add: same_hooks_def SetVolSourceFiles_def)

lemma same_hooks_inline [simp]: "same_hooks s (store_inline t v req) = same_hooks s t"
  by (simp add: store_inline_def split: sum.split)

lemma same_hooks_mark [simp]: "same_hooks s (MarkVolumeSourceSynced t i h c w f now) = same_hooks s t"
  by (simp add: same_hooks_def MarkVolumeSourceSynced_def map_update_where)

lemma syncVolumeSource_same: "syncVolumeSource git y fate s v = (r, s') \<Longrightarrow> same_hooks s s'"
  by (auto simp: syncVolumeSource_def Let_def split: sum.split_asm if_split_asm option.split_asm prod.split_asm)

lemma reportVolumeSourceSync_same: "same_hooks s (snd (reportVolumeSourceSync git y fate s v now))"
  by (auto simp: reportVolumeSourceSync_def split: prod.split dest: syncVolumeSource_same)

lemma report_links: "links_ok s \<Longrightarrow> same_hooks s t \<Longrightarrow> links_ok (snd (reportVolumeSourceSync git y fate t v now))"
  using reportVolumeSourceSync_same same_hooks_trans same_hooks_links by blast

lemma applyVolumeSourceRequest_linked:
  assumes "applyVolumeSourceRequest s req v = Inr v'"
  shows "linked (vs_webhooks s) (vo_env_id v) (vo_webhook_id v')" "vo_env_id v' = vo_env_id v" "vo_id v' = vo_id v"
  using assms
  by (auto simp: applyVolumeSourceRequest_def apply_git_def apply_inline_def common_fields_def linked_def[of _ _ "[]"] Let_def
      dest: linkable_linked split: if_split_asm option.split_asm sum.split_asm)

lemma links_ok_sources:
  assumes "links_ok s" "distinct (map vo_id vs)" "\<forall>v \<in> set vs. linked (vs_webhooks s) (vo_env_id v) (vo_webhook_id v)"
  shows "links_ok (s\<lparr>vs_sources := vs\<rparr>)"
  using assms by (simp add: links_ok_def)

lemma CreateVolumeSource_links:
  assumes "links_ok s" "CreateVolumeSource s v i now = Some (v', s')" "linked (vs_webhooks s) (vo_env_id v) (vo_webhook_id v)"
  shows "links_ok s'"
proof -
  have s': "s' = s\<lparr>vs_sources := vs_sources s @ [v']\<rparr>" "vo_env_id v' = vo_env_id v" "vo_webhook_id v' = vo_webhook_id v"
    "\<forall>q \<in> set (vs_sources s). vo_id q \<noteq> vo_id v'"
    using assms(2) by (auto simp: CreateVolumeSource_def Let_def list_ex_iff split: if_split_asm)
  have "vo_id v' \<notin> vo_id ` set (vs_sources s)" using s'(4) by force
  then show ?thesis unfolding s'(1) using assms(1,3) s'(2,3) by (intro links_ok_sources) (auto simp: links_ok_def)
qed

lemma UpdateVolumeSource_links:
  assumes "links_ok s" "UpdateVolumeSource s v = Some s'"
    and "\<forall>q \<in> set (vs_sources s). vo_id q = vo_id v \<longrightarrow> linked (vs_webhooks s) (vo_env_id q) (vo_webhook_id v)"
  shows "links_ok s'"
proof -
  obtain f where f: "s' = s\<lparr>vs_sources := update_where (\<lambda>q. vo_id q = vo_id v) f (vs_sources s)\<rparr>"
    "\<And>q. vo_id (f q) = vo_id q" "\<And>q. vo_env_id (f q) = vo_env_id q" "\<And>q. vo_webhook_id (f q) = vo_webhook_id v"
    using assms(2) by (auto simp: UpdateVolumeSource_def split: if_split_asm)
  show ?thesis unfolding f(1)
  proof (rule links_ok_sources[OF assms(1)])
    show "distinct (map vo_id (update_where (\<lambda>q. vo_id q = vo_id v) f (vs_sources s)))"
      using assms(1) f(2) by (simp add: map_update_where links_ok_def)
    show "\<forall>q \<in> set (update_where (\<lambda>q. vo_id q = vo_id v) f (vs_sources s)). linked (vs_webhooks s) (vo_env_id q) (vo_webhook_id q)"
      using assms(1,3) f(3,4) by (auto simp: in_update_where links_ok_def)
  qed
qed

lemma handleCreateVolumeSource_links:
  assumes "links_ok s"
  shows "links_ok (snd (handleCreateVolumeSource git y fate s caps req user i now))"
proof (cases "\<exists>v v' s'. applyVolumeSourceRequest s req (new_source req user) = Inr v \<and> CreateVolumeSource s v i now = Some (v', s')")
  case True
  then obtain v v' s' where v: "applyVolumeSourceRequest s req (new_source req user) = Inr v" "CreateVolumeSource s v i now = Some (v', s')" by blast
  have "links_ok s'" using CreateVolumeSource_links[OF assms v(2)] applyVolumeSourceRequest_linked[OF v(1)] by simp
  then show ?thesis using assms v report_links[of s'] by (auto simp: handleCreateVolumeSource_def Let_def)
next
  case False
  then show ?thesis using assms by (auto simp: handleCreateVolumeSource_def Let_def split: sum.split option.split)
qed

lemma SourceRow_Some: "SourceRow s i = Some v \<Longrightarrow> v \<in> set (vs_sources s) \<and> vo_id v = i"
  by (auto simp: SourceRow_def first_row_def split: list.split_asm dest: filter_eq_ConsD)

lemma WebhookRow_Some: "WebhookRow s i = Some w \<Longrightarrow> w \<in> set (vs_webhooks s) \<and> wh_id w = i"
  by (auto simp: WebhookRow_def first_row_def split: list.split_asm dest: filter_eq_ConsD)

lemma StackByID_Inr: "StackByID s i = Inr (st, d) \<Longrightarrow> st \<in> set (sd_stacks s) \<and> st_id st = i"
  by (auto simp: StackByID_def first_or_missing_def scanStack_def split: list.split_asm dest: filter_eq_ConsD)

lemma distinct_key: "distinct (map f xs) \<Longrightarrow> x \<in> set xs \<Longrightarrow> y \<in> set xs \<Longrightarrow> f x = f y \<Longrightarrow> x = y"
  by (auto simp: distinct_map inj_on_def)

lemma handleUpdateVolumeSource_links:
  assumes "links_ok s"
  shows "links_ok (snd (handleUpdateVolumeSource git y fate s i req now))"
proof (cases "\<exists>v0 v s'. SourceRow s i = Some v0 \<and> applyVolumeSourceRequest s req v0 = Inr v \<and> UpdateVolumeSource s v = Some s'")
  case True
  then obtain v0 v s' where v: "SourceRow s i = Some v0" "applyVolumeSourceRequest s req v0 = Inr v" "UpdateVolumeSource s v = Some s'" by blast
  note a = applyVolumeSourceRequest_linked[OF v(2)] SourceRow_Some[OF v(1)]
  have "q = v0" if "q \<in> set (vs_sources s)" "vo_id q = vo_id v" for q
    using assms that a distinct_key[of vo_id "vs_sources s" q v0] by (simp add: links_ok_def)
  then have ok: "links_ok s'" using UpdateVolumeSource_links[OF assms v(3)] a by blast
  then show ?thesis using assms v report_links[of s'] by (auto simp: handleUpdateVolumeSource_def Let_def split: sum.split)
next
  case False
  then show ?thesis using assms by (auto simp: handleUpdateVolumeSource_def Let_def split: sum.split option.split)
qed

lemma DeleteVolumeSource_links: "links_ok s \<Longrightarrow> links_ok (DeleteVolumeSource s i)"
  by (auto simp: DeleteVolumeSource_def links_ok_def delete_where_def distinct_map_filter)

subsection \<open>Every way to change a link\<close>

datatype hook_op =
    NewHook scoped_mask string ident ident string ident int
  | RenameHook ident string ident
  | RotateHook ident string
  | DropHook ident
  | LinkStack scoped_mask ident autodeploy_request string ident string string ident int
  | NewSource scoped_mask source_request ident ident int
  | EditSource ident source_request int
  | DropSource ident
  | NewStack stack ident timestamp
  | EditStack stack
  | DropStack ident
  | Deliver ident hook_request int

definition on_sites :: "hsite \<Rightarrow> (vsite \<Rightarrow> vsite) \<Rightarrow> hsite" where
  "on_sites s f = s\<lparr>hs_v := f (hs_v s)\<rparr>"

definition on_stacks :: "hsite \<Rightarrow> (sdb \<Rightarrow> stack_error + sdb) \<Rightarrow> hsite" where
  "on_stacks s f = (case f (vs_stacks (hs_v s)) of Inl e \<Rightarrow> s | Inr db \<Rightarrow> s\<lparr>hs_v := (hs_v s)\<lparr>vs_stacks := db\<rparr>\<rparr>)"

definition on_hook :: "hsite \<Rightarrow> ident \<Rightarrow> (webhook \<Rightarrow> manage_reply \<times> hsite) \<Rightarrow> hsite" where
  "on_hook s i f = (case WebhookRow (hs_v s) i of None \<Rightarrow> s | Some w \<Rightarrow> snd (f w))"

fun hook_step :: "hook_crypto \<Rightarrow> git_remote \<Rightarrow> crypto \<Rightarrow> (string \<Rightarrow> outage) \<Rightarrow> hsite \<Rightarrow> hook_op \<Rightarrow> hsite" where
  "hook_step hc git y fate s (NewHook caps name env user secret i now) = snd (handleCreateWebhook hc s caps name env user secret i now)"
| "hook_step hc git y fate s (RenameHook i name env) = on_hook s i (\<lambda>w. handleUpdateWebhook s w name env)"
| "hook_step hc git y fate s (RotateHook i secret) = on_hook s i (\<lambda>w. handleRotateWebhook hc s w secret)"
| "hook_step hc git y fate s (DropHook i) = on_hook s i (\<lambda>w. handleDeleteWebhook s w)"
| "hook_step hc git y fate s (LinkStack caps sid req cluster user fresh secret i now) =
     (case StackByID (vs_stacks (hs_v s)) sid of
        Inl e \<Rightarrow> s
      | Inr (st, d) \<Rightarrow> snd (handleSetAutoDeploy hc s caps st req cluster user fresh secret i now))"
| "hook_step hc git y fate s (NewSource caps req user i now) = on_sites s (\<lambda>v. snd (handleCreateVolumeSource git y fate v caps req user i now))"
| "hook_step hc git y fate s (EditSource i req now) = on_sites s (\<lambda>v. snd (handleUpdateVolumeSource git y fate v i req now))"
| "hook_step hc git y fate s (DropSource i) = on_sites s (\<lambda>v. snd (handleDeleteVolumeSource v i))"
| "hook_step hc git y fate s (NewStack st i now) = on_stacks s (\<lambda>db. CreateStack db st i now)"
| "hook_step hc git y fate s (EditStack st) = on_stacks s (\<lambda>db. UpdateStackSource db st)"
| "hook_step hc git y fate s (DropStack i) = on_stacks s (\<lambda>db. Inr (DeleteStack db i))"
| "hook_step hc git y fate s (Deliver i r now) = fst (snd (handleWebhookDelivery hc s i r now))"

lemma audit_v [simp]: "hs_v (audit s e a t oc) = hs_v s"
  by (simp add: audit_def)

lemma createWebhook_links:
  assumes "links_ok (hs_v s)" "createWebhook hc s name env user secret i now = (r, s')"
  shows "links_ok (hs_v s') \<and> sd_stacks (vs_stacks (hs_v s')) = sd_stacks (vs_stacks (hs_v s)) \<and>
    (\<forall>w. r = Inr w \<longrightarrow> linked (vs_webhooks (hs_v s')) env (wh_id w))"
proof (cases "hc_seal hc secret")
  case (Some sealed)
  let ?v = "\<lparr>wh_id = [], wh_name = name, wh_env_id = env, wh_secret_enc = sealed, wh_last_delivery_at = None,
    wh_last_delivery = None, wh_created_at = 0, wh_created_by = user\<rparr>"
  show ?thesis
  proof (cases "CreateWebhook (hs_v s) ?v i now")
    case (Inl e)
    then show ?thesis using assms Some by (auto simp: createWebhook_def split: webhook_error.split_asm)
  next
    case (Inr p)
    then obtain w v where "CreateWebhook (hs_v s) ?v i now = Inr (w, v)" by (cases p) auto
    then show ?thesis using assms Some CreateWebhook_links[OF assms(1), of ?v i now w v] by (auto simp: createWebhook_def linked_def)
  qed
qed (use assms in \<open>auto simp: createWebhook_def\<close>)

lemma handleCreateWebhook_links: "links_ok (hs_v s) \<Longrightarrow> links_ok (hs_v (snd (handleCreateWebhook hc s caps name env user secret i now)))"
  by (auto simp: handleCreateWebhook_def split: prod.split sum.split dest: createWebhook_links)

lemma linked_webhook_links:
  assumes "links_ok (hs_v s)" "linked_webhook hc s caps st req cluster user fresh secret i now = (r, s')"
  shows "links_ok (hs_v s') \<and> sd_stacks (vs_stacks (hs_v s')) = sd_stacks (vs_stacks (hs_v s)) \<and>
    (\<forall>wid. r = Inr wid \<longrightarrow> linked (vs_webhooks (hs_v s')) (st_env_id st) wid)"
  using assms
  by (auto simp: linked_webhook_def split: if_split_asm sum.split_asm prod.split_asm dest: createWebhook_links linkable_linked)

lemma handleSetAutoDeploy_links:
  assumes "links_ok (hs_v s)" "StackByID (vs_stacks (hs_v s)) sid = Inr (st, d)"
  shows "links_ok (hs_v (snd (handleSetAutoDeploy hc s caps st req cluster user fresh secret i now)))"
proof -
  obtain r s' where r: "linked_webhook hc s caps st req cluster user fresh secret i now = (r, s')" by force
  note ok = linked_webhook_links[OF assms(1) r]
  have st: "q = st" if "q \<in> set (sd_stacks (vs_stacks (hs_v s)))" "st_id q = st_id st" for q
    using assms that StackByID_Inr[OF assms(2)] distinct_key[of st_id "sd_stacks (vs_stacks (hs_v s))" q st] by (simp add: links_ok_def)
  have "links_ok ((hs_v s')\<lparr>vs_stacks := db\<rparr>)" if "r = Inr wid" "SetStackAutoDeploy (vs_stacks (hs_v s')) (st_id st) on wid watch = Inr db" for wid on watch db
    using SetStackAutoDeploy_links[OF _ that(2)] that(1) ok st by auto
  then show ?thesis using assms(1) ok r by (auto simp: handleSetAutoDeploy_def split: sum.split)
qed

lemma deliverWebhook_links: "links_ok (hs_v s) \<Longrightarrow> links_ok (hs_v (fst (snd (deliverWebhook hc s wh r now))))"
  by (auto simp: deliverWebhook_def answer_push_def recordDelivery_def Let_def RecordWebhookDelivery_links split: option.split)

lemma hook_step_links: "links_ok (hs_v s) \<Longrightarrow> links_ok (hs_v (hook_step hc git y fate s op))"
proof (cases op)
  case (LinkStack caps sid req cluster user fresh secret i now)
  assume "links_ok (hs_v s)"
  then show ?thesis using handleSetAutoDeploy_links by (auto simp: LinkStack split: sum.split)
qed (auto simp: on_hook_def on_sites_def on_stacks_def handleUpdateWebhook_def handleRotateWebhook_def handleDeleteWebhook_def handleDeleteVolumeSource_def
    handleWebhookDelivery_def SetWebhookSecret_links handleCreateWebhook_links handleCreateVolumeSource_links handleUpdateVolumeSource_links
    DeleteVolumeSource_links DeleteStack_links deliverWebhook_links
    split: option.split sum.split intro: RenameWebhook_links DeleteWebhook_links CreateStack_links UpdateStackSource_links)

lemma hook_steps_links: "links_ok (hs_v s) \<Longrightarrow> links_ok (hs_v (foldl (hook_step hc git y fate) s ops))"
  by (induction ops arbitrary: s) (simp_all add: hook_step_links)

lemma linked_unique:
  assumes "distinct (map wh_id ws)" "w \<in> set ws" "linked ws env (wh_id w)" "wh_id w \<noteq> []" "wh_env_id w \<noteq> []"
  shows "env = wh_env_id w"
  using assms distinct_key[of wh_id ws _ w] by (auto simp: linked_def)

text \<open>C4: a webhook acts in its own cluster. Whatever webhooks, stacks and volume sources are created,
  linked, changed, renamed, rotated and deleted, in any order and by anyone, a push through a webhook that
  is pinned to a cluster has verdicts, and so deploys and syncs, only for targets of that cluster.\<close>

theorem pinned_webhook_stays_in_its_cluster:
  assumes "links_ok (hs_v s0)" "s = foldl (hook_step hc git y fate) s0 ops"
    and "handleWebhookDelivery hc s i r now = (Answered acting results, s', job)"
    and "WebhookRow (hs_v s) i = Some wh" "wh_env_id wh \<noteq> []" "i \<noteq> []" "v \<in> set results"
  shows "vd_env_id v = wh_env_id wh"
proof -
  have ok: "links_ok (hs_v s)" using hook_steps_links[OF assms(1)] assms(2) by simp
  note wh = WebhookRow_Some[OF assms(4)]
  obtain p where p: "results = planDelivery (hc_url hc) p (StacksByWebhook (hs_v s) (wh_id wh)) (VolumeSourcesByWebhook (hs_v s) (wh_id wh))"
    using assms(3,4) by (auto simp: handleWebhookDelivery_def deliverWebhook_def answer_push_def Let_def split: if_split_asm option.split_asm)
  have "linked (vs_webhooks (hs_v s)) (vd_env_id v) (wh_id wh)"
    using assms(7) ok unfolding p by (auto simp: planDelivery_def StacksByWebhook_def VolumeSourcesByWebhook_def links_ok_def)
  then show ?thesis using linked_unique[of "vs_webhooks (hs_v s)" wh] ok wh assms(5,6) by (simp add: links_ok_def)
qed

section \<open>A forge and one cluster\<close>

definition repo_urls :: "string list" where
  "repo_urls = [''git@forge:ops/blog.git'']"

definition a_push :: payload where
  "a_push = \<lparr>pl_ref = ''refs/heads/main'', pl_before = ''1'', pl_after = ''2'', pl_repository = repo_urls, pl_project = [],
     pl_commits = [([''conf/app.yml''], [''docker-compose.yml''], [])]\<rparr>"

definition an_issue :: payload where
  "an_issue = \<lparr>pl_ref = [], pl_before = [], pl_after = [], pl_repository = repo_urls, pl_project = [], pl_commits = []\<rparr>"

definition forge :: hook_crypto where
  "forge = \<lparr>hc_hmac = (\<lambda>k b. k @ b), hc_open = Some, hc_seal = Some, hc_url = (\<lambda>u. None),
     hc_decode = (\<lambda>b. if b = ''push'' then Some a_push else if b = ''issue'' then Some an_issue else None)\<rparr>"

definition signed :: "string \<Rightarrow> string \<Rightarrow> hook_request" where
  "signed ev body = \<lparr>hq_headers = [(''X-Hub-Signature-256'', ''sha256=S'' @ body), (''X-GitHub-Event'', ev)], hq_body = body, hq_readable = True\<rparr>"

definition git_blog :: stack where
  "git_blog = blog\<lparr>st_source_kind := ''git'', st_git_url := ''forge:Ops/Blog'', st_git_ref := ''main'', st_auto_deploy := True, st_webhook_id := ''w1''\<rparr>"

definition conf :: volume_source where
  "conf = \<lparr>vo_id = ''v1'', vo_env_id = ''h1'', vo_volume = ''conf'', vo_source_kind = ''git'', vo_git_url = ''forge:ops/blog'', vo_git_ref = ''main'',
     vo_git_path = ''conf'', vo_git_credential_id = [], vo_uid = 0, vo_gid = 0, vo_stack_id = ''s1'', vo_restart_targets = [], vo_auto_sync = True,
     vo_webhook_id = ''w1'', vo_synced_hash = [], vo_synced_commit = [], vo_synced_at = None, vo_status = ''pending'', vo_failed = False, vo_warnings = [],
     vo_created_at = 0, vo_created_by = []\<rparr>"

definition ci_hook :: webhook where
  "ci_hook = \<lparr>wh_id = ''w1'', wh_name = ''ci'', wh_env_id = ''h1'', wh_secret_enc = ''S'', wh_last_delivery_at = None, wh_last_delivery = None,
     wh_created_at = 0, wh_created_by = []\<rparr>"

definition with_stacks :: "sdb \<Rightarrow> hsite" where
  "with_stacks db = \<lparr>hs_v = \<lparr>vs_cs = \<lparr>cs_db = \<lparr>cd_authorities = [], cd_certificates = [], cd_deliveries = [], cd_fleet = [], cd_environments = [''h1'']\<rparr>,
       cs_nodes = [(''h1'', [bare_node ''n1''])]\<rparr>,
     vs_stacks = db\<lparr>sd_stacks := [git_blog], sd_webhooks := [''w1'']\<rparr>, vs_webhooks = [ci_hook], vs_sources = [conf], vs_files = []\<rparr>,
     hs_w = blog_world [], hs_audit = []\<rparr>"

definition blog_remote :: git_remote where
  "blog_remote url ref cred = Some (''c2'', \<lambda>dir. if dir = ''conf'' then Some [\<lparr>te_name = ''app.yml'', te_mode = ModeRegular, te_data = ''new''\<rparr>] else None)"

definition push_arrives :: "sdb \<Rightarrow> hook_reply \<times> hsite \<times> delivery_job option" where
  "push_arrives db = handleWebhookDelivery forge (with_stacks db) ''w1'' (signed ''push'' ''push'') 1"

definition verdicts :: "hook_reply \<Rightarrow> string list" where
  "verdicts r = (case r of Answered acting rs \<Rightarrow> map vd_status rs | _ \<Rightarrow> [])"

definition job_done :: "hook_reply \<times> hsite \<times> delivery_job option \<Rightarrow> hsite" where
  "job_done d = (case d of (r, s, None) \<Rightarrow> s | (r, s, Some j) \<Rightarrow> runDelivery blog_host blog_remote plain_crypto fine 2 s j)"

definition recorded :: "hsite \<Rightarrow> string list" where
  "recorded s = concat (map (\<lambda>w. case wh_last_delivery w of None \<Rightarrow> [] | Some rec \<Rightarrow> map vd_status (rc_results rec)) (vs_webhooks (hs_v s)))"

text \<open>A push into a running deploy is lost. While a deploy of the stack is running, the deploy of a push is
  skipped, and with it the sync of the volume sources that were left to that deploy: the record says they
  were synced by it, and the volume never gets the pushed files.\<close>

lemma push_into_running_deploy_is_lost:
  "verdicts (fst (push_arrives blog_claimed)) = [''deploying'', ''covered''] \<and> recorded (job_done (push_arrives blog_claimed)) = [''skipped'', ''covered''] \<and>
   map vo_status (vs_sources (hs_v (job_done (push_arrives blog_claimed)))) = [''pending''] \<and>
   map_of (cs_nodes (vs_cs (hs_v (job_done (push_arrives blog_claimed))))) ''h1'' = Some [bare_node ''n1'']"
  by (intro conjI) code_simp+

text \<open>Any event of the repository deploys. Only pings are told apart: an issue that is opened reaches the
  same planning as a push, names no branch and no file, and so deploys every stack of the repository.\<close>

lemma any_event_deploys:
  "verdicts (fst (handleWebhookDelivery forge (with_stacks blog_db) ''w1'' (signed ''issues'' ''issue'') 1)) = [''deploying'', ''covered'']"
  by code_simp

text \<open>A tag has the same name as a branch for the rules.\<close>

lemma tag_push_deploys_branch: "refMatches ''refs/tags/main'' ''main''"
  by code_simp

theorem unsigned_deliveries_do_nothing_witness:
  "\<exists>wh secret. wh \<in> set (vs_webhooks (hs_v (with_stacks blog_db))) \<and> hc_open forge (wh_secret_enc wh) = Some secret \<and> secret \<noteq> [] \<and>
    (trim_space (trim_prefix (header (signed ''push'' ''push'') ''X-Hub-Signature-256'') ''sha256='') = hc_hmac forge secret (hq_body (signed ''push'' ''push'')) \<or>
     (\<exists>h \<in> {''X-Forgejo-Signature'', ''X-Gitea-Signature''}. trim_space (header (signed ''push'' ''push'') h) = hc_hmac forge secret (hq_body (signed ''push'' ''push''))) \<or>
     header (signed ''push'' ''push'') ''X-Gitlab-Token'' = secret)"
proof (rule unsigned_deliveries_do_nothing)
  show "(fst (push_arrives blog_db), fst (snd (push_arrives blog_db)), snd (snd (push_arrives blog_db))) \<in>
    {handleWebhookDelivery forge (with_stacks blog_db) ''w1'' (signed ''push'' ''push'') 1,
     handleLegacyStackWebhook forge (with_stacks blog_db) ''w1'' (signed ''push'' ''push'') 1,
     handleLegacyVolumeSourceWebhook forge (with_stacks blog_db) ''w1'' (signed ''push'' ''push'') 1}"
    by (simp add: push_arrives_def)
  have "verdicts (fst (push_arrives blog_db)) \<noteq> []" by code_simp
  then show "hs_v (fst (snd (push_arrives blog_db))) \<noteq> hs_v (with_stacks blog_db) \<or> hs_w (fst (snd (push_arrives blog_db))) \<noteq> hs_w (with_stacks blog_db) \<or>
    snd (snd (push_arrives blog_db)) \<noteq> None \<or> fst (push_arrives blog_db) \<notin> {HookNotFound, HookUnreadable, BadSignature}"
    by (auto simp: verdicts_def)
qed

definition main_push :: push where
  "main_push = \<lparr>pu_ref = ''refs/heads/main'', pu_test = False, pu_files = [''conf/app.yml'', ''docker-compose.yml''], pu_repos = [''forge/ops/blog'']\<rparr>"


theorem pinned_webhook_stays_in_its_cluster_witness:
  "vd_env_id (hd (planDelivery (hc_url forge) main_push [git_blog] [conf])) = ''h1''"
proof -
  have v: "hd (planDelivery (hc_url forge) main_push [git_blog] [conf]) \<in> set (planDelivery (hc_url forge) main_push [git_blog] [conf])"
    by code_simp
  let ?r = "signed ''push'' ''push''" and ?s = "with_stacks blog_db"
  have ok: "links_ok (hs_v ?s)" by code_simp
  have p: "parsePush forge (hq_body ?r) = Some main_push" by code_simp
  have h: "hc_open forge (wh_secret_enc ci_hook) = Some ''S''" "verifySignature forge ?r ''S''" "\<not> isPing ?r" "hq_readable ?r"
    "\<not> maxWebhookBody < int (length (hq_body ?r))" "\<not> pu_test main_push" "WebhookRow (hs_v ?s) ''w1'' = Some ci_hook"
    "StacksByWebhook (hs_v ?s) (wh_id ci_hook) = [git_blog]" "VolumeSourcesByWebhook (hs_v ?s) (wh_id ci_hook) = [conf]" "wh_env_id ci_hook = ''h1''"
    by code_simp+
  obtain acting s' job where d: "handleWebhookDelivery forge ?s ''w1'' ?r 1 = (Answered acting (planDelivery (hc_url forge) main_push [git_blog] [conf]), s', job)"
    using p h by (auto simp: handleWebhookDelivery_def deliverWebhook_def answer_push_def Let_def)
  show ?thesis
    using pinned_webhook_stays_in_its_cluster[OF ok _ d h(7) _ _ v, of blog_remote plain_crypto fine "[]"] h(10) by simp
qed

end
