(* ===== verification/Keyrings.thy ===== *)
theory Keyrings
  imports Deliveries
begin

text \<open>
  Key rings: the rows of \<^verbatim>\<open>internal/store/keyrings.go\<close>, the handlers of \<^verbatim>\<open>internal/api/keyring_handlers.go\<close>, the
  reconciler of \<^verbatim>\<open>internal/api/keyring_delivery.go\<close> and the worker of \<^verbatim>\<open>internal/api/keyring_worker.go\<close>.

  Times are nanoseconds. Randomness, sealing, base64, SHA-256 and the rendering of a time are parameters;
  a fresh version is numbered by how many were minted before. The values of the delivered document need no
  escaping: the name of a ring is checked, identifiers and base64 are plain. A write is described per node
  by its \<open>copy_outcome\<close>. Events are the audit lines and the notifications that are sent.
\<close>

section \<open>Rows\<close>

record keyring =
  kr_id :: ident
  kr_name :: string
  kr_rotate_days :: int
  kr_created_at :: int
  kr_created_by :: ident

record keyring_version =
  kv_id :: ident
  kv_keyring_id :: ident
  kv_material_enc :: string
  kv_state :: string
  kv_created_at :: int

record keyring_delivery =
  kd_id :: ident
  kd_keyring_id :: ident
  kd_env_id :: ident
  kd_volume :: string
  kd_uid :: int
  kd_gid :: int
  kd_restart_targets :: string
  kd_synced_hash :: string
  kd_synced_at :: "int option"
  kd_status :: string
  kd_failed :: bool
  kd_created_at :: int
  kd_created_by :: ident

datatype key_event = KeyAudit string string | KeyringRotated string | KeyringRotateFailed string

record ksite =
  ks_rings :: "keyring list"
  ks_versions :: "keyring_version list"
  ks_deliveries :: "keyring_delivery list"
  ks_environments :: "ident list"
  ks_nodes :: "(ident \<times> node list) list"
  ks_minted :: nat
  ks_alarms :: "(string \<times> string) list"
  ks_events :: "key_event list"

record key_crypto =
  ky_new_id :: "nat \<Rightarrow> ident"
  ky_material :: "nat \<Rightarrow> string option"
  ky_seal :: "string \<Rightarrow> string option"
  ky_open :: "string \<Rightarrow> string option"
  ky_raw :: "string \<Rightarrow> string option"
  ky_digest :: "string \<Rightarrow> string"
  ky_time :: "int \<Rightarrow> string"

definition KeyringVersionActive :: string where
  "KeyringVersionActive = ''active''"

definition KeyringVersionDecryptOnly :: string where
  "KeyringVersionDecryptOnly = ''decrypt_only''"

definition KeyringVersionRetired :: string where
  "KeyringVersionRetired = ''retired''"

lemmas version_states = KeyringVersionActive_def KeyringVersionDecryptOnly_def KeyringVersionRetired_def

section \<open>The store\<close>

definition CreateKeyring :: "ksite \<Rightarrow> keyring \<Rightarrow> ident \<Rightarrow> int \<Rightarrow> (keyring \<times> ksite) option" where
  "CreateKeyring s k i now =
     (let k = k\<lparr>kr_id := (if kr_id k = [] then ''kr_'' @ i else kr_id k), kr_created_at := now\<rparr>
      in if list_ex (\<lambda>q. kr_id q = kr_id k \<or> kr_name q = kr_name k) (ks_rings s) then None
         else Some (k, s\<lparr>ks_rings := ks_rings s @ [k]\<rparr>))"

definition KeyringByID :: "ksite \<Rightarrow> ident \<Rightarrow> keyring option" where
  "KeyringByID s i = first_row (\<lambda>k. kr_id k = i) (ks_rings s)"

definition KeyringByName :: "ksite \<Rightarrow> string \<Rightarrow> keyring option" where
  "KeyringByName s n = first_row (\<lambda>k. kr_name k = n) (ks_rings s)"

definition ListKeyrings :: "ksite \<Rightarrow> keyring list" where
  "ListKeyrings s = sort_key kr_name (ks_rings s)"

definition UpdateKeyring :: "ksite \<Rightarrow> keyring \<Rightarrow> ksite option" where
  "UpdateKeyring s k =
     (if list_ex (\<lambda>q. kr_id q = kr_id k) (ks_rings s) \<and> list_ex (\<lambda>q. kr_id q \<noteq> kr_id k \<and> kr_name q = kr_name k) (ks_rings s) then None
      else Some (s\<lparr>ks_rings := update_where (\<lambda>q. kr_id q = kr_id k) (\<lambda>q. q\<lparr>kr_name := kr_name k, kr_rotate_days := kr_rotate_days k\<rparr>) (ks_rings s)\<rparr>))"

definition KeyringInUse :: "ksite \<Rightarrow> ident \<Rightarrow> nat" where
  "KeyringInUse s i = count_where (\<lambda>d. kd_keyring_id d = i) (ks_deliveries s)"

text \<open>The versions go with their ring; a delivery holds its ring back.\<close>

definition DeleteKeyring :: "ksite \<Rightarrow> ident \<Rightarrow> ksite option" where
  "DeleteKeyring s i =
     (if list_ex (\<lambda>k. kr_id k = i) (ks_rings s) \<and> 0 < KeyringInUse s i then None
      else Some (s\<lparr>ks_rings := delete_where (\<lambda>k. kr_id k = i) (ks_rings s), ks_versions := delete_where (\<lambda>v. kv_keyring_id v = i) (ks_versions s)\<rparr>))"

text \<open>One transaction: the active version is demoted and a new one inserted, or nothing happens.\<close>

definition RotateKeyring :: "ksite \<Rightarrow> ident \<Rightarrow> string \<Rightarrow> ident \<Rightarrow> int \<Rightarrow> (keyring_version \<times> ksite) option" where
  "RotateKeyring s rid sealed i now =
     (let v = \<lparr>kv_id = ''krv_'' @ i, kv_keyring_id = rid, kv_material_enc = sealed, kv_state = KeyringVersionActive, kv_created_at = now\<rparr>;
          vs = update_where (\<lambda>q. kv_keyring_id q = rid \<and> kv_state q = KeyringVersionActive) (\<lambda>q. q\<lparr>kv_state := KeyringVersionDecryptOnly\<rparr>) (ks_versions s)
      in if list_ex (\<lambda>q. kv_id q = kv_id v) vs \<or> \<not> list_ex (\<lambda>k. kr_id k = rid) (ks_rings s) then None
         else Some (v, s\<lparr>ks_versions := vs @ [v]\<rparr>))"

definition KeyringVersionByID :: "ksite \<Rightarrow> ident \<Rightarrow> keyring_version option" where
  "KeyringVersionByID s i = first_row (\<lambda>v. kv_id v = i) (ks_versions s)"

text \<open>Newest first, and by identifier within one instant.\<close>

definition KeyringVersions :: "ksite \<Rightarrow> ident \<Rightarrow> keyring_version list" where
  "KeyringVersions s rid = order_desc kv_created_at (order_desc kv_id (filter (\<lambda>v. kv_keyring_id v = rid) (ks_versions s)))"

definition RetireKeyringVersion :: "ksite \<Rightarrow> ident \<Rightarrow> bool \<times> ksite" where
  "RetireKeyringVersion s i =
     (let p = (\<lambda>v. kv_id v = i \<and> kv_state v = KeyringVersionDecryptOnly)
      in (0 < count_where p (ks_versions s), s\<lparr>ks_versions := update_where p (\<lambda>v. v\<lparr>kv_state := KeyringVersionRetired\<rparr>) (ks_versions s)\<rparr>))"

definition CreateKeyringDelivery :: "ksite \<Rightarrow> keyring_delivery \<Rightarrow> ident \<Rightarrow> int \<Rightarrow> (keyring_delivery \<times> ksite) option" where
  "CreateKeyringDelivery s d i now =
     (let d = d\<lparr>kd_id := (if kd_id d = [] then ''kdl_'' @ i else kd_id d), kd_volume := (if kd_volume d = [] then ''daffa-keys'' else kd_volume d),
                kd_status := (if kd_status d = [] then ''pending'' else kd_status d), kd_created_at := now\<rparr>
      in if list_ex (\<lambda>q. kd_id q = kd_id d) (ks_deliveries s) \<or> \<not> list_ex (\<lambda>k. kr_id k = kd_keyring_id d) (ks_rings s) \<or>
            kd_env_id d \<notin> set (ks_environments s)
         then None else Some (d, s\<lparr>ks_deliveries := ks_deliveries s @ [d]\<rparr>))"

definition KeyringDeliveryByID :: "ksite \<Rightarrow> ident \<Rightarrow> keyring_delivery option" where
  "KeyringDeliveryByID s i = first_row (\<lambda>d. kd_id d = i) (ks_deliveries s)"

definition KeyringDeliveryForVolume :: "ksite \<Rightarrow> ident \<Rightarrow> ident \<Rightarrow> string \<Rightarrow> keyring_delivery option" where
  "KeyringDeliveryForVolume s rid env volume =
     first_row (\<lambda>d. kd_keyring_id d = rid \<and> kd_env_id d = env \<and> kd_volume d = volume) (ks_deliveries s)"

definition ListKeyringDeliveries :: "ksite \<Rightarrow> bool \<Rightarrow> ident list \<Rightarrow> keyring_delivery list" where
  "ListKeyringDeliveries s global envs = sort_key kd_created_at (filter (\<lambda>d. global \<or> kd_env_id d \<in> set envs) (ks_deliveries s))"

definition AllKeyringDeliveries :: "ksite \<Rightarrow> keyring_delivery list" where
  "AllKeyringDeliveries s = ListKeyringDeliveries s True []"

definition MarkKeyringDeliverySynced :: "ksite \<Rightarrow> ident \<Rightarrow> string \<Rightarrow> bool \<Rightarrow> int \<Rightarrow> ksite" where
  "MarkKeyringDeliverySynced s i hash failed now =
     s\<lparr>ks_deliveries := update_where (\<lambda>d. kd_id d = i)
        (\<lambda>d. d\<lparr>kd_synced_hash := hash, kd_synced_at := Some now, kd_status := (if failed then ''error'' else ''ok''), kd_failed := failed\<rparr>) (ks_deliveries s)\<rparr>"

definition DeleteKeyringDelivery :: "ksite \<Rightarrow> ident \<Rightarrow> ksite" where
  "DeleteKeyringDelivery s i = s\<lparr>ks_deliveries := delete_where (\<lambda>d. kd_id d = i) (ks_deliveries s)\<rparr>"

section \<open>The delivered document\<close>

datatype key_error = KeyringGone | VersionUnreadable | NotBase64 | NoActiveVersion | KeyNotConnected | KeyNodesFailed "string list"

record json_key =
  jk_material :: string
  jk_state :: string
  jk_created_at :: string

record keyring_doc =
  kj_keyring :: string
  kj_current :: ident
  kj_keys :: "(ident \<times> json_key) list"

fun live_keys :: "key_crypto \<Rightarrow> keyring_version list \<Rightarrow> keyring_doc \<Rightarrow> string \<Rightarrow> key_error + (keyring_doc \<times> string)" where
  "live_keys y [] doc raw = Inr (doc, raw)"
| "live_keys y (v # vs) doc raw =
     (if kv_state v = KeyringVersionRetired then live_keys y vs doc raw
      else (case ky_open y (kv_material_enc v) of
              None \<Rightarrow> Inl VersionUnreadable
            | Some m \<Rightarrow>
                (let doc = doc\<lparr>kj_keys := gput (kj_keys doc) (kv_id v) \<lparr>jk_material = m, jk_state = kv_state v, jk_created_at = ky_time y (kv_created_at v)\<rparr>\<rparr>
                 in if kv_state v = KeyringVersionActive
                    then (case ky_raw y m of
                            None \<Rightarrow> Inl NotBase64
                          | Some r \<Rightarrow> live_keys y vs (doc\<lparr>kj_current := kv_id v\<rparr>) r)
                    else live_keys y vs doc raw)))"

definition json_pair :: "string \<Rightarrow> string \<Rightarrow> string \<Rightarrow> string" where
  "json_pair indent k v = indent @ quoted k @ '': '' @ quoted v"

definition json_key_text :: "ident \<times> json_key \<Rightarrow> string" where
  "json_key_text p =
     (case p of (i, j) \<Rightarrow>
        ''    '' @ quoted i @ '': {'' @ nl @ json_pair ''      '' ''material'' (jk_material j) @ '','' @ nl @
        json_pair ''      '' ''state'' (jk_state j) @ '','' @ nl @ json_pair ''      '' ''created_at'' (jk_created_at j) @ nl @ ''    }'')"

text \<open>\<^verbatim>\<open>json.MarshalIndent\<close> of the document: two blanks per level, the keys of the map in order.\<close>

definition keyring_json :: "keyring_doc \<Rightarrow> string" where
  "keyring_json doc =
     ''{'' @ nl @ json_pair ''  '' ''keyring'' (kj_keyring doc) @ '','' @ nl @ json_pair ''  '' ''current'' (kj_current doc) @ '','' @ nl @
     ''  '' @ quoted ''keys'' @ '': {'' @ nl @ join ('','' @ nl) (map json_key_text (sort_key fst (kj_keys doc))) @ nl @ ''  }'' @ nl @ ''}''"

definition keyring_doc_of :: "key_crypto \<Rightarrow> ksite \<Rightarrow> ident \<Rightarrow> key_error + (keyring_doc \<times> string)" where
  "keyring_doc_of y s rid =
     (case KeyringByID s rid of
        None \<Rightarrow> Inl KeyringGone
      | Some k \<Rightarrow>
          (case live_keys y (KeyringVersions s rid) \<lparr>kj_keyring = kr_name k, kj_current = [], kj_keys = []\<rparr> [] of
             Inl e \<Rightarrow> Inl e
           | Inr (doc, raw) \<Rightarrow> if kj_current doc = [] then Inl NoActiveVersion else Inr (doc, raw)))"

definition keyringFiles :: "key_crypto \<Rightarrow> ksite \<Rightarrow> keyring_delivery \<Rightarrow> key_error + ((string \<times> string) list \<times> string)" where
  "keyringFiles y s d =
     (case keyring_doc_of y s (kd_keyring_id d) of
        Inl e \<Rightarrow> Inl e
      | Inr (doc, raw) \<Rightarrow>
          (let files = [(kj_keyring doc @ ''.json'', keyring_json doc @ nl), (kj_keyring doc @ ''.current.key'', raw)]
           in Inr (files, ky_digest y (delivery_text files (kd_uid d) (kd_gid d)))))"

section \<open>The reconciler\<close>

definition key_vfiles :: "(string \<times> string) list \<Rightarrow> vfile list" where
  "key_vfiles files = map (\<lambda>(n, c). \<lparr>vf_name = n, vf_data = c, vf_mode = 384\<rparr>) files"

fun write_nodes ::
  "string \<Rightarrow> vfile list \<Rightarrow> int \<Rightarrow> int \<Rightarrow> string \<Rightarrow> (string \<Rightarrow> copy_outcome) \<Rightarrow> node list \<Rightarrow> string list \<times> node list" where
  "write_nodes volume files uid gid targets fate [] = ([], [])"
| "write_nodes volume files uid gid targets fate (n # ns) =
     (case write_nodes volume files uid gid targets fate ns of
        (errs, ns) \<Rightarrow>
          (case Volumes.Write n volume files uid gid (fate (vn_name n)) of
             (False, n') \<Rightarrow> (vn_name n # errs, n' # ns)
           | (True, n') \<Rightarrow> (errs, restartTargets n' targets # ns)))"

definition syncKeyringDelivery ::
  "key_crypto \<Rightarrow> (string \<Rightarrow> copy_outcome) \<Rightarrow> ksite \<Rightarrow> keyring_delivery \<Rightarrow> (string \<times> key_error option) \<times> ksite" where
  "syncKeyringDelivery y fate s d =
     (case keyringFiles y s d of
        Inl e \<Rightarrow> (([], Some e), s)
      | Inr (files, hash) \<Rightarrow>
          if hash = kd_synced_hash d \<and> kd_status d = ''ok'' then ((hash, None), s)
          else (case map_of (ks_nodes s) (kd_env_id d) of
                  None \<Rightarrow> ((hash, Some KeyNotConnected), s)
                | Some nodes \<Rightarrow>
                    (case write_nodes (kd_volume d) (key_vfiles files) (kd_uid d) (kd_gid d) (kd_restart_targets d) fate nodes of
                       (errs, nodes) \<Rightarrow>
                         ((hash, if errs = [] then None else Some (KeyNodesFailed errs)), s\<lparr>ks_nodes := gput (ks_nodes s) (kd_env_id d) nodes\<rparr>))))"

definition reportKeyringDeliverySync ::
  "key_crypto \<Rightarrow> (string \<Rightarrow> copy_outcome) \<Rightarrow> int \<Rightarrow> ksite \<Rightarrow> keyring_delivery \<Rightarrow> key_error option \<times> ksite" where
  "reportKeyringDeliverySync y fate now s d =
     (case syncKeyringDelivery y fate s d of
        ((hash, e), s) \<Rightarrow>
          if e = None \<and> hash = kd_synced_hash d \<and> kd_status d = ''ok'' then (None, s)
          else (e, MarkKeyringDeliverySynced s (kd_id d) hash (e \<noteq> None) now))"

definition resyncKeyringDeliveries :: "key_crypto \<Rightarrow> (string \<Rightarrow> copy_outcome) \<Rightarrow> int \<Rightarrow> ksite \<Rightarrow> ksite" where
  "resyncKeyringDeliveries y fate now s = foldl (\<lambda>s d. snd (reportKeyringDeliverySync y fate now s d)) s (AllKeyringDeliveries s)"

section \<open>Rotation\<close>

definition key_event :: "ksite \<Rightarrow> key_event \<Rightarrow> ksite" where
  "key_event s e = s\<lparr>ks_events := ks_events s @ [e]\<rparr>"

definition rotateKeyring :: "key_crypto \<Rightarrow> ksite \<Rightarrow> ident \<Rightarrow> int \<Rightarrow> (keyring_version \<times> ksite) option" where
  "rotateKeyring y s rid now =
     (case ky_material y (ks_minted s) of
        None \<Rightarrow> None
      | Some m \<Rightarrow>
          (case ky_seal y m of
             None \<Rightarrow> None
           | Some sealed \<Rightarrow> RotateKeyring (s\<lparr>ks_minted := Suc (ks_minted s)\<rparr>) rid sealed (ky_new_id y (ks_minted s)) now))"

text \<open>An alarm is raised when its stage is new.\<close>

definition fire :: "(string \<times> string) list \<Rightarrow> string \<Rightarrow> string \<Rightarrow> bool \<times> (string \<times> string) list" where
  "fire seen key stage = (if gget [] seen key = stage then (False, seen) else (True, gput seen key stage))"

definition set_alarm :: "ksite \<Rightarrow> string \<Rightarrow> string \<Rightarrow> bool \<times> ksite" where
  "set_alarm s key stage = (case fire (ks_alarms s) key stage of (b, seen) \<Rightarrow> (b, s\<lparr>ks_alarms := seen\<rparr>))"

text \<open>The difference of two times saturates; the length of the schedule wraps at 64 bits.\<close>

definition time_sub :: "int \<Rightarrow> int \<Rightarrow> int" where
  "time_sub a b = max (- (2 ^ 63)) (min (2 ^ 63 - 1) (a - b))"

definition schedule :: "int \<Rightarrow> int" where
  "schedule days = wrap64 (days * (24 * 3600 * second))"

definition rotate_due :: "key_crypto \<Rightarrow> int \<Rightarrow> ksite \<Rightarrow> keyring \<Rightarrow> ksite" where
  "rotate_due y now s k =
     (if kr_rotate_days k \<le> 0 then s
      else (case first_row (\<lambda>v. kv_state v = KeyringVersionActive) (KeyringVersions s (kr_id k)) of
              None \<Rightarrow> s
            | Some active \<Rightarrow>
                if time_sub now (kv_created_at active) < schedule (kr_rotate_days k) then snd (set_alarm s (kr_id k @ ''/rotatefail'') [])
                else (case rotateKeyring y s (kr_id k) now of
                        None \<Rightarrow>
                          (case set_alarm s (kr_id k @ ''/rotatefail'') ''failing'' of
                             (new, s) \<Rightarrow> if new then key_event s (KeyringRotateFailed (kr_name k)) else s)
                      | Some (v, s) \<Rightarrow>
                          key_event (key_event (snd (set_alarm s (kr_id k @ ''/rotatefail'') [])) (KeyAudit ''keyring.rotate'' (kr_name k)))
                            (KeyringRotated (kr_name k)))))"

definition rotateDueKeyrings :: "key_crypto \<Rightarrow> int \<Rightarrow> ksite \<Rightarrow> ksite" where
  "rotateDueKeyrings y now s = foldl (rotate_due y now) s (ListKeyrings s)"

definition keyringSweep :: "key_crypto \<Rightarrow> (string \<Rightarrow> copy_outcome) \<Rightarrow> int \<Rightarrow> ksite \<Rightarrow> ksite" where
  "keyringSweep y fate now s = resyncKeyringDeliveries y fate now (rotateDueKeyrings y now s)"

definition keyringSweepInterval :: int where
  "keyringSweepInterval = 3600 * second"

section \<open>Handlers\<close>

datatype key_reply = KeyBad string | KeyMissing string | KeyStoreError | KeyRaced | KeySyncFailed key_error | KeyDone

definition handleCreateKeyring :: "key_crypto \<Rightarrow> ksite \<Rightarrow> string \<Rightarrow> int \<Rightarrow> ident \<Rightarrow> ident \<Rightarrow> int \<Rightarrow> key_reply \<times> ksite" where
  "handleCreateKeyring y s name days user i now =
     (if \<not> certName (trim_space name) then (KeyBad ''bad_name'', s)
      else if days < 0 then (KeyBad ''negative_schedule'', s)
      else (case CreateKeyring s \<lparr>kr_id = [], kr_name = trim_space name, kr_rotate_days = days, kr_created_at = 0, kr_created_by = user\<rparr> i now of
              None \<Rightarrow> (KeyBad ''name_taken'', s)
            | Some (k, s) \<Rightarrow>
                (case rotateKeyring y s (kr_id k) now of
                   None \<Rightarrow> (KeyStoreError, (case DeleteKeyring s (kr_id k) of None \<Rightarrow> s | Some s \<Rightarrow> s))
                 | Some (v, s) \<Rightarrow> (KeyDone, key_event s (KeyAudit ''keyring.create'' (kr_name k))))))"

definition handleRotateKeyring :: "key_crypto \<Rightarrow> (string \<Rightarrow> copy_outcome) \<Rightarrow> ksite \<Rightarrow> ident \<Rightarrow> int \<Rightarrow> key_reply \<times> ksite" where
  "handleRotateKeyring y fate s i now =
     (case KeyringByID s i of
        None \<Rightarrow> (KeyMissing ''no_such_keyring'', s)
      | Some k \<Rightarrow>
          (case rotateKeyring y s (kr_id k) now of
             None \<Rightarrow> (KeyStoreError, s)
           | Some (v, s) \<Rightarrow> (KeyDone, resyncKeyringDeliveries y fate now (key_event s (KeyAudit ''keyring.rotate'' (kr_name k))))))"

definition handleUpdateKeyring :: "ksite \<Rightarrow> ident \<Rightarrow> int \<Rightarrow> key_reply \<times> ksite" where
  "handleUpdateKeyring s i days =
     (case KeyringByID s i of
        None \<Rightarrow> (KeyMissing ''no_such_keyring'', s)
      | Some k \<Rightarrow>
          if days < 0 then (KeyBad ''negative_schedule'', s)
          else (case UpdateKeyring s (k\<lparr>kr_rotate_days := days\<rparr>) of
                  None \<Rightarrow> (KeyStoreError, s)
                | Some s \<Rightarrow> (KeyDone, key_event s (KeyAudit ''keyring.update'' (kr_name k)))))"

definition handleRetireKeyringVersion :: "key_crypto \<Rightarrow> (string \<Rightarrow> copy_outcome) \<Rightarrow> ksite \<Rightarrow> ident \<Rightarrow> ident \<Rightarrow> int \<Rightarrow> key_reply \<times> ksite" where
  "handleRetireKeyringVersion y fate s i vid now =
     (case KeyringByID s i of
        None \<Rightarrow> (KeyMissing ''no_such_keyring'', s)
      | Some k \<Rightarrow>
          (case KeyringVersionByID s vid of
             None \<Rightarrow> (KeyMissing ''no_such_version'', s)
           | Some v \<Rightarrow>
               if kv_keyring_id v \<noteq> kr_id k then (KeyMissing ''no_such_version'', s)
               else (case RetireKeyringVersion s (kv_id v) of
                       (False, s) \<Rightarrow>
                         (if kv_state v = KeyringVersionActive then KeyBad ''version_active''
                          else if kv_state v = KeyringVersionRetired then KeyBad ''version_retired'' else KeyRaced, s)
                     | (True, s) \<Rightarrow> (KeyDone, resyncKeyringDeliveries y fate now (key_event s (KeyAudit ''keyring.retire'' (kr_name k)))))))"

definition handleDeleteKeyring :: "ksite \<Rightarrow> ident \<Rightarrow> key_reply \<times> ksite" where
  "handleDeleteKeyring s i =
     (case KeyringByID s i of
        None \<Rightarrow> (KeyMissing ''no_such_keyring'', s)
      | Some k \<Rightarrow>
          if 0 < KeyringInUse s (kr_id k) then (KeyBad ''keyring_in_use'', s)
          else (case DeleteKeyring s (kr_id k) of
                  None \<Rightarrow> (KeyStoreError, s)
                | Some s \<Rightarrow> (KeyDone, key_event s (KeyAudit ''keyring.delete'' (kr_name k)))))"

record key_delivery_request =
  kq_keyring_id :: ident
  kq_env_id :: ident
  kq_volume :: string
  kq_uid :: int
  kq_gid :: int
  kq_restart_targets :: string

definition handleCreateKeyringDelivery ::
  "key_crypto \<Rightarrow> (string \<Rightarrow> copy_outcome) \<Rightarrow> ksite \<Rightarrow> key_delivery_request \<Rightarrow> ident \<Rightarrow> ident \<Rightarrow> int \<Rightarrow> key_reply \<times> ksite" where
  "handleCreateKeyringDelivery y fate s req user i now =
     (if map_of (ks_nodes s) (kq_env_id req) = None then (KeyBad ''not_connected'', s)
      else if KeyringByID s (kq_keyring_id req) = None then (KeyBad ''no_such_keyring'', s)
      else if kq_volume req \<noteq> [] \<and> \<not> certName (kq_volume req) then (KeyBad ''bad_name'', s)
      else (case CreateKeyringDelivery s
                   \<lparr>kd_id = [], kd_keyring_id = kq_keyring_id req, kd_env_id = kq_env_id req, kd_volume = kq_volume req, kd_uid = kq_uid req,
                    kd_gid = kq_gid req, kd_restart_targets = trim_space (kq_restart_targets req), kd_synced_hash = [], kd_synced_at = None,
                    kd_status = [], kd_failed = False, kd_created_at = 0, kd_created_by = user\<rparr> i now of
              None \<Rightarrow> (KeyStoreError, s)
            | Some (d, s) \<Rightarrow> (KeyDone, snd (reportKeyringDeliverySync y fate now (key_event s (KeyAudit ''keyring.deliver'' (kd_volume d))) d))))"

definition handleSyncKeyringDelivery :: "key_crypto \<Rightarrow> (string \<Rightarrow> copy_outcome) \<Rightarrow> ksite \<Rightarrow> ident \<Rightarrow> int \<Rightarrow> key_reply \<times> ksite" where
  "handleSyncKeyringDelivery y fate s i now =
     (case KeyringDeliveryByID s i of
        None \<Rightarrow> (KeyMissing ''no_such_delivery'', s)
      | Some d \<Rightarrow>
          (case reportKeyringDeliverySync y fate now s (d\<lparr>kd_synced_hash := []\<rparr>) of
             (Some e, s) \<Rightarrow> (KeySyncFailed e, s)
           | (None, s) \<Rightarrow> (KeyDone, key_event s (KeyAudit ''keyring.sync'' (kd_volume d)))))"

definition handleDeleteKeyringDelivery :: "ksite \<Rightarrow> ident \<Rightarrow> key_reply \<times> ksite" where
  "handleDeleteKeyringDelivery s i =
     (case KeyringDeliveryByID s i of
        None \<Rightarrow> (KeyMissing ''no_such_delivery'', s)
      | Some d \<Rightarrow> (KeyDone, key_event (DeleteKeyringDelivery s (kd_id d)) (KeyAudit ''keyring.undeliver'' (kd_volume d))))"

end
