(* ===== verification/KeyRotation.thy ===== *)
theory KeyRotation
  imports Keyrings
begin

text \<open>
  What key rings promise. A machine over the handlers and the hourly sweep keeps one active version per
  ring; a version stays readable until somebody retires it or deletes its ring; the delivered document
  holds exactly the versions that are live. The last section shows what a very long schedule does.
\<close>

section \<open>The machine\<close>

datatype key_op =
    OpCreateRing string int ident ident
  | OpRotateRing ident
  | OpUpdateRing ident int
  | OpRetireVersion ident ident
  | OpDeleteRing ident
  | OpDeliverRing key_delivery_request ident ident
  | OpSyncRing ident
  | OpUndeliverRing ident
  | OpSweepRings

type_synonym key_call = "key_op \<times> (string \<Rightarrow> copy_outcome) \<times> int"

fun key_step :: "key_crypto \<Rightarrow> ksite \<Rightarrow> key_call \<Rightarrow> ksite" where
  "key_step y s (OpCreateRing name days user i, fate, now) = snd (handleCreateKeyring y s name days user i now)"
| "key_step y s (OpRotateRing i, fate, now) = snd (handleRotateKeyring y fate s i now)"
| "key_step y s (OpUpdateRing i days, fate, now) = snd (handleUpdateKeyring s i days)"
| "key_step y s (OpRetireVersion i vid, fate, now) = snd (handleRetireKeyringVersion y fate s i vid now)"
| "key_step y s (OpDeleteRing i, fate, now) = snd (handleDeleteKeyring s i)"
| "key_step y s (OpDeliverRing req user i, fate, now) = snd (handleCreateKeyringDelivery y fate s req user i now)"
| "key_step y s (OpSyncRing i, fate, now) = snd (handleSyncKeyringDelivery y fate s i now)"
| "key_step y s (OpUndeliverRing i, fate, now) = snd (handleDeleteKeyringDelivery s i)"
| "key_step y s (OpSweepRings, fate, now) = keyringSweep y fate now s"

definition new_ksite :: "ident list \<Rightarrow> (ident \<times> node list) list \<Rightarrow> ksite" where
  "new_ksite envs nodes =
     \<lparr>ks_rings = [], ks_versions = [], ks_deliveries = [], ks_environments = envs, ks_nodes = nodes, ks_minted = 0, ks_alarms = [], ks_events = []\<rparr>"

section \<open>What a sweep leaves alone\<close>

text \<open>The rows the properties are about: rings, versions, and which ring each delivery carries.\<close>

definition key_rows :: "ksite \<Rightarrow> ident list \<times> keyring_version list \<times> ident list" where
  "key_rows s = (map kr_id (ks_rings s), ks_versions s, map kd_keyring_id (ks_deliveries s))"

lemma key_rows_event [simp]: "key_rows (key_event s e) = key_rows s"
  by (simp add: key_rows_def key_event_def)

lemma key_rows_alarm [simp]: "key_rows (snd (set_alarm s key stage)) = key_rows s"
  by (simp add: key_rows_def set_alarm_def split: prod.split)

lemma key_rows_mark [simp]: "key_rows (MarkKeyringDeliverySynced s i hash failed now) = key_rows s"
  by (auto simp: key_rows_def MarkKeyringDeliverySynced_def update_where_def)

lemma key_rows_sync [simp]: "key_rows (snd (syncKeyringDelivery y fate s d)) = key_rows s"
  by (auto simp: key_rows_def syncKeyringDelivery_def split: sum.split prod.split option.split)

lemma key_rows_report [simp]: "key_rows (snd (reportKeyringDeliverySync y fate now s d)) = key_rows s"
  using key_rows_sync[of y fate s d]
  by (cases "syncKeyringDelivery y fate s d") (auto simp: reportKeyringDeliverySync_def split: prod.split)

lemma versions_report: "ks_versions (snd (reportKeyringDeliverySync y fate now s d)) = ks_versions s"
  using key_rows_report[of y fate now s d] by (simp add: key_rows_def)

lemma key_rows_resync [simp]: "key_rows (resyncKeyringDeliveries y fate now s) = key_rows s"
proof -
  have "key_rows (foldl (\<lambda>s d. snd (reportKeyringDeliverySync y fate now s d)) s ds) = key_rows s" for ds
    by (induction ds arbitrary: s) simp_all
  then show ?thesis by (simp add: resyncKeyringDeliveries_def)
qed

section \<open>The invariant\<close>

definition is_active :: "ident \<Rightarrow> keyring_version \<Rightarrow> bool" where
  "is_active rid v = (kv_keyring_id v = rid \<and> kv_state v = KeyringVersionActive)"

definition rows_but :: "ident set \<Rightarrow> ident list \<times> keyring_version list \<times> ident list \<Rightarrow> bool" where
  "rows_but x t = (case t of (rids, vs, carried) \<Rightarrow>
     distinct rids \<and> distinct (map kv_id vs) \<and> set carried \<subseteq> set rids \<and>
     list_all (\<lambda>v. kv_keyring_id v \<in> set rids \<and> kv_id v \<noteq> []) vs \<and>
     list_all (\<lambda>r. r \<in> x \<or> count_where (is_active r) vs = 1) rids)"

definition key_invariant :: "ksite \<Rightarrow> bool" where
  "key_invariant s = rows_but {} (key_rows s)"

lemma key_invariantD:
  assumes "key_invariant s"
  shows "distinct (map kr_id (ks_rings s))" "distinct (map kv_id (ks_versions s))"
    "d \<in> set (ks_deliveries s) \<Longrightarrow> kd_keyring_id d \<in> kr_id ` set (ks_rings s)"
    "v \<in> set (ks_versions s) \<Longrightarrow> kv_keyring_id v \<in> kr_id ` set (ks_rings s)"
    "v \<in> set (ks_versions s) \<Longrightarrow> kv_id v \<noteq> []"
    "k \<in> set (ks_rings s) \<Longrightarrow> count_where (is_active (kr_id k)) (ks_versions s) = 1"
  using assms by (auto simp: key_invariant_def key_rows_def rows_but_def list_all_iff)

text \<open>The effect of a rotation on the rows: the ring's active version steps down and the new one is added.\<close>

definition rotated_rows :: "ident \<Rightarrow> keyring_version list \<Rightarrow> keyring_version list" where
  "rotated_rows rid vs = update_where (is_active rid) (\<lambda>q. q\<lparr>kv_state := KeyringVersionDecryptOnly\<rparr>) vs"

lemma is_active_fun: "is_active rid = (\<lambda>v. kv_keyring_id v = rid \<and> kv_state v = KeyringVersionActive)"
  by (simp add: is_active_def fun_eq_iff)

lemma rotated_ids [simp]: "map kv_id (rotated_rows rid vs) = map kv_id vs"
  by (auto simp: rotated_rows_def update_where_def)

lemma rotated_id_set [simp]: "kv_id ` set (rotated_rows rid vs) = kv_id ` set vs"
  by (metis list.set_map rotated_ids)

lemma count_rotated: "count_where (is_active r) (rotated_rows rid vs) = (if r = rid then 0 else count_where (is_active r) vs)"
proof -
  have "is_active r (if is_active rid v then v\<lparr>kv_state := KeyringVersionDecryptOnly\<rparr> else v) = (r \<noteq> rid \<and> is_active r v)" for v
    by (auto simp: is_active_def version_states)
  then show ?thesis by (simp add: rotated_rows_def update_where_def count_where_def filter_map comp_def)
qed

lemma RotateKeyring_Some:
  assumes "RotateKeyring s rid sealed i now = Some (v, s')"
  shows "v = \<lparr>kv_id = ''krv_'' @ i, kv_keyring_id = rid, kv_material_enc = sealed, kv_state = KeyringVersionActive, kv_created_at = now\<rparr>"
    "s' = s\<lparr>ks_versions := rotated_rows rid (ks_versions s) @ [v]\<rparr>"
    "kv_id v \<notin> kv_id ` set (ks_versions s)" "rid \<in> kr_id ` set (ks_rings s)"
proof -
  have "(''krv_'' @ i) \<notin> kv_id ` set (rotated_rows rid (ks_versions s)) \<and> rid \<in> kr_id ` set (ks_rings s) \<and>
      v = \<lparr>kv_id = ''krv_'' @ i, kv_keyring_id = rid, kv_material_enc = sealed, kv_state = KeyringVersionActive, kv_created_at = now\<rparr> \<and>
      s' = s\<lparr>ks_versions := rotated_rows rid (ks_versions s) @ [v]\<rparr>"
    using assms unfolding RotateKeyring_def Let_def rotated_rows_def is_active_fun
    by (auto simp: list_ex_iff split: if_split_asm)
  then show "v = \<lparr>kv_id = ''krv_'' @ i, kv_keyring_id = rid, kv_material_enc = sealed, kv_state = KeyringVersionActive, kv_created_at = now\<rparr>"
    "s' = s\<lparr>ks_versions := rotated_rows rid (ks_versions s) @ [v]\<rparr>"
    "kv_id v \<notin> kv_id ` set (ks_versions s)" "rid \<in> kr_id ` set (ks_rings s)"
    by simp_all
qed

definition minted_by :: "key_crypto \<Rightarrow> keyring_version \<Rightarrow> bool" where
  "minted_by y v = (\<exists>n m. ky_material y n = Some m \<and> ky_seal y m = Some (kv_material_enc v))"

lemma rotateKeyring_Some:
  assumes "rotateKeyring y s rid now = Some (v, s')"
  shows "minted_by y v" "is_active rid v" "kv_id v \<noteq> []" "kv_id v \<notin> kv_id ` set (ks_versions s)" "rid \<in> kr_id ` set (ks_rings s)"
    "key_rows s' = (map kr_id (ks_rings s), rotated_rows rid (ks_versions s) @ [v], map kd_keyring_id (ks_deliveries s))"
proof -
  obtain m e where me: "ky_material y (ks_minted s) = Some m" "ky_seal y m = Some e"
    "RotateKeyring (s\<lparr>ks_minted := Suc (ks_minted s)\<rparr>) rid e (ky_new_id y (ks_minted s)) now = Some (v, s')"
    using assms by (auto simp: rotateKeyring_def split: option.split_asm)
  note r = RotateKeyring_Some[OF me(3)]
  show "minted_by y v" using me r(1) by (auto simp: minted_by_def)
  show "is_active rid v" "kv_id v \<noteq> []" using r(1) by (simp_all add: is_active_def)
  show "kv_id v \<notin> kv_id ` set (ks_versions s)" "rid \<in> kr_id ` set (ks_rings s)" using r(3,4) by simp_all
  show "key_rows s' = (map kr_id (ks_rings s), rotated_rows rid (ks_versions s) @ [v], map kd_keyring_id (ks_deliveries s))"
    using r(2) by (simp add: key_rows_def)
qed

text \<open>A rotation repairs its own ring; the others need to have been right before.\<close>

lemma rotateKeyring_rows_ok:
  assumes "rotateKeyring y s rid now = Some (v, s')" "rows_but {rid} (key_rows s)"
  shows "key_invariant s'"
  using assms(2) rotateKeyring_Some[OF assms(1)]
  by (auto simp: key_invariant_def key_rows_def rows_but_def list_all_iff count_where_append count_where_single count_rotated
      is_active_def, auto simp: rotated_rows_def update_where_def)

lemma rows_but_mono: "rows_but {} t \<Longrightarrow> rows_but x t"
  by (auto simp: rows_but_def list_all_iff split: prod.split)

lemma KeyringByID_Some: "KeyringByID s i = Some k \<Longrightarrow> k \<in> set (ks_rings s) \<and> kr_id k = i"
  by (auto simp: KeyringByID_def first_row_def split: list.split_asm dest!: filter_eq_ConsD)

lemma CreateKeyring_Some:
  assumes "CreateKeyring s k i now = Some (k', s')"
  shows "kr_id k' \<notin> kr_id ` set (ks_rings s)" "s' = s\<lparr>ks_rings := ks_rings s @ [k']\<rparr>"
  using assms by (auto simp: CreateKeyring_def Let_def list_ex_iff split: if_split_asm)

lemma created_rows:
  assumes "CreateKeyring s k i now = Some (k', s')" "key_invariant s"
  shows "rows_but {kr_id k'} (key_rows s')"
  using assms(2) CreateKeyring_Some[OF assms(1)]
  by (auto simp: key_invariant_def key_rows_def rows_but_def list_all_iff)

text \<open>A ring whose first version cannot be minted is taken back, and nothing else goes with it.\<close>

lemma create_rolls_back:
  assumes "CreateKeyring s k i now = Some (k', s')" "key_invariant s"
  shows "\<exists>t. DeleteKeyring s' (kr_id k') = Some t \<and> key_rows t = key_rows s"
proof -
  note c = CreateKeyring_Some[OF assms(1)] and inv = key_invariantD[OF assms(2)]
  have "KeyringInUse s' (kr_id k') = 0"
    using c(1) inv(3) by (auto simp: KeyringInUse_def count_where_0 c(2) dest!: inv(3))
  moreover have "delete_where (\<lambda>v. kv_keyring_id v = kr_id k') (ks_versions s) = ks_versions s"
    using c(1) by (auto simp: delete_where_def filter_id_conv dest!: inv(4))
  moreover have "delete_where (\<lambda>q. kr_id q = kr_id k') (ks_rings s @ [k']) = ks_rings s"
    using c(1) by (auto simp: delete_where_def filter_id_conv) (metis imageI)
  ultimately show ?thesis using c(2) by (simp add: DeleteKeyring_def key_rows_def)
qed

lemma DeleteKeyring_keeps:
  assumes "DeleteKeyring s i = Some t" "key_invariant s"
  shows "key_invariant t"
proof -
  have free: "d \<in> set (ks_deliveries s) \<Longrightarrow> kd_keyring_id d \<noteq> i" for d
    using assms key_invariantD(3)[OF assms(2), of d]
    by (auto simp: DeleteKeyring_def KeyringInUse_def list_ex_iff count_where_0 split: if_split_asm)
  have count: "r \<noteq> i \<Longrightarrow> count_where (is_active r) (delete_where (\<lambda>v. kv_keyring_id v = i) vs) = count_where (is_active r) vs" for r vs
    by (induction vs) (auto simp: count_where_def delete_where_def is_active_fun)
  have t: "t = s\<lparr>ks_rings := delete_where (\<lambda>k. kr_id k = i) (ks_rings s), ks_versions := delete_where (\<lambda>v. kv_keyring_id v = i) (ks_versions s)\<rparr>"
    using assms(1) by (simp add: DeleteKeyring_def split: if_split_asm)
  note inv = key_invariantD[OF assms(2)]
  have "distinct (map kr_id (delete_where p (ks_rings s)))" "distinct (map kv_id (delete_where q (ks_versions s)))" for p q
    using inv(1,2) by (simp_all add: delete_where_def distinct_map_filter)
  moreover have "kd_keyring_id d \<in> kr_id ` set (delete_where (\<lambda>k. kr_id k = i) (ks_rings s))" if "d \<in> set (ks_deliveries s)" for d
    using inv(3)[OF that] free[OF that] by auto
  moreover have "kv_keyring_id v \<in> kr_id ` set (delete_where (\<lambda>k. kr_id k = i) (ks_rings s)) \<and> kv_id v \<noteq> []"
    if "v \<in> set (delete_where (\<lambda>v. kv_keyring_id v = i) (ks_versions s))" for v
    using inv(4,5)[of v] that by auto
  ultimately show ?thesis
    using inv(6) by (auto simp: key_invariant_def key_rows_def rows_but_def t list_all_iff count)
qed

lemma UpdateKeyring_keeps:
  assumes "UpdateKeyring s k = Some t"
  shows "key_rows t = key_rows s"
  using assms by (auto simp: UpdateKeyring_def key_rows_def map_update_where split: if_split_asm)

definition retired_rows :: "ident \<Rightarrow> keyring_version list \<Rightarrow> keyring_version list" where
  "retired_rows i vs = update_where (\<lambda>v. kv_id v = i \<and> kv_state v = KeyringVersionDecryptOnly) (\<lambda>v. v\<lparr>kv_state := KeyringVersionRetired\<rparr>) vs"

lemma retired_ids [simp]: "map kv_id (retired_rows i vs) = map kv_id vs"
  by (auto simp: retired_rows_def update_where_def)

lemma count_retired [simp]: "count_where (is_active r) (retired_rows i vs) = count_where (is_active r) vs"
proof -
  have "is_active r (if kv_id v = i \<and> kv_state v = KeyringVersionDecryptOnly then v\<lparr>kv_state := KeyringVersionRetired\<rparr> else v) = is_active r v" for v
    by (auto simp: is_active_def version_states)
  then show ?thesis by (simp add: retired_rows_def update_where_def count_where_def filter_map comp_def)
qed

lemma RetireKeyringVersion_rows: "RetireKeyringVersion s i = (b, t) \<Longrightarrow>
    key_rows t = (map kr_id (ks_rings s), retired_rows i (ks_versions s), map kd_keyring_id (ks_deliveries s))"
  by (auto simp: RetireKeyringVersion_def Let_def retired_rows_def key_rows_def)

lemma RetireKeyringVersion_keeps:
  assumes "RetireKeyringVersion s i = (b, t)" "key_invariant s"
  shows "key_invariant t"
proof -
  have "v \<in> set (retired_rows i vs) \<Longrightarrow> \<exists>q \<in> set vs. kv_keyring_id v = kv_keyring_id q \<and> kv_id v = kv_id q" for v vs
    by (auto simp: retired_rows_def update_where_def)
  then show ?thesis
    using key_invariantD[OF assms(2)] unfolding key_invariant_def RetireKeyringVersion_rows[OF assms(1)] rows_but_def
    by (fastforce simp: list_all_iff)
qed

lemma rotateKeyring_keeps: "rotateKeyring y s rid now = Some (v, s') \<Longrightarrow> key_invariant s \<Longrightarrow> key_invariant s'"
  unfolding key_invariant_def using rotateKeyring_rows_ok[unfolded key_invariant_def] rows_but_mono by blast

lemma key_invariant_cong: "key_rows s = key_rows t \<Longrightarrow> key_invariant s = key_invariant t"
  by (simp add: key_invariant_def)

section \<open>Facts that survive every call\<close>

text \<open>A fact about the rows that survives a rotation survives the worker's sweep.\<close>

locale rotation_fact =
  fixes y :: key_crypto
    and Q :: "ident list \<times> keyring_version list \<times> ident list \<Rightarrow> bool"
  assumes rotate_keeps: "rotateKeyring y s rid now = Some (v, s') \<Longrightarrow> Q (key_rows s) \<Longrightarrow> Q (key_rows s')"
begin

lemma rotate_due_keeps: "Q (key_rows s) \<Longrightarrow> Q (key_rows (rotate_due y now s k))"
  unfolding rotate_due_def
  by (auto split: option.split prod.split dest: rotate_keeps) (metis key_rows_alarm snd_conv)+

lemma sweep_keeps:
  assumes "Q (key_rows s)"
  shows "Q (key_rows (keyringSweep y fate now s))"
proof -
  have "Q (key_rows s) \<Longrightarrow> Q (key_rows (foldl (rotate_due y now) s ks))" for ks s
    by (induction ks arbitrary: s) (simp_all add: rotate_due_keeps)
  then show ?thesis using assms by (simp add: keyringSweep_def rotateDueKeyrings_def)
qed

lemma handleRotate_keeps: "Q (key_rows s) \<Longrightarrow> Q (key_rows (snd (handleRotateKeyring y fate s i now)))"
  by (auto simp: handleRotateKeyring_def split: option.split dest: rotate_keeps)

end

interpretation key_rows_machine: rotation_fact y "rows_but {}" for y
  by unfold_locales (rule rotateKeyring_keeps[unfolded key_invariant_def])

lemma create_keeps: "key_invariant s \<Longrightarrow> key_invariant (snd (handleCreateKeyring y s name days user i now))"
  unfolding handleCreateKeyring_def
  using create_rolls_back created_rows rotateKeyring_rows_ok
  by (fastforce split: option.split simp: key_invariant_def)

lemma CreateKeyringDelivery_Some:
  assumes "CreateKeyringDelivery s d i now = Some (d', t)"
  shows "kd_keyring_id d' \<in> kr_id ` set (ks_rings s)" "t = s\<lparr>ks_deliveries := ks_deliveries s @ [d']\<rparr>"
  using assms by (simp_all add: CreateKeyringDelivery_def Let_def list_ex_iff image_iff split: if_split_asm) force+

lemma deliver_keeps: "key_invariant s \<Longrightarrow> key_invariant (snd (handleCreateKeyringDelivery y fate s req user i now))"
proof -
  have "CreateKeyringDelivery s d i now = Some (d', t) \<Longrightarrow> key_invariant s \<Longrightarrow> key_invariant t" for d d' t
    using CreateKeyringDelivery_Some[of s d i now d' t] by (auto simp: key_invariant_def key_rows_def rows_but_def)
  then show "key_invariant s \<Longrightarrow> key_invariant (snd (handleCreateKeyringDelivery y fate s req user i now))"
    by (auto simp: handleCreateKeyringDelivery_def key_invariant_def split: option.split)
qed

lemma sync_keeps: "key_rows (snd (handleSyncKeyringDelivery y fate s i now)) = key_rows s"
  unfolding handleSyncKeyringDelivery_def
  by (auto split: option.split prod.split) (metis key_rows_report snd_conv)+

lemma undeliver_keeps: "key_invariant s \<Longrightarrow> key_invariant (snd (handleDeleteKeyringDelivery s i))"
  by (auto simp: handleDeleteKeyringDelivery_def DeleteKeyringDelivery_def key_invariant_def key_rows_def rows_but_def key_event_def delete_where_def
      split: option.split)

lemma key_step_keeps: "key_invariant s \<Longrightarrow> key_invariant (key_step y s c)"
proof (induction y s c rule: key_step.induct)
  case (2 y s i fate now)
  then show ?case using key_rows_machine.handleRotate_keeps by (simp add: key_invariant_def)
next
  case (3 y s i days fate now)
  then show ?case by (auto simp: handleUpdateKeyring_def key_invariant_def split: option.split dest: UpdateKeyring_keeps)
next
  case (4 y s i vid fate now)
  then show ?case
    using RetireKeyringVersion_keeps
    by (auto simp: handleRetireKeyringVersion_def key_invariant_def split: option.split prod.split bool.split)
next
  case (5 y s i fate now)
  then show ?case using DeleteKeyring_keeps by (auto simp: handleDeleteKeyring_def key_invariant_def split: option.split)
next
  case (9 y s fate now)
  then show ?case using key_rows_machine.sweep_keeps by (simp add: key_invariant_def)
qed (simp_all add: create_keeps deliver_keeps undeliver_keeps key_invariant_cong[OF sync_keeps])

interpretation key_machine: guarded_machine "key_step y" key_invariant for y
  by unfold_locales (rule key_step_keeps)

lemma new_ksite_ok: "key_invariant (new_ksite envs nodes)"
  by (simp add: key_invariant_def new_ksite_def key_rows_def rows_but_def)

text \<open>
  A fact about the versions: it survives a rotation, and only the retirements that \<open>retires\<close> names and the
  deletions that \<open>deletes\<close> names may end it.
\<close>

locale version_fact =
  fixes y :: key_crypto
    and P :: "keyring_version list \<Rightarrow> bool"
    and retires :: "ident \<Rightarrow> bool"
    and deletes :: "ident \<Rightarrow> bool"
  assumes on_rotation: "P vs \<Longrightarrow> minted_by y v \<Longrightarrow> P (rotated_rows rid vs @ [v])"
    and on_retirement: "P vs \<Longrightarrow> \<not> retires i \<Longrightarrow> P (retired_rows i vs)"
    and on_deletion: "P vs \<Longrightarrow> \<not> deletes i \<Longrightarrow> P (delete_where (\<lambda>v. kv_keyring_id v = i) vs)"

sublocale version_fact \<subseteq> rotation_fact y "\<lambda>t. P (fst (snd t))"
proof
  show "P (fst (snd (key_rows s')))" if "rotateKeyring y s rid now = Some (v, s')" "P (fst (snd (key_rows s)))" for s rid now v s'
    using rotateKeyring_Some(1,6)[OF that(1)] that(2) on_rotation by (simp add: key_rows_def)
qed

definition spares :: "(ident \<Rightarrow> bool) \<Rightarrow> (ident \<Rightarrow> bool) \<Rightarrow> key_call \<Rightarrow> bool" where
  "spares retires deletes c =
     (case fst c of OpRetireVersion i vid \<Rightarrow> \<not> retires vid | OpDeleteRing i \<Rightarrow> \<not> deletes i | _ \<Rightarrow> True)"

lemma versions_of_rows: "fst (snd (key_rows s)) = ks_versions s"
  by (simp add: key_rows_def)

context version_fact
begin

lemma create_spared:
  assumes "key_invariant s" "P (ks_versions s)"
  shows "P (ks_versions (snd (handleCreateKeyring y s name days user i now)))"
proof -
  let ?k = "\<lparr>kr_id = [], kr_name = trim_space name, kr_rotate_days = days, kr_created_at = 0, kr_created_by = user\<rparr>"
  have "P (ks_versions t)" if "CreateKeyring s ?k i now = Some (k, q)" "DeleteKeyring q (kr_id k) = Some t" for k q t
    using create_rolls_back[OF that(1) assms(1)] that(2) assms(2) by (metis option.inject versions_of_rows)
  moreover have "P (ks_versions t)" if "CreateKeyring s ?k i now = Some (k, q)" "rotateKeyring y q (kr_id k) now = Some (v, t)" for k q v t
    using rotate_keeps[OF that(2)] CreateKeyring_Some(2)[OF that(1)] assms(2) by (simp add: versions_of_rows)
  moreover have "P (ks_versions q)" if "CreateKeyring s ?k i now = Some (k, q)" for k q
    using CreateKeyring_Some(2)[OF that(1)] assms(2) by simp
  ultimately show ?thesis
    using assms(2) by (auto simp: handleCreateKeyring_def key_event_def split: option.split)
qed

lemma retire_spared:
  assumes "P (ks_versions s)" "\<not> retires vid"
  shows "P (ks_versions (snd (handleRetireKeyringVersion y fate s i vid now)))"
proof -
  have vid: "kv_id v = vid" if "KeyringVersionByID s vid = Some v" for v
    using that by (auto simp: KeyringVersionByID_def first_row_def split: list.split_asm dest!: filter_eq_ConsD)
  have "P (ks_versions t)" if "RetireKeyringVersion s vid = (b, t)" for b t
    using RetireKeyringVersion_rows[OF that] on_retirement[OF assms] by (simp add: key_rows_def)
  then have "P (ks_versions (resyncKeyringDeliveries y fate now (key_event t e)))" "P (ks_versions t)"
    if "RetireKeyringVersion s vid = (b, t)" for b t e
    using that key_rows_resync[of y fate now "key_event t e"] by (auto simp: key_rows_def key_event_def)
  then show ?thesis
    using assms(1) vid by (auto simp: handleRetireKeyringVersion_def split: option.split prod.split bool.split)
qed

lemma step_spared:
  assumes "key_invariant s" "P (ks_versions s)" "spares retires deletes (a, fate, now)"
  shows "P (ks_versions (key_step y s (a, fate, now)))"
proof (cases a)
  case (OpCreateRing name days user i)
  then show ?thesis using create_spared[OF assms(1,2)] by simp
next
  case (OpRotateRing i)
  then show ?thesis using handleRotate_keeps[of s fate i now] assms(2) by (simp add: versions_of_rows)
next
  case (OpUpdateRing i days)
  then show ?thesis
    using assms(2) by (auto simp: handleUpdateKeyring_def key_event_def UpdateKeyring_def split: option.split if_split_asm)
next
  case (OpRetireVersion i vid)
  then show ?thesis using retire_spared assms(2,3) by (simp add: spares_def)
next
  case (OpDeleteRing i)
  then show ?thesis
    using assms(2,3) on_deletion[of "ks_versions s" i]
    by (auto simp: spares_def handleDeleteKeyring_def DeleteKeyring_def key_event_def split: option.split dest: KeyringByID_Some)
next
  case (OpDeliverRing req user i)
  have "ks_versions (snd (handleCreateKeyringDelivery y fate s req user i now)) = ks_versions s"
    by (auto simp: handleCreateKeyringDelivery_def versions_report key_event_def split: option.split dest: CreateKeyringDelivery_Some(2))
  then show ?thesis using OpDeliverRing assms(2) by simp
next
  case (OpSyncRing i)
  then show ?thesis using sync_keeps[of y fate s i now] assms(2) by (simp add: key_rows_def)
next
  case (OpUndeliverRing i)
  then show ?thesis
    using assms(2) by (auto simp: handleDeleteKeyringDelivery_def DeleteKeyringDelivery_def key_event_def split: option.split)
next
  case OpSweepRings
  then show ?thesis using sweep_keeps[of s fate now] assms(2) by (simp add: versions_of_rows)
qed

lemma run_spared: "key_invariant s \<Longrightarrow> P (ks_versions s) \<Longrightarrow> list_all (spares retires deletes) cs \<Longrightarrow> P (ks_versions (foldl (key_step y) s cs))"
proof (induction cs arbitrary: s)
  case (Cons c cs)
  then show ?case using step_spared[of s "fst c" "fst (snd c)" "snd (snd c)"] key_step_keeps[of s y c] by simp
qed simp

end

definition readable :: "ident \<Rightarrow> ident \<Rightarrow> string \<Rightarrow> keyring_version list \<Rightarrow> bool" where
  "readable i rid enc vs = list_ex (\<lambda>v. kv_id v = i \<and> kv_keyring_id v = rid \<and> kv_material_enc v = enc \<and> kv_state v \<noteq> KeyringVersionRetired) vs"

lemma list_ex_weaken: "list_ex p xs \<Longrightarrow> (\<And>x. p x \<Longrightarrow> q x) \<Longrightarrow> list_ex q xs"
  by (auto simp: list_ex_iff)

lemma readable_rotated: "readable i rid enc vs \<Longrightarrow> readable i rid enc (rotated_rows r vs @ [v])"
  unfolding readable_def rotated_rows_def list_ex_append list_ex_update_where
  by (rule disjI1) (erule list_ex_weaken, simp add: version_states)

lemma readable_retired: "readable i rid enc vs \<Longrightarrow> x \<noteq> i \<Longrightarrow> readable i rid enc (retired_rows x vs)"
  unfolding readable_def retired_rows_def list_ex_update_where
  by (erule list_ex_weaken) simp

lemma readable_deleted: "readable i rid enc vs \<Longrightarrow> x \<noteq> rid \<Longrightarrow> readable i rid enc (delete_where (\<lambda>v. kv_keyring_id v = x) vs)"
  by (auto simp: readable_def list_ex_iff)

interpretation readable_machine: version_fact y "readable i rid enc" "\<lambda>x. x = i" "\<lambda>x. x = rid" for y i rid enc
  by unfold_locales (simp_all add: readable_rotated readable_retired readable_deleted)

interpretation minted_machine: version_fact y "list_all (minted_by y)" "\<lambda>x. False" "\<lambda>x. False" for y
  by unfold_locales
    (auto simp: list_all_iff rotated_rows_def retired_rows_def update_where_def delete_where_def minted_by_def)

section \<open>The delivered document\<close>

definition live :: "keyring_version \<Rightarrow> bool" where
  "live v = (kv_state v \<noteq> KeyringVersionRetired)"

definition json_entry :: "key_crypto \<Rightarrow> keyring_version \<Rightarrow> json_key" where
  "json_entry y v = \<lparr>jk_material = the (ky_open y (kv_material_enc v)), jk_state = kv_state v, jk_created_at = ky_time y (kv_created_at v)\<rparr>"

definition raw_key :: "key_crypto \<Rightarrow> keyring_version \<Rightarrow> string" where
  "raw_key y v = the (ky_raw y (the (ky_open y (kv_material_enc v))))"

definition opens :: "key_crypto \<Rightarrow> keyring_version \<Rightarrow> bool" where
  "opens y v = (\<exists>m r. ky_open y (kv_material_enc v) = Some m \<and> ky_raw y m = Some r)"

lemma live_keys_fold:
  assumes "\<forall>v \<in> set vs. opens y v"
  shows "live_keys y vs doc raw =
    (let c = fold (\<lambda>v c. if kv_state v = KeyringVersionActive then (kv_id v, raw_key y v) else c) vs (kj_current doc, raw)
     in Inr (doc\<lparr>kj_keys := fold (\<lambda>v m. if live v then gput m (kv_id v) (json_entry y v) else m) vs (kj_keys doc), kj_current := fst c\<rparr>, snd c))"
  using assms
  by (induction y vs doc raw rule: live_keys.induct)
    (auto simp: Let_def live_def opens_def json_entry_def raw_key_def version_states)

lemma fold_no_active: "filter P vs = [] \<Longrightarrow> fold (\<lambda>v c. if P v then f v else c) vs c = c"
  by (induction vs arbitrary: c) (auto split: if_split_asm)

lemma fold_last_active:
  "filter P vs = [v] \<Longrightarrow> fold (\<lambda>v c. if P v then f v else c) vs c = f v"
  by (induction vs arbitrary: c) (auto split: if_split_asm simp: fold_no_active)

definition sealing_works :: "key_crypto \<Rightarrow> bool" where
  "sealing_works y = ((\<forall>m e. ky_seal y m = Some e \<longrightarrow> ky_open y e = Some m) \<and> (\<forall>n m. ky_material y n = Some m \<longrightarrow> ky_raw y m \<noteq> None))"

lemma minted_opens: "sealing_works y \<Longrightarrow> minted_by y v \<Longrightarrow> opens y v"
  unfolding sealing_works_def minted_by_def opens_def by blast

lemma KeyringByID_unique: "key_invariant s \<Longrightarrow> k \<in> set (ks_rings s) \<Longrightarrow> KeyringByID s (kr_id k) = Some k"
proof -
  assume "key_invariant s" "k \<in> set (ks_rings s)"
  then have "distinct (map kr_id (ks_rings s))" "k \<in> set (ks_rings s)" by (simp_all add: key_invariantD(1))
  moreover have "distinct (map kr_id ks) \<Longrightarrow> k \<in> set ks \<Longrightarrow> filter (\<lambda>q. kr_id q = kr_id k) ks = [k]" for ks
    by (induction ks) (auto simp: filter_empty_conv image_iff)
  ultimately show ?thesis by (simp add: KeyringByID_def first_row_def)
qed

lemma set_KeyringVersions [simp]: "set (KeyringVersions s rid) = {v \<in> set (ks_versions s). kv_keyring_id v = rid}"
  by (auto simp: KeyringVersions_def)

lemma mset_KeyringVersions: "mset (KeyringVersions s rid) = filter_mset (\<lambda>v. kv_keyring_id v = rid) (mset (ks_versions s))"
  by (simp add: KeyringVersions_def)

lemma distinct_KeyringVersions:
  assumes "key_invariant s"
  shows "distinct (map kv_id (KeyringVersions s rid))"
proof -
  have "mset (map kv_id (KeyringVersions s rid)) = mset (map kv_id (filter (\<lambda>v. kv_keyring_id v = rid) (ks_versions s)))"
    by (simp add: mset_KeyringVersions)
  then show ?thesis using key_invariantD(2)[OF assms] by (metis distinct_map_filter mset_eq_imp_distinct_iff)
qed

lemma the_active_version:
  assumes "key_invariant s" "k \<in> set (ks_rings s)"
  obtains v where "filter (\<lambda>v. kv_state v = KeyringVersionActive) (KeyringVersions s (kr_id k)) = [v]"
proof -
  have "size (filter_mset (\<lambda>v. kv_state v = KeyringVersionActive) (mset (KeyringVersions s (kr_id k)))) = count_where (is_active (kr_id k)) (ks_versions s)"
    by (simp add: mset_KeyringVersions count_where_def is_active_fun filter_filter_mset conj_commute flip: mset_filter)
  then have "length (filter (\<lambda>v. kv_state v = KeyringVersionActive) (KeyringVersions s (kr_id k))) = 1"
    using key_invariantD(6)[OF assms] by (simp flip: mset_filter)
  then show thesis using that by (metis One_nat_def length_0_conv length_Suc_conv)
qed

lemma active_unique:
  assumes "key_invariant s" "k \<in> set (ks_rings s)"
    and "filter (\<lambda>v. kv_state v = KeyringVersionActive) (KeyringVersions s (kr_id k)) = [v]"
  shows "(q \<in> set (ks_versions s) \<and> is_active (kr_id k) q) = (q = v)"
proof -
  have "{q \<in> set (KeyringVersions s (kr_id k)). kv_state q = KeyringVersionActive} = {v}"
    using arg_cong[OF assms(3), of set] by simp
  then show ?thesis by (auto simp: is_active_def)
qed

lemma document_of_ring:
  assumes "key_invariant s" "k \<in> set (ks_rings s)" "\<forall>v \<in> set (ks_versions s). opens y v"
    and "filter (\<lambda>v. kv_state v = KeyringVersionActive) (KeyringVersions s (kr_id k)) = [v]"
  shows "keyring_doc_of y s (kr_id k) =
    Inr (\<lparr>kj_keyring = kr_name k, kj_current = kv_id v,
      kj_keys = fold (\<lambda>v m. if live v then gput m (kv_id v) (json_entry y v) else m) (KeyringVersions s (kr_id k)) []\<rparr>, raw_key y v)"
proof -
  have "v \<in> set (ks_versions s)" using active_unique[OF assms(1,2,4), of v] by simp
  then have "kv_id v \<noteq> []" using key_invariantD(5)[OF assms(1)] by blast
  then show ?thesis
    using assms(3) fold_last_active[OF assms(4), of "\<lambda>v. (kv_id v, raw_key y v)"]
    by (simp add: keyring_doc_of_def KeyringByID_unique[OF assms(1,2)] live_keys_fold Let_def)
qed

lemma document_entry:
  assumes "key_invariant s" "v \<in> set (ks_versions s)" "kv_keyring_id v = rid" "live v"
  shows "map_of (fold (\<lambda>v m. if live v then gput m (kv_id v) (json_entry y v) else m) (KeyringVersions s rid) []) (kv_id v) = Some (json_entry y v)"
  using put_loop_lookup[of kv_id live "KeyringVersions s rid" v "json_entry y" "[]"] assms distinct_KeyringVersions[OF assms(1)]
  by (simp add: distinct_map_filter)

lemma document_entries:
  assumes "key_invariant s"
  shows "map_of (fold (\<lambda>v m. if live v then gput m (kv_id v) (json_entry y v) else m) (KeyringVersions s rid) []) i = Some j \<longleftrightarrow>
    (\<exists>q \<in> set (ks_versions s). kv_keyring_id q = rid \<and> live q \<and> kv_id q = i \<and> json_entry y q = j)" (is "?l = ?r")
proof
  assume ?l
  then show ?r using put_loop_Some[of live kv_id "json_entry y" "KeyringVersions s rid" "[]" i j] by auto
next
  assume ?r
  then show ?l using document_entry[OF assms] by blast
qed

lemma reachable_opens:
  assumes "sealing_works y"
  shows "\<forall>v \<in> set (ks_versions (foldl (key_step y) (new_ksite envs nodes) cs)). opens y v"
proof -
  have "list_all (spares (\<lambda>x. False) (\<lambda>x. False)) cs" by (simp add: list_all_iff spares_def split: key_op.split)
  then have "list_all (minted_by y) (ks_versions (foldl (key_step y) (new_ksite envs nodes) cs))"
    by (intro minted_machine.run_spared) (simp_all add: new_ksite_ok, simp add: new_ksite_def)
  then show ?thesis using minted_opens[OF assms] by (simp add: list_all_iff)
qed

text \<open>C17: a key ring always has one key to encrypt with, and the delivered document holds exactly its live
  keys. Whatever handlers and sweeps have run, in any order, each ring has one active version; the
  document names it as the current one, the raw file is its key, and the document lists a version under
  its own material precisely when the version belongs to the ring and is not retired. A document is never
  refused, as long as what was sealed opens again and minted keys are base64.\<close>

theorem document_holds_the_live_keys:
  assumes "sealing_works y" "s = foldl (key_step y) (new_ksite envs nodes) cs" "k \<in> set (ks_rings s)"
  shows "\<exists>doc raw v m. keyring_doc_of y s (kr_id k) = Inr (doc, raw) \<and>
    {q \<in> set (ks_versions s). kv_keyring_id q = kr_id k \<and> kv_state q = KeyringVersionActive} = {v} \<and>
    kj_current doc = kv_id v \<and> ky_open y (kv_material_enc v) = Some m \<and> ky_raw y m = Some raw \<and>
    (\<forall>i j. map_of (kj_keys doc) i = Some j \<longleftrightarrow>
      (\<exists>q \<in> set (ks_versions s). kv_keyring_id q = kr_id k \<and> kv_state q \<noteq> KeyringVersionRetired \<and> kv_id q = i \<and> json_entry y q = j))"
proof -
  have inv: "key_invariant s" using key_machine.run_inv[OF new_ksite_ok] assms(2) by blast
  have opens: "\<forall>v \<in> set (ks_versions s). opens y v" using reachable_opens[OF assms(1)] assms(2) by blast
  obtain v where v: "filter (\<lambda>v. kv_state v = KeyringVersionActive) (KeyringVersions s (kr_id k)) = [v]"
    by (rule the_active_version[OF inv assms(3)])
  note doc = document_of_ring[OF inv assms(3) opens v] and only = active_unique[OF inv assms(3) v]
  have set: "{q \<in> set (ks_versions s). kv_keyring_id q = kr_id k \<and> kv_state q = KeyringVersionActive} = {v}"
    using only by (auto simp: is_active_def)
  have raw: "\<exists>m. ky_open y (kv_material_enc v) = Some m \<and> ky_raw y m = Some (raw_key y v)"
    using opens only[of v] by (auto simp: opens_def raw_key_def)
  let ?keys = "fold (\<lambda>v m. if live v then gput m (kv_id v) (json_entry y v) else m) (KeyringVersions s (kr_id k)) []"
  have "map_of ?keys i = Some j \<longleftrightarrow>
      (\<exists>q \<in> set (ks_versions s). kv_keyring_id q = kr_id k \<and> kv_state q \<noteq> KeyringVersionRetired \<and> kv_id q = i \<and> json_entry y q = j)" for i j
    using document_entries[OF inv] by (simp add: live_def)
  then show ?thesis using doc set raw by auto
qed

text \<open>C18: rotation never makes old data unreadable. Once a version exists and is not retired, then after any
  further handlers and sweeps, any number of rotations among them, the document of its ring still lists it
  with the same material, unless somebody retired that very version or deleted the ring.\<close>

theorem rotation_keeps_old_keys:
  assumes "sealing_works y" "s = foldl (key_step y) (new_ksite envs nodes) cs" "v \<in> set (ks_versions s)"
    and "kv_state v \<noteq> KeyringVersionRetired"
    and "list_all (spares (\<lambda>x. x = kv_id v) (\<lambda>x. x = kv_keyring_id v)) later"
  shows "\<exists>doc raw j. keyring_doc_of y (foldl (key_step y) s later) (kv_keyring_id v) = Inr (doc, raw) \<and>
    map_of (kj_keys doc) (kv_id v) = Some j \<and> ky_open y (kv_material_enc v) = Some (jk_material j)"
proof -
  let ?t = "foldl (key_step y) s later"
  have t: "?t = foldl (key_step y) (new_ksite envs nodes) (cs @ later)" using assms(2) by simp
  have inv: "key_invariant s" "key_invariant ?t" using key_machine.run_inv[OF new_ksite_ok] assms(2) t by metis+
  have opens: "\<forall>v \<in> set (ks_versions ?t). opens y v" unfolding t by (rule reachable_opens[OF assms(1)])
  have "readable (kv_id v) (kv_keyring_id v) (kv_material_enc v) (ks_versions s)"
    using assms(3,4) by (auto simp: readable_def list_ex_iff)
  then obtain q where q: "q \<in> set (ks_versions ?t)" "kv_id q = kv_id v" "kv_keyring_id q = kv_keyring_id v"
      "kv_material_enc q = kv_material_enc v" "live q"
    using readable_machine.run_spared[OF inv(1) _ assms(5)] by (auto simp: readable_def list_ex_iff live_def)
  obtain k where k: "k \<in> set (ks_rings ?t)" "kr_id k = kv_keyring_id v" using key_invariantD(4)[OF inv(2) q(1)] q(3) by auto
  obtain a where a: "filter (\<lambda>v. kv_state v = KeyringVersionActive) (KeyringVersions ?t (kr_id k)) = [a]"
    by (rule the_active_version[OF inv(2) k(1)])
  have "ky_open y (kv_material_enc v) = Some (jk_material (json_entry y q))" using opens q(1,4) by (auto simp: opens_def json_entry_def)
  then show ?thesis
    using document_of_ring[OF inv(2) k(1) opens a] document_entry[OF inv(2) q(1) _ q(5), of "kv_keyring_id v" y] q(2,3) k(2) by auto
qed

section \<open>A ring, its keys and a very long schedule\<close>

definition open_crypto :: key_crypto where
  "open_crypto = \<lparr>ky_new_id = (\<lambda>n. replicate n CHR ''i''), ky_material = (\<lambda>n. Some (replicate n CHR ''k'')), ky_seal = (\<lambda>m. Some (CHR ''#'' # m)),
     ky_open = (\<lambda>e. Some (tl e)), ky_raw = Some, ky_digest = (\<lambda>t. t), ky_time = (\<lambda>t. ''t'')\<rparr>"

lemma open_crypto_works: "sealing_works open_crypto"
  by (simp add: sealing_works_def open_crypto_def)

abbreviation calm :: "string \<Rightarrow> copy_outcome" where
  "calm \<equiv> \<lambda>n. Copied"

definition day :: int where
  "day = 24 * 3600 * second"

definition ring_days :: "int \<Rightarrow> key_call" where
  "ring_days days = (OpCreateRing ''app'' days ''ann'' ''1'', calm, 0)"

definition after_create :: "int \<Rightarrow> ksite" where
  "after_create days = foldl (key_step open_crypto) (new_ksite [''h1''] []) [ring_days days]"

lemma open_first: "ky_open open_crypto ''#'' = Some []"
  by (simp add: open_crypto_def)

text \<open>The first key of the ring, and the ring after a scheduled and a manual rotation.\<close>

definition first_key :: keyring_version where
  "first_key = \<lparr>kv_id = ''krv_'', kv_keyring_id = ''kr_1'', kv_material_enc = ''#'', kv_state = KeyringVersionActive, kv_created_at = 0\<rparr>"

definition two_rotations :: "key_call list" where
  "two_rotations = [(OpSweepRings, calm, 31 * day), (OpRotateRing ''kr_1'', calm, 32 * day)]"

lemma two_rotations_run: "map kv_id (ks_versions (foldl (key_step open_crypto) (after_create 30) two_rotations)) = [''krv_'', ''krv_i'', ''krv_ii'']"
  by code_simp

theorem document_holds_the_live_keys_witness:
  "\<exists>doc raw (v :: keyring_version) m. keyring_doc_of open_crypto (after_create 30) ''kr_1'' = Inr (doc, raw) \<and> kj_current doc = kv_id v \<and>
     ky_open open_crypto (kv_material_enc v) = Some m \<and> ky_raw open_crypto m = Some raw"
proof -
  have k: "hd (ks_rings (after_create 30)) \<in> set (ks_rings (after_create 30))" "kr_id (hd (ks_rings (after_create 30))) = ''kr_1''" by code_simp+
  from document_holds_the_live_keys[OF open_crypto_works after_create_def k(1)] show ?thesis unfolding k(2) by blast
qed

theorem rotation_keeps_old_keys_witness:
  "\<exists>doc raw j. keyring_doc_of open_crypto (foldl (key_step open_crypto) (after_create 30) two_rotations) ''kr_1'' = Inr (doc, raw) \<and>
     map_of (kj_keys doc) ''krv_'' = Some j \<and> jk_material j = []"
proof -
  have v: "first_key \<in> set (ks_versions (after_create 30))" "kv_state first_key \<noteq> KeyringVersionRetired" by code_simp+
  have "list_all (spares (\<lambda>x. x = kv_id first_key) (\<lambda>x. x = kv_keyring_id first_key)) two_rotations"
    by (simp add: two_rotations_def spares_def)
  from rotation_keeps_old_keys[OF open_crypto_works after_create_def v this] show ?thesis
    using open_first by (auto simp: first_key_def)
qed

text \<open>A schedule of three centuries rotates every hour. The handler accepts any number of days; above 106751
  the nanoseconds wrap to a negative length, so a ring asked to rotate every 106752 days is due at every
  sweep, and within three hours of its creation holds four keys. At 106751 days nothing happens.\<close>

lemma long_schedule_rotates_hourly:
  "schedule 106751 = 106751 * day \<and> schedule 106752 < 0 \<and>
   length (ks_versions (foldl (key_step open_crypto) (after_create 106751) (map (\<lambda>h. (OpSweepRings, calm, h * keyringSweepInterval)) [1, 2, 3]))) = 1 \<and>
   length (ks_versions (foldl (key_step open_crypto) (after_create 106752) (map (\<lambda>h. (OpSweepRings, calm, h * keyringSweepInterval)) [1, 2, 3]))) = 4"
  by (intro conjI) code_simp+

end
