(* ===== verification/Cleanup.thy ===== *)
theory Cleanup
  imports Prelude
begin

text \<open>
  Automatic disk cleanup: the policies and the last run of \<^verbatim>\<open>internal/store/cleanup.go\<close>, the handlers of
  \<^verbatim>\<open>internal/api/cleanup_handlers.go\<close>, the scheduler and the sweep of \<^verbatim>\<open>internal/api/cleanup_worker.go\<close>, and what a
  sweep asks of a Docker daemon (\<^verbatim>\<open>internal/dockerx/imagesweep.go\<close> and the prunes of \<^verbatim>\<open>internal/dockerx/resources.go\<close>).

  A daemon is a record of the answers it gives; the answer to a removal may depend on the removals asked
  before. Times are nanoseconds, the ages of images seconds. Whether a text is a cron expression is a
  parameter. A sweep returns the calls it made, and a Go panic is a result of its own.
\<close>

section \<open>Policies\<close>

definition CleanupImages :: string where
  "CleanupImages = ''images''"

definition CleanupContainers :: string where
  "CleanupContainers = ''containers''"

definition CleanupNetworks :: string where
  "CleanupNetworks = ''networks''"

definition CleanupBuildCache :: string where
  "CleanupBuildCache = ''build-cache''"

definition CleanupTargets :: "string list" where
  "CleanupTargets = [CleanupContainers, CleanupImages, CleanupNetworks, CleanupBuildCache]"

lemmas cleanup_names = CleanupTargets_def CleanupImages_def CleanupContainers_def CleanupNetworks_def CleanupBuildCache_def

definition ValidCleanupTarget :: "string \<Rightarrow> bool" where
  "ValidCleanupTarget t \<longleftrightarrow> list_ex (\<lambda>v. v = t) CleanupTargets"

record cleanup_policy =
  cp_enabled :: bool
  cp_schedule :: string
  cp_targets :: "string list"
  cp_keep_hours :: int
  cp_keep_images :: "string list"
  cp_updated_at :: int

datatype cleanup_error = BadKeepHours | VolumesNamed | UnknownTarget string | NamedTwice string | BadPattern string | TooManyPatterns
  | NoSchedule | NoTargets

definition maxKeepImages :: nat where
  "maxKeepImages = 100"

definition maxKeepHours :: int where
  "maxKeepHours = 24 * 365"

fun check_targets :: "string list \<Rightarrow> string list \<Rightarrow> cleanup_error option" where
  "check_targets seen [] = None"
| "check_targets seen (t # ts) =
     (if t = ''volumes'' then Some VolumesNamed
      else if \<not> ValidCleanupTarget t then Some (UnknownTarget t)
      else if t \<in> set seen then Some (NamedTwice t)
      else check_targets (t # seen) ts)"

fun check_patterns :: "string list \<Rightarrow> cleanup_error option" where
  "check_patterns [] = None"
| "check_patterns (p # ps) =
     (let p = trim_space p
      in if p \<noteq> [] \<and> list_ex (\<lambda>c. c \<in> {CHR '' '', CHR 0x09, CHR 0x0A}) p then Some (BadPattern p) else check_patterns ps)"

definition ValidatePolicy :: "cleanup_policy \<Rightarrow> cleanup_error option" where
  "ValidatePolicy p =
     (if cp_keep_hours p < 0 \<or> maxKeepHours < cp_keep_hours p then Some BadKeepHours
      else (case check_targets [] (cp_targets p) of
              Some e \<Rightarrow> Some e
            | None \<Rightarrow>
                (case check_patterns (cp_keep_images p) of
                   Some e \<Rightarrow> Some e
                 | None \<Rightarrow>
                     if maxKeepImages < length (cp_keep_images p) then Some TooManyPatterns
                     else if \<not> cp_enabled p then None
                     else if trim_space (cp_schedule p) = [] then Some NoSchedule
                     else if cp_targets p = [] then Some NoTargets
                     else None)))"

fun dedupe_trimmed :: "string list \<Rightarrow> string list \<Rightarrow> string list" where
  "dedupe_trimmed seen [] = []"
| "dedupe_trimmed seen (v # vs) =
     (let v = trim_space v in if v = [] \<or> v \<in> set seen then dedupe_trimmed seen vs else v # dedupe_trimmed (v # seen) vs)"

definition dedupeTrimmed :: "string list \<Rightarrow> string list" where
  "dedupeTrimmed vs = dedupe_trimmed [] vs"

fun index_of :: "string \<Rightarrow> string list \<Rightarrow> nat" where
  "index_of t [] = 0"
| "index_of t (v # vs) = (if v = t then 0 else Suc (index_of t vs))"

definition cleanupTargetOrder :: "string \<Rightarrow> nat" where
  "cleanupTargetOrder t = index_of t CleanupTargets"

definition normalize_policy :: "cleanup_policy \<Rightarrow> cleanup_policy" where
  "normalize_policy p =
     p\<lparr>cp_schedule := trim_space (cp_schedule p), cp_keep_images := dedupeTrimmed (cp_keep_images p), cp_targets := sort_key cleanupTargetOrder (cp_targets p)\<rparr>"

section \<open>Rows\<close>

record cleanup_row =
  rw_enabled :: int
  rw_schedule :: string
  rw_targets :: string
  rw_keep_hours :: int
  rw_keep_images :: string
  rw_updated_at :: int

record cleanup_run =
  cr_trigger :: string
  cr_started_at :: int
  cr_ended_at :: "int option"
  cr_freed :: int
  cr_deleted :: nat
  cr_error :: "string list"

definition joinTargets :: "string list \<Rightarrow> string" where
  "joinTargets ts = join '' '' ts"

definition splitTargets :: "string \<Rightarrow> string list" where
  "splitTargets s = fields_func is_space s"

definition policy_row :: "cleanup_policy \<Rightarrow> cleanup_row" where
  "policy_row p =
     \<lparr>rw_enabled = (if cp_enabled p then 1 else 0), rw_schedule = cp_schedule p, rw_targets = joinTargets (cp_targets p), rw_keep_hours = cp_keep_hours p,
      rw_keep_images = join nl (cp_keep_images p), rw_updated_at = cp_updated_at p\<rparr>"

definition scanCleanupPolicy :: "cleanup_row \<Rightarrow> cleanup_policy" where
  "scanCleanupPolicy r =
     \<lparr>cp_enabled = (rw_enabled r \<noteq> 0), cp_schedule = rw_schedule r, cp_targets = splitTargets (rw_targets r), cp_keep_hours = rw_keep_hours r,
      cp_keep_images = dedupeTrimmed (split_on (CHR 0x0A) (rw_keep_images r)), cp_updated_at = rw_updated_at r\<rparr>"

section \<open>The sweep of one node\<close>

record docker_image =
  im_id :: string
  im_repo_tags :: "string list"
  im_repo_digests :: "string list"
  im_created :: int
  im_labels :: "(string \<times> string) list"
  im_size :: int

record prune_args =
  pa_until :: "int option"
  pa_dangling :: "bool option"

record prune_options =
  po_min_age :: int
  po_unused_images :: bool
  po_keep_images :: "string list"

record prune_result =
  pr_deleted :: nat
  pr_freed :: int
  pr_items :: "string list"

text \<open>\<open>Removed\<close> carries the \<^verbatim>\<open>Deleted\<close> field of each line of the answer.\<close>

datatype removal = Removed "string list" | RemoveConflict | RemoveMissing | RemoveFailed

record docker_daemon =
  dm_name :: string
  dm_clock :: "int option"
  dm_images :: "docker_image list option"
  dm_containers :: "ident list option"
  dm_inspect :: "ident \<Rightarrow> string option"
  dm_layers :: "bool \<Rightarrow> int option"
  dm_remove :: "string list \<Rightarrow> string \<Rightarrow> removal"
  dm_prune :: "string \<Rightarrow> prune_args \<Rightarrow> (int \<times> string list) option"

datatype daemon_call = ImageRemove string | PruneCall string prune_args

definition PruneVolumes :: string where
  "PruneVolumes = ''volumes''"

definition pruneFilters :: "string \<Rightarrow> prune_options \<Rightarrow> prune_args" where
  "pruneFilters target opts =
     \<lparr>pa_until = (if 0 < po_min_age opts \<and> target \<noteq> PruneVolumes then Some (po_min_age opts) else None),
      pa_dangling = (if target = CleanupImages then Some (\<not> po_unused_images opts) else None)\<rparr>"

definition imagesInUse :: "docker_daemon \<Rightarrow> string list option" where
  "imagesInUse d = map_option (List.map_filter (dm_inspect d)) (dm_containers d)"

text \<open>A pattern is its digest, or an expression in which a star stands for any run of bytes within a line.\<close>

datatype star_token = AnyRun | Ch char

fun star_match :: "star_token list \<Rightarrow> string \<Rightarrow> bool" where
  "star_match [] s = (s = [])"
| "star_match (Ch c # p) s = (case s of [] \<Rightarrow> False | x # xs \<Rightarrow> x = c \<and> star_match p xs)"
| "star_match (AnyRun # p) s = (star_match p s \<or> (case s of [] \<Rightarrow> False | x # xs \<Rightarrow> x \<noteq> CHR 0x0A \<and> star_match (AnyRun # p) xs))"

record keep_rule =
  kp_digest :: string
  kp_re :: "star_token list option"

definition star_pattern :: "string \<Rightarrow> star_token list" where
  "star_pattern p = map (\<lambda>c. if c = CHR ''*'' then AnyRun else Ch c) p"

definition with_tag :: "string \<Rightarrow> string" where
  "with_tag p = (if CHR '':'' \<in> set (last (split_on (CHR ''/'') p)) then p else p @ '':*'')"

definition keep_rule_of :: "string \<Rightarrow> keep_rule" where
  "keep_rule_of p =
     (case dropWhile (\<lambda>c. c \<noteq> CHR ''@'') p of
        _ # digest \<Rightarrow> \<lparr>kp_digest = digest, kp_re = None\<rparr>
      | [] \<Rightarrow> \<lparr>kp_digest = [], kp_re = Some (star_pattern (with_tag p))\<rparr>)"

definition parseKeepRules :: "string list \<Rightarrow> keep_rule list" where
  "parseKeepRules ps = map keep_rule_of (filter (\<lambda>p. p \<noteq> []) (map trim_space ps))"

text \<open>\<open>None\<close> is the panic of a match against the expression a rule does not have.\<close>

definition rule_matches :: "keep_rule \<Rightarrow> docker_image \<Rightarrow> bool option" where
  "rule_matches r img =
     (if kp_digest r \<noteq> [] then Some (im_id img = kp_digest r \<or> list_ex (\<lambda>d. has_suffix d (''@'' @ kp_digest r)) (im_repo_digests img))
      else (case im_repo_tags img of
              [] \<Rightarrow> Some False
            | tags \<Rightarrow> (case kp_re r of None \<Rightarrow> None | Some re \<Rightarrow> Some (list_ex (star_match re) tags))))"

fun any_rule :: "keep_rule list \<Rightarrow> docker_image \<Rightarrow> bool option" where
  "any_rule [] img = Some False"
| "any_rule (r # rs) img = (case rule_matches r img of None \<Rightarrow> None | Some True \<Rightarrow> Some True | Some False \<Rightarrow> any_rule rs img)"

definition KeepLabel :: string where
  "KeepLabel = ''daffa.keep''"

datatype sweep_verdict = InUse | TooYoung | Labelled | MatchesPattern | Goes

definition sweepVerdict :: "docker_image \<Rightarrow> string list \<Rightarrow> int \<Rightarrow> keep_rule list \<Rightarrow> sweep_verdict option" where
  "sweepVerdict img inUse cutoff rules =
     (if im_id img \<in> set inUse then Some InUse
      else if \<not> im_created img * second < cutoff then Some TooYoung
      else if (case map_of (im_labels img) KeepLabel of None \<Rightarrow> False | Some v \<Rightarrow> v \<noteq> ''false'') then Some Labelled
      else (case any_rule rules img of None \<Rightarrow> None | Some True \<Rightarrow> Some MatchesPattern | Some False \<Rightarrow> Some Goes))"

definition realTags :: "docker_image \<Rightarrow> string list" where
  "realTags img = filter (\<lambda>t. t \<noteq> ''<none>:<none>'') (im_repo_tags img)"

definition shortID :: "string \<Rightarrow> string" where
  "shortID i = take 12 (trim_prefix i ''sha256:'')"

definition image_refs :: "docker_image \<Rightarrow> string list" where
  "image_refs img = (if realTags img = [] then [im_id img] else realTags img)"

fun remove_refs :: "docker_daemon \<Rightarrow> string list \<Rightarrow> bool \<Rightarrow> string list \<Rightarrow> string list \<Rightarrow> string list \<times> bool \<times> string list" where
  "remove_refs d asked gone failures [] = (asked, gone, failures)"
| "remove_refs d asked gone failures (ref # refs) =
     (case dm_remove d asked ref of
        Removed lines \<Rightarrow> remove_refs d (asked @ [ref]) (gone \<or> list_ex (\<lambda>l. l \<noteq> []) lines) failures refs
      | RemoveFailed \<Rightarrow> (asked @ [ref], gone, failures @ [ref])
      | _ \<Rightarrow> (asked @ [ref], gone, failures))"

record sweep_state =
  sw_asked :: "string list"
  sw_result :: prune_result
  sw_estimated :: int
  sw_failures :: "string list"

definition sweep_image :: "docker_daemon \<Rightarrow> docker_image \<Rightarrow> sweep_state \<Rightarrow> sweep_state" where
  "sweep_image d img s =
     (case remove_refs d (sw_asked s) False (sw_failures s) (image_refs img) of
        (asked, gone, failures) \<Rightarrow>
          (let s = s\<lparr>sw_asked := asked, sw_failures := failures\<rparr>
           in if gone
              then s\<lparr>sw_result := (sw_result s)\<lparr>pr_deleted := Suc (pr_deleted (sw_result s)), pr_items := pr_items (sw_result s) @ [shortID (im_id img)]\<rparr>,
                     sw_estimated := sw_estimated s + im_size img\<rparr>
              else s))"

fun sweep_images :: "docker_daemon \<Rightarrow> string list \<Rightarrow> int \<Rightarrow> keep_rule list \<Rightarrow> docker_image list \<Rightarrow> sweep_state \<Rightarrow> bool \<times> sweep_state" where
  "sweep_images d inUse cutoff rules [] s = (True, s)"
| "sweep_images d inUse cutoff rules (img # imgs) s =
     (case sweepVerdict img inUse cutoff rules of
        None \<Rightarrow> (False, s)
      | Some Goes \<Rightarrow> sweep_images d inUse cutoff rules imgs (sweep_image d img s)
      | _ \<Rightarrow> sweep_images d inUse cutoff rules imgs s)"

datatype prune_outcome = Panicked | PruneFailed | Pruned prune_result "string list"

definition no_result :: prune_result where
  "no_result = \<lparr>pr_deleted = 0, pr_freed = 0, pr_items = []\<rparr>"

definition freed_by :: "docker_daemon \<Rightarrow> int \<Rightarrow> int" where
  "freed_by d estimated =
     (case (dm_layers d False, dm_layers d True) of
        (Some before, Some after) \<Rightarrow> if after \<le> before then before - after else 0
      | _ \<Rightarrow> estimated)"

definition sweepUnusedImages :: "docker_daemon \<Rightarrow> prune_options \<Rightarrow> int \<Rightarrow> daemon_call list \<times> prune_outcome" where
  "sweepUnusedImages d opts now =
     (let cutoff = (case dm_clock d of None \<Rightarrow> now | Some t \<Rightarrow> t) - po_min_age opts
      in case dm_images d of
           None \<Rightarrow> ([], PruneFailed)
         | Some imgs \<Rightarrow>
             (case imagesInUse d of
                None \<Rightarrow> ([], PruneFailed)
              | Some inUse \<Rightarrow>
                  (case sweep_images d inUse cutoff (parseKeepRules (po_keep_images opts)) imgs
                          \<lparr>sw_asked = [], sw_result = no_result, sw_estimated = 0, sw_failures = []\<rparr> of
                     (fine, s) \<Rightarrow>
                       (map ImageRemove (sw_asked s),
                        if fine then Pruned ((sw_result s)\<lparr>pr_freed := freed_by d (sw_estimated s)\<rparr>) (sw_failures s) else Panicked))))"

definition PruneWith :: "docker_daemon \<Rightarrow> string \<Rightarrow> prune_options \<Rightarrow> int \<Rightarrow> daemon_call list \<times> prune_outcome" where
  "PruneWith d target opts now =
     (if target = CleanupImages \<and> po_unused_images opts then sweepUnusedImages d opts now
      else if target \<in> {CleanupImages, CleanupContainers, CleanupNetworks, PruneVolumes, CleanupBuildCache}
      then ([PruneCall target (pruneFilters target opts)],
            case dm_prune d target (pruneFilters target opts) of
              None \<Rightarrow> PruneFailed
            | Some (space, ids) \<Rightarrow>
                Pruned \<lparr>pr_deleted = length ids, pr_freed = (if target = CleanupNetworks then 0 else space),
                        pr_items = (if target = CleanupImages then map shortID (filter (\<lambda>i. i \<noteq> []) ids)
                                    else if target = CleanupContainers then map shortID ids
                                    else if target = CleanupBuildCache then [] else ids)\<rparr> [])
      else ([], PruneFailed))"

definition Prune :: "docker_daemon \<Rightarrow> string \<Rightarrow> int \<Rightarrow> daemon_call list \<times> prune_outcome" where
  "Prune d target now = PruneWith d target \<lparr>po_min_age = 0, po_unused_images = False, po_keep_images = []\<rparr> now"

section \<open>The store\<close>

record cleanup_site =
  cl_environments :: "ident list"
  cl_global :: "cleanup_row option"
  cl_overrides :: "(ident \<times> cleanup_row) list"
  cl_runs :: "(ident \<times> cleanup_run) list"
  cl_running :: "ident list"
  cl_cron :: "(ident \<times> string) list"
  cl_pool :: "(ident \<times> docker_daemon list) list"
  cl_audit :: "(string \<times> ident \<times> bool) list"

definition GlobalCleanupPolicy :: "cleanup_site \<Rightarrow> cleanup_policy option" where
  "GlobalCleanupPolicy s = map_option scanCleanupPolicy (cl_global s)"

definition stored_policy :: "cleanup_policy \<Rightarrow> int \<Rightarrow> cleanup_policy" where
  "stored_policy p now = (normalize_policy p)\<lparr>cp_updated_at := now\<rparr>"

definition SaveGlobalCleanupPolicy :: "cleanup_site \<Rightarrow> cleanup_policy \<Rightarrow> int \<Rightarrow> cleanup_error + cleanup_site" where
  "SaveGlobalCleanupPolicy s p now =
     (case ValidatePolicy p of
        Some e \<Rightarrow> Inl e
      | None \<Rightarrow> Inr (s\<lparr>cl_global := Some (policy_row (stored_policy p now))\<rparr>))"

definition DeleteGlobalCleanupPolicy :: "cleanup_site \<Rightarrow> cleanup_site" where
  "DeleteGlobalCleanupPolicy s = s\<lparr>cl_global := None\<rparr>"

definition EnvCleanupPolicy :: "cleanup_site \<Rightarrow> ident \<Rightarrow> cleanup_policy option" where
  "EnvCleanupPolicy s env = map_option scanCleanupPolicy (map_of (cl_overrides s) env)"

datatype save_error = Invalid cleanup_error | NoSuchHost

definition SaveEnvCleanupPolicy :: "cleanup_site \<Rightarrow> ident \<Rightarrow> cleanup_policy \<Rightarrow> int \<Rightarrow> save_error + cleanup_site" where
  "SaveEnvCleanupPolicy s env p now =
     (case ValidatePolicy p of
        Some e \<Rightarrow> Inl (Invalid e)
      | None \<Rightarrow>
          if env \<notin> set (cl_environments s) then Inl NoSuchHost
          else Inr (s\<lparr>cl_overrides := gput (cl_overrides s) env (policy_row (stored_policy p now))\<rparr>))"

definition DeleteEnvCleanupPolicy :: "cleanup_site \<Rightarrow> ident \<Rightarrow> cleanup_site" where
  "DeleteEnvCleanupPolicy s env = s\<lparr>cl_overrides := delete_where (\<lambda>r. fst r = env) (cl_overrides s)\<rparr>"

definition EffectiveCleanupPolicy :: "cleanup_site \<Rightarrow> ident \<Rightarrow> cleanup_policy option" where
  "EffectiveCleanupPolicy s env = (case EnvCleanupPolicy s env of Some p \<Rightarrow> Some p | None \<Rightarrow> GlobalCleanupPolicy s)"

definition StartCleanupRun :: "cleanup_site \<Rightarrow> ident \<Rightarrow> string \<Rightarrow> int \<Rightarrow> cleanup_site option" where
  "StartCleanupRun s env trigger now =
     (if env \<notin> set (cl_environments s) then None
      else Some (s\<lparr>cl_runs := gput (cl_runs s) env
                     \<lparr>cr_trigger = trigger, cr_started_at = now, cr_ended_at = None, cr_freed = 0, cr_deleted = 0, cr_error = []\<rparr>\<rparr>))"

definition FinishCleanupRun :: "cleanup_site \<Rightarrow> ident \<Rightarrow> int \<Rightarrow> nat \<Rightarrow> string list \<Rightarrow> int \<Rightarrow> cleanup_site" where
  "FinishCleanupRun s env freed deleted errs now =
     s\<lparr>cl_runs := update_where (\<lambda>r. fst r = env)
        (\<lambda>r. (fst r, (snd r)\<lparr>cr_ended_at := Some now, cr_freed := freed, cr_deleted := deleted, cr_error := errs\<rparr>)) (cl_runs s)\<rparr>"

definition LastCleanupRun :: "cleanup_site \<Rightarrow> ident \<Rightarrow> cleanup_run option" where
  "LastCleanupRun s env = map_of (cl_runs s) env"

section \<open>The scheduler\<close>

definition tryStart :: "cleanup_site \<Rightarrow> ident \<Rightarrow> bool \<times> cleanup_site" where
  "tryStart s env = (if env \<in> set (cl_running s) then (False, s) else (True, s\<lparr>cl_running := env # cl_running s\<rparr>))"

definition finish_sweep :: "cleanup_site \<Rightarrow> ident \<Rightarrow> cleanup_site" where
  "finish_sweep s env = s\<lparr>cl_running := removeAll env (cl_running s)\<rparr>"

definition scheduled :: "(string \<Rightarrow> bool) \<Rightarrow> cleanup_site \<Rightarrow> ident \<Rightarrow> (ident \<times> string) option" where
  "scheduled cron_ok s env =
     (case EffectiveCleanupPolicy s env of
        None \<Rightarrow> None
      | Some p \<Rightarrow> if cp_enabled p \<and> cp_schedule p \<noteq> [] \<and> cron_ok (cp_schedule p) then Some (env, cp_schedule p) else None)"

definition rebuildCleanupSchedule :: "(string \<Rightarrow> bool) \<Rightarrow> cleanup_site \<Rightarrow> cleanup_site" where
  "rebuildCleanupSchedule cron_ok s = s\<lparr>cl_cron := List.map_filter (scheduled cron_ok s) (cl_environments s)\<rparr>"

section \<open>Sweeping a host\<close>

definition RunnerImage :: string where
  "RunnerImage = ''docker:27-cli@sha256:851f91d241214e7c6db86513b270d58776379aacc5eb9c4a87e5b47115e3065c''"

definition cleanupPruneTarget :: "string \<Rightarrow> string option" where
  "cleanupPruneTarget t = (if t \<in> {CleanupImages, CleanupContainers, CleanupNetworks, CleanupBuildCache} then Some t else None)"

definition sweep_options :: "cleanup_policy \<Rightarrow> prune_options" where
  "sweep_options p =
     \<lparr>po_min_age = wrap64 (cp_keep_hours p * (3600 * second)), po_unused_images = True, po_keep_images = cp_keep_images p @ [RunnerImage]\<rparr>"

record host_sweep =
  hs_calls :: "(string \<times> daemon_call) list"
  hs_freed :: int
  hs_deleted :: nat
  hs_failures :: "string list"
  hs_panicked :: bool

definition nothing_swept :: host_sweep where
  "nothing_swept = \<lparr>hs_calls = [], hs_freed = 0, hs_deleted = 0, hs_failures = [], hs_panicked = False\<rparr>"

definition sweep_target :: "prune_options \<Rightarrow> int \<Rightarrow> docker_daemon \<Rightarrow> string \<Rightarrow> host_sweep \<Rightarrow> host_sweep" where
  "sweep_target opts now d target h =
     (if hs_panicked h then h
      else (case cleanupPruneTarget target of
              None \<Rightarrow> h
            | Some pt \<Rightarrow>
                (case PruneWith d pt opts now of
                   (calls, out) \<Rightarrow>
                     (let h = h\<lparr>hs_calls := hs_calls h @ map (Pair (dm_name d)) calls\<rparr>; where = target @ '' on '' @ dm_name d
                      in case out of
                           Panicked \<Rightarrow> h\<lparr>hs_panicked := True\<rparr>
                         | PruneFailed \<Rightarrow> h\<lparr>hs_failures := hs_failures h @ [where]\<rparr>
                         | Pruned r errs \<Rightarrow>
                             h\<lparr>hs_freed := hs_freed h + pr_freed r, hs_deleted := hs_deleted h + pr_deleted r,
                               hs_failures := hs_failures h @ (if errs = [] then [] else [where])\<rparr>))))"

definition sweep_nodes :: "prune_options \<Rightarrow> int \<Rightarrow> string list \<Rightarrow> docker_daemon list \<Rightarrow> host_sweep" where
  "sweep_nodes opts now targets nodes =
     fold (\<lambda>d h. fold (sweep_target opts now d) targets h) nodes nothing_swept"

definition sweepHost :: "cleanup_site \<Rightarrow> ident \<Rightarrow> cleanup_policy \<Rightarrow> int \<Rightarrow> host_sweep" where
  "sweepHost s env p now =
     (case map_of (cl_pool s) env of
        None \<Rightarrow> nothing_swept\<lparr>hs_failures := [''not connected'']\<rparr>
      | Some [] \<Rightarrow> nothing_swept\<lparr>hs_failures := [''no node'']\<rparr>
      | Some nodes \<Rightarrow> sweep_nodes (sweep_options p) now (cp_targets p) nodes)"

datatype run_outcome = AlreadyRunning | NothingToDo | NotRecorded | Ran host_sweep | Crashed host_sweep

text \<open>After a panic the process is gone: the record of the run stays open.\<close>

definition runCleanup :: "cleanup_site \<Rightarrow> ident \<Rightarrow> string \<Rightarrow> int \<Rightarrow> run_outcome \<times> cleanup_site" where
  "runCleanup s env trigger now =
     (case tryStart s env of
        (False, s) \<Rightarrow> (AlreadyRunning, s)
      | (True, s) \<Rightarrow>
          (case EffectiveCleanupPolicy s env of
             None \<Rightarrow> (NothingToDo, finish_sweep s env)
           | Some p \<Rightarrow>
               if cp_targets p = [] \<or> (\<not> cp_enabled p \<and> trigger \<noteq> ''manual'') then (NothingToDo, finish_sweep s env)
               else (case StartCleanupRun s env trigger now of
                       None \<Rightarrow> (NotRecorded, finish_sweep s env)
                     | Some s \<Rightarrow>
                         (let h = sweepHost s env p now
                          in if hs_panicked h then (Crashed h, s)
                             else (Ran h, finish_sweep
                                    ((FinishCleanupRun s env (hs_freed h) (hs_deleted h) (hs_failures h) now)
                                       \<lparr>cl_audit := cl_audit s @ [(''cleanup.run'', env, hs_failures h = [])]\<rparr>) env)))))"

section \<open>Handlers\<close>

record cleanup_request =
  cq_enabled :: bool
  cq_schedule :: string
  cq_targets :: "string list"
  cq_keep_hours :: int
  cq_keep_images :: "string list"

datatype cleanup_reply = BadCron | BadCleanupPolicy cleanup_error | HostMissing | NoCleanupPolicy | Saved | Cleared | Started

definition decodeCleanupPolicy :: "(string \<Rightarrow> bool) \<Rightarrow> cleanup_request \<Rightarrow> cleanup_policy option" where
  "decodeCleanupPolicy cron_ok q =
     (let p = \<lparr>cp_enabled = cq_enabled q, cp_schedule = trim_space (cq_schedule q), cp_targets = map trim_space (cq_targets q),
               cp_keep_hours = cq_keep_hours q, cp_keep_images = cq_keep_images q, cp_updated_at = 0\<rparr>
      in if cp_schedule p \<noteq> [] \<and> \<not> cron_ok (cp_schedule p) then None else Some p)"

definition cleanup_audited :: "string \<Rightarrow> ident \<Rightarrow> cleanup_site \<Rightarrow> cleanup_site" where
  "cleanup_audited action env s = s\<lparr>cl_audit := cl_audit s @ [(action, env, True)]\<rparr>"

definition handleSaveGlobalCleanup :: "(string \<Rightarrow> bool) \<Rightarrow> cleanup_site \<Rightarrow> cleanup_request \<Rightarrow> int \<Rightarrow> cleanup_reply \<times> cleanup_site" where
  "handleSaveGlobalCleanup cron_ok s q now =
     (case decodeCleanupPolicy cron_ok q of
        None \<Rightarrow> (BadCron, s)
      | Some p \<Rightarrow>
          (case SaveGlobalCleanupPolicy s p now of
             Inl e \<Rightarrow> (BadCleanupPolicy e, s)
           | Inr s \<Rightarrow> (Saved, cleanup_audited ''cleanup.settings.update'' ''cleanup'' (rebuildCleanupSchedule cron_ok s))))"

definition handleDeleteGlobalCleanup :: "(string \<Rightarrow> bool) \<Rightarrow> cleanup_site \<Rightarrow> cleanup_reply \<times> cleanup_site" where
  "handleDeleteGlobalCleanup cron_ok s =
     (Cleared, cleanup_audited ''cleanup.settings.clear'' ''cleanup'' (rebuildCleanupSchedule cron_ok (DeleteGlobalCleanupPolicy s)))"

definition handleSaveEnvCleanup :: "(string \<Rightarrow> bool) \<Rightarrow> cleanup_site \<Rightarrow> ident \<Rightarrow> cleanup_request \<Rightarrow> int \<Rightarrow> cleanup_reply \<times> cleanup_site" where
  "handleSaveEnvCleanup cron_ok s env q now =
     (if env \<notin> set (cl_environments s) then (HostMissing, s)
      else (case decodeCleanupPolicy cron_ok q of
              None \<Rightarrow> (BadCron, s)
            | Some p \<Rightarrow>
                (case SaveEnvCleanupPolicy s env p now of
                   Inl (Invalid e) \<Rightarrow> (BadCleanupPolicy e, s)
                 | Inl NoSuchHost \<Rightarrow> (HostMissing, s)
                 | Inr s \<Rightarrow> (Saved, cleanup_audited ''cleanup.host.update'' env (rebuildCleanupSchedule cron_ok s)))))"

definition handleDeleteEnvCleanup :: "(string \<Rightarrow> bool) \<Rightarrow> cleanup_site \<Rightarrow> ident \<Rightarrow> cleanup_reply \<times> cleanup_site" where
  "handleDeleteEnvCleanup cron_ok s env =
     (Cleared, cleanup_audited ''cleanup.host.clear'' env (rebuildCleanupSchedule cron_ok (DeleteEnvCleanupPolicy s env)))"

definition handleRunCleanup :: "cleanup_site \<Rightarrow> ident \<Rightarrow> int \<Rightarrow> cleanup_reply \<times> run_outcome option \<times> cleanup_site" where
  "handleRunCleanup s env now =
     (case EffectiveCleanupPolicy s env of
        None \<Rightarrow> (NoCleanupPolicy, None, s)
      | Some p \<Rightarrow>
          if cp_targets p = [] then (NoCleanupPolicy, None, s)
          else (case runCleanup s env ''manual'' now of (out, s) \<Rightarrow> (Started, Some out, s)))"

definition handleGetEnvCleanup ::
  "cleanup_site \<Rightarrow> ident \<Rightarrow> cleanup_policy option \<times> cleanup_policy option \<times> cleanup_policy option \<times> cleanup_run option" where
  "handleGetEnvCleanup s env =
     (let override = EnvCleanupPolicy s env; fleet = GlobalCleanupPolicy s
      in (override, fleet, (if override = None then fleet else override), LastCleanupRun s env))"

end
