(* ===== verification/Sweeps.thy ===== *)
theory Sweeps
  imports Cleanup
begin

text \<open>
  What the cleanup promises: a sweep removes only what may go and never a volume, a policy reads back as it
  was stored, the schedule follows the policies; and two things it does not do: a pattern that ends in an at
  sign ends the process, and a host that is added later is not swept.
\<close>

section \<open>The sweep of images\<close>

text \<open>What may be removed, in the words of the policy.\<close>

definition protects :: "string \<Rightarrow> docker_image \<Rightarrow> bool" where
  "protects p img = (trim_space p \<noteq> [] \<and> rule_matches (keep_rule_of (trim_space p)) img = Some True)"

definition unused :: "docker_daemon \<Rightarrow> docker_image \<Rightarrow> bool" where
  "unused d img = (\<forall>cs. dm_containers d = Some cs \<longrightarrow> list_all (\<lambda>c. dm_inspect d c \<noteq> Some (im_id img)) cs)"

definition daemon_time :: "docker_daemon \<Rightarrow> int \<Rightarrow> int" where
  "daemon_time d now = (case dm_clock d of None \<Rightarrow> now | Some t \<Rightarrow> t)"

definition may_go :: "docker_daemon \<Rightarrow> int \<Rightarrow> int \<Rightarrow> string list \<Rightarrow> docker_image \<Rightarrow> bool" where
  "may_go d now age patterns img =
     (unused d img \<and> im_created img * second + age < daemon_time d now \<and>
      map_of (im_labels img) KeepLabel \<in> {None, Some ''false''} \<and> list_all (\<lambda>p. \<not> protects p img) patterns)"

lemma any_rule_True: "any_rule rs img = Some True \<Longrightarrow> \<exists>r \<in> set rs. rule_matches r img = Some True"
  by (induction rs) (auto split: option.split_asm bool.split_asm)

lemma any_rule_False: "any_rule rs img = Some False \<longleftrightarrow> (\<forall>r \<in> set rs. rule_matches r img = Some False)"
  by (induction rs) (auto split: option.split bool.split)

lemma rules_of_patterns:
  assumes "any_rule (parseKeepRules ps) img = Some b"
  shows "b = (\<not> list_all (\<lambda>p. \<not> protects p img) ps)"
proof (cases b)
  case True
  then show ?thesis using any_rule_True[of "parseKeepRules ps" img] assms by (auto simp: parseKeepRules_def protects_def list_all_iff)
next
  case False
  then show ?thesis using assms any_rule_False[of "parseKeepRules ps" img] by (auto simp: parseKeepRules_def protects_def list_all_iff)
qed

lemma verdict_is_may_go:
  assumes "imagesInUse d = Some inUse" "sweepVerdict img inUse (daemon_time d now - age) (parseKeepRules ps) = Some v"
  shows "v = Goes \<longleftrightarrow> may_go d now age ps img"
proof -
  have "im_id img \<in> set inUse \<longleftrightarrow> \<not> unused d img"
    using assms(1) by (auto simp: imagesInUse_def unused_def list_all_iff map_filter_def image_iff) force+
  moreover have "v = Goes \<longleftrightarrow> any_rule (parseKeepRules ps) img = Some False"
    if "im_id img \<notin> set inUse" "im_created img * second < daemon_time d now - age" "map_of (im_labels img) KeepLabel \<in> {None, Some ''false''}"
    using assms(2) that by (auto simp: sweepVerdict_def split: option.split_asm bool.split_asm)
  ultimately show ?thesis
    using assms(2) rules_of_patterns[of ps img]
    by (auto simp: sweepVerdict_def may_go_def split: option.split_asm bool.split_asm if_split_asm)
qed

lemma remove_refs_asked:
  assumes "remove_refs d asked gone failures refs = (asked', gone', failures')"
  shows "set asked' \<subseteq> set asked \<union> set refs" "set asked \<subseteq> set asked'" "refs \<noteq> [] \<Longrightarrow> hd refs \<in> set asked'"
proof -
  have "remove_refs d asked gone failures refs = (asked', gone', failures') \<Longrightarrow>
      set asked' \<subseteq> set asked \<union> set refs \<and> set asked \<subseteq> set asked' \<and> (refs \<noteq> [] \<longrightarrow> hd refs \<in> set asked')"
    by (induction d asked gone failures refs rule: remove_refs.induct) (auto split: removal.split_asm)
  then show "set asked' \<subseteq> set asked \<union> set refs" "set asked \<subseteq> set asked'" "refs \<noteq> [] \<Longrightarrow> hd refs \<in> set asked'"
    using assms by simp_all
qed

lemma sweep_image_asked:
  "set (sw_asked (sweep_image d img s)) \<subseteq> set (sw_asked s) \<union> set (image_refs img)"
  "set (sw_asked s) \<subseteq> set (sw_asked (sweep_image d img s))"
  "hd (image_refs img) \<in> set (sw_asked (sweep_image d img s))"
proof -
  obtain asked gone failures where r: "remove_refs d (sw_asked s) False (sw_failures s) (image_refs img) = (asked, gone, failures)"
    by (metis prod_cases3)
  then have "sw_asked (sweep_image d img s) = asked" by (simp add: sweep_image_def Let_def)
  moreover have "image_refs img \<noteq> []" by (simp add: image_refs_def)
  ultimately show "set (sw_asked (sweep_image d img s)) \<subseteq> set (sw_asked s) \<union> set (image_refs img)"
    "set (sw_asked s) \<subseteq> set (sw_asked (sweep_image d img s))" "hd (image_refs img) \<in> set (sw_asked (sweep_image d img s))"
    using remove_refs_asked[OF r] by simp_all
qed

lemma sweep_images_sound:
  assumes "imagesInUse d = Some inUse" "sweep_images d inUse (daemon_time d now - age) (parseKeepRules ps) imgs s = (fine, s')"
  shows "r \<in> set (sw_asked s') \<Longrightarrow> r \<in> set (sw_asked s) \<or> (\<exists>img \<in> set imgs. may_go d now age ps img \<and> r \<in> set (image_refs img))"
  using assms(2)
proof (induction imgs arbitrary: s)
  case (Cons img imgs)
  show ?case
  proof (cases "sweepVerdict img inUse (daemon_time d now - age) (parseKeepRules ps)")
    case None
    then show ?thesis using Cons.prems by simp
  next
    case (Some v)
    show ?thesis
    proof (cases "v = Goes")
      case True
      then have "may_go d now age ps img" using verdict_is_may_go[OF assms(1) Some] by simp
      then show ?thesis using Cons.IH[of "sweep_image d img s"] Cons.prems Some True sweep_image_asked(1)[of d img s] by auto
    next
      case False
      then show ?thesis using Cons.IH[of s] Cons.prems Some by (cases v) auto
    qed
  qed
qed simp

lemma sweep_images_complete:
  assumes "imagesInUse d = Some inUse" "sweep_images d inUse (daemon_time d now - age) (parseKeepRules ps) imgs s = (True, s')"
  shows "set (sw_asked s) \<subseteq> set (sw_asked s') \<and> (\<forall>img \<in> set imgs. may_go d now age ps img \<longrightarrow> hd (image_refs img) \<in> set (sw_asked s'))"
  using assms(2)
proof (induction imgs arbitrary: s)
  case (Cons img imgs)
  obtain v where v: "sweepVerdict img inUse (daemon_time d now - age) (parseKeepRules ps) = Some v"
    using Cons.prems by (auto split: option.split_asm)
  show ?case
  proof (cases "v = Goes")
    case True
    then show ?thesis using Cons.IH[of "sweep_image d img s"] Cons.prems v sweep_image_asked(2)[of s d img] sweep_image_asked(3)[of img d s] by auto
  next
    case False
    then have "\<not> may_go d now age ps img" using verdict_is_may_go[OF assms(1) v] by simp
    then show ?thesis using Cons.IH[of s] Cons.prems v False by (cases v) auto
  qed
qed simp

lemma sweep_start: "(case dm_clock d of None \<Rightarrow> now | Some t \<Rightarrow> t) = daemon_time d now"
  by (simp add: daemon_time_def)

lemma image_sweep_sound:
  assumes "sweepUnusedImages d opts now = (calls, out)" "c \<in> set calls"
  shows "\<exists>imgs img r. dm_images d = Some imgs \<and> img \<in> set imgs \<and> c = ImageRemove r \<and> r \<in> set (image_refs img) \<and>
    dm_containers d \<noteq> None \<and> may_go d now (po_min_age opts) (po_keep_images opts) img"
proof -
  let ?s = "\<lparr>sw_asked = [], sw_result = no_result, sw_estimated = 0, sw_failures = []\<rparr>"
  obtain imgs inUse where i: "dm_images d = Some imgs" "imagesInUse d = Some inUse"
    using assms by (auto simp: sweepUnusedImages_def Let_def split: option.split_asm)
  obtain fine s' where sw: "sweep_images d inUse (daemon_time d now - po_min_age opts) (parseKeepRules (po_keep_images opts)) imgs ?s = (fine, s')"
    by fastforce
  then have "calls = map ImageRemove (sw_asked s')" using assms(1) i by (simp add: sweepUnusedImages_def sweep_start)
  then obtain r where r: "c = ImageRemove r" "r \<in> set (sw_asked s')" using assms(2) by auto
  then show ?thesis using sweep_images_sound[OF i(2) sw r(2)] i by (auto simp: imagesInUse_def)
qed

lemma image_sweep_complete:
  assumes "sweepUnusedImages d opts now = (calls, Pruned res failures)" "dm_images d = Some imgs" "img \<in> set imgs"
    and "may_go d now (po_min_age opts) (po_keep_images opts) img"
  shows "ImageRemove (hd (image_refs img)) \<in> set calls"
proof -
  let ?s = "\<lparr>sw_asked = [], sw_result = no_result, sw_estimated = 0, sw_failures = []\<rparr>"
  obtain inUse where i: "imagesInUse d = Some inUse"
    using assms(1,2) by (auto simp: sweepUnusedImages_def Let_def split: option.split_asm)
  obtain fine s' where sw: "sweep_images d inUse (daemon_time d now - po_min_age opts) (parseKeepRules (po_keep_images opts)) imgs ?s = (fine, s')"
    by fastforce
  then have "calls = map ImageRemove (sw_asked s')" "fine"
    using assms(1,2) i by (auto simp: sweepUnusedImages_def sweep_start split: if_split_asm)
  then show ?thesis using sweep_images_complete[OF i] sw assms(3,4) by auto
qed

section \<open>Policies read back as they were stored\<close>

lemma fields_acc_word: "list_all (\<lambda>c. \<not> f c) w \<Longrightarrow> fields_acc f acc (w @ s) = fields_acc f (rev w @ acc) s"
  by (induction w arbitrary: acc) simp_all

lemma fields_join:
  assumes "\<forall>w \<in> set ws. w \<noteq> [] \<and> list_all (\<lambda>c. \<not> is_space c) w"
  shows "fields_func is_space (join '' '' ws) = ws"
proof -
  have "is_space (CHR '' '')" by (simp add: is_space_def)
  then show ?thesis
    using assms fields_acc_word[of is_space _ "[]" "[]"] unfolding fields_func_def
    by (induction "'' ''" ws rule: join.induct) (simp_all add: fields_acc_word)
qed

lemma dropWhile_last: "dropWhile P xs \<noteq> [] \<Longrightarrow> last (dropWhile P xs) = last xs"
  by (induction xs) auto

lemma trim_space_twice [simp]: "trim_space (trim_space s) = trim_space s"
proof -
  let ?l = "dropWhile is_space s" and ?d = "dropWhile is_space"
  have "?d (rev (?d (rev ?l))) = rev (?d (rev ?l))"
  proof (cases "?d (rev ?l)")
    case Nil
    then show ?thesis by (simp only: Nil rev.simps dropWhile.simps)
  next
    case (Cons c cs)
    then have "hd (rev (?d (rev ?l))) = hd ?l"
      using dropWhile_last[of is_space "rev ?l"] by (metis hd_rev last_rev list.distinct(1))
    moreover have "?l \<noteq> []" using Cons by (metis dropWhile.simps(1) list.distinct(1) rev.simps(1))
    ultimately show ?thesis using Cons hd_dropWhile[of is_space s]
      by (metis dropWhile_eq_self_iff rev_is_Nil_conv)
  qed
  then show ?thesis by (simp add: trim_space_def)
qed

lemma dedupe_trimmed_distinct: "distinct (dedupe_trimmed seen vs) \<and> set (dedupe_trimmed seen vs) \<inter> set seen = {}"
proof (induction vs arbitrary: seen)
  case (Cons v vs)
  show ?case using Cons.IH[of seen] Cons.IH[of "trim_space v # seen"] by (auto simp: Let_def)
qed simp

lemma dedupe_trimmed_from: "v \<in> set (dedupe_trimmed seen vs) \<Longrightarrow> v \<noteq> [] \<and> (\<exists>u \<in> set vs. v = trim_space u)"
proof (induction vs arbitrary: seen)
  case (Cons u vs)
  show ?case using Cons.IH[of seen] Cons.IH[of "trim_space u # seen"] Cons.prems by (auto simp: Let_def split: if_split_asm)
qed simp

lemma dedupe_trimmed_facts:
  "distinct (dedupeTrimmed vs)" "v \<in> set (dedupeTrimmed vs) \<Longrightarrow> v \<noteq> [] \<and> trim_space v = v \<and> (\<exists>u \<in> set vs. v = trim_space u)"
  using dedupe_trimmed_distinct[of "[]" vs] dedupe_trimmed_from[of v "[]" vs] by (auto simp: dedupeTrimmed_def)

lemma dedupe_trimmed_id:
  "distinct vs \<Longrightarrow> set vs \<inter> set seen = {} \<Longrightarrow> \<forall>v \<in> set vs. v \<noteq> [] \<and> trim_space v = v \<Longrightarrow> dedupe_trimmed seen vs = vs"
  by (induction vs arbitrary: seen) (auto simp: Let_def)

lemma check_targets_None: "check_targets seen ts = None \<Longrightarrow> distinct ts \<and> set ts \<subseteq> set CleanupTargets"
proof -
  have "check_targets seen ts = None \<Longrightarrow> distinct ts \<and> set ts \<inter> set seen = {} \<and> set ts \<subseteq> set CleanupTargets"
    by (induction seen ts rule: check_targets.induct) (auto simp: ValidCleanupTarget_def list_ex_iff split: if_split_asm)
  then show "check_targets seen ts = None \<Longrightarrow> distinct ts \<and> set ts \<subseteq> set CleanupTargets" by simp
qed

lemma check_patterns_None: "check_patterns ps = None \<Longrightarrow> p \<in> set ps \<Longrightarrow> CHR 0x0A \<notin> set (trim_space p)"
  by (induction ps) (auto simp: Let_def list_ex_iff split: if_split_asm)

lemma ValidatePolicy_None:
  assumes "ValidatePolicy p = None"
  shows "0 \<le> cp_keep_hours p" "cp_keep_hours p \<le> maxKeepHours" "set (cp_targets p) \<subseteq> set CleanupTargets" "distinct (cp_targets p)"
    "\<forall>k \<in> set (cp_keep_images p). CHR 0x0A \<notin> set (trim_space k)" "cp_enabled p \<Longrightarrow> cp_targets p \<noteq> [] \<and> trim_space (cp_schedule p) \<noteq> []"
  using assms check_targets_None[of "[]" "cp_targets p"] check_patterns_None[of "cp_keep_images p"]
  by (auto simp: ValidatePolicy_def split: if_split_asm option.split_asm)

lemma keep_images_read_back:
  assumes "\<forall>k \<in> set ks. CHR 0x0A \<notin> set (trim_space k)"
  shows "dedupeTrimmed (split_on (CHR 0x0A) (join nl (dedupeTrimmed ks))) = dedupeTrimmed ks"
proof (cases "dedupeTrimmed ks")
  case Nil
  then show ?thesis by (simp add: dedupeTrimmed_def trim_space_def)
next
  case (Cons a as)
  have "CHR 0x0A \<notin> set w" if "w \<in> set (dedupeTrimmed ks)" for w
    using dedupe_trimmed_facts(2)[OF that] assms by auto
  then have "split_on (CHR 0x0A) (join nl (dedupeTrimmed ks)) = dedupeTrimmed ks"
    unfolding nl_def using Cons by (intro split_on_join) auto
  then show ?thesis using dedupe_trimmed_id[of "dedupeTrimmed ks" "[]"] dedupe_trimmed_facts(1)[of ks] dedupe_trimmed_facts(2)[of _ ks] by (simp add: dedupeTrimmed_def)
qed

lemma targets_read_back: "set ts \<subseteq> set CleanupTargets \<Longrightarrow> splitTargets (joinTargets ts) = ts"
  unfolding splitTargets_def joinTargets_def
  by (intro fields_join) (auto simp: cleanup_names is_space_def)

lemma policy_reads_back: "ValidatePolicy p = None \<Longrightarrow> scanCleanupPolicy (policy_row (stored_policy p now)) = stored_policy p now"
  using ValidatePolicy_None[of p]
  by (simp add: scanCleanupPolicy_def policy_row_def stored_policy_def normalize_policy_def targets_read_back keep_images_read_back)

section \<open>The machine\<close>

text \<open>Besides the handlers: a schedule fires, a host is added, the nodes of a host come and go. A panic ends
  the process; when it starts again nothing runs and the schedule is read from the policies.\<close>

datatype cleanup_op =
    OpSaveFleet cleanup_request
  | OpClearFleet
  | OpSaveHost ident cleanup_request
  | OpClearHost ident
  | OpRunNow ident
  | OpFires ident
  | OpHostAdded ident
  | OpConnects ident "docker_daemon list"

definition CreateEnvironment :: "cleanup_site \<Rightarrow> ident \<Rightarrow> cleanup_site" where
  "CreateEnvironment s env = (if env \<in> set (cl_environments s) then s else s\<lparr>cl_environments := cl_environments s @ [env]\<rparr>)"

definition restarted :: "(string \<Rightarrow> bool) \<Rightarrow> run_outcome \<times> cleanup_site \<Rightarrow> cleanup_site" where
  "restarted cron_ok r = (case r of (Crashed h, s) \<Rightarrow> rebuildCleanupSchedule cron_ok (s\<lparr>cl_running := []\<rparr>) | (_, s) \<Rightarrow> s)"

fun cleanup_step :: "(string \<Rightarrow> bool) \<Rightarrow> cleanup_site \<Rightarrow> cleanup_op \<times> int \<Rightarrow> cleanup_site" where
  "cleanup_step cron_ok s (OpSaveFleet q, now) = snd (handleSaveGlobalCleanup cron_ok s q now)"
| "cleanup_step cron_ok s (OpClearFleet, now) = snd (handleDeleteGlobalCleanup cron_ok s)"
| "cleanup_step cron_ok s (OpSaveHost env q, now) = snd (handleSaveEnvCleanup cron_ok s env q now)"
| "cleanup_step cron_ok s (OpClearHost env, now) = snd (handleDeleteEnvCleanup cron_ok s env)"
| "cleanup_step cron_ok s (OpRunNow env, now) =
     (case handleRunCleanup s env now of (_, None, s) \<Rightarrow> s | (_, Some out, s) \<Rightarrow> restarted cron_ok (out, s))"
| "cleanup_step cron_ok s (OpFires env, now) = (if env \<in> fst ` set (cl_cron s) then restarted cron_ok (runCleanup s env ''schedule'' now) else s)"
| "cleanup_step cron_ok s (OpHostAdded env, now) = CreateEnvironment s env"
| "cleanup_step cron_ok s (OpConnects env nodes, now) = s\<lparr>cl_pool := gput (cl_pool s) env nodes\<rparr>"

definition new_cleanup_site :: "ident list \<Rightarrow> cleanup_site" where
  "new_cleanup_site envs =
     \<lparr>cl_environments = envs, cl_global = None, cl_overrides = [], cl_runs = [], cl_running = [], cl_cron = [], cl_pool = [], cl_audit = []\<rparr>"

definition row_ok :: "(string \<Rightarrow> bool) \<Rightarrow> cleanup_row \<Rightarrow> bool" where
  "row_ok cron_ok r =
     (\<exists>p now. ValidatePolicy p = None \<and> (cp_schedule p = [] \<or> cron_ok (cp_schedule p)) \<and> trim_space (cp_schedule p) = cp_schedule p \<and>
        r = policy_row (stored_policy p now))"

definition rows_ok :: "(string \<Rightarrow> bool) \<Rightarrow> cleanup_site \<Rightarrow> bool" where
  "rows_ok cron_ok s = (pred_option (row_ok cron_ok) (cl_global s) \<and> list_all (\<lambda>r. row_ok cron_ok (snd r)) (cl_overrides s))"

text \<open>What a run or a restart leaves alone.\<close>

lemma run_frame:
  assumes "runCleanup s env trigger now = (out, s')"
  shows "cl_global s' = cl_global s" "cl_overrides s' = cl_overrides s" "cl_cron s' = cl_cron s" "cl_environments s' = cl_environments s"
  using assms
  by (auto simp: runCleanup_def tryStart_def finish_sweep_def StartCleanupRun_def FinishCleanupRun_def Let_def
      split: if_split_asm option.split_asm)

lemma restarted_frame:
  "cl_global (restarted cron_ok (out, s)) = cl_global s" "cl_overrides (restarted cron_ok (out, s)) = cl_overrides s"
  "cl_environments (restarted cron_ok (out, s)) = cl_environments s"
  by (auto simp: restarted_def rebuildCleanupSchedule_def split: run_outcome.split)

lemma trim_nothing: "trim_space [] = []"
  by (simp add: trim_space_def)

lemma decoded_row_ok:
  assumes "decodeCleanupPolicy cron_ok q = Some p" "ValidatePolicy p = None"
  shows "row_ok cron_ok (policy_row (stored_policy p now))"
proof -
  have "cp_schedule p = [] \<or> cron_ok (cp_schedule p)" "trim_space (cp_schedule p) = cp_schedule p"
    using assms(1) by (auto simp: decodeCleanupPolicy_def Let_def trim_nothing split: if_split_asm)
  then show ?thesis using assms(2) unfolding row_ok_def by blast
qed

lemma SaveGlobal_rows_ok:
  "decodeCleanupPolicy cron_ok q = Some p \<Longrightarrow> SaveGlobalCleanupPolicy s p now = Inr t \<Longrightarrow> rows_ok cron_ok s \<Longrightarrow> rows_ok cron_ok t"
  by (auto simp: SaveGlobalCleanupPolicy_def rows_ok_def decoded_row_ok split: option.split_asm)

lemma SaveEnv_rows_ok:
  assumes "decodeCleanupPolicy cron_ok q = Some p" "SaveEnvCleanupPolicy s env p now = Inr t" "rows_ok cron_ok s"
  shows "rows_ok cron_ok t"
proof -
  have "set (gput m k v) \<subseteq> insert (k, v) (set m)" for m :: "(ident \<times> cleanup_row) list" and k v
    unfolding gput_def by (induction m) auto
  then show ?thesis
    using assms by (fastforce simp: SaveEnvCleanupPolicy_def rows_ok_def list_all_iff decoded_row_ok split: option.split_asm if_split_asm)
qed

lemma run_step_frame:
  assumes "t = restarted cron_ok (runCleanup s env trigger now)"
  shows "cl_global t = cl_global s" "cl_overrides t = cl_overrides s" "cl_environments t = cl_environments s"
  using assms run_frame[of s env trigger now] restarted_frame by (metis surj_pair)+

lemma cleanup_step_rows_ok: "rows_ok cron_ok s \<Longrightarrow> rows_ok cron_ok (cleanup_step cron_ok s c)"
proof (induction cron_ok s c rule: cleanup_step.induct)
  case (1 cron_ok s q now)
  then show ?case using SaveGlobal_rows_ok
    by (auto simp: handleSaveGlobalCleanup_def cleanup_audited_def rebuildCleanupSchedule_def rows_ok_def split: option.split sum.split)
next
  case (3 cron_ok s env q now)
  then show ?case using SaveEnv_rows_ok
    by (auto simp: handleSaveEnvCleanup_def cleanup_audited_def rebuildCleanupSchedule_def rows_ok_def split: option.split sum.split save_error.split)
next
  case (5 cron_ok s env now)
  then show ?case using run_step_frame(1,2)[OF refl, of cron_ok s env "''manual''" now]
    by (auto simp: handleRunCleanup_def rows_ok_def split: option.split prod.split)
next
  case (6 cron_ok s env now)
  then show ?case using run_step_frame(1,2)[OF refl, of cron_ok s env "''schedule''" now] by (simp add: rows_ok_def)
qed (auto simp: rows_ok_def handleDeleteGlobalCleanup_def handleDeleteEnvCleanup_def cleanup_audited_def rebuildCleanupSchedule_def
    DeleteGlobalCleanupPolicy_def DeleteEnvCleanupPolicy_def CreateEnvironment_def list_all_iff)

interpretation cleanup_machine: guarded_machine "cleanup_step cron_ok" "rows_ok cron_ok" for cron_ok
  by unfold_locales (rule cleanup_step_rows_ok)

lemma new_rows_ok: "rows_ok cron_ok (new_cleanup_site envs)"
  by (simp add: rows_ok_def new_cleanup_site_def)

lemma effective_stored:
  assumes "rows_ok cron_ok s" "EffectiveCleanupPolicy s env = Some p"
  obtains q now where "ValidatePolicy q = None" "cp_schedule q = [] \<or> cron_ok (cp_schedule q)" "trim_space (cp_schedule q) = cp_schedule q"
    "p = stored_policy q now"
proof -
  have "\<exists>r. row_ok cron_ok r \<and> p = scanCleanupPolicy r"
    using assms by (auto simp: EffectiveCleanupPolicy_def EnvCleanupPolicy_def GlobalCleanupPolicy_def rows_ok_def list_all_iff
        split: option.split_asm dest!: map_of_SomeD)
  then show thesis using that policy_reads_back unfolding row_ok_def by blast
qed

lemma effective_valid:
  assumes "rows_ok cron_ok s" "EffectiveCleanupPolicy s env = Some p"
  shows "0 \<le> cp_keep_hours p" "cp_keep_hours p \<le> maxKeepHours" "set (cp_targets p) \<subseteq> set CleanupTargets"
    "cp_enabled p \<Longrightarrow> cp_schedule p \<noteq> [] \<and> cron_ok (cp_schedule p)"
proof -
  obtain q now where "ValidatePolicy q = None" "cp_schedule q = [] \<or> cron_ok (cp_schedule q)" "trim_space (cp_schedule q) = cp_schedule q"
      "p = stored_policy q now"
    by (rule effective_stored[OF assms])
  then show "0 \<le> cp_keep_hours p" "cp_keep_hours p \<le> maxKeepHours" "set (cp_targets p) \<subseteq> set CleanupTargets"
    "cp_enabled p \<Longrightarrow> cp_schedule p \<noteq> [] \<and> cron_ok (cp_schedule p)"
    using ValidatePolicy_None[of q] by (auto simp: stored_policy_def normalize_policy_def)
qed

section \<open>What a sweep may do\<close>

definition allowed_call :: "cleanup_policy \<Rightarrow> docker_daemon \<Rightarrow> int \<Rightarrow> daemon_call \<Rightarrow> bool" where
  "allowed_call p d now c =
     (case c of
        ImageRemove r \<Rightarrow>
          CleanupImages \<in> set (cp_targets p) \<and> dm_containers d \<noteq> None \<and>
          (\<exists>imgs img. dm_images d = Some imgs \<and> img \<in> set imgs \<and> r \<in> set (image_refs img) \<and>
             may_go d now (cp_keep_hours p * (3600 * second)) (cp_keep_images p @ [RunnerImage]) img)
      | PruneCall t args \<Rightarrow>
          t \<in> set (cp_targets p) \<and> t \<in> {CleanupContainers, CleanupNetworks, CleanupBuildCache} \<and>
          pa_until args = (if 0 < cp_keep_hours p then Some (cp_keep_hours p * (3600 * second)) else None))"

lemma age_of_policy: "0 \<le> cp_keep_hours p \<Longrightarrow> cp_keep_hours p \<le> maxKeepHours \<Longrightarrow> po_min_age (sweep_options p) = cp_keep_hours p * (3600 * second)"
  by (simp add: sweep_options_def maxKeepHours_def second_def wrap64_small)

lemma PruneWith_allowed:
  assumes "PruneWith d t (sweep_options p) now = (calls, out)" "c \<in> set calls" "cleanupPruneTarget t = Some t" "t \<in> set (cp_targets p)"
    and "0 \<le> cp_keep_hours p" "cp_keep_hours p \<le> maxKeepHours"
  shows "allowed_call p d now c"
proof (cases "t = CleanupImages")
  case True
  then have "sweepUnusedImages d (sweep_options p) now = (calls, out)" using assms(1) by (simp add: PruneWith_def sweep_options_def)
  from image_sweep_sound[OF this assms(2)] show ?thesis
    using assms(4) True unfolding age_of_policy[OF assms(5,6)] by (auto simp: allowed_call_def sweep_options_def)
next
  case False
  then have "c = PruneCall t (pruneFilters t (sweep_options p))" "t \<in> {CleanupContainers, CleanupNetworks, CleanupBuildCache}"
    using assms(1,2,3) by (auto simp: PruneWith_def cleanupPruneTarget_def split: if_split_asm)
  moreover have "t \<noteq> PruneVolumes" using calculation(2) by (auto simp: PruneVolumes_def cleanup_names)
  ultimately show ?thesis
    using assms(4,5) age_of_policy[OF assms(5,6)] by (auto simp: allowed_call_def pruneFilters_def second_def)
qed

lemma sweep_target_calls:
  assumes "(n, c) \<in> set (hs_calls (sweep_target opts now d t h))"
  shows "(n, c) \<in> set (hs_calls h) \<or> (n = dm_name d \<and> cleanupPruneTarget t = Some t \<and> (\<exists>calls out. PruneWith d t opts now = (calls, out) \<and> c \<in> set calls))"
proof (cases "hs_panicked h \<or> cleanupPruneTarget t = None")
  case True
  then show ?thesis using assms by (auto simp: sweep_target_def split: if_split_asm)
next
  case False
  obtain calls out where pw: "PruneWith d t opts now = (calls, out)" by fastforce
  have "cleanupPruneTarget t = Some t" using False by (auto simp: cleanupPruneTarget_def split: if_split_asm)
  moreover have "hs_calls (sweep_target opts now d t h) = hs_calls h @ map (Pair (dm_name d)) calls"
    using False calculation pw by (simp add: sweep_target_def Let_def split: prune_outcome.split)
  ultimately show ?thesis using assms pw by auto
qed

lemma fold_calls:
  assumes step: "\<And>x h. x \<in> set xs \<Longrightarrow> z \<in> set (hs_calls (f x h)) \<Longrightarrow> z \<in> set (hs_calls h) \<or> Q x"
    and "z \<in> set (hs_calls (fold f xs h))"
  shows "z \<in> set (hs_calls h) \<or> (\<exists>x \<in> set xs. Q x)"
  using assms
proof (induction xs arbitrary: h)
  case (Cons x xs)
  have "z \<in> set (hs_calls (f x h)) \<or> (\<exists>x \<in> set xs. Q x)" using Cons.IH[of "f x h"] Cons.prems by simp
  then show ?case using Cons.prems(1)[of x h] by auto
qed simp

lemma sweep_nodes_calls:
  assumes "(n, c) \<in> set (hs_calls (sweep_nodes opts now targets nodes))"
  shows "\<exists>d \<in> set nodes. n = dm_name d \<and> (\<exists>t \<in> set targets. cleanupPruneTarget t = Some t \<and> (\<exists>calls out. PruneWith d t opts now = (calls, out) \<and> c \<in> set calls))"
proof -
  let ?Q = "\<lambda>d. n = dm_name d \<and> (\<exists>t \<in> set targets. cleanupPruneTarget t = Some t \<and> (\<exists>calls out. PruneWith d t opts now = (calls, out) \<and> c \<in> set calls))"
  have "(n, c) \<in> set (hs_calls h) \<or> ?Q d" if "(n, c) \<in> set (hs_calls (fold (sweep_target opts now d) targets h))" for d h
    using fold_calls[of targets "(n, c)" "sweep_target opts now d" "\<lambda>t. n = dm_name d \<and> cleanupPruneTarget t = Some t \<and> (\<exists>calls out. PruneWith d t opts now = (calls, out) \<and> c \<in> set calls)" h]
      sweep_target_calls[of n c opts now d] that by blast
  then show ?thesis
    using fold_calls[of nodes "(n, c)" "\<lambda>d h. fold (sweep_target opts now d) targets h" ?Q nothing_swept] assms
    by (auto simp: sweep_nodes_def nothing_swept_def)
qed

lemma effective_cong:
  "cl_global s = cl_global t \<Longrightarrow> cl_overrides s = cl_overrides t \<Longrightarrow> EffectiveCleanupPolicy s env = EffectiveCleanupPolicy t env"
  by (cases "map_of (cl_overrides t) env") (simp_all add: EffectiveCleanupPolicy_def EnvCleanupPolicy_def GlobalCleanupPolicy_def)

lemma sweepHost_cong: "cl_pool s = cl_pool t \<Longrightarrow> sweepHost s env p now = sweepHost t env p now"
  unfolding sweepHost_def by simp

lemma StartCleanupRun_pool: "StartCleanupRun s env trigger now = Some t \<Longrightarrow> cl_pool t = cl_pool s"
  by (auto simp: StartCleanupRun_def split: if_split_asm)

lemma run_sweeps:
  assumes "runCleanup s env trigger now = (out, s')" "out \<in> {Ran h, Crashed h}"
  shows "\<exists>p. EffectiveCleanupPolicy s env = Some p \<and> (cp_enabled p \<or> trigger = ''manual'') \<and> h = sweepHost s env p now"
proof -
  let ?s = "s\<lparr>cl_running := env # cl_running s\<rparr>"
  have eff: "EffectiveCleanupPolicy ?s env = EffectiveCleanupPolicy s env" by (rule effective_cong) simp_all
  obtain p t where p: "EffectiveCleanupPolicy s env = Some p" "cp_enabled p \<or> trigger = ''manual''"
      "StartCleanupRun ?s env trigger now = Some t" "h = sweepHost t env p now"
    using assms by (auto simp: runCleanup_def tryStart_def eff Let_def split: if_split_asm option.split_asm)
  then show ?thesis using sweepHost_cong[of t s] StartCleanupRun_pool[OF p(3)] by simp
qed

text \<open>C19: a sweep takes only what may go. Whatever policies were saved and cleared before, whenever a sweep runs,
  by hand or on its schedule, every call it makes to a daemon follows the policy of the host: an image it
  asks to remove is used by no container, is older than the hours to keep by the daemon's own clock, does
  not carry the label, matches no pattern and is not the runner's image; everything else it prunes is
  containers, networks or build cache named by the policy, never volumes, with the same age as a floor.\<close>

theorem sweep_takes_only_what_may_go:
  assumes "s = foldl (cleanup_step cron_ok) (new_cleanup_site envs) ops"
    and "runCleanup s env trigger now = (out, s')" "out \<in> {Ran h, Crashed h}" "(n, c) \<in> set (hs_calls h)"
  shows "\<exists>p nodes d. EffectiveCleanupPolicy s env = Some p \<and> (cp_enabled p \<or> trigger = ''manual'') \<and>
    map_of (cl_pool s) env = Some nodes \<and> d \<in> set nodes \<and> dm_name d = n \<and> allowed_call p d now c"
proof -
  have ok: "rows_ok cron_ok s" using cleanup_machine.run_inv[OF new_rows_ok] assms(1) by blast
  obtain p where p: "EffectiveCleanupPolicy s env = Some p" "cp_enabled p \<or> trigger = ''manual''" "h = sweepHost s env p now"
    using run_sweeps[OF assms(2,3)] by blast
  note v = effective_valid[OF ok p(1)]
  obtain nodes where nodes: "map_of (cl_pool s) env = Some nodes" "h = sweep_nodes (sweep_options p) now (cp_targets p) nodes"
    using assms(4) p(3) by (auto simp: sweepHost_def nothing_swept_def split: option.split_asm list.split_asm)
  obtain d x calls o' where d: "d \<in> set nodes" "n = dm_name d" "x \<in> set (cp_targets p)" "cleanupPruneTarget x = Some x"
      "PruneWith d x (sweep_options p) now = (calls, o')" "c \<in> set calls"
    using sweep_nodes_calls assms(4) unfolding nodes(2) by blast
  then have "allowed_call p d now c" using PruneWith_allowed v by blast
  then show ?thesis using p nodes d by blast
qed

section \<open>The schedule\<close>

definition schedule_current :: "(string \<Rightarrow> bool) \<Rightarrow> cleanup_site \<Rightarrow> bool" where
  "schedule_current cron_ok s = (cl_cron s = cl_cron (rebuildCleanupSchedule cron_ok s))"

lemma scheduled_cong: "cl_global s = cl_global t \<Longrightarrow> cl_overrides s = cl_overrides t \<Longrightarrow> scheduled cron_ok s = scheduled cron_ok t"
  unfolding fun_eq_iff scheduled_def using effective_cong[of s t] by simp

lemma schedule_current_cong:
  "cl_global s = cl_global t \<Longrightarrow> cl_overrides s = cl_overrides t \<Longrightarrow> cl_environments s = cl_environments t \<Longrightarrow> cl_cron s = cl_cron t \<Longrightarrow>
   schedule_current cron_ok s = schedule_current cron_ok t"
  using scheduled_cong[of s t cron_ok] by (simp add: schedule_current_def rebuildCleanupSchedule_def)

lemma rebuilt_is_current: "schedule_current cron_ok (cleanup_audited action env (rebuildCleanupSchedule cron_ok s))"
  using scheduled_cong[of "cleanup_audited action env (rebuildCleanupSchedule cron_ok s)" s cron_ok]
  by (simp add: schedule_current_def rebuildCleanupSchedule_def cleanup_audited_def)

lemma restarted_current:
  assumes "schedule_current cron_ok s"
  shows "schedule_current cron_ok (restarted cron_ok (runCleanup s env trigger now))"
proof -
  obtain out t where r: "runCleanup s env trigger now = (out, t)" by fastforce
  then have "schedule_current cron_ok t" using run_frame[OF r] assms schedule_current_cong by metis
  moreover have "schedule_current cron_ok (rebuildCleanupSchedule cron_ok (t\<lparr>cl_running := []\<rparr>))"
    using scheduled_cong[of "rebuildCleanupSchedule cron_ok (t\<lparr>cl_running := []\<rparr>)" "t\<lparr>cl_running := []\<rparr>" cron_ok]
    by (simp add: schedule_current_def rebuildCleanupSchedule_def)
  ultimately show ?thesis by (simp add: r restarted_def split: run_outcome.split)
qed

lemma step_keeps_schedule:
  assumes "schedule_current cron_ok s" "\<forall>env. fst c \<noteq> OpHostAdded env"
  shows "schedule_current cron_ok (cleanup_step cron_ok s c)"
  using assms
proof (induction cron_ok s c rule: cleanup_step.induct)
  case (1 cron_ok s q now)
  then show ?case using rebuilt_is_current by (auto simp: handleSaveGlobalCleanup_def split: option.split sum.split)
next
  case (3 cron_ok s env q now)
  then show ?case using rebuilt_is_current by (auto simp: handleSaveEnvCleanup_def split: option.split sum.split save_error.split)
next
  case (5 cron_ok s env now)
  then show ?case using restarted_current[of cron_ok s env "''manual''" now] by (auto simp: handleRunCleanup_def split: option.split prod.split)
next
  case (6 cron_ok s env now)
  then show ?case using restarted_current by simp
next
  case (8 cron_ok s env nodes now)
  then show ?case using schedule_current_cong[of "s\<lparr>cl_pool := gput (cl_pool s) env nodes\<rparr>" s cron_ok] by simp
qed (simp_all add: handleDeleteGlobalCleanup_def handleDeleteEnvCleanup_def rebuilt_is_current)

lemma run_keeps_schedule: "schedule_current cron_ok s \<Longrightarrow> \<forall>c \<in> set cs. \<forall>env. fst c \<noteq> OpHostAdded env \<Longrightarrow>
    schedule_current cron_ok (foldl (cleanup_step cron_ok) s cs)"
  by (induction cs arbitrary: s) (simp_all add: step_keeps_schedule)

lemma map_of_map_filter:
  assumes "\<And>e. f e = None \<or> (\<exists>v. f e = Some (e, v))"
  shows "map_of (List.map_filter f es) e = (if e \<in> set es then map_option snd (f e) else None)"
proof (induction es)
  case (Cons a es)
  then show ?case using assms[of a] assms[of e] by (auto simp: map_filter_simps)
qed (simp add: map_filter_simps)


section \<open>A host and its nights\<close>

definition old_image :: docker_image where
  "old_image = \<lparr>im_id = ''sha256:a1'', im_repo_tags = [''app:1''], im_repo_digests = [], im_created = 0, im_labels = [], im_size = 10\<rparr>"

definition live_image :: docker_image where
  "live_image = \<lparr>im_id = ''sha256:a2'', im_repo_tags = [''app:2''], im_repo_digests = [], im_created = 0, im_labels = [], im_size = 10\<rparr>"

definition kept_image :: docker_image where
  "kept_image = \<lparr>im_id = ''sha256:b1'', im_repo_tags = [''myorg/runner:7''], im_repo_digests = [], im_created = 0, im_labels = [], im_size = 10\<rparr>"

definition machine :: docker_daemon where
  "machine = \<lparr>dm_name = ''n1'', dm_clock = None, dm_images = Some [old_image, live_image, kept_image], dm_containers = Some [''c1''],
     dm_inspect = (\<lambda>c. Some ''sha256:a2''), dm_layers = (\<lambda>b. None), dm_remove = (\<lambda>asked r. Removed [r]), dm_prune = (\<lambda>t args. Some (0, []))\<rparr>"

definition nightly :: "string list \<Rightarrow> cleanup_request" where
  "nightly keep = \<lparr>cq_enabled = True, cq_schedule = ''30 3 * * *'', cq_targets = [''images'', ''containers''], cq_keep_hours = 72, cq_keep_images = keep\<rparr>"

definition any_cron :: "string \<Rightarrow> bool" where
  "any_cron t = True"

definition three_thirty :: int where
  "three_thirty = 1000 * 3600 * second"

definition swept_site :: "string list \<Rightarrow> cleanup_site" where
  "swept_site keep = foldl (cleanup_step any_cron) (new_cleanup_site [''h1'']) [(OpConnects ''h1'' [machine], 0), (OpSaveFleet (nightly keep), 1)]"

definition night :: "string list \<Rightarrow> run_outcome \<times> cleanup_site" where
  "night keep = runCleanup (swept_site keep) ''h1'' ''schedule'' three_thirty"

definition sweep_of :: "run_outcome \<Rightarrow> host_sweep" where
  "sweep_of out = (case out of Ran h \<Rightarrow> h | Crashed h \<Rightarrow> h | _ \<Rightarrow> nothing_swept)"

theorem sweep_takes_only_what_may_go_witness:
  "\<exists>p nodes d. EffectiveCleanupPolicy (swept_site [''myorg/*'']) ''h1'' = Some p \<and> map_of (cl_pool (swept_site [''myorg/*''])) ''h1'' = Some nodes \<and>
     d \<in> set nodes \<and> dm_name d = ''n1'' \<and> allowed_call p d three_thirty (ImageRemove ''app:1'')"
proof -
  have h: "fst (night [''myorg/*'']) = Ran (sweep_of (fst (night [''myorg/*''])))" by code_simp
  then have r: "runCleanup (swept_site [''myorg/*'']) ''h1'' ''schedule'' three_thirty = (Ran (sweep_of (fst (night [''myorg/*'']))), snd (night [''myorg/*'']))"
    by (metis night_def prod.collapse)
  have c: "(''n1'', ImageRemove ''app:1'') \<in> set (hs_calls (sweep_of (fst (night [''myorg/*'']))))" by code_simp
  from sweep_takes_only_what_may_go[OF swept_site_def r _ c] show ?thesis by blast
qed


text \<open>A rule panics only when its pattern has nothing behind the at sign.\<close>

lemma panic_needs_at_sign: "rule_matches (keep_rule_of p) img = None \<Longrightarrow> dropWhile (\<lambda>c. c \<noteq> CHR ''@'') p = ''@''"
proof -
  assume "rule_matches (keep_rule_of p) img = None"
  then obtain c where c: "dropWhile (\<lambda>c. c \<noteq> CHR ''@'') p = [c]"
    by (auto simp: keep_rule_of_def rule_matches_def split: list.split_asm if_split_asm)
  then show ?thesis using hd_dropWhile[of "\<lambda>c. c \<noteq> CHR ''@''" p] by simp
qed

text \<open>One pattern can take the server down every night. The handler accepts a pattern that ends in an at
  sign; its rule has neither a digest nor an expression, and the first old, unused and tagged image the sweep
  looks at ends the process. The record of the run stays open.\<close>

lemma at_sign_pattern_crashes_sweep:
  "fst (handleSaveGlobalCleanup any_cron (new_cleanup_site [''h1'']) (nightly [''myorg/runner@'']) 1) = Saved \<and>
   hs_panicked (sweep_of (fst (night [''myorg/runner@'']))) \<and>
   map_option cr_ended_at (LastCleanupRun (snd (night [''myorg/runner@''])) ''h1'') = Some None \<and>
   map_option cr_ended_at (LastCleanupRun (snd (night [''myorg/runner''])) ''h1'') = Some (Some three_thirty)"
  by (intro conjI) code_simp+

text \<open>A host that is added while a policy for all hosts is on is not on the schedule until a policy is saved
  or the server starts again.\<close>

lemma new_host_is_not_swept:
  "let s = cleanup_step any_cron (swept_site []) (OpHostAdded ''h2'', 2)
   in map_option cp_enabled (EffectiveCleanupPolicy s ''h2'') = Some True \<and> map_of (cl_cron s) ''h2'' = None \<and>
      map_of (cl_cron (rebuildCleanupSchedule any_cron s)) ''h2'' = Some ''30 3 * * *''"
  by code_simp

end
