(* ===== verification/Notify.thy ===== *)
theory Notify
  imports Accounts Watch
begin

text \<open>
  Notifications: settings, channels, rules and the outbox of \<^verbatim>\<open>internal/store/notify.go\<close>, the notifier and its worker
  (\<^verbatim>\<open>internal/notify\<close>), and the handlers of \<^verbatim>\<open>internal/api/notify_handlers.go\<close>.

  Times are nanoseconds. Sealing, the HTML template, the rendering of a time and fresh identifiers are
  parameters, and so is the world a message is sent to: what the mail server and a channel answer, and
  whether the row can be marked afterwards. A payload is kept as the JSON value it encodes. Every message
  that reached its receiver is listed in \<open>no_delivered\<close>.
\<close>

section \<open>Events and what they say\<close>

definition event_catalogue :: "(string \<times> bool) list" where
  "event_catalogue =
     [(''deploy.failed'', False), (''service.degraded'', False), (''backup.failed'', False), (''agent.offline'', False),
      (''monitor.fired'', False), (''breakglass.used'', False), (''cert.expiring'', False), (''cert.renew_failed'', False),
      (''ca.rotation_due'', False), (''keyring.rotate_failed'', False), (''monitor.resolved'', True), (''deploy.succeeded'', True),
      (''backup.succeeded'', True), (''cert.renewed'', True), (''keyring.rotated'', True)]"

definition event_Valid :: "string \<Rightarrow> bool" where
  "event_Valid e \<longleftrightarrow> list_ex (\<lambda>d. fst d = e) event_catalogue"

record notify_data =
  nd_event :: string
  nd_subject :: string
  nd_title :: string
  nd_summary :: string
  nd_host_name :: string
  nd_target :: string
  nd_detail :: string
  nd_link :: string
  nd_failed :: bool
  nd_when :: "int option"

datatype json = JStr string | JBool bool | JNum int | JArr "json list" | JObj "(string \<times> json) list"

datatype body = Plain string | Payload json

definition severity :: "notify_data \<Rightarrow> string" where
  "severity d =
     (if nd_failed d then ''danger'' else if nd_event d \<in> {''cert.expiring'', ''ca.rotation_due''} then ''warn'' else ''ok'')"

definition severityEmoji :: "notify_data \<Rightarrow> string" where
  "severityEmoji d =
     (if severity d = ''danger'' then '':red_circle:'' else if severity d = ''warn'' then '':large_orange_circle:'' else '':large_green_circle:'')"

definition severityColor :: "notify_data \<Rightarrow> int" where
  "severityColor d = (if severity d = ''danger'' then 0xdc2626 else if severity d = ''warn'' then 0xd97706 else 0x16a34a)"

text \<open>The characters of a text; a byte that is not UTF-8 becomes the replacement character.\<close>

definition rune_text :: "string \<Rightarrow> string" where
  "rune_text w = (case w of [c] \<Rightarrow> if byte c < 128 then w else [CHR 0xEF, CHR 0xBF, CHR 0xBD] | _ \<Rightarrow> w)"

function runes :: "string \<Rightarrow> string list" where
  "runes s = (if s = [] then [] else take (rune_len s) s # runes (drop (rune_len s) s))"
  by pat_completeness auto
termination
  using rune_len_pos by (relation "measure length") auto

declare runes.simps [simp del]

definition ellipsis :: string where
  "ellipsis = [CHR 0xE2, CHR 0x80, CHR 0xA6]"

definition truncateRunes :: "string \<Rightarrow> nat \<Rightarrow> string" where
  "truncateRunes s n = (if length (runes s) \<le> n then s else concat (map rune_text (take n (runes s))) @ ellipsis)"

definition middot :: string where
  "middot = '' '' @ '' '' @ [CHR 0xC2, CHR 0xB7] @ '' '' @ '' ''"

definition contextLine :: "notify_data \<Rightarrow> string" where
  "contextLine d =
     join middot ((if nd_host_name d = [] then [] else [''Host: *'' @ nd_host_name d @ ''*'']) @
                  (if nd_target d = [] then [] else [''Target: *'' @ nd_target d @ ''*'']))"

definition backticks :: string where
  "backticks = [CHR 0x60, CHR 0x60, CHR 0x60]"

definition slackPayload :: "notify_data \<Rightarrow> json" where
  "slackPayload d =
     (let text = severityEmoji d @ '' *'' @ nd_title d @ ''*'' @
                 (if nd_summary d = [] then [] else nl @ nd_summary d) @
                 (if nd_detail d = [] then [] else nl @ backticks @ truncateRunes (nd_detail d) 2500 @ backticks) @
                 (if nd_link d = [] then [] else nl @ ''<'' @ nd_link d @ ''|Open in Daffa>'');
          blocks = [JObj [(''type'', JStr ''section''), (''text'', JObj [(''type'', JStr ''mrkdwn''), (''text'', JStr text)])]] @
                   (if contextLine d = [] then []
                    else [JObj [(''type'', JStr ''context''),
                                (''elements'', JArr [JObj [(''type'', JStr ''mrkdwn''), (''text'', JStr (contextLine d))]])]])
      in JObj [(''text'', JStr (nd_subject d)), (''blocks'', JArr blocks)])"

definition discord_field :: "string \<Rightarrow> string \<Rightarrow> json list" where
  "discord_field name value =
     (if value = [] then [] else [JObj [(''name'', JStr name), (''value'', JStr value), (''inline'', JBool True)]])"

definition discordPayload :: "notify_data \<Rightarrow> json" where
  "discordPayload d =
     (let desc = nd_summary d @
                 (if nd_detail d = [] then [] else nl @ backticks @ nl @ truncateRunes (nd_detail d) 3500 @ nl @ backticks) @
                 (if nd_link d = [] then [] else nl @ ''[Open in Daffa]('' @ nd_link d @ '')'');
          fs = discord_field ''Host'' (nd_host_name d) @ discord_field ''Target'' (nd_target d)
      in JObj [(''embeds'', JArr [JObj ([(''title'', JStr (truncateRunes (nd_title d) 250)), (''description'', JStr (truncateRunes desc 4000)),
                                          (''color'', JNum (severityColor d))] @ (if fs = [] then [] else [(''fields'', JArr fs)]))])])"

definition webhookPayload :: "notify_data \<Rightarrow> json" where
  "webhookPayload d =
     JObj [(''event'', JStr (nd_event d)), (''title'', JStr (nd_title d)), (''summary'', JStr (nd_summary d)), (''detail'', JStr (nd_detail d)),
           (''host'', JStr (nd_host_name d)), (''target'', JStr (nd_target d)), (''link'', JStr (nd_link d)), (''failed'', JBool (nd_failed d)),
           (''severity'', JStr (severity d))]"

definition RenderChannel :: "string \<Rightarrow> notify_data \<Rightarrow> json option" where
  "RenderChannel kind d =
     (if kind = ''slack'' then Some (slackPayload d) else if kind = ''discord'' then Some (discordPayload d)
      else if kind = ''webhook'' then Some (webhookPayload d) else None)"

definition trim_slashes :: "string \<Rightarrow> string" where
  "trim_slashes s = rev (dropWhile (\<lambda>c. c = CHR ''/'') (rev s))"

definition withBaseURL :: "string \<Rightarrow> string \<Rightarrow> string" where
  "withBaseURL base path = (if base = [] \<or> path = [] then [] else trim_slashes base @ path)"

definition padded :: "string \<Rightarrow> string" where
  "padded k = (let s = k @ '':'' in s @ replicate (8 - length s) (CHR '' ''))"

definition plainText :: "(int \<Rightarrow> string) \<Rightarrow> notify_data \<Rightarrow> string" where
  "plainText stamp d =
     (let rows = (if nd_host_name d = [] then [] else [(''Host'', nd_host_name d)]) @ (if nd_target d = [] then [] else [(''Target'', nd_target d)]) @
                 (case nd_when d of None \<Rightarrow> [] | Some t \<Rightarrow> [(''When'', stamp t)])
      in nd_title d @ nl @ replicate (length (nd_title d)) (CHR ''-'') @ nl @ nl @
         (if nd_summary d = [] then [] else nd_summary d @ nl @ nl) @
         concat (map (\<lambda>(k, v). padded k @ v @ nl) rows) @ (if rows = [] then [] else nl) @
         (if nd_detail d = [] then [] else nd_detail d @ nl @ nl) @ (if nd_link d = [] then [] else nd_link d @ nl @ nl) @
         ''You are receiving this because of a notification rule in Daffa.'' @ nl)"

text \<open>\<^verbatim>\<open>Tail\<close>: colour codes go, then the last lines and the last bytes stay.\<close>

definition ansi_param :: "char \<Rightarrow> bool" where
  "ansi_param c \<longleftrightarrow> c \<in> set ''0123456789;''"

definition ansi_final :: "char \<Rightarrow> bool" where
  "ansi_final c \<longleftrightarrow> c \<in> set ''abcdefghijklmnopqrstuvwxyzABCDEFGHIJKLMNOPQRSTUVWXYZ''"

definition ansi_rest :: "string \<Rightarrow> string option" where
  "ansi_rest s =
     (case s of
        a # b # r \<Rightarrow>
          if a = CHR 0x1B \<and> b = CHR ''[''
          then (case dropWhile ansi_param r of
                  c # r \<Rightarrow> if ansi_final c then Some r else None
                | [] \<Rightarrow> None)
          else None
      | _ \<Rightarrow> None)"

lemma ansi_rest_shorter: "ansi_rest s = Some r \<Longrightarrow> length r < length s"
proof -
  assume "ansi_rest s = Some r"
  then obtain a b q c where q: "s = a # b # q" "dropWhile ansi_param q = c # r"
    by (auto simp: ansi_rest_def split: list.split_asm if_split_asm)
  have "length (c # r) \<le> length q" using length_dropWhile_le[of _ q] q(2) by metis
  then show ?thesis using q(1) by simp
qed

function strip_ansi :: "string \<Rightarrow> string" where
  "strip_ansi s = (case ansi_rest s of Some r \<Rightarrow> strip_ansi r | None \<Rightarrow> (case s of [] \<Rightarrow> [] | c # cs \<Rightarrow> c # strip_ansi cs))"
  by pat_completeness auto
termination
  using ansi_rest_shorter by (relation "measure length") auto

declare strip_ansi.simps [simp del]

definition Tail :: "(string \<Rightarrow> string) \<Rightarrow> string \<Rightarrow> nat \<Rightarrow> nat \<Rightarrow> string" where
  "Tail unescape s maxLines maxBytes =
     (let s = trim_space (strip_ansi s)
      in if s = [] then []
         else (let ls = split_on (CHR 0x0A) s; out = join nl (drop (length ls - maxLines) ls)
               in unescape (if maxBytes < length out then ellipsis @ drop (length out - maxBytes) out else out)))"

section \<open>Rows\<close>

record smtp_settings =
  ss_host :: string
  ss_port :: int
  ss_username :: string
  ss_password_enc :: string
  ss_from_addr :: string
  ss_from_name :: string
  ss_base_url :: string
  ss_enabled :: bool

record notification_channel =
  nc_id :: ident
  nc_kind :: string
  nc_name :: string
  nc_url_enc :: string
  nc_enabled :: bool
  nc_created_at :: int

record notification_rule =
  nr_id :: ident
  nr_event :: string
  nr_role_id :: ident
  nr_address :: string
  nr_channel_id :: ident

record outbox_message =
  ob_id :: ident
  ob_event :: string
  ob_kind :: string
  ob_to :: string
  ob_channel_id :: ident
  ob_subject :: string
  ob_html :: string
  ob_text :: body
  ob_status :: string
  ob_attempts :: nat
  ob_next_try_at :: int
  ob_failed :: bool
  ob_created_at :: int
  ob_sent_at :: "int option"

record notify_site =
  no_accounts :: accounts
  no_smtp :: "smtp_settings option"
  no_channels :: "notification_channel list"
  no_rules :: "notification_rule list"
  no_outbox :: "outbox_message list"
  no_delivered :: "ident list"
  no_audit :: "(string \<times> string) list"

record notify_env =
  ne_open :: "string \<Rightarrow> string option"
  ne_seal :: "string \<Rightarrow> string option"
  ne_html :: "notify_data \<Rightarrow> string option"
  ne_stamp :: "int \<Rightarrow> string"
  ne_id :: "nat \<Rightarrow> ident"

section \<open>The store\<close>

definition SMTPSettings :: "notify_site \<Rightarrow> smtp_settings" where
  "SMTPSettings s =
     (case no_smtp s of
        None \<Rightarrow> \<lparr>ss_host = [], ss_port = 587, ss_username = [], ss_password_enc = [], ss_from_addr = [], ss_from_name = ''Daffa'', ss_base_url = [], ss_enabled = False\<rparr>
      | Some v \<Rightarrow> v)"

definition SaveSMTPSettings :: "notify_site \<Rightarrow> smtp_settings \<Rightarrow> notify_site" where
  "SaveSMTPSettings s v =
     s\<lparr>no_smtp := Some (v\<lparr>ss_password_enc := (if ss_password_enc v = [] then ss_password_enc (SMTPSettings s) else ss_password_enc v)\<rparr>)\<rparr>"

definition ChannelKinds :: "string list" where
  "ChannelKinds = [''slack'', ''discord'', ''webhook'']"

definition ListChannels :: "notify_site \<Rightarrow> notification_channel list" where
  "ListChannels s = map (\<lambda>c. c\<lparr>nc_url_enc := []\<rparr>) (sort_key nc_name (no_channels s))"

definition CreateChannel :: "notify_site \<Rightarrow> notification_channel \<Rightarrow> ident \<Rightarrow> int \<Rightarrow> (notification_channel \<times> notify_site) option" where
  "CreateChannel s c i now =
     (let c = c\<lparr>nc_id := (if nc_id c = [] then i else nc_id c), nc_created_at := now\<rparr>
      in if nc_kind c \<notin> set ChannelKinds then None
         else if nc_name c = [] \<or> nc_url_enc c = [] then None
         else if list_ex (\<lambda>q. nc_id q = nc_id c) (no_channels s) then None
         else Some (c, s\<lparr>no_channels := no_channels s @ [c]\<rparr>))"

definition ChannelByID :: "notify_site \<Rightarrow> ident \<Rightarrow> notification_channel option" where
  "ChannelByID s i = (case filter (\<lambda>c. nc_id c = i) (no_channels s) of [] \<Rightarrow> None | c # _ \<Rightarrow> Some c)"

definition DeleteChannel :: "notify_site \<Rightarrow> ident \<Rightarrow> bool \<times> notify_site" where
  "DeleteChannel s i =
     (0 < count_where (\<lambda>c. nc_id c = i) (no_channels s),
      s\<lparr>no_rules := delete_where (\<lambda>r. nr_channel_id r = i \<and> i \<noteq> []) (no_rules s), no_channels := delete_where (\<lambda>c. nc_id c = i) (no_channels s)\<rparr>)"

definition targets_set :: "ident \<Rightarrow> string \<Rightarrow> ident \<Rightarrow> nat" where
  "targets_set role address channel = length (filter (\<lambda>v. v \<noteq> []) [role, address, channel])"

definition CreateNotificationRule :: "notify_site \<Rightarrow> notification_rule \<Rightarrow> ident \<Rightarrow> (notification_rule \<times> notify_site) option" where
  "CreateNotificationRule s r i =
     (let r = r\<lparr>nr_id := (if nr_id r = [] then i else nr_id r)\<rparr>
      in if targets_set (nr_role_id r) (nr_address r) (nr_channel_id r) \<noteq> 1 then None
         else if list_ex (\<lambda>q. nr_id q = nr_id r) (no_rules s) \<or>
                 (nr_role_id r \<noteq> [] \<and> \<not> list_ex (\<lambda>q. ro_id q = nr_role_id r) (roles (ac_db (no_accounts s)))) \<or>
                 (nr_channel_id r \<noteq> [] \<and> \<not> list_ex (\<lambda>c. nc_id c = nr_channel_id r) (no_channels s))
              then None
         else Some (r, s\<lparr>no_rules := no_rules s @ [r]\<rparr>))"

definition DeleteNotificationRule :: "notify_site \<Rightarrow> ident \<Rightarrow> notify_site" where
  "DeleteNotificationRule s i = s\<lparr>no_rules := delete_where (\<lambda>r. nr_id r = i) (no_rules s)\<rparr>"

definition ChannelsFor :: "notify_site \<Rightarrow> string \<Rightarrow> notification_channel list" where
  "ChannelsFor s event =
     remdups [c. r \<leftarrow> no_rules s, nr_event r = event, c \<leftarrow> no_channels s, nc_id c = nr_channel_id r \<and> nr_channel_id r \<noteq> [] \<and> nc_enabled c]"

definition covers :: "scope_t \<Rightarrow> ident \<Rightarrow> bool" where
  "covers sc env \<longleftrightarrow> sc_kind sc = ''global'' \<or> (env \<noteq> [] \<and> sc_kind sc = ''env'' \<and> sc_id sc = env)"

definition roleMemberEmails :: "notify_site \<Rightarrow> ident \<Rightarrow> ident \<Rightarrow> string list" where
  "roleMemberEmails s role env =
     remdups [pf_email f. m \<leftarrow> role_members (ac_db (no_accounts s)), rm_role_id m = role \<and> covers (rm_scope m) env,
                          u \<leftarrow> users (ac_db (no_accounts s)), u_id u = rm_user_id m \<and> \<not> u_disabled u,
                          f \<leftarrow> ac_profiles (no_accounts s), pf_id f = u_id u \<and> pf_email f \<noteq> []]"

definition add_once :: "string list \<Rightarrow> string \<Rightarrow> string list" where
  "add_once out a = (if a \<in> set out then out else out @ [a])"

definition RecipientsFor :: "notify_site \<Rightarrow> string \<Rightarrow> ident \<Rightarrow> string list" where
  "RecipientsFor s event env =
     (let rs = filter (\<lambda>r. nr_event r = event) (no_rules s);
          out = foldl add_once [] [nr_address r. r \<leftarrow> rs, nr_address r \<noteq> []];
          role_ids = [nr_role_id r. r \<leftarrow> rs, nr_address r = [] \<and> nr_role_id r \<noteq> []]
      in foldl (\<lambda>out role. foldl add_once out (roleMemberEmails s role env)) out role_ids)"

section \<open>The outbox\<close>

definition Enqueue :: "notify_env \<Rightarrow> notify_site \<Rightarrow> outbox_message \<Rightarrow> int \<Rightarrow> notify_site option" where
  "Enqueue e s m now =
     (let m = m\<lparr>ob_id := (if ob_id m = [] then ne_id e (length (no_outbox s)) else ob_id m), ob_kind := (if ob_kind m = [] then ''email'' else ob_kind m),
                ob_status := ''pending'', ob_attempts := 0, ob_next_try_at := now, ob_failed := False, ob_created_at := now, ob_sent_at := None\<rparr>
      in if list_ex (\<lambda>q. ob_id q = ob_id m) (no_outbox s) then None else Some (s\<lparr>no_outbox := no_outbox s @ [m]\<rparr>))"

definition DueMessages :: "notify_site \<Rightarrow> nat \<Rightarrow> int \<Rightarrow> outbox_message list" where
  "DueMessages s limit now = take limit (sort_key ob_next_try_at (filter (\<lambda>m. ob_status m = ''pending'' \<and> ob_next_try_at m \<le> now) (no_outbox s)))"

definition MarkSent :: "notify_site \<Rightarrow> ident \<Rightarrow> int \<Rightarrow> notify_site" where
  "MarkSent s i now =
     s\<lparr>no_outbox := update_where (\<lambda>m. ob_id m = i)
        (\<lambda>m. m\<lparr>ob_status := ''sent'', ob_attempts := Suc (ob_attempts m), ob_sent_at := Some now, ob_failed := False\<rparr>) (no_outbox s)\<rparr>"

definition MarkFailed :: "notify_site \<Rightarrow> ident \<Rightarrow> nat \<Rightarrow> int option \<Rightarrow> int \<Rightarrow> notify_site" where
  "MarkFailed s i attempts retryAt now =
     s\<lparr>no_outbox := update_where (\<lambda>m. ob_id m = i)
        (\<lambda>m. m\<lparr>ob_status := (if retryAt = None then ''failed'' else ''pending''), ob_attempts := attempts,
               ob_next_try_at := (case retryAt of None \<Rightarrow> now | Some t \<Rightarrow> t), ob_failed := True\<rparr>) (no_outbox s)\<rparr>"

definition failed_to :: "notify_site \<Rightarrow> outbox_message \<Rightarrow> string" where
  "failed_to s m = (if ob_to m \<noteq> [] then ob_to m else case ChannelByID s (ob_channel_id m) of Some c \<Rightarrow> nc_name c | None \<Rightarrow> ob_kind m)"

definition FailedMessages :: "notify_site \<Rightarrow> nat \<Rightarrow> outbox_message list" where
  "FailedMessages s limit =
     take limit (order_desc ob_created_at (map (\<lambda>m. m\<lparr>ob_to := failed_to s m\<rparr>) (filter (\<lambda>m. ob_status m = ''failed'') (no_outbox s))))"

section \<open>The notifier\<close>

definition email_on :: "smtp_settings \<Rightarrow> bool" where
  "email_on cfg \<longleftrightarrow> ss_enabled cfg \<and> ss_host cfg \<noteq> []"

definition new_message :: "string \<Rightarrow> string \<Rightarrow> string \<Rightarrow> ident \<Rightarrow> string \<Rightarrow> string \<Rightarrow> body \<Rightarrow> outbox_message" where
  "new_message event kind to channel subject html text =
     \<lparr>ob_id = [], ob_event = event, ob_kind = kind, ob_to = to, ob_channel_id = channel, ob_subject = subject, ob_html = html, ob_text = text,
      ob_status = [], ob_attempts = 0, ob_next_try_at = 0, ob_failed = False, ob_created_at = 0, ob_sent_at = None\<rparr>"

definition enqueue_all :: "notify_env \<Rightarrow> int \<Rightarrow> outbox_message list \<Rightarrow> notify_site \<Rightarrow> notify_site" where
  "enqueue_all e now ms s = foldl (\<lambda>s m. case Enqueue e s m now of None \<Rightarrow> s | Some s \<Rightarrow> s) s ms"

definition queueEmail :: "notify_env \<Rightarrow> notify_site \<Rightarrow> ident \<Rightarrow> smtp_settings \<Rightarrow> notify_data \<Rightarrow> int \<Rightarrow> notify_site" where
  "queueEmail e s env cfg d now =
     (if \<not> email_on cfg then s
      else (case ne_html e d of
              None \<Rightarrow> s
            | Some html \<Rightarrow>
                enqueue_all e now
                  (map (\<lambda>a. new_message (nd_event d) ''email'' a [] (nd_subject d) html (Plain (plainText (ne_stamp e) d))) (RecipientsFor s (nd_event d) env)) s))"

definition channel_messages :: "notify_data \<Rightarrow> notification_channel list \<Rightarrow> outbox_message list" where
  "channel_messages d cs =
     [new_message (nd_event d) (nc_kind c) [] (nc_id c) (nd_subject d) [] (Payload p). c \<leftarrow> cs, p \<leftarrow> (case RenderChannel (nc_kind c) d of None \<Rightarrow> [] | Some p \<Rightarrow> [p])]"

definition queueChannels :: "notify_env \<Rightarrow> notify_site \<Rightarrow> notify_data \<Rightarrow> int \<Rightarrow> notify_site" where
  "queueChannels e s d now = enqueue_all e now (channel_messages d (ChannelsFor s (nd_event d))) s"

definition Send :: "notify_env \<Rightarrow> notify_site \<Rightarrow> ident \<Rightarrow> notify_data \<Rightarrow> int \<Rightarrow> notify_site" where
  "Send e s env d now =
     (let cfg = SMTPSettings s;
          d = d\<lparr>nd_link := withBaseURL (ss_base_url cfg) (nd_link d), nd_when := (case nd_when d of None \<Rightarrow> Some now | Some t \<Rightarrow> Some t)\<rparr>
      in queueChannels e (queueEmail e s env cfg d now) d now)"

text \<open>\<open>Some None\<close>: email is off. \<open>None\<close>: the password cannot be opened.\<close>

definition Transport :: "notify_env \<Rightarrow> notify_site \<Rightarrow> smtp_settings option option" where
  "Transport e s =
     (let cfg = SMTPSettings s
      in if \<not> email_on cfg then Some None
         else if ss_password_enc cfg \<noteq> [] \<and> ne_open e (ss_password_enc cfg) = None then None else Some (Some cfg))"

section \<open>The worker\<close>

definition MaxAttempts :: nat where
  "MaxAttempts = 6"

definition backoffBase :: int where
  "backoffBase = minute"

definition backoffCap :: int where
  "backoffCap = 30 * minute"

definition outbox_batch :: nat where
  "outbox_batch = 20"

definition backoff :: "nat \<Rightarrow> int" where
  "backoff attempts = (let d = wrap64 (backoffBase * 2 ^ (attempts - 1)) in if backoffCap < d \<or> d \<le> 0 then backoffCap else d)"

datatype http_result = NoAnswer | Status nat

definition PostChannel :: "(string \<Rightarrow> body \<Rightarrow> http_result) \<Rightarrow> string \<Rightarrow> body \<Rightarrow> bool" where
  "PostChannel post url payload = (case post url payload of NoAnswer \<Rightarrow> False | Status c \<Rightarrow> 200 \<le> c \<and> c < 300)"

text \<open>The world during one round: who gets mail, what channels answer, which rows can be marked.\<close>

record outside =
  ow_mail :: "outbox_message \<Rightarrow> bool"
  ow_post :: "string \<Rightarrow> body \<Rightarrow> http_result"
  ow_marks :: "ident \<Rightarrow> bool"

definition deliverChannel :: "notify_env \<Rightarrow> outside \<Rightarrow> notify_site \<Rightarrow> outbox_message \<Rightarrow> bool" where
  "deliverChannel e w s m =
     (case ChannelByID s (ob_channel_id m) of
        None \<Rightarrow> False
      | Some c \<Rightarrow> (case ne_open e (nc_url_enc c) of None \<Rightarrow> False | Some url \<Rightarrow> PostChannel (ow_post w) url (ob_text m)))"

definition is_email :: "outbox_message \<Rightarrow> bool" where
  "is_email m \<longleftrightarrow> ob_kind m = [] \<or> ob_kind m = ''email''"

definition attempt :: "notify_env \<Rightarrow> outside \<Rightarrow> bool \<Rightarrow> int \<Rightarrow> notify_site \<Rightarrow> outbox_message \<Rightarrow> notify_site" where
  "attempt e w transport now s m =
     (if is_email m \<and> \<not> transport then s
      else if (if is_email m then ow_mail w m else deliverChannel e w s m)
      then (let s = s\<lparr>no_delivered := no_delivered s @ [ob_id m]\<rparr> in if ow_marks w (ob_id m) then MarkSent s (ob_id m) now else s)
      else if \<not> ow_marks w (ob_id m) then s
      else (let attempts = Suc (ob_attempts m)
            in MarkFailed s (ob_id m) attempts (if MaxAttempts \<le> attempts then None else Some (now + backoff attempts)) now))"

definition drain :: "notify_env \<Rightarrow> outside \<Rightarrow> notify_site \<Rightarrow> int \<Rightarrow> notify_site" where
  "drain e w s now =
     (let transport = (case Transport e s of Some (Some cfg) \<Rightarrow> True | _ \<Rightarrow> False)
      in foldl (attempt e w transport now) s (DueMessages s outbox_batch now))"

section \<open>Handlers\<close>

datatype notify_reply = NotifyBad string | NotifyMissing | NotifyError | Unreachable | NotifyOk | NotifyTest bool | NotifyCreated

definition notify_audited :: "string \<Rightarrow> string \<Rightarrow> notify_site \<Rightarrow> notify_site" where
  "notify_audited action target s = s\<lparr>no_audit := no_audit s @ [(action, target)]\<rparr>"

record smtp_request =
  sq_host :: string
  sq_port :: int
  sq_username :: string
  sq_password :: string
  sq_from_addr :: string
  sq_from_name :: string
  sq_base_url :: string
  sq_enabled :: bool

definition handleSaveSMTP :: "notify_env \<Rightarrow> notify_site \<Rightarrow> smtp_request \<Rightarrow> notify_reply \<times> notify_site" where
  "handleSaveSMTP e s q =
     (let host = trim_space (sq_host q); from = trim_space (sq_from_addr q)
      in if sq_enabled q \<and> host = [] then (NotifyBad ''no_server'', s)
         else if sq_enabled q \<and> CHR ''@'' \<notin> set from then (NotifyBad ''bad_from'', s)
         else (case (if sq_password q = [] then Some [] else ne_seal e (sq_password q)) of
                 None \<Rightarrow> (NotifyError, s)
               | Some sealed \<Rightarrow>
                   (NotifyOk, notify_audited ''notify.smtp'' host
                      (SaveSMTPSettings s
                         \<lparr>ss_host = host, ss_port = (if sq_port q = 0 then 587 else sq_port q), ss_username = sq_username q, ss_password_enc = sealed,
                          ss_from_addr = from, ss_from_name = (if sq_from_name q = [] then ''Daffa'' else sq_from_name q),
                          ss_base_url = trim_slashes (trim_space (sq_base_url q)), ss_enabled = sq_enabled q\<rparr>))))"

definition handleTestSMTP :: "notify_env \<Rightarrow> (string \<Rightarrow> bool) \<Rightarrow> notify_site \<Rightarrow> string \<Rightarrow> notify_reply \<times> notify_site" where
  "handleTestSMTP e mail s email =
     (if email = [] then (NotifyBad ''no_address'', s)
      else (case Transport e s of
              Some (Some cfg) \<Rightarrow> if mail email then (NotifyTest True, notify_audited ''notify.test'' email s) else (NotifyTest False, s)
            | _ \<Rightarrow> (NotifyTest False, s)))"

definition connected_data :: notify_data where
  "connected_data =
     \<lparr>nd_event = ''deploy.succeeded'', nd_subject = ''Daffa is connected'', nd_title = ''Daffa is connected'',
      nd_summary = ''This channel will receive the notifications you route to it.'', nd_host_name = [], nd_target = [], nd_detail = [], nd_link = [],
      nd_failed = False, nd_when = None\<rparr>"

definition postChannelTest :: "(string \<Rightarrow> body \<Rightarrow> http_result) \<Rightarrow> string \<Rightarrow> string \<Rightarrow> bool" where
  "postChannelTest post kind url = (case RenderChannel kind connected_data of None \<Rightarrow> False | Some p \<Rightarrow> PostChannel post url (Payload p))"

definition handleCreateChannel ::
  "notify_env \<Rightarrow> (string \<Rightarrow> body \<Rightarrow> http_result) \<Rightarrow> notify_site \<Rightarrow> string \<Rightarrow> string \<Rightarrow> string \<Rightarrow> ident \<Rightarrow> int \<Rightarrow> notify_reply \<times> notify_site" where
  "handleCreateChannel e post s kind name url i now =
     (let name = trim_space name; url = trim_space url
      in if kind \<notin> set ChannelKinds then (NotifyBad ''kind'', s)
         else if name = [] then (NotifyBad ''name'', s)
         else if \<not> has_prefix url ''https://'' \<and> \<not> has_prefix url ''http://'' then (NotifyBad ''url'', s)
         else if \<not> postChannelTest post kind url then (Unreachable, s)
         else (case ne_seal e url of
                 None \<Rightarrow> (NotifyError, s)
               | Some sealed \<Rightarrow>
                   (case CreateChannel s \<lparr>nc_id = [], nc_kind = kind, nc_name = name, nc_url_enc = sealed, nc_enabled = True, nc_created_at = 0\<rparr> i now of
                      None \<Rightarrow> (NotifyError, s)
                    | Some (c, s) \<Rightarrow> (NotifyCreated, notify_audited ''notify.channel.create'' name s))))"

definition handleTestChannel :: "notify_env \<Rightarrow> (string \<Rightarrow> body \<Rightarrow> http_result) \<Rightarrow> notify_site \<Rightarrow> ident \<Rightarrow> notify_reply" where
  "handleTestChannel e post s i =
     (case ChannelByID s i of
        None \<Rightarrow> NotifyMissing
      | Some c \<Rightarrow> (case ne_open e (nc_url_enc c) of None \<Rightarrow> NotifyError | Some url \<Rightarrow> NotifyTest (postChannelTest post (nc_kind c) url)))"

definition handleDeleteChannel :: "notify_site \<Rightarrow> ident \<Rightarrow> notify_reply \<times> notify_site" where
  "handleDeleteChannel s i =
     (case DeleteChannel s i of (found, t) \<Rightarrow> if found then (NotifyOk, notify_audited ''notify.channel.delete'' i t) else (NotifyMissing, t))"

definition handleCreateNotifyRule :: "notify_site \<Rightarrow> string \<Rightarrow> ident \<Rightarrow> string \<Rightarrow> ident \<Rightarrow> ident \<Rightarrow> notify_reply \<times> notify_site" where
  "handleCreateNotifyRule s event role address channel i =
     (let address = trim_space address
      in if \<not> event_Valid event then (NotifyBad ''event'', s)
         else if targets_set role address channel \<noteq> 1 then (NotifyBad ''target'', s)
         else if address \<noteq> [] \<and> CHR ''@'' \<notin> set address then (NotifyBad ''address'', s)
         else (case CreateNotificationRule s \<lparr>nr_id = [], nr_event = event, nr_role_id = role, nr_address = address, nr_channel_id = channel\<rparr> i of
                 None \<Rightarrow> (NotifyError, s)
               | Some (r, s) \<Rightarrow> (NotifyCreated, notify_audited ''notify.rule.create'' event s)))"

definition handleDeleteNotifyRule :: "notify_site \<Rightarrow> ident \<Rightarrow> notify_reply \<times> notify_site" where
  "handleDeleteNotifyRule s i = (NotifyOk, notify_audited ''notify.rule.delete'' i (DeleteNotificationRule s i))"

definition handleFailedNotifications :: "notify_site \<Rightarrow> (string \<times> string \<times> string \<times> string \<times> int) list" where
  "handleFailedNotifications s = map (\<lambda>m. (ob_event m, ob_kind m, ob_to m, ob_subject m, ob_created_at m)) (FailedMessages s 20)"

section \<open>The host watcher\<close>

definition offline_data :: "string \<Rightarrow> notify_data" where
  "offline_data name =
     \<lparr>nd_event = ''agent.offline'', nd_subject = ''Host offline: '' @ name, nd_title = ''Host offline: '' @ name, nd_summary = name, nd_host_name = name,
      nd_target = name, nd_detail = [], nd_link = ''/host'', nd_failed = True, nd_when = None\<rparr>"

record watcher =
  wa_online :: "(ident \<times> bool) list"
  wa_first :: bool

text \<open>One round over the hosts, each with its name and whether any of its nodes answered.\<close>

fun watch_hosts :: "notify_env \<Rightarrow> int \<Rightarrow> (ident \<times> string \<times> bool) list \<Rightarrow> watcher \<times> notify_site \<Rightarrow> watcher \<times> notify_site" where
  "watch_hosts e now [] (w, s) = (w, s)"
| "watch_hosts e now ((env, name, up) # hosts) (w, s) =
     (let was = map_of (wa_online w) env;
          w = w\<lparr>wa_online := gput (wa_online w) env up\<rparr>
      in watch_hosts e now hosts
           (w, if wa_first w \<or> was = None \<or> was = Some up \<or> up then s else Send e s env (offline_data name) now))"

definition watchHosts :: "notify_env \<Rightarrow> int \<Rightarrow> (ident \<times> string \<times> bool) list \<Rightarrow> watcher \<times> notify_site \<Rightarrow> watcher \<times> notify_site" where
  "watchHosts e now hosts ws = (case watch_hosts e now hosts ws of (w, s) \<Rightarrow> (w\<lparr>wa_first := False\<rparr>, s))"

end
