(* ===== verification/Outbox.thy ===== *)
theory Outbox
  imports Notify
begin

text \<open>
  What the outbox promises: a message that was queued is never lost, arrives once as long as its row can be
  marked, and settles within six rounds when the batch has room. Recipients are exactly those the rules
  name. The last section shows how mail that cannot be sent holds up every other message.
\<close>

section \<open>The machine\<close>

datatype notify_op =
    OpSend ident notify_data
  | OpDrain outside
  | OpSaveSMTP smtp_request
  | OpCreateChannel string string string ident "string \<Rightarrow> body \<Rightarrow> http_result"
  | OpDeleteChannel ident
  | OpCreateRule string ident string ident ident
  | OpDeleteRule ident
  | OpAccounts accounts

fun notify_step :: "notify_env \<Rightarrow> notify_site \<Rightarrow> notify_op \<times> int \<Rightarrow> notify_site" where
  "notify_step e s (OpSend env d, now) = Send e s env d now"
| "notify_step e s (OpDrain w, now) = drain e w s now"
| "notify_step e s (OpSaveSMTP q, now) = snd (handleSaveSMTP e s q)"
| "notify_step e s (OpCreateChannel kind name url i post, now) = snd (handleCreateChannel e post s kind name url i now)"
| "notify_step e s (OpDeleteChannel i, now) = snd (handleDeleteChannel s i)"
| "notify_step e s (OpCreateRule event role address channel i, now) = snd (handleCreateNotifyRule s event role address channel i)"
| "notify_step e s (OpDeleteRule i, now) = snd (handleDeleteNotifyRule s i)"
| "notify_step e s (OpAccounts a, now) = s\<lparr>no_accounts := a\<rparr>"

definition new_notify_site :: "accounts \<Rightarrow> notify_site" where
  "new_notify_site a = \<lparr>no_accounts = a, no_smtp = None, no_channels = [], no_rules = [], no_outbox = [], no_delivered = [], no_audit = []\<rparr>"

text \<open>What is said stays what was queued.\<close>

definition same_message :: "outbox_message \<Rightarrow> outbox_message \<Rightarrow> bool" where
  "same_message a b = (ob_id a = ob_id b \<and> ob_event a = ob_event b \<and> ob_kind a = ob_kind b \<and> ob_to a = ob_to b \<and>
     ob_channel_id a = ob_channel_id b \<and> ob_subject a = ob_subject b \<and> ob_html a = ob_html b \<and> ob_text a = ob_text b)"

definition settled_right :: "ident list \<Rightarrow> outbox_message \<Rightarrow> bool" where
  "settled_right delivered m =
     (if ob_status m = ''pending'' then ob_attempts m < MaxAttempts
      else if ob_status m = ''sent'' then ob_id m \<in> set delivered
      else ob_status m = ''failed'' \<and> ob_attempts m = MaxAttempts)"

definition outbox_ok :: "notify_site \<Rightarrow> bool" where
  "outbox_ok s = (distinct (map ob_id (no_outbox s)) \<and> list_all (settled_right (no_delivered s)) (no_outbox s) \<and>
     set (no_delivered s) \<subseteq> ob_id ` set (no_outbox s))"

text \<open>A step continues a site: the messages stay, at their place, and what was delivered stays delivered.\<close>

definition continues :: "notify_site \<Rightarrow> notify_site \<Rightarrow> bool" where
  "continues s t = (\<exists>xs ys zs. no_outbox t = xs @ ys \<and> list_all2 same_message (no_outbox s) xs \<and> no_delivered t = no_delivered s @ zs)"

lemma same_message_refl [simp]: "same_message m m"
  by (simp add: same_message_def)

lemma same_message_trans: "same_message a b \<Longrightarrow> same_message b c \<Longrightarrow> same_message a c"
  by (simp add: same_message_def)

lemma continues_refl [simp]: "continues s s"
  unfolding continues_def by (intro exI[of _ "no_outbox s"] exI[of _ "[]"]) (simp add: list.rel_refl)

lemma continues_trans:
  assumes "continues s t" "continues t u"
  shows "continues s u"
proof -
  obtain xs ys zs where t: "no_outbox t = xs @ ys" "list_all2 same_message (no_outbox s) xs" "no_delivered t = no_delivered s @ zs"
    using assms(1) by (auto simp: continues_def)
  obtain xs' ys' zs' where u: "no_outbox u = xs' @ ys'" "list_all2 same_message (no_outbox t) xs'" "no_delivered u = no_delivered t @ zs'"
    using assms(2) by (auto simp: continues_def)
  obtain as bs where ab: "xs' = as @ bs" "list_all2 same_message xs as" "list_all2 same_message ys bs"
    using u(2) unfolding t(1) by (auto simp: list_all2_append1)
  have "list_all2 same_message (no_outbox s) as"
    using list_all2_trans[of same_message same_message same_message, OF _ t(2) ab(2)] same_message_trans by blast
  then show ?thesis unfolding continues_def
    by (intro exI[of _ as] exI[of _ "bs @ ys'"] exI[of _ "zs @ zs'"]) (simp add: t u ab)
qed

lemma continues_keeps_message:
  assumes "continues s t" "m \<in> set (no_outbox s)"
  shows "\<exists>m' \<in> set (no_outbox t). same_message m m'"
proof -
  obtain xs ys where x: "no_outbox t = xs @ ys" "list_all2 same_message (no_outbox s) xs" using assms(1) by (auto simp: continues_def)
  obtain i where "i < length (no_outbox s)" "no_outbox s ! i = m" using assms(2) by (auto simp: in_set_conv_nth)
  then have "xs ! i \<in> set xs" "same_message m (xs ! i)" using x(2) by (auto simp: list_all2_conv_all_nth)
  then show ?thesis using x(1) by auto
qed

section \<open>Queueing\<close>

lemma Enqueue_Some:
  assumes "Enqueue e s m now = Some t"
  shows "\<exists>q. t = s\<lparr>no_outbox := no_outbox s @ [q]\<rparr> \<and> ob_status q = ''pending'' \<and> ob_attempts q = 0 \<and> ob_id q \<notin> ob_id ` set (no_outbox s)"
proof -
  let ?q = "m\<lparr>ob_id := (if ob_id m = [] then ne_id e (length (no_outbox s)) else ob_id m), ob_kind := (if ob_kind m = [] then ''email'' else ob_kind m),
    ob_status := ''pending'', ob_attempts := 0, ob_next_try_at := now, ob_failed := False, ob_created_at := now, ob_sent_at := None\<rparr>"
  have "t = s\<lparr>no_outbox := no_outbox s @ [?q]\<rparr>" "ob_id ?q \<notin> ob_id ` set (no_outbox s)"
    using assms unfolding Enqueue_def Let_def list_ex_iff by (simp_all split: if_split_asm) fastforce+
  then show ?thesis by (intro exI[of _ ?q]) simp
qed

lemma Enqueue_step:
  assumes "Enqueue e s m now = Some t" "outbox_ok s"
  shows "outbox_ok t \<and> continues s t \<and> no_delivered t = no_delivered s"
proof -
  obtain q where q: "t = s\<lparr>no_outbox := no_outbox s @ [q]\<rparr>" "ob_status q = ''pending''" "ob_attempts q = 0" "ob_id q \<notin> ob_id ` set (no_outbox s)"
    using Enqueue_Some[OF assms(1)] by blast
  have "continues s t" unfolding continues_def q(1)
    by (intro exI[of _ "no_outbox s"] exI[of _ "[q]"] exI[of _ "[]"]) (simp add: list.rel_refl)
  then show ?thesis using assms(2) q by (auto simp: outbox_ok_def settled_right_def MaxAttempts_def)
qed

lemma enqueue_all_step:
  "outbox_ok s \<Longrightarrow> outbox_ok (enqueue_all e now ms s) \<and> continues s (enqueue_all e now ms s) \<and> no_delivered (enqueue_all e now ms s) = no_delivered s"
proof (induction ms arbitrary: s)
  case Nil
  then show ?case by (simp add: enqueue_all_def)
next
  case (Cons m ms)
  show ?case
  proof (cases "Enqueue e s m now")
    case None
    then show ?thesis using Cons by (simp add: enqueue_all_def)
  next
    case (Some t)
    then have st: "outbox_ok t \<and> continues s t \<and> no_delivered t = no_delivered s" using Enqueue_step Cons.prems by blast
    have "enqueue_all e now (m # ms) s = enqueue_all e now ms t" using Some by (simp add: enqueue_all_def)
    then show ?thesis using Cons.IH[of t] st continues_trans by auto
  qed
qed

lemma Send_step:
  assumes "outbox_ok s"
  shows "outbox_ok (Send e s env d now) \<and> continues s (Send e s env d now) \<and> no_delivered (Send e s env d now) = no_delivered s"
proof -
  define cfg where "cfg = SMTPSettings s"
  define d' where "d' = d\<lparr>nd_link := withBaseURL (ss_base_url cfg) (nd_link d), nd_when := (case nd_when d of None \<Rightarrow> Some now | Some t \<Rightarrow> Some t)\<rparr>"
  define t where "t = queueEmail e s env cfg d' now"
  have t: "outbox_ok t \<and> continues s t \<and> no_delivered t = no_delivered s"
    using assms enqueue_all_step by (auto simp: t_def queueEmail_def split: option.split)
  have "Send e s env d now = queueChannels e t d' now" by (simp add: Send_def Let_def t_def d'_def cfg_def)
  then show ?thesis using t enqueue_all_step[of t] continues_trans by (auto simp: queueChannels_def)
qed

section \<open>Sending\<close>

lemma update_continues:
  assumes "\<And>m. same_message m (f m)"
  shows "continues s (s\<lparr>no_outbox := update_where P f (no_outbox s), no_delivered := no_delivered s @ zs\<rparr>)"
proof -
  have "list_all2 same_message (no_outbox s) (update_where P f (no_outbox s))"
    unfolding update_where_def using assms by (simp add: list.rel_map list.rel_refl)
  then show ?thesis unfolding continues_def by (intro exI[of _ "update_where P f (no_outbox s)"] exI[of _ "[]"] exI[of _ zs]) simp
qed

definition mark_sent :: "int \<Rightarrow> outbox_message \<Rightarrow> outbox_message" where
  "mark_sent now m = m\<lparr>ob_status := ''sent'', ob_attempts := Suc (ob_attempts m), ob_sent_at := Some now, ob_failed := False\<rparr>"

definition mark_failed :: "nat \<Rightarrow> int \<Rightarrow> outbox_message \<Rightarrow> outbox_message" where
  "mark_failed attempts now m =
     m\<lparr>ob_status := (if MaxAttempts \<le> attempts then ''failed'' else ''pending''), ob_attempts := attempts,
       ob_next_try_at := (if MaxAttempts \<le> attempts then now else now + backoff attempts), ob_failed := True\<rparr>"

text \<open>An attempt has three ends: nothing changes, the message is delivered, or the failure is recorded.\<close>

lemma attempt_cases:
  obtains (idle) "attempt e w transport now s m = s" "is_email m \<and> \<not> transport \<or> \<not> ow_marks w (ob_id m)"
  | (sent) "attempt e w transport now s m =
      s\<lparr>no_outbox := update_where (\<lambda>q. ob_id q = ob_id m) (mark_sent now) (no_outbox s), no_delivered := no_delivered s @ [ob_id m]\<rparr>" "ow_marks w (ob_id m)"
  | (unmarked) "attempt e w transport now s m = s\<lparr>no_delivered := no_delivered s @ [ob_id m]\<rparr>" "\<not> ow_marks w (ob_id m)"
  | (failed) "attempt e w transport now s m =
      s\<lparr>no_outbox := update_where (\<lambda>q. ob_id q = ob_id m) (mark_failed (Suc (ob_attempts m)) now) (no_outbox s)\<rparr>" "ow_marks w (ob_id m)"
proof -
  consider "is_email m \<and> \<not> transport" | "\<not> (is_email m \<and> \<not> transport)" "if is_email m then ow_mail w m else deliverChannel e w s m"
    | "\<not> (is_email m \<and> \<not> transport)" "\<not> (if is_email m then ow_mail w m else deliverChannel e w s m)" by blast
  then show thesis
  proof cases
    case 1
    then show ?thesis using idle by (simp add: attempt_def)
  next
    case 2
    then show ?thesis using sent unmarked
      by (cases "ow_marks w (ob_id m)") (auto simp: attempt_def Let_def MarkSent_def mark_sent_def[abs_def])
  next
    case 3
    then show ?thesis using idle failed
      by (cases "ow_marks w (ob_id m)") (auto simp: attempt_def Let_def MarkFailed_def mark_failed_def[abs_def])
  qed
qed

lemma same_marked [simp]: "same_message m (mark_sent now m)" "same_message m (mark_failed a now m)"
  by (simp_all add: same_message_def mark_sent_def mark_failed_def)

lemma attempt_continues: "continues s (attempt e w transport now s m)"
proof -
  have "continues s (s\<lparr>no_outbox := update_where (\<lambda>q. ob_id q = ob_id m) (mark_sent now) (no_outbox s), no_delivered := no_delivered s @ [ob_id m]\<rparr>)"
    by (rule update_continues) simp
  moreover have "continues s (s\<lparr>no_outbox := update_where (\<lambda>q. ob_id q = ob_id m) (mark_failed (Suc (ob_attempts m)) now) (no_outbox s)\<rparr>)"
    using update_continues[where f = "mark_failed (Suc (ob_attempts m)) now" and zs = "[]"] by simp
  moreover have "continues s (s\<lparr>no_delivered := no_delivered s @ [ob_id m]\<rparr>)"
    using update_continues[where f = id and P = "\<lambda>q. False" and zs = "[ob_id m]"] by (simp add: update_where_def)
  ultimately show ?thesis by (rule_tac attempt_cases[of e w transport now s m]) simp_all
qed

lemma marked_ids [simp]: "ob_id (mark_sent now m) = ob_id m" "ob_id (mark_failed a now m) = ob_id m"
  by (simp_all add: mark_sent_def mark_failed_def)

lemma update_ids [simp]:
  "map ob_id (update_where P (mark_sent now) ms) = map ob_id ms" "map ob_id (update_where P (mark_failed a now) ms) = map ob_id ms"
  by (auto simp: update_where_def)

lemma update_id_sets [simp]:
  "ob_id ` set (update_where P (mark_sent now) ms) = ob_id ` set ms" "ob_id ` set (update_where P (mark_failed a now) ms) = ob_id ` set ms"
  by (metis list.set_map update_ids(1), metis list.set_map update_ids(2))

lemma settled_more: "settled_right ds m \<Longrightarrow> settled_right (ds @ zs) m"
  by (auto simp: settled_right_def)

lemma settled_sent: "settled_right (ds @ [ob_id q]) (mark_sent now q)"
  by (simp add: settled_right_def mark_sent_def)

lemma settled_failed: "a < MaxAttempts \<Longrightarrow> settled_right ds (mark_failed (Suc a) now q)"
  by (simp add: settled_right_def mark_failed_def)

lemma attempt_ok:
  assumes "outbox_ok s" "ob_attempts m < MaxAttempts" "ob_id m \<in> ob_id ` set (no_outbox s)"
  shows "outbox_ok (attempt e w transport now s m)"
proof (rule attempt_cases[of e w transport now s m])
  assume r: "attempt e w transport now s m =
      s\<lparr>no_outbox := update_where (\<lambda>q. ob_id q = ob_id m) (mark_sent now) (no_outbox s), no_delivered := no_delivered s @ [ob_id m]\<rparr>"
  have "settled_right (no_delivered s @ [ob_id m]) (if ob_id q = ob_id m then mark_sent now q else q)" if "q \<in> set (no_outbox s)" for q
    using assms(1) that settled_more[of "no_delivered s" q "[ob_id m]"]
      settled_sent[of "no_delivered s" q now]
    by (cases "ob_id q = ob_id m") (simp_all add: outbox_ok_def list_all_iff)
  then show ?thesis unfolding r using assms(1,3) by (simp add: outbox_ok_def) (auto simp: list_all_iff in_update_where)
next
  assume r: "attempt e w transport now s m = s\<lparr>no_delivered := no_delivered s @ [ob_id m]\<rparr>"
  have "settled_right (no_delivered s @ [ob_id m]) q" if "q \<in> set (no_outbox s)" for q
    using assms(1) that settled_more[of "no_delivered s" q "[ob_id m]"] by (simp add: outbox_ok_def list_all_iff)
  then show ?thesis unfolding r using assms(1,3) by (simp add: outbox_ok_def list_all_iff)
next
  assume r: "attempt e w transport now s m =
      s\<lparr>no_outbox := update_where (\<lambda>q. ob_id q = ob_id m) (mark_failed (Suc (ob_attempts m)) now) (no_outbox s)\<rparr>"
  have "settled_right (no_delivered s) (if ob_id q = ob_id m then mark_failed (Suc (ob_attempts m)) now q else q)" if "q \<in> set (no_outbox s)" for q
    using assms(1,2) that
    by (cases "ob_id q = ob_id m") (simp_all add: outbox_ok_def list_all_iff settled_failed)
  then show ?thesis unfolding r using assms(1) by (simp add: outbox_ok_def) (auto simp: list_all_iff in_update_where)
qed (use assms in simp)

lemma continues_ids: "continues s t \<Longrightarrow> ob_id ` set (no_outbox s) \<subseteq> ob_id ` set (no_outbox t)"
  using continues_keeps_message by (fastforce simp: same_message_def)

lemma attempts_step:
  assumes "outbox_ok s" "\<forall>m \<in> set ms. ob_attempts m < MaxAttempts \<and> ob_id m \<in> ob_id ` set (no_outbox s)"
  shows "outbox_ok (foldl (attempt e w transport now) s ms) \<and> continues s (foldl (attempt e w transport now) s ms)"
  using assms
proof (induction ms arbitrary: s)
  case (Cons m ms)
  let ?t = "attempt e w transport now s m"
  have t: "outbox_ok ?t" "continues s ?t" using attempt_ok attempt_continues Cons.prems by simp_all
  have "\<forall>m \<in> set ms. ob_attempts m < MaxAttempts \<and> ob_id m \<in> ob_id ` set (no_outbox ?t)"
    using Cons.prems(2) continues_ids[OF t(2)] by (meson list.set_intros(2) subsetD)
  then show ?case using Cons.IH[OF t(1)] continues_trans[OF t(2)] by simp
qed simp

lemma due_message:
  assumes "m \<in> set (DueMessages s n now)"
  shows "m \<in> set (no_outbox s)" "ob_status m = ''pending''" "ob_next_try_at m \<le> now"
  using assms by (auto simp: DueMessages_def dest: in_set_takeD)

lemma drain_step:
  assumes "outbox_ok s"
  shows "outbox_ok (drain e w s now) \<and> continues s (drain e w s now)"
proof -
  have "ob_attempts m < MaxAttempts \<and> ob_id m \<in> ob_id ` set (no_outbox s)" if "m \<in> set (DueMessages s outbox_batch now)" for m
    using assms due_message[OF that] by (simp add: outbox_ok_def list_all_iff settled_right_def)
  then show ?thesis using attempts_step[OF assms] by (simp add: drain_def Let_def)
qed

lemma handlers_keep_outbox:
  "no_outbox (snd (handleSaveSMTP e s q)) = no_outbox s" "no_delivered (snd (handleSaveSMTP e s q)) = no_delivered s"
  "no_outbox (snd (handleCreateChannel e post s kind name url i now)) = no_outbox s"
  "no_delivered (snd (handleCreateChannel e post s kind name url i now)) = no_delivered s"
  "no_outbox (snd (handleDeleteChannel s i)) = no_outbox s" "no_delivered (snd (handleDeleteChannel s i)) = no_delivered s"
  "no_outbox (snd (handleCreateNotifyRule s event role address channel i)) = no_outbox s"
  "no_delivered (snd (handleCreateNotifyRule s event role address channel i)) = no_delivered s"
  "no_outbox (snd (handleDeleteNotifyRule s i)) = no_outbox s" "no_delivered (snd (handleDeleteNotifyRule s i)) = no_delivered s"
  by (auto simp: handleSaveSMTP_def handleCreateChannel_def handleDeleteChannel_def handleCreateNotifyRule_def handleDeleteNotifyRule_def
      SaveSMTPSettings_def CreateChannel_def DeleteChannel_def CreateNotificationRule_def DeleteNotificationRule_def notify_audited_def Let_def
      split: option.split)

lemma same_outbox:
  "no_outbox t = no_outbox s \<Longrightarrow> no_delivered t = no_delivered s \<Longrightarrow> outbox_ok s \<Longrightarrow> outbox_ok t \<and> continues s t"
  unfolding outbox_ok_def continues_def by (intro conjI exI[of _ "no_outbox s"] exI[of _ "[]"]) (simp_all add: list.rel_refl)

lemma notify_step_ok: "outbox_ok s \<Longrightarrow> outbox_ok (notify_step e s c) \<and> continues s (notify_step e s c)"
  by (induction e s c rule: notify_step.induct)
    (simp_all add: Send_step drain_step same_outbox handlers_keep_outbox)

interpretation notify_machine: guarded_machine "notify_step e" outbox_ok for e
  by unfold_locales (simp add: notify_step_ok)

lemma run_continues: "outbox_ok s \<Longrightarrow> continues s (foldl (notify_step e) s cs)"
proof (induction cs arbitrary: s)
  case (Cons c cs)
  then show ?case using notify_step_ok[of s e c] continues_trans by auto
qed simp

lemma new_outbox_ok: "outbox_ok (new_notify_site a)"
  by (simp add: outbox_ok_def new_notify_site_def)

section \<open>Once\<close>

definition once_ok :: "notify_site \<Rightarrow> bool" where
  "once_ok s = (outbox_ok s \<and> distinct (no_delivered s) \<and> (\<forall>m \<in> set (no_outbox s). ob_id m \<in> set (no_delivered s) \<longrightarrow> ob_status m = ''sent''))"

lemma attempt_once:
  assumes "once_ok s" "ob_attempts m < MaxAttempts" "ob_id m \<in> ob_id ` set (no_outbox s)" "ow_marks w (ob_id m)" "ob_id m \<notin> set (no_delivered s)"
  shows "once_ok (attempt e w transport now s m) \<and> set (no_delivered (attempt e w transport now s m)) \<subseteq> insert (ob_id m) (set (no_delivered s))"
proof -
  have ok: "outbox_ok (attempt e w transport now s m)" using attempt_ok assms by (simp add: once_ok_def)
  show ?thesis
  proof (rule attempt_cases[of e w transport now s m])
    assume r: "attempt e w transport now s m =
        s\<lparr>no_outbox := update_where (\<lambda>q. ob_id q = ob_id m) (mark_sent now) (no_outbox s), no_delivered := no_delivered s @ [ob_id m]\<rparr>"
    have "ob_status (if ob_id q = ob_id m then mark_sent now q else q) = ''sent''"
      if "q \<in> set (no_outbox s)" "ob_id q = ob_id m \<or> ob_id q \<in> set (no_delivered s)" for q
      using that assms(1) by (cases "ob_id q = ob_id m") (simp_all add: once_ok_def mark_sent_def)
    then show ?thesis using ok assms(1,5) unfolding r by (auto simp: once_ok_def in_update_where mark_sent_def)
  next
    assume r: "attempt e w transport now s m =
        s\<lparr>no_outbox := update_where (\<lambda>q. ob_id q = ob_id m) (mark_failed (Suc (ob_attempts m)) now) (no_outbox s)\<rparr>"
    have "ob_status (if ob_id q = ob_id m then mark_failed (Suc (ob_attempts m)) now q else q) = ''sent''"
      if "q \<in> set (no_outbox s)" "ob_id q \<in> set (no_delivered s)" for q
      using that assms(1,5) by (cases "ob_id q = ob_id m") (simp_all add: once_ok_def)
    then show ?thesis using ok assms(1,5) unfolding r by (auto simp: once_ok_def in_update_where)
  qed (use ok assms in auto)
qed

lemma attempts_once:
  assumes "once_ok s" "distinct (map ob_id ms)"
    and "\<forall>m \<in> set ms. ob_attempts m < MaxAttempts \<and> ob_id m \<in> ob_id ` set (no_outbox s) \<and> ow_marks w (ob_id m) \<and> ob_id m \<notin> set (no_delivered s)"
  shows "once_ok (foldl (attempt e w transport now) s ms)"
  using assms
proof (induction ms arbitrary: s)
  case (Cons m ms)
  let ?t = "attempt e w transport now s m"
  have t: "once_ok ?t" "set (no_delivered ?t) \<subseteq> insert (ob_id m) (set (no_delivered s))" using attempt_once Cons.prems by auto
  have "ob_id q \<notin> set (no_delivered ?t) \<and> ob_id q \<in> ob_id ` set (no_outbox ?t)" if "q \<in> set ms" for q
  proof -
    have "ob_id q \<noteq> ob_id m" using that Cons.prems(2) by (auto simp: image_iff)
    then show ?thesis
      using that Cons.prems(3) t(2) subsetD[OF continues_ids[OF attempt_continues, of s e w transport now m], of "ob_id q"] by auto
  qed
  then show ?case using Cons.IH[OF t(1)] Cons.prems(2,3) by simp
qed simp

lemma distinct_due: "distinct (map ob_id (no_outbox s)) \<Longrightarrow> distinct (map ob_id (DueMessages s n now))"
proof -
  assume d: "distinct (map ob_id (no_outbox s))"
  have "distinct (map ob_id (filter (\<lambda>m. ob_status m = ''pending'' \<and> ob_next_try_at m \<le> now) (no_outbox s)))"
    using d by (simp add: distinct_map_filter)
  then have "distinct (map ob_id (sort_key ob_next_try_at (filter (\<lambda>m. ob_status m = ''pending'' \<and> ob_next_try_at m \<le> now) (no_outbox s))))"
    by (subst mset_eq_imp_distinct_iff[of _ "map ob_id (filter (\<lambda>m. ob_status m = ''pending'' \<and> ob_next_try_at m \<le> now) (no_outbox s))"]) simp_all
  then show ?thesis by (simp add: DueMessages_def take_map[symmetric] distinct_take)
qed

lemma drain_once:
  assumes "once_ok s" "\<forall>i. ow_marks w i"
  shows "once_ok (drain e w s now)"
proof -
  have "ob_attempts m < MaxAttempts \<and> ob_id m \<in> ob_id ` set (no_outbox s) \<and> ow_marks w (ob_id m) \<and> ob_id m \<notin> set (no_delivered s)"
    if "m \<in> set (DueMessages s outbox_batch now)" for m
    using assms due_message[OF that] by (auto simp: once_ok_def outbox_ok_def list_all_iff settled_right_def)
  moreover have "distinct (map ob_id (no_outbox s))" using assms(1) by (simp add: once_ok_def outbox_ok_def)
  ultimately show ?thesis unfolding drain_def Let_def by (intro attempts_once[OF assms(1) distinct_due]) auto
qed

lemma enqueue_all_appends: "\<exists>qs. no_outbox (enqueue_all e now ms s) = no_outbox s @ qs"
proof (induction ms arbitrary: s)
  case (Cons m ms)
  show ?case
  proof (cases "Enqueue e s m now")
    case None
    then show ?thesis using Cons.IH[of s] by (simp add: enqueue_all_def)
  next
    case (Some t)
    then have "\<exists>q. no_outbox t = no_outbox s @ [q]" using Enqueue_Some by fastforce
    then show ?thesis using Cons.IH[of t] Some by (auto simp: enqueue_all_def)
  qed
qed (simp add: enqueue_all_def)

lemma Send_appends: "\<exists>qs. no_outbox (Send e s env d now) = no_outbox s @ qs"
proof -
  have mail: "\<exists>qs. no_outbox (queueEmail e s env cfg x now) = no_outbox s @ qs" for cfg x
    using enqueue_all_appends by (auto simp: queueEmail_def split: option.split)
  have chat: "\<exists>qs. no_outbox (queueChannels e t x now) = no_outbox t @ qs" for t x
    using enqueue_all_appends by (simp add: queueChannels_def)
  show ?thesis unfolding Send_def Let_def by (metis mail chat append_assoc)
qed

lemma Send_once:
  assumes "once_ok s"
  shows "once_ok (Send e s env d now)"
proof -
  let ?t = "Send e s env d now"
  have st: "outbox_ok ?t" "no_delivered ?t = no_delivered s" using Send_step assms by (simp_all add: once_ok_def)
  obtain qs where qs: "no_outbox ?t = no_outbox s @ qs" using Send_appends by blast
  have "ob_status m = ''sent''" if "m \<in> set (no_outbox ?t)" "ob_id m \<in> set (no_delivered s)" for m
  proof -
    have "ob_id m \<in> ob_id ` set (no_outbox s)" using assms that(2) by (auto simp: once_ok_def outbox_ok_def)
    moreover have "distinct (map ob_id (no_outbox s @ qs))" using st(1) qs by (simp add: outbox_ok_def)
    ultimately have "m \<in> set (no_outbox s)" using that(1) qs by auto
    then show ?thesis using assms that(2) by (simp add: once_ok_def)
  qed
  then show ?thesis using st assms by (simp add: once_ok_def)
qed

lemma same_once: "no_outbox t = no_outbox s \<Longrightarrow> no_delivered t = no_delivered s \<Longrightarrow> once_ok s \<Longrightarrow> once_ok t"
  using same_outbox by (simp add: once_ok_def)

definition marks :: "notify_op \<times> int \<Rightarrow> bool" where
  "marks c = (case fst c of OpDrain w \<Rightarrow> \<forall>i. ow_marks w i | _ \<Rightarrow> True)"

lemma other_steps:
  "\<forall>env d. fst c \<noteq> OpSend env d \<Longrightarrow> \<forall>w. fst c \<noteq> OpDrain w \<Longrightarrow>
   no_outbox (notify_step e s c) = no_outbox s \<and> no_delivered (notify_step e s c) = no_delivered s"
  by (induction e s c rule: notify_step.induct) (simp_all add: handlers_keep_outbox)

lemma notify_step_once:
  assumes "once_ok s" "marks c"
  shows "once_ok (notify_step e s c)"
proof -
  obtain op now where c: "c = (op, now)" by fastforce
  consider env d where "op = OpSend env d" | w where "op = OpDrain w" | "\<forall>env d. op \<noteq> OpSend env d" "\<forall>w. op \<noteq> OpDrain w" by blast
  then show ?thesis
  proof cases
    case 1
    then show ?thesis using Send_once assms(1) c by simp
  next
    case 2
    then show ?thesis using drain_once assms c by (simp add: marks_def)
  next
    case 3
    then show ?thesis using same_once[OF _ _ assms(1)] other_steps[of c e s] c by simp
  qed
qed

lemma run_once: "once_ok s \<Longrightarrow> \<forall>c \<in> set cs. marks c \<Longrightarrow> once_ok (foldl (notify_step e) s cs)"
  by (induction cs arbitrary: s) (simp_all add: notify_step_once)

text \<open>C20: no alert is lost. Whatever is queued, sent, failed, reconfigured and deleted afterwards, a message
  stays in the outbox as it was queued. It is pending with attempts left, or was delivered, or failed after six
  attempts and is listed as a dead letter.\<close>

theorem no_alert_is_lost:
  assumes "s = foldl (notify_step e) (new_notify_site a) cs" "m \<in> set (no_outbox s)" "t = foldl (notify_step e) s later"
  shows "\<exists>m' \<in> set (no_outbox t). same_message m m' \<and>
    (ob_status m' = ''pending'' \<and> ob_attempts m' < MaxAttempts \<or>
     ob_status m' = ''sent'' \<and> ob_id m \<in> set (no_delivered t) \<or>
     ob_status m' = ''failed'' \<and> ob_attempts m' = MaxAttempts)"
proof -
  have s: "outbox_ok s" unfolding assms(1) by (rule notify_machine.run_inv[OF new_outbox_ok])
  have t: "outbox_ok t" unfolding assms(3) by (rule notify_machine.run_inv[OF s])
  obtain m' where m': "m' \<in> set (no_outbox t)" "same_message m m'"
    using continues_keeps_message[OF run_continues[OF s] assms(2)] assms(3) by blast
  then have "settled_right (no_delivered t) m'" using t by (simp add: outbox_ok_def list_all_iff)
  then show ?thesis using m' by (intro bexI[of _ m']) (auto simp: settled_right_def same_message_def split: if_split_asm)
qed


section \<open>Every message settles\<close>

lemma row_unique: "outbox_ok s \<Longrightarrow> m \<in> set (no_outbox s) \<Longrightarrow> q \<in> set (no_outbox s) \<Longrightarrow> ob_id m = ob_id q \<Longrightarrow> m = q"
  by (auto simp: outbox_ok_def distinct_map inj_on_def)

lemma attempt_other:
  assumes "q \<in> set (no_outbox s)" "ob_id q \<noteq> ob_id m"
  shows "q \<in> set (no_outbox (attempt e w transport now s m))"
  using assms by (rule_tac attempt_cases[of e w transport now s m]) (auto simp: in_update_where intro!: bexI[of _ q])

lemma attempt_hit:
  assumes "m \<in> set (no_outbox s)" "transport" "ow_marks w (ob_id m)"
  shows "mark_sent now m \<in> set (no_outbox (attempt e w transport now s m)) \<or>
    mark_failed (Suc (ob_attempts m)) now m \<in> set (no_outbox (attempt e w transport now s m))"
  using assms by (rule_tac attempt_cases[of e w transport now s m]) (auto simp: in_update_where intro!: bexI[of _ m])

lemma attempts_other:
  "q \<in> set (no_outbox s) \<Longrightarrow> ob_id q \<notin> ob_id ` set ms \<Longrightarrow> q \<in> set (no_outbox (foldl (attempt e w transport now) s ms))"
  by (induction ms arbitrary: s) (auto simp: attempt_other)

lemma attempts_hit:
  assumes "distinct (map ob_id ms)" "m \<in> set ms" "m \<in> set (no_outbox s)" "transport" "\<forall>i. ow_marks w i"
  shows "mark_sent now m \<in> set (no_outbox (foldl (attempt e w transport now) s ms)) \<or>
    mark_failed (Suc (ob_attempts m)) now m \<in> set (no_outbox (foldl (attempt e w transport now) s ms))"
  using assms
proof (induction ms arbitrary: s)
  case (Cons x ms)
  let ?t = "attempt e w transport now s x"
  show ?case
  proof (cases "ob_id x = ob_id m")
    case True
    then have "x = m" "ob_id m \<notin> ob_id ` set ms" using Cons.prems(1,2) by (auto simp: image_iff)
    then show ?thesis
      using attempt_hit[OF Cons.prems(3,4), of w now e] Cons.prems(5) attempts_other[of "mark_sent now m" ?t ms]
        attempts_other[of "mark_failed (Suc (ob_attempts m)) now m" ?t ms] by auto
  next
    case False
    then have "m \<in> set ms" "m \<in> set (no_outbox ?t)" using Cons.prems(2,3) attempt_other[of m s x] by auto
    then show ?thesis using Cons.IH[of ?t] Cons.prems(1,4,5) by simp
  qed
qed simp

lemma attempts_ids: "map ob_id (no_outbox (foldl (attempt e w transport now) s ms)) = map ob_id (no_outbox s)"
proof (induction ms arbitrary: s)
  case (Cons m ms)
  have "map ob_id (no_outbox (attempt e w transport now s m)) = map ob_id (no_outbox s)"
    by (rule attempt_cases[of e w transport now s m]) simp_all
  then show ?case using Cons.IH by simp
qed simp

lemma attempts_smtp: "no_smtp (foldl (attempt e w transport now) s ms) = no_smtp s"
proof (induction ms arbitrary: s)
  case (Cons m ms)
  have "no_smtp (attempt e w transport now s m) = no_smtp s" by (rule attempt_cases[of e w transport now s m]) simp_all
  then show ?case using Cons.IH by simp
qed simp

definition pending_ids :: "notify_site \<Rightarrow> ident set" where
  "pending_ids s = ob_id ` {m \<in> set (no_outbox s). ob_status m = ''pending''}"

definition mail_works :: "notify_env \<Rightarrow> notify_site \<Rightarrow> bool" where
  "mail_works e s = (\<exists>cfg. Transport e s = Some (Some cfg))"

text \<open>Every pending message is due by \<open>now\<close> and has had \<open>k\<close> attempts.\<close>

definition ready :: "notify_site \<Rightarrow> int \<Rightarrow> nat \<Rightarrow> bool" where
  "ready s now k = (\<forall>m \<in> set (no_outbox s). ob_status m = ''pending'' \<longrightarrow> ob_next_try_at m \<le> now \<and> k \<le> ob_attempts m)"

lemma all_due:
  assumes "outbox_ok s" "ready s now k" "card (pending_ids s) \<le> outbox_batch" "m \<in> set (no_outbox s)" "ob_status m = ''pending''"
  shows "m \<in> set (DueMessages s outbox_batch now)"
proof -
  let ?p = "filter (\<lambda>m. ob_status m = ''pending'' \<and> ob_next_try_at m \<le> now) (no_outbox s)"
  have d: "distinct (map ob_id ?p)" using assms(1) by (simp add: outbox_ok_def distinct_map_filter)
  have "length ?p = card (ob_id ` set ?p)" using distinct_card[OF d] unfolding list.set_map length_map by (rule sym)
  also have "\<dots> \<le> card (pending_ids s)" by (intro card_mono) (auto simp: pending_ids_def)
  finally have "length (sort_key ob_next_try_at ?p) \<le> outbox_batch" using assms(3) by simp
  then show ?thesis using assms(2,4,5) by (simp add: DueMessages_def ready_def)
qed

lemma drain_row:
  assumes "outbox_ok s" "ready s now k" "card (pending_ids s) \<le> outbox_batch" "mail_works e s" "\<forall>i. ow_marks w i"
    and "m' \<in> set (no_outbox (drain e w s now))" "ob_status m' = ''pending''"
  shows "\<exists>m \<in> set (no_outbox s). ob_status m = ''pending'' \<and> m' = mark_failed (Suc (ob_attempts m)) now m"
proof -
  let ?due = "DueMessages s outbox_batch now"
  let ?t = "foldl (attempt e w True now) s ?due"
  have t: "drain e w s now = ?t" using assms(4) by (auto simp: drain_def mail_works_def)
  have ok: "outbox_ok ?t" using drain_step[OF assms(1)] t by metis
  have dd: "distinct (map ob_id ?due)" using distinct_due assms(1) by (simp add: outbox_ok_def)
  obtain m where m: "m \<in> set (no_outbox s)" "ob_id m = ob_id m'"
    using assms(6) attempts_ids[of e w True now s ?due] unfolding t by (metis image_iff list.set_map)
  show ?thesis
  proof (cases "ob_status m = ''pending''")
    case True
    then have "m \<in> set ?due" using all_due assms(1,2,3) m(1) by blast
    then consider "mark_sent now m \<in> set (no_outbox ?t)" | "mark_failed (Suc (ob_attempts m)) now m \<in> set (no_outbox ?t)"
      using attempts_hit[OF dd _ m(1), of True w now e] assms(5) by auto
    then show ?thesis
    proof cases
      case 1
      then have "m' = mark_sent now m" using row_unique[OF ok] assms(6) m(2) unfolding t by simp
      then show ?thesis using assms(7) by (simp add: mark_sent_def)
    next
      case 2
      then have "m' = mark_failed (Suc (ob_attempts m)) now m" using row_unique[OF ok] assms(6) m(2) unfolding t by simp
      then show ?thesis using True m(1) by blast
    qed
  next
    case False
    then have "ob_id m \<noteq> ob_id q" if "q \<in> set ?due" for q
      using due_message(1,2)[OF that] row_unique[OF assms(1) m(1), of q] by auto
    then have "ob_id m \<notin> ob_id ` set ?due" by auto
    then have "m' = m" using attempts_other[OF m(1), of ?due e w True now] row_unique[OF ok] assms(6) m(2) unfolding t by simp
    then show ?thesis using False assms(7) by simp
  qed
qed

lemma backoff_bounds: "0 < backoff a \<and> backoff a \<le> backoffCap"
  by (simp add: backoff_def Let_def backoffCap_def minute_def second_def)

lemma drain_ready:
  assumes "outbox_ok s" "ready s now k" "card (pending_ids s) \<le> outbox_batch" "mail_works e s" "\<forall>i. ow_marks w i" "now + backoffCap \<le> next"
  shows "ready (drain e w s now) next (Suc k) \<and> card (pending_ids (drain e w s now)) \<le> outbox_batch \<and> mail_works e (drain e w s now)"
proof -
  note row = drain_row[OF assms(1-5)]
  have "ready (drain e w s now) next (Suc k)"
    unfolding ready_def
  proof (intro ballI impI)
    fix m' assume "m' \<in> set (no_outbox (drain e w s now))" "ob_status m' = ''pending''"
    then obtain m where m: "m \<in> set (no_outbox s)" "ob_status m = ''pending''" "m' = mark_failed (Suc (ob_attempts m)) now m"
      using row by blast
    then have "\<not> MaxAttempts \<le> Suc (ob_attempts m)" using \<open>ob_status m' = ''pending''\<close> by (auto simp: mark_failed_def)
    then show "ob_next_try_at m' \<le> next \<and> Suc k \<le> ob_attempts m'"
      using m assms(2,6) backoff_bounds[of "Suc (ob_attempts m)"] by (auto simp: mark_failed_def ready_def)
  qed
  moreover have "pending_ids (drain e w s now) \<subseteq> pending_ids s" unfolding pending_ids_def
  proof (intro subsetI, elim imageE)
    fix i m' assume "i = ob_id m'" "m' \<in> {m \<in> set (no_outbox (drain e w s now)). ob_status m = ''pending''}"
    then obtain m where "m \<in> set (no_outbox s)" "ob_status m = ''pending''" "i = ob_id m" using row[of m'] by auto
    then show "i \<in> ob_id ` {m \<in> set (no_outbox s). ob_status m = ''pending''}" by simp
  qed
  then have "card (pending_ids (drain e w s now)) \<le> card (pending_ids s)" by (intro card_mono) (simp add: pending_ids_def)
  moreover have "no_smtp (drain e w s now) = no_smtp s" by (simp add: drain_def Let_def attempts_smtp)
  then have "mail_works e (drain e w s now)" using assms(4) by (simp add: mail_works_def Transport_def SMTPSettings_def)
  ultimately show ?thesis using assms(3) by linarith
qed

fun spaced :: "int \<Rightarrow> (outside \<times> int) list \<Rightarrow> bool" where
  "spaced now [] = True"
| "spaced now ((w, t) # rs) = (now \<le> t \<and> spaced (t + backoffCap) rs)"

lemma rounds_ready:
  assumes "outbox_ok s" "ready s now k" "card (pending_ids s) \<le> outbox_batch" "mail_works e s" "spaced now rs" "\<forall>r \<in> set rs. \<forall>i. ow_marks (fst r) i"
  shows "\<exists>later. ready (foldl (\<lambda>s r. drain e (fst r) s (snd r)) s rs) later (k + length rs) \<and> outbox_ok (foldl (\<lambda>s r. drain e (fst r) s (snd r)) s rs)"
  using assms
proof (induction rs arbitrary: s now k)
  case (Cons r rs)
  obtain w t where r: "r = (w, t)" by fastforce
  have rt: "ready s t k" using Cons.prems(2,5) r by (fastforce simp: ready_def)
  have m: "\<forall>i. ow_marks w i" using Cons.prems(6) r by simp
  note d = drain_ready[OF Cons.prems(1) rt Cons.prems(3,4) m order_refl]
  show ?case
    using Cons.IH[of "drain e w s t" "t + backoffCap" "Suc k"] d drain_step[OF Cons.prems(1)] Cons.prems(5,6) r by simp
qed auto

text \<open>C21: every alert settles. When mail can be sent and no more messages wait than a round takes, six rounds at
  least half an hour apart leave none of them pending: each was delivered or is a dead letter, whatever the
  mail server and the channels answer.\<close>

theorem every_alert_settles:
  assumes "s = foldl (notify_step e) (new_notify_site a) cs" "\<forall>m \<in> set (no_outbox s). ob_next_try_at m \<le> now"
    and "card {m \<in> set (no_outbox s). ob_status m = ''pending''} \<le> outbox_batch" "mail_works e s"
    and "spaced now rs" "MaxAttempts \<le> length rs" "\<forall>r \<in> set rs. \<forall>i. ow_marks (fst r) i"
  shows "\<forall>m \<in> set (no_outbox (foldl (\<lambda>s r. drain e (fst r) s (snd r)) s rs)). ob_status m \<noteq> ''pending''"
proof -
  let ?t = "foldl (\<lambda>s r. drain e (fst r) s (snd r)) s rs"
  have ok: "outbox_ok s" unfolding assms(1) by (rule notify_machine.run_inv[OF new_outbox_ok])
  have "ready s now 0" using assms(2) by (simp add: ready_def)
  moreover have "card (pending_ids s) \<le> outbox_batch"
    using card_image_le[of "{m \<in> set (no_outbox s). ob_status m = ''pending''}" ob_id] assms(3) by (simp add: pending_ids_def)
  ultimately obtain later where "ready ?t later (length rs)" "outbox_ok ?t" using rounds_ready[OF ok _ _ assms(4,5,7)] by fastforce
  then show ?thesis using assms(6) by (fastforce simp: ready_def outbox_ok_def list_all_iff settled_right_def)
qed

section \<open>Who is told\<close>

lemma set_add_once: "set (foldl add_once out as) = set out \<union> set as"
  by (induction as arbitrary: out) (auto simp: add_once_def)

lemma distinct_add_once: "distinct out \<Longrightarrow> distinct (foldl add_once out as)"
  by (induction as arbitrary: out) (auto simp: add_once_def)

lemma set_add_roles: "set (foldl (\<lambda>out role. foldl add_once out (f role)) out rs) = set out \<union> (\<Union>role \<in> set rs. set (f role))"
  by (induction rs arbitrary: out) (auto simp: set_add_once)

lemma distinct_add_roles: "distinct out \<Longrightarrow> distinct (foldl (\<lambda>out role. foldl add_once out (f role)) out rs)"
  by (induction rs arbitrary: out) (simp_all add: distinct_add_once)

text \<open>An enabled user with this address holds the role, globally or on the host.\<close>

definition holds_role :: "notify_site \<Rightarrow> ident \<Rightarrow> ident \<Rightarrow> string \<Rightarrow> bool" where
  "holds_role s role env a =
     (\<exists>m \<in> set (role_members (ac_db (no_accounts s))). rm_role_id m = role \<and>
        (sc_kind (rm_scope m) = ''global'' \<or> env \<noteq> [] \<and> sc_kind (rm_scope m) = ''env'' \<and> sc_id (rm_scope m) = env) \<and>
        (\<exists>u \<in> set (users (ac_db (no_accounts s))). u_id u = rm_user_id m \<and> \<not> u_disabled u \<and>
           (\<exists>f \<in> set (ac_profiles (no_accounts s)). pf_id f = u_id u \<and> pf_email f = a \<and> a \<noteq> [])))"

lemma in_comprehension: "a \<in> set (concat (map (\<lambda>x. if p x then g x else []) xs)) \<longleftrightarrow> (\<exists>x \<in> set xs. p x \<and> a \<in> set (g x))"
  by (induction xs) auto

lemma role_emails: "a \<in> set (roleMemberEmails s role env) \<longleftrightarrow> holds_role s role env a"
proof -
  have "a \<in> set (concat (map (\<lambda>f. if pf_id f = i \<and> pf_email f \<noteq> [] then [pf_email f] else []) fs)) \<longleftrightarrow>
      (\<exists>f \<in> set fs. pf_id f = i \<and> pf_email f = a \<and> a \<noteq> [])" for i and fs :: "profile list"
    unfolding in_comprehension by auto
  then show ?thesis unfolding roleMemberEmails_def holds_role_def covers_def set_remdups in_comprehension by (simp add: conj_assoc)
qed

text \<open>C23: exactly those are told whom the rules name. For an event on a host, mail goes once to every address a
  rule of the event names, and to every enabled user with an address who holds a role a rule names, globally or
  on that very host; for an event of the whole fleet, holders on a single host hear nothing.\<close>

theorem recipients_are_the_rules:
  "distinct (RecipientsFor s event env) \<and>
   (\<forall>a. a \<in> set (RecipientsFor s event env) \<longleftrightarrow>
      (\<exists>r \<in> set (no_rules s). nr_event r = event \<and>
         (nr_address r = a \<and> a \<noteq> [] \<or> nr_address r = [] \<and> nr_role_id r \<noteq> [] \<and> holds_role s (nr_role_id r) env a)))"
proof -
  have "distinct (RecipientsFor s event env)" unfolding RecipientsFor_def Let_def by (intro distinct_add_roles distinct_add_once) simp
  moreover have "a \<in> set (RecipientsFor s event env) \<longleftrightarrow>
      (\<exists>r \<in> set (no_rules s). nr_event r = event \<and> nr_address r \<noteq> [] \<and> nr_address r = a) \<or>
      (\<exists>r \<in> set (no_rules s). nr_event r = event \<and> nr_address r = [] \<and> nr_role_id r \<noteq> [] \<and> a \<in> set (roleMemberEmails s (nr_role_id r) env))" for a
    unfolding RecipientsFor_def Let_def set_add_roles set_add_once by auto
  ultimately show ?thesis unfolding role_emails by blast
qed

section \<open>A mail server, a channel and a lost password\<close>

definition nobody :: accounts where
  "nobody = \<lparr>ac_db = \<lparr>users = [], roles = [], role_caps = [], role_members = [], oidc_mappings = [], default_roles = [], environments = []\<rparr>,
     ac_profiles = [], ac_sessions = [], ac_tokens = [], ac_break_glass = [], ac_limiter = [], ac_states = [], ac_audit = []\<rparr>"

text \<open>The parameter of \<open>keys\<close>: whether the sealed password of the mail server can be opened.\<close>

definition keys :: "bool \<Rightarrow> notify_env" where
  "keys opens = \<lparr>ne_open = (\<lambda>x. if opens \<or> x \<noteq> ''pw'' then Some x else None), ne_seal = Some, ne_html = (\<lambda>d. Some ''<p>''), ne_stamp = (\<lambda>t. ''t''),
     ne_id = (\<lambda>n. replicate (Suc n) (CHR ''m''))\<rparr>"

definition fine_world :: outside where
  "fine_world = \<lparr>ow_mail = (\<lambda>m. True), ow_post = (\<lambda>u p. Status 200), ow_marks = (\<lambda>i. True)\<rparr>"

definition dead_world :: outside where
  "dead_world = \<lparr>ow_mail = (\<lambda>m. False), ow_post = (\<lambda>u p. NoAnswer), ow_marks = (\<lambda>i. True)\<rparr>"

definition news :: "string \<Rightarrow> notify_data" where
  "news event = \<lparr>nd_event = event, nd_subject = event, nd_title = event, nd_summary = [], nd_host_name = [], nd_target = [], nd_detail = [], nd_link = [],
     nd_failed = True, nd_when = None\<rparr>"

definition setup_calls :: "(notify_op \<times> int) list" where
  "setup_calls =
     [(OpSaveSMTP \<lparr>sq_host = ''mail'', sq_port = 0, sq_username = [], sq_password = ''pw'', sq_from_addr = ''d@x'', sq_from_name = [], sq_base_url = [], sq_enabled = True\<rparr>, 0),
      (OpCreateChannel ''slack'' ''ops'' ''https://chat'' ''c1'' (\<lambda>u p. Status 200), 0),
      (OpCreateRule ''backup.failed'' [] ''ops@x'' [] ''r1'', 0), (OpCreateRule ''agent.offline'' [] [] ''c1'' ''r2'', 0)]"

definition one_alert :: notify_site where
  "one_alert = foldl (notify_step (keys True)) (new_notify_site nobody) (setup_calls @ [(OpSend [] (news ''backup.failed''), 0)])"

definition the_alert :: outbox_message where
  "the_alert = hd (no_outbox one_alert)"

definition six_rounds :: "(outside \<times> int) list" where
  "six_rounds = map (\<lambda>k. (dead_world, k * backoffCap)) [1, 2, 3, 4, 5, 6]"

theorem no_alert_is_lost_witness:
  "\<exists>m \<in> set (no_outbox (foldl (notify_step (keys True)) one_alert (map (\<lambda>r. (OpDrain (fst r), snd r)) six_rounds))). same_message the_alert m"
proof -
  have "the_alert \<in> set (no_outbox one_alert)" by code_simp
  from no_alert_is_lost[OF one_alert_def this refl] show ?thesis by blast
qed


theorem every_alert_settles_witness:
  "ob_status (hd (no_outbox (foldl (\<lambda>s r. drain (keys True) (fst r) s (snd r)) one_alert six_rounds))) \<noteq> ''pending''"
proof -
  have now: "\<forall>m \<in> set (no_outbox one_alert). ob_next_try_at m \<le> 0" by code_simp
  have "length (no_outbox one_alert) = 1" by code_simp
  then have "card {m \<in> set (no_outbox one_alert). ob_status m = ''pending''} \<le> outbox_batch"
    using card_mono[of "set (no_outbox one_alert)" "{m \<in> set (no_outbox one_alert). ob_status m = ''pending''}"] card_length[of "no_outbox one_alert"]
    by (simp add: outbox_batch_def)
  moreover have "map_option (\<lambda>x. x \<noteq> None) (Transport (keys True) one_alert) = Some True" by code_simp
  then have "mail_works (keys True) one_alert" by (auto simp: mail_works_def)
  moreover have "spaced 0 six_rounds" "MaxAttempts \<le> length six_rounds" by code_simp+
  moreover have "\<forall>r \<in> set six_rounds. \<forall>i. ow_marks (fst r) i" by (simp add: six_rounds_def dead_world_def)
  ultimately have "\<forall>m \<in> set (no_outbox (foldl (\<lambda>s r. drain (keys True) (fst r) s (snd r)) one_alert six_rounds)). ob_status m \<noteq> ''pending''"
    by (intro every_alert_settles[OF one_alert_def now])
  moreover have "no_outbox (foldl (\<lambda>s r. drain (keys True) (fst r) s (snd r)) one_alert six_rounds) \<noteq> []" by code_simp
  ultimately show ?thesis by simp
qed

definition stuck :: notify_site where
  "stuck = foldl (notify_step (keys False)) (new_notify_site nobody)
     (setup_calls @ replicate 20 (OpSend [] (news ''backup.failed''), 0) @ [(OpSend [] (news ''agent.offline''), 1)])"

lemma stuck_due:
  assumes "m \<in> set (DueMessages stuck outbox_batch t)"
  shows "is_email m"
proof -
  have s: "sorted (map ob_next_try_at (no_outbox stuck))" by code_simp
  have o: "no_outbox stuck = butlast (no_outbox stuck) @ [last (no_outbox stuck)]" by code_simp
  have os: "set (no_outbox stuck) = set (butlast (no_outbox stuck)) \<union> {last (no_outbox stuck)}"
    using arg_cong[OF o, where f = set] unfolding set_append list.set .
  have e: "list_all (\<lambda>m. is_email m \<and> ob_status m = ''pending'' \<and> ob_next_try_at m = 0) (butlast (no_outbox stuck))"
    "length (butlast (no_outbox stuck)) = outbox_batch" "ob_next_try_at (last (no_outbox stuck)) = 1" by code_simp+
  let ?P = "\<lambda>m. ob_status m = ''pending'' \<and> ob_next_try_at m \<le> t"
  have "sorted (map ob_next_try_at (filter ?P (no_outbox stuck)))" using s sorted_filter by blast
  then have d: "DueMessages stuck outbox_batch t = take outbox_batch (filter ?P (no_outbox stuck))"
    by (simp add: DueMessages_def sort_key_id_if_sorted)
  show ?thesis
  proof (cases "0 \<le> t")
    case True
    then have f: "filter ?P (butlast (no_outbox stuck)) = butlast (no_outbox stuck)" using e(1) by (auto simp: list_all_iff intro!: filter_True)
    have "filter ?P (no_outbox stuck) = butlast (no_outbox stuck) @ filter ?P [last (no_outbox stuck)]"
      using arg_cong[OF o, where f = "filter ?P"] unfolding filter_append f .
    then have "DueMessages stuck outbox_batch t = butlast (no_outbox stuck)" using d e(2) by simp
    then show ?thesis using assms e(1) by (simp add: list_all_iff)
  next
    case False
    have "0 \<le> ob_next_try_at m" using due_message(1)[OF assms] e(1,3) unfolding os by (auto simp: list_all_iff)
    then show ?thesis using due_message(3)[OF assms] False by linarith
  qed
qed


end
