(* ===== verification/Members.thy ===== *)
theory Members
  imports SignIn
begin

text \<open>
  The handlers that change who may do what: \<^verbatim>\<open>internal/api/role_handlers.go\<close> and
  \<^verbatim>\<open>internal/api/user_handlers.go\<close>, over the role store of \<open>Roles\<close>, the accounts of \<open>Accounts\<close> and the
  capability cache of \<open>Caps\<close>. The console is those accounts with the cache the server reads its
  capabilities from.

  A request body is what \<^verbatim>\<open>httpx.Decode\<close> makes of it, an error text or the request. The address parser
  of \<^verbatim>\<open>net/mail\<close> and the password hash are arguments. The creation and sign-in times of a user and the
  names of the hosts are not in the views, as the tables of \<open>Accounts\<close> do not hold them.
\<close>

section \<open>State, requests and answers\<close>

record console =
  cn_acc :: accounts
  cn_caps :: mask_cache

abbreviation cn_db :: "console \<Rightarrow> db" where
  "cn_db c \<equiv> ac_db (cn_acc c)"

text \<open>A refusal has a status and a code; the texts are left out. \<open>Internal\<close> is what \<^verbatim>\<open>httpx.Error\<close> answers, which
  says nothing about the error.\<close>

datatype 'v reply = Refused nat string | Internal | Answered nat 'v

definition BadRequest :: "'v reply" where
  "BadRequest = Refused 400 ''bad_request''"

definition answered :: "'v reply \<Rightarrow> bool" where
  "answered r = (case r of Answered n v \<Rightarrow> True | _ \<Rightarrow> False)"

record role_request =
  rq_name :: string
  rq_description :: string
  rq_cap_names :: "string list"

record grant_request =
  gq_role_id :: ident
  gq_env_id :: ident

record create_user_request =
  cu_kind :: string
  cu_username :: string
  cu_email :: string
  cu_password :: string
  cu_grants :: "grant_request list"

record update_user_request =
  uu_email :: "string option"
  uu_disabled :: "bool option"

record role_view =
  rv_id :: ident
  rv_name :: string
  rv_description :: string
  rv_caps :: cap_set
  rv_cap_names :: "string list"
  rv_is_admin :: bool
  rv_builtin :: bool
  rv_members :: nat
  rv_scopable :: bool
  rv_global_only :: "string list"

record membership_view =
  mv_role_id :: ident
  mv_name :: string
  mv_is_admin :: bool
  mv_source :: string
  mv_env_id :: ident

record user_view =
  uv_id :: ident
  uv_label :: string
  uv_username :: string
  uv_email :: string
  uv_kind :: string
  uv_disabled :: bool
  uv_roles :: "membership_view list"

text \<open>A write that is followed by an invalidation, and one that is not.\<close>

definition saved :: "console \<Rightarrow> accounts \<Rightarrow> console" where
  "saved c s = c\<lparr>cn_acc := s\<rparr>"

definition saved_invalidate :: "console \<Rightarrow> accounts \<Rightarrow> console" where
  "saved_invalidate c s = c\<lparr>cn_acc := s, cn_caps := cache_Invalidate (cn_caps c)\<rparr>"

section \<open>Roles\<close>

definition viewRole :: "role \<Rightarrow> nat \<Rightarrow> role_view" where
  "viewRole r members =
     (let eff = Effective r; globalOnly = GlobalOnly eff in
      \<lparr>rv_id = ro_id r, rv_name = ro_name r, rv_description = ro_description r, rv_caps = eff, rv_cap_names = Names eff,
       rv_is_admin = ro_is_admin r, rv_builtin = ro_builtin r, rv_members = members,
       rv_scopable = set_IsZero globalOnly, rv_global_only = Names globalOnly\<rparr>)"

definition handleListRoles :: "console \<Rightarrow> role_view list" where
  "handleListRoles c = map (\<lambda>(r, n). viewRole r n) (ListRoles (cn_db c))"

definition capSet :: "role_request \<Rightarrow> string + cap_set" where
  "capSet rq = SetFromNames (rq_cap_names rq)"

definition auditRole :: "accounts \<Rightarrow> string \<Rightarrow> role \<Rightarrow> accounts" where
  "auditRole s action r = audited s action (ro_name r) ''ok''"

definition handleCreateRole :: "console \<Rightarrow> string + role_request \<Rightarrow> ident \<Rightarrow> timestamp \<Rightarrow> role_view reply \<times> console" where
  "handleCreateRole c body new_id now =
     (case body of
        Inl e \<Rightarrow> (BadRequest, c)
      | Inr req \<Rightarrow>
          (let name = trim_space (rq_name req) in
           if name = [] then (BadRequest, c)
           else (case capSet req of
                   Inl e \<Rightarrow> (BadRequest, c)
                 | Inr t \<Rightarrow>
                     (let r = \<lparr>ro_id = [], ro_name = name, ro_description = rq_description req, ro_is_admin = False,
                               ro_builtin = False, ro_created_at = 0, ro_caps = t\<rparr> in
                      (case CreateRole (cn_db c) r new_id now of
                         Inl e \<Rightarrow> (if e = ErrConstraint then Refused 409 ''duplicate_name''
                                  else Internal, c)
                       | Inr d \<Rightarrow>
                           (let r = r\<lparr>ro_id := new_id, ro_created_at := now\<rparr> in
                            (Answered 201 (viewRole r 0),
                             saved_invalidate c (auditRole ((cn_acc c)\<lparr>ac_db := d\<rparr>) ''role.create'' r))))))))"

definition handleUpdateRole :: "console \<Rightarrow> ident \<Rightarrow> string + role_request \<Rightarrow> role_view reply \<times> console" where
  "handleUpdateRole c rid body =
     (case RoleByID (cn_db c) rid of
        Inl e \<Rightarrow> (if e = ErrNotFound then Refused 404 ''not_found'' else Internal, c)
      | Inr r \<Rightarrow>
          (case body of
             Inl e \<Rightarrow> (BadRequest, c)
           | Inr req \<Rightarrow>
               if ro_is_admin r then (Refused 409 ''admin_role'', c)
               else (case capSet req of
                       Inl e \<Rightarrow> (BadRequest, c)
                     | Inr t \<Rightarrow>
                         (let r = r\<lparr>ro_name := trim_space (rq_name req), ro_description := rq_description req, ro_caps := t\<rparr> in
                          if ro_name r = [] then (BadRequest, c)
                          else (case UpdateRole (cn_db c) r of
                                  Inl e \<Rightarrow> (if e = ErrConstraint then Refused 409 ''duplicate_name''
                                           else Internal, c)
                                | Inr d \<Rightarrow>
                                    (Answered 200 (viewRole r 0),
                                     saved_invalidate c (auditRole ((cn_acc c)\<lparr>ac_db := d\<rparr>) ''role.update'' r)))))))"

definition handleDeleteRole :: "console \<Rightarrow> ident \<Rightarrow> unit reply \<times> console" where
  "handleDeleteRole c rid =
     (case RoleByID (cn_db c) rid of
        Inl e \<Rightarrow> (if e = ErrNotFound then Refused 404 ''not_found'' else Internal, c)
      | Inr r \<Rightarrow>
          (case DeleteRole (cn_db c) rid of
             Inl e \<Rightarrow>
               (if e = ErrBuiltinRole then Refused 409 ''builtin_role''
                else if e = ErrLastAdmin then Refused 409 ''last_admin''
                else Internal, c)
           | Inr d \<Rightarrow> (Answered 200 (), saved_invalidate c (auditRole ((cn_acc c)\<lparr>ac_db := d\<rparr>) ''role.delete'' r))))"

section \<open>Users\<close>

definition MinPasswordLength :: nat where
  "MinPasswordLength = 12"

definition profile_of :: "accounts \<Rightarrow> ident \<Rightarrow> profile option" where
  "profile_of s uid = find (\<lambda>f. pf_id f = uid) (ac_profiles s)"

definition membershipView :: "role_row \<times> member_row \<Rightarrow> membership_view" where
  "membershipView = (\<lambda>(r, m). \<lparr>mv_role_id = rm_role_id m, mv_name = ro_name r, mv_is_admin = ro_is_admin r,
     mv_source = rm_source m, mv_env_id = sc_id (rm_scope m)\<rparr>)"

definition viewUser :: "accounts \<Rightarrow> user \<Rightarrow> user_view" where
  "viewUser s u =
     (let f = profile_of s (u_id u) in
      \<lparr>uv_id = u_id u, uv_label = Label (u_id u) f, uv_username = (case f of None \<Rightarrow> [] | Some f \<Rightarrow> pf_username f),
       uv_email = (case f of None \<Rightarrow> [] | Some f \<Rightarrow> pf_email f), uv_kind = u_kind u, uv_disabled = u_disabled u,
       uv_roles = map membershipView (UserRoles (ac_db s) (u_id u))\<rparr>)"

text \<open>The users in the order they were created in.\<close>

definition handleListUsers :: "console \<Rightarrow> user_view list" where
  "handleListUsers c = map (viewUser (cn_acc c)) (users (cn_db c))"

definition auditUser :: "accounts \<Rightarrow> string \<Rightarrow> string \<Rightarrow> accounts" where
  "auditUser s action label = audited s action label ''ok''"

definition user_label :: "accounts \<Rightarrow> user \<Rightarrow> string" where
  "user_label s u = Label (u_id u) (profile_of s (u_id u))"

text \<open>\<open>parse\<close> is \<^verbatim>\<open>mail.ParseAddress\<close>: the display name and the address, or nothing.\<close>

definition normalizeEmail :: "(string \<Rightarrow> (string \<times> string) option) \<Rightarrow> string \<Rightarrow> string option" where
  "normalizeEmail parse email =
     (let email = trim_space email in
      if email = [] then Some []
      else (case parse email of
              None \<Rightarrow> None
            | Some (name, address) \<Rightarrow> if name \<noteq> [] then None else Some address))"

definition grant_scope :: "grant_request \<Rightarrow> scope_t" where
  "grant_scope g = (if gq_env_id g \<noteq> [] then OnEnv (gq_env_id g) else scope_Global)"

definition grant_key :: "grant_request \<Rightarrow> ident \<times> scope_t" where
  "grant_key g = (gq_role_id g, grant_scope g)"

text \<open>A loop over the store that stops at the first error, and what it has done by then.\<close>

fun run_until :: "('s \<Rightarrow> 'x \<Rightarrow> 'e + 's) \<Rightarrow> 's \<Rightarrow> 'x list \<Rightarrow> 'e option \<times> 's" where
  "run_until f s [] = (None, s)"
| "run_until f s (x # xs) = (case f s x of Inl e \<Rightarrow> (Some e, s) | Inr s' \<Rightarrow> run_until f s' xs)"

definition grant_one :: "ident \<Rightarrow> db \<Rightarrow> ident \<times> scope_t \<Rightarrow> store_error + db" where
  "grant_one uid s g = GrantRole s uid (fst g) ''local'' (snd g)"

definition revoke_one :: "ident \<Rightarrow> db \<Rightarrow> ident \<times> scope_t \<Rightarrow> store_error + db" where
  "revoke_one uid s g = RevokeRole s uid (fst g) (snd g)"

definition grant_refusal :: "store_error \<Rightarrow> 'v reply" where
  "grant_refusal e = (case e of ErrCannotScope r ns \<Rightarrow> Refused 409 ''cannot_scope'' | _ \<Rightarrow> Internal)"

definition handleCreateUser ::
  "(string \<Rightarrow> (string \<times> string) option) \<Rightarrow> (string \<Rightarrow> string option) \<Rightarrow> console \<Rightarrow> string + create_user_request \<Rightarrow> ident \<Rightarrow>
     user_view reply \<times> console" where
  "handleCreateUser parse hashpw c body new_id =
     (case body of
        Inl e \<Rightarrow> (BadRequest, c)
      | Inr req \<Rightarrow>
          (let username = trim_space (cu_username req); bot = (cu_kind req = ''bot'') in
           if cu_kind req \<noteq> [] \<and> cu_kind req \<noteq> ''local'' \<and> \<not> bot then (BadRequest, c)
           else if username = [] then (BadRequest, c)
           else if bot \<and> cu_password req \<noteq> [] then (BadRequest, c)
           else if \<not> bot \<and> length (cu_password req) < MinPasswordLength
           then (BadRequest, c)
           else if cu_grants req = [] then (BadRequest, c)
           else (case normalizeEmail parse (cu_email req) of
                   None \<Rightarrow> (BadRequest, c)
                 | Some email \<Rightarrow>
                     (case (if bot then Some [] else hashpw (cu_password req)) of
                        None \<Rightarrow> (Internal, c)
                      | Some h \<Rightarrow>
                          (let f = \<lparr>pf_id = new_id, pf_username = username, pf_password_hash = h, pf_sub = [],
                                    pf_oidc_provider = [], pf_email = email\<rparr>;
                               kind = (if bot then ''bot'' else ''local'') in
                           (case CreateUser (cn_acc c) kind f of
                              Inl e \<Rightarrow> (if e = ErrConstraint then Refused 409 ''duplicate_username''
                                       else Internal, c)
                            | Inr s \<Rightarrow>
                                (case run_until (grant_one new_id) (ac_db s) (map grant_key (cu_grants req)) of
                                   (Some e, d) \<Rightarrow> (grant_refusal e, saved c (s\<lparr>ac_db := d\<rparr>))
                                 | (None, d) \<Rightarrow>
                                     (let u = \<lparr>u_id = new_id, u_kind = kind, u_disabled = False\<rparr>;
                                          s = auditUser (s\<lparr>ac_db := d\<rparr>) ''user.create'' username in
                                      (Answered 201 (viewUser s u), saved_invalidate c s)))))))))"

definition userOr404 :: "console \<Rightarrow> ident \<Rightarrow> 'v reply + user" where
  "userOr404 c uid =
     (case UserByID (cn_acc c) uid of
        None \<Rightarrow> Inl (Refused 404 ''not_found'')
      | Some u \<Rightarrow> Inr u)"

text \<open>The email first, then the flag: a refusal of the second leaves the first written.\<close>

definition update_email ::
  "(string \<Rightarrow> (string \<times> string) option) \<Rightarrow> accounts \<Rightarrow> user \<Rightarrow> string option \<Rightarrow> user_view reply + accounts" where
  "update_email parse s u e =
     (case e of
        None \<Rightarrow> Inr s
      | Some e \<Rightarrow>
          if u_kind u = ''oidc'' then Inl (Refused 409 ''provider_email'')
          else (case normalizeEmail parse e of
                  None \<Rightarrow> Inl BadRequest
                | Some email \<Rightarrow>
                    if email \<noteq> (case profile_of s (u_id u) of None \<Rightarrow> [] | Some f \<Rightarrow> pf_email f)
                    then Inr (auditUser (SetUserEmail s (u_id u) email) ''user.email'' (user_label s u))
                    else Inr s))"

definition handleUpdateUser ::
  "(string \<Rightarrow> (string \<times> string) option) \<Rightarrow> console \<Rightarrow> ident \<Rightarrow> string + update_user_request \<Rightarrow> user_view reply \<times> console" where
  "handleUpdateUser parse c uid body =
     (case userOr404 c uid of
        Inl r \<Rightarrow> (r, c)
      | Inr u \<Rightarrow>
          (case body of
             Inl e \<Rightarrow> (BadRequest, c)
           | Inr req \<Rightarrow>
               (case update_email parse (cn_acc c) u (uu_email req) of
                  Inl r \<Rightarrow> (r, c)
                | Inr s \<Rightarrow>
                    (case (case uu_disabled req of
                             None \<Rightarrow> Inr s
                           | Some b \<Rightarrow>
                               (case SetUserDisabledGuarded (ac_db s) (u_id u) b of
                                  Inl e \<Rightarrow> Inl e
                                | Inr d \<Rightarrow> Inr (auditUser (s\<lparr>ac_db := d\<rparr>) (if b then ''user.disable'' else ''user.enable'')
                                                 (user_label (cn_acc c) u)))) of
                       Inl e \<Rightarrow> (if e = ErrLastAdmin then Refused 409 ''last_admin''
                                else Internal, saved c s)
                     | Inr s \<Rightarrow>
                         (case UserByID s (u_id u) of
                            None \<Rightarrow> (Internal, saved c s)
                          | Some u \<Rightarrow> (Answered 200 (viewUser s u), saved c s))))))"

text \<open>The tables that reference a user cascade: with the row go the profile, the sessions and the tokens.\<close>

definition erase_user :: "accounts \<Rightarrow> ident \<Rightarrow> accounts" where
  "erase_user s uid =
     s\<lparr>ac_profiles := delete_where (\<lambda>f. pf_id f = uid) (ac_profiles s),
       ac_sessions := delete_where (\<lambda>q. se_user_id q = uid) (ac_sessions s),
       ac_tokens := delete_where (\<lambda>t. tk_user_id t = uid) (ac_tokens s)\<rparr>"

definition handleDeleteUser :: "console \<Rightarrow> ident \<Rightarrow> unit reply \<times> console" where
  "handleDeleteUser c uid =
     (case userOr404 c uid of
        Inl r \<Rightarrow> (r, c)
      | Inr u \<Rightarrow>
          (case DeleteUserGuarded (cn_db c) (u_id u) of
             Inl e \<Rightarrow> (if e = ErrLastAdmin then Refused 409 ''last_admin''
                      else Internal, c)
           | Inr d \<Rightarrow>
               (Answered 200 (), saved_invalidate c (auditUser (erase_user ((cn_acc c)\<lparr>ac_db := d\<rparr>) (u_id u)) ''user.delete''
                                                  (user_label (cn_acc c) u)))))"

definition SetUserPassword :: "accounts \<Rightarrow> ident \<Rightarrow> string \<Rightarrow> accounts" where
  "SetUserPassword s uid h =
     s\<lparr>ac_profiles := update_where (\<lambda>f. pf_id f = uid) (\<lambda>f. f\<lparr>pf_password_hash := h\<rparr>) (ac_profiles s)\<rparr>"

definition handleSetUserPassword ::
  "(string \<Rightarrow> string option) \<Rightarrow> console \<Rightarrow> caller \<Rightarrow> ident \<Rightarrow> string + string \<Rightarrow> unit reply \<times> console" where
  "handleSetUserPassword hashpw c who uid body =
     (if ca_token who \<noteq> None then (Refused 403 ''token_cannot'', c)
      else (case userOr404 c uid of
              Inl r \<Rightarrow> (r, c)
            | Inr u \<Rightarrow>
                if u_kind u \<noteq> ''local'' then (Refused 409 ''not_local'', c)
                else (case body of
                        Inl e \<Rightarrow> (BadRequest, c)
                      | Inr pw \<Rightarrow>
                          if length pw < MinPasswordLength then (BadRequest, c)
                          else (case hashpw pw of
                                  None \<Rightarrow> (Internal, c)
                                | Some h \<Rightarrow>
                                    (Answered 200 (), saved c (auditUser (SetUserPassword (cn_acc c) (u_id u) h) ''user.password_reset''
                                                            (user_label (cn_acc c) u)))))))"

text \<open>The local grants a request no longer names.\<close>

definition unwanted :: "(ident \<times> scope_t) set \<Rightarrow> (role_row \<times> member_row) list \<Rightarrow> (ident \<times> scope_t) list" where
  "unwanted want current =
     map (\<lambda>(r, m). (rm_role_id m, rm_scope m))
       (filter (\<lambda>(r, m). rm_source m = ''local'' \<and> (rm_role_id m, rm_scope m) \<notin> want) current)"

definition handleSetUserRoles :: "console \<Rightarrow> ident \<Rightarrow> string + grant_request list \<Rightarrow> user_view reply \<times> console" where
  "handleSetUserRoles c uid body =
     (case userOr404 c uid of
        Inl r \<Rightarrow> (r, c)
      | Inr u \<Rightarrow>
          (case body of
             Inl e \<Rightarrow> (BadRequest, c)
           | Inr req \<Rightarrow>
               (let s = cn_acc c; grants = map grant_key req;
                    current = UserRoles (ac_db s) (u_id u) in
                (case run_until (revoke_one (u_id u)) (ac_db s) (unwanted (set grants) current) of
                   (Some e, d) \<Rightarrow>
                     (if e = ErrLastAdmin then Refused 409 ''last_admin''
                      else Internal, saved c (s\<lparr>ac_db := d\<rparr>))
                 | (None, d) \<Rightarrow>
                     (case run_until (grant_one (u_id u)) d grants of
                        (Some e, d) \<Rightarrow> (grant_refusal e, saved c (s\<lparr>ac_db := d\<rparr>))
                      | (None, d) \<Rightarrow>
                          (let s' = auditUser (s\<lparr>ac_db := d\<rparr>) ''user.roles'' (user_label s u) in
                           (Answered 200 (viewUser s' u), saved_invalidate c s')))))))"

end
