(* ===== verification/Powers.thy ===== *)
theory Powers
  imports Members
begin

text \<open>
  What the handlers of \<open>Members\<close> promise: an administrator is always left, the grants of a user become
  exactly what was asked for, and the capability cache stays what the store would answer. The loops over
  the store are proved once, for any operation that keeps an invariant, in \<open>failing_step\<close>.
\<close>

section \<open>Loops that stop at the first error\<close>

locale failing_step =
  fixes step :: "'s \<Rightarrow> 'x \<Rightarrow> 'e + 's"
    and inv :: "'s \<Rightarrow> bool"
  assumes keeps: "inv s \<Longrightarrow> step s x = Inr s' \<Longrightarrow> inv s'"
begin

lemma run_keeps: "inv s \<Longrightarrow> run_until step s xs = (r, s') \<Longrightarrow> inv s'"
  by (induction xs arbitrary: s) (auto split: sum.splits dest: keeps)

lemma run_keeps_snd: "inv s \<Longrightarrow> inv (snd (run_until step s xs))"
  by (cases "run_until step s xs") (simp add: run_keeps)

end

interpretation grants: failing_step "grant_one uid" roles_inv for uid
  by unfold_locales (auto simp: grant_one_def dest: GrantRole_inv)

interpretation revokes: failing_step "revoke_one uid" roles_inv for uid
  by unfold_locales (auto simp: revoke_one_def dest: RevokeRole_inv)

text \<open>The same loops leave the roles, their capabilities and the grants of everybody else alone.\<close>

definition same_but :: "ident \<Rightarrow> db \<Rightarrow> db \<Rightarrow> bool" where
  "same_but uid s s' \<longleftrightarrow> roles s' = roles s \<and> role_caps s' = role_caps s \<and> users s' = users s \<and>
     filter (\<lambda>m. rm_user_id m \<noteq> uid) (role_members s') = filter (\<lambda>m. rm_user_id m \<noteq> uid) (role_members s)"

lemma filter_update_where:
  assumes "\<And>x. P x \<Longrightarrow> \<not> Q x" "\<And>x. P x \<Longrightarrow> \<not> Q (f x)"
  shows "filter Q (update_where P f xs) = filter Q xs"
  using assms by (induction xs) (auto simp: update_where_def)

lemma filter_delete_where:
  assumes "\<And>x. P x \<Longrightarrow> \<not> Q x"
  shows "filter Q (delete_where P xs) = filter Q xs"
  using assms by (induction xs) (auto simp: delete_where_def)

lemma grant_same_but: "grant_one uid s g = Inr s' \<Longrightarrow> same_but uid s s'"
  by (auto simp: grant_one_def GrantRole_def same_but_def same_grant_def intro!: filter_update_where
      split: sum.split_asm if_split_asm)

lemma revoke_same_but: "revoke_one uid s g = Inr s' \<Longrightarrow> same_but uid s s'"
  by (auto simp: revoke_one_def RevokeRole_def revoke_apply_def same_but_def same_grant_def intro!: filter_delete_where
      split: sum.split_asm)

interpretation grant_frame: failing_step "grant_one uid" "same_but uid s" for uid s
  by unfold_locales (auto dest!: grant_same_but simp: same_but_def)

interpretation revoke_frame: failing_step "revoke_one uid" "same_but uid s" for uid s
  by unfold_locales (auto dest!: revoke_same_but simp: same_but_def)

lemma same_but_refl [simp]: "same_but uid s s"
  by (simp add: same_but_def)

section \<open>What the loops leave\<close>

definition grant_row :: "ident \<Rightarrow> ident \<times> scope_t \<Rightarrow> member_row" where
  "grant_row uid g = \<lparr>rm_user_id = uid, rm_role_id = fst g, rm_source = ''local'', rm_scope = snd g\<rparr>"

definition row_key :: "member_row \<Rightarrow> ident \<times> scope_t" where
  "row_key m = (rm_role_id m, rm_scope m)"

lemma same_grant_key: "same_grant uid (fst g) (snd g) m \<longleftrightarrow> rm_user_id m = uid \<and> row_key m = g"
  by (auto simp: same_grant_def row_key_def)

lemma grant_row_simps [simp]:
  "rm_user_id (grant_row uid g) = uid" "row_key (grant_row uid g) = g" "rm_source (grant_row uid g) = ''local''"
  by (simp_all add: grant_row_def row_key_def)

lemma regrant_row: "rm_user_id m = uid \<Longrightarrow> row_key m = g \<Longrightarrow> m\<lparr>rm_source := ''local''\<rparr> = grant_row uid g"
  by (cases m) (auto simp: grant_row_def row_key_def)

lemma grant_one_set:
  assumes "grant_one uid s g = Inr s'"
  shows "set (role_members s') = {m \<in> set (role_members s). \<not> (rm_user_id m = uid \<and> row_key m = g)} \<union> {grant_row uid g}"
proof (cases "list_ex (same_grant uid (fst g) (snd g)) (role_members s)")
  case True
  with assms have s': "role_members s' = update_where (same_grant uid (fst g) (snd g)) (\<lambda>m. m\<lparr>rm_source := ''local''\<rparr>) (role_members s)"
    by (auto simp: grant_one_def GrantRole_def split: sum.split_asm if_split_asm)
  show ?thesis unfolding s' using True
    by (auto simp: update_where_def same_grant_key list_ex_iff regrant_row image_iff)
next
  case False
  with assms have s': "role_members s' = role_members s @ [grant_row uid g]"
    by (auto simp: grant_one_def GrantRole_def grant_row_def split: sum.split_asm if_split_asm)
  show ?thesis unfolding s' using False by (auto simp: same_grant_key list_ex_iff)
qed

lemma grant_loop_set:
  "run_until (grant_one uid) s gs = (None, s') \<Longrightarrow>
   set (role_members s') = {m \<in> set (role_members s). \<not> (rm_user_id m = uid \<and> row_key m \<in> set gs)} \<union> grant_row uid ` set gs"
proof (induction gs arbitrary: s)
  case (Cons g gs)
  then obtain s1 where "grant_one uid s g = Inr s1" "run_until (grant_one uid) s1 gs = (None, s')"
    by (auto split: sum.split_asm)
  with Cons.IH[of s1] show ?case by (auto simp: grant_one_set)
qed simp

lemma revoke_loop_set:
  "run_until (revoke_one uid) s gs = (None, s') \<Longrightarrow>
   set (role_members s') = {m \<in> set (role_members s). \<not> (rm_user_id m = uid \<and> row_key m \<in> set gs)}"
proof (induction gs arbitrary: s)
  case (Cons g gs)
  then obtain s1 where "revoke_one uid s g = Inr s1" "run_until (revoke_one uid) s1 gs = (None, s')"
    by (auto split: sum.split_asm)
  moreover from this(1) have "role_members s1 = delete_where (same_grant uid (fst g) (snd g)) (role_members s)"
    by (auto simp: revoke_one_def RevokeRole_def revoke_apply_def split: sum.split_asm)
  ultimately show ?case using Cons.IH[of s1] by (auto simp: delete_where_def same_grant_key)
qed simp

lemma in_UserRoles:
  "x \<in> set (UserRoles s uid) \<longleftrightarrow>
     snd x \<in> set (role_members s) \<and> rm_user_id (snd x) = uid \<and> fst x \<in> set (roles s) \<and> ro_id (fst x) = rm_role_id (snd x)"
  by (cases x) (auto simp: UserRoles_def)

lemma set_unwanted:
  assumes "members_ok s"
  shows "set (unwanted want (UserRoles s uid)) =
    row_key ` {m \<in> set (role_members s). rm_user_id m = uid \<and> rm_source m = ''local'' \<and> row_key m \<notin> want}" (is "?L = ?R")
proof
  show "?L \<subseteq> ?R" by (force simp: unwanted_def in_UserRoles row_key_def)
  show "?R \<subseteq> ?L"
  proof
    fix k assume "k \<in> ?R"
    then obtain m where m: "m \<in> set (role_members s)" "rm_user_id m = uid" "rm_source m = ''local''" "row_key m \<notin> want" "k = row_key m"
      by blast
    from m(1) assms obtain r where "r \<in> set (roles s)" "ro_id r = rm_role_id m"
      unfolding members_ok_def list_all_iff by fastforce
    with m have "(r, m) \<in> set (UserRoles s uid)" by (simp add: in_UserRoles)
    with m show "k \<in> ?L" by (force simp: unwanted_def row_key_def)
  qed
qed

text \<open>The primary key of the membership table.\<close>

definition members_key :: "db \<Rightarrow> bool" where
  "members_key s \<longleftrightarrow> distinct (map (\<lambda>m. (rm_user_id m, row_key m)) (role_members s))"

lemma members_keyD:
  "members_key s \<Longrightarrow> m \<in> set (role_members s) \<Longrightarrow> m' \<in> set (role_members s) \<Longrightarrow>
   rm_user_id m = rm_user_id m' \<Longrightarrow> row_key m = row_key m' \<Longrightarrow> m = m'"
  by (auto simp: members_key_def distinct_map inj_on_def)

section \<open>The requests as one machine\<close>

datatype member_req =
    ReadCaps ident
  | PostRole "string + role_request" ident timestamp
  | PutRole ident "string + role_request"
  | DropRole ident
  | PostUser "string + create_user_request" ident
  | PatchUser ident "string + update_user_request"
  | DropUser ident
  | PutPassword caller ident "string + string"
  | PutRoles ident "string + grant_request list"

text \<open>Whether a request was answered, and the console after it. The capabilities of a user are read once
  the user has been found, as every request does.\<close>

fun member_serve ::
  "(string \<Rightarrow> (string \<times> string) option) \<Rightarrow> (string \<Rightarrow> string option) \<Rightarrow> console \<Rightarrow> member_req \<Rightarrow> bool \<times> console" where
  "member_serve parse hashpw c (ReadCaps u) =
     (case UserByID (cn_acc c) u of
        None \<Rightarrow> (False, c)
      | Some _ \<Rightarrow> (True, c\<lparr>cn_caps := fst (cache_Of EffectiveMask (cn_db c) (cn_caps c) u)\<rparr>))"
| "member_serve parse hashpw c (PostRole b i t) = map_prod answered id (handleCreateRole c b i t)"
| "member_serve parse hashpw c (PutRole i b) = map_prod answered id (handleUpdateRole c i b)"
| "member_serve parse hashpw c (DropRole i) = map_prod answered id (handleDeleteRole c i)"
| "member_serve parse hashpw c (PostUser b i) = map_prod answered id (handleCreateUser parse hashpw c b i)"
| "member_serve parse hashpw c (PatchUser i b) = map_prod answered id (handleUpdateUser parse c i b)"
| "member_serve parse hashpw c (DropUser i) = map_prod answered id (handleDeleteUser c i)"
| "member_serve parse hashpw c (PutPassword w i b) = map_prod answered id (handleSetUserPassword hashpw c w i b)"
| "member_serve parse hashpw c (PutRoles i b) = map_prod answered id (handleSetUserRoles c i b)"

definition member_step ::
  "(string \<Rightarrow> (string \<times> string) option) \<Rightarrow> (string \<Rightarrow> string option) \<Rightarrow> console \<Rightarrow> member_req \<Rightarrow> console" where
  "member_step parse hashpw c r = snd (member_serve parse hashpw c r)"

definition member_inv :: "db \<Rightarrow> bool" where
  "member_inv s \<longleftrightarrow> roles_inv s \<and> members_key s"

lemmas member_handlers = handleCreateRole_def handleUpdateRole_def handleDeleteRole_def handleCreateUser_def
  handleUpdateUser_def handleDeleteUser_def handleSetUserPassword_def handleSetUserRoles_def

lemma account_writes [simp]:
  "ac_db (audited s a t r) = ac_db s" "ac_db (auditUser s a t) = ac_db s" "ac_db (auditRole s a q) = ac_db s"
  "ac_db (SetUserEmail s u e) = ac_db s" "ac_db (SetUserPassword s u h) = ac_db s" "ac_db (erase_user s u) = ac_db s"
  by (simp_all add: audited_def auditUser_def auditRole_def SetUserEmail_def SetUserPassword_def erase_user_def)

lemma saved_simps [simp]:
  "cn_acc (saved c s) = s" "cn_caps (saved c s) = cn_caps c"
  "cn_acc (saved_invalidate c s) = s" "cn_caps (saved_invalidate c s) = []"
  by (simp_all add: saved_def saved_invalidate_def cache_Invalidate_def)

lemma update_email_db: "update_email parse s u e = Inr s' \<Longrightarrow> ac_db s' = ac_db s"
  by (auto simp: update_email_def split: option.split_asm if_split_asm)

subsection \<open>An administrator is left\<close>

lemma members_key_subset: "members_key s \<Longrightarrow> role_members s' = filter P (role_members s) \<Longrightarrow> members_key s'"
  by (simp add: members_key_def distinct_map_filter)

lemma members_key_same: "role_members s' = role_members s \<Longrightarrow> members_key s' = members_key s"
  by (simp add: members_key_def)

lemma grant_key_kept:
  assumes "members_key s" "grant_one uid s g = Inr s'"
  shows "members_key s'"
proof (cases "list_ex (same_grant uid (fst g) (snd g)) (role_members s)")
  case True
  with assms(2) have "role_members s' = update_where (same_grant uid (fst g) (snd g)) (\<lambda>m. m\<lparr>rm_source := ''local''\<rparr>) (role_members s)"
    by (auto simp: grant_one_def GrantRole_def split: sum.split_asm if_split_asm)
  then have "map (\<lambda>m. (rm_user_id m, row_key m)) (role_members s') = map (\<lambda>m. (rm_user_id m, row_key m)) (role_members s)"
    by (simp add: update_where_def row_key_def)
  with assms(1) show ?thesis by (simp add: members_key_def)
next
  case False
  with assms(2) have "role_members s' = role_members s @ [grant_row uid g]"
    by (auto simp: grant_one_def GrantRole_def grant_row_def split: sum.split_asm if_split_asm)
  with False assms(1) show ?thesis by (auto simp: members_key_def same_grant_key list_ex_iff)
qed

lemma revoke_key_kept: "members_key s \<Longrightarrow> revoke_one uid s g = Inr s' \<Longrightarrow> members_key s'"
  by (auto simp: revoke_one_def RevokeRole_def revoke_apply_def delete_where_def split: sum.split_asm intro: members_key_subset)

interpretation keyed_grants: failing_step "grant_one uid" member_inv for uid
  by unfold_locales (auto simp: member_inv_def grant_key_kept dest: grants.keeps)

interpretation keyed_revokes: failing_step "revoke_one uid" member_inv for uid
  by unfold_locales (auto simp: member_inv_def revoke_key_kept dest: revokes.keeps)

lemma role_write_key:
  assumes k: "members_key s"
  shows "CreateRole s r i t = Inr s' \<Longrightarrow> members_key s'"
    "UpdateRole s r = Inr s' \<Longrightarrow> members_key s'"
    "DeleteRole s rid = Inr s' \<Longrightarrow> members_key s'"
    "SetUserDisabledGuarded s uid b = Inr s' \<Longrightarrow> members_key s'"
    "DeleteUserGuarded s uid = Inr s' \<Longrightarrow> members_key s'"
proof -
  have sub: "members_key (s\<lparr>role_members := filter P (role_members s)\<rparr>)" for P
    by (rule members_key_subset[OF k]) simp
  show "CreateRole s r i t = Inr s' \<Longrightarrow> members_key s'"
    using k by (auto simp: CreateRole_def Let_def members_key_def split: if_split_asm)
  show "UpdateRole s r = Inr s' \<Longrightarrow> members_key s'"
    using k by (auto simp: UpdateRole_def members_key_def split: if_split_asm)
  show "DeleteRole s rid = Inr s' \<Longrightarrow> members_key s'"
    using sub by (auto simp: DeleteRole_def delete_role_row_def delete_where_def members_key_def split: sum.split_asm if_split_asm)
  show "SetUserDisabledGuarded s uid b = Inr s' \<Longrightarrow> members_key s'"
    using k by (auto simp: SetUserDisabledGuarded_def SetUserDisabled_def members_key_def split: sum.split_asm if_split_asm)
  show "DeleteUserGuarded s uid = Inr s' \<Longrightarrow> members_key s'"
    using sub by (auto simp: DeleteUserGuarded_def DeleteUser_def delete_where_def members_key_def split: sum.split_asm)
qed

lemma role_write_inv:
  "member_inv s \<Longrightarrow> CreateRole s r i t = Inr s' \<Longrightarrow> member_inv s'"
  "member_inv s \<Longrightarrow> UpdateRole s r = Inr s' \<Longrightarrow> member_inv s'"
  "member_inv s \<Longrightarrow> DeleteRole s rid = Inr s' \<Longrightarrow> member_inv s'"
  "member_inv s \<Longrightarrow> SetUserDisabledGuarded s uid b = Inr s' \<Longrightarrow> member_inv s'"
  "member_inv s \<Longrightarrow> DeleteUserGuarded s uid = Inr s' \<Longrightarrow> member_inv s'"
  by (auto simp: member_inv_def dest: CreateRole_inv UpdateRole_inv DeleteRole_inv SetUserDisabledGuarded_inv
      DeleteUserGuarded_inv role_write_key)

lemma create_user_inv:
  assumes "member_inv (ac_db s)" "CreateUser s kind f = Inr s'"
  shows "member_inv (ac_db s')"
proof -
  have s': "ac_db s' = (ac_db s)\<lparr>users := users (ac_db s) @ [\<lparr>u_id = pf_id f, u_kind = kind, u_disabled = False\<rparr>]\<rparr>"
    using assms(2) by (auto simp: CreateUser_def split: if_split_asm)
  show ?thesis
    using assms(1) unfolding s'
    by (auto simp: member_inv_def roles_inv_def members_ok_def members_key_def has_admin_def admin_role_ids_def)
qed

lemma userOr404_found: "userOr404 c uid = Inr u \<Longrightarrow> u_id u = uid \<and> u \<in> set (users (cn_db c))"
proof -
  assume "userOr404 c uid = Inr u"
  then obtain us where "filter (\<lambda>u. u_id u = uid) (users (cn_db c)) = u # us"
    by (auto simp: userOr404_def UserByID_def split: option.split_asm list.split_asm)
  then have "u \<in> set (filter (\<lambda>u. u_id u = uid) (users (cn_db c)))" by simp
  then show ?thesis by simp
qed

lemma userOr404_refuses [simp]: "userOr404 c uid \<noteq> Inl (Answered n v)"
  by (auto simp: userOr404_def split: option.split)

lemma userOr404_not_scope: "userOr404 c uid \<noteq> Inl (Refused n ''cannot_scope'')"
  by (auto simp: userOr404_def split: option.split)

lemma create_user_handler_inv:
  "member_inv (cn_db c) \<Longrightarrow> member_inv (cn_db (snd (handleCreateUser parse hashpw c b i)))"
  by (auto simp: handleCreateUser_def Let_def split: sum.split option.split prod.split
      dest: create_user_inv keyed_grants.run_keeps)

lemma update_user_handler_inv:
  "member_inv (cn_db c) \<Longrightarrow> member_inv (cn_db (snd (handleUpdateUser parse c i b)))"
  by (auto simp: handleUpdateUser_def split: sum.split option.split dest!: update_email_db dest: role_write_inv)

lemma set_roles_handler_inv:
  "member_inv (cn_db c) \<Longrightarrow> member_inv (cn_db (snd (handleSetUserRoles c i b)))"
  by (auto simp: handleSetUserRoles_def Let_def split: sum.split option.split prod.split
      dest: keyed_grants.run_keeps keyed_revokes.run_keeps)

lemma member_step_inv: "member_inv (cn_db c) \<Longrightarrow> member_inv (cn_db (member_step parse hashpw c r))"
proof (cases r)
  case (ReadCaps u)
  then show "member_inv (cn_db c) \<Longrightarrow> ?thesis" by (auto simp: member_step_def split: option.split)
next
  case (PostRole b i t)
  then show "member_inv (cn_db c) \<Longrightarrow> ?thesis"
    by (auto simp: member_step_def handleCreateRole_def Let_def split: sum.split dest: role_write_inv)
next
  case (PutRole i b)
  then show "member_inv (cn_db c) \<Longrightarrow> ?thesis"
    by (auto simp: member_step_def handleUpdateRole_def Let_def split: sum.split dest: role_write_inv)
next
  case (DropRole i)
  then show "member_inv (cn_db c) \<Longrightarrow> ?thesis"
    by (auto simp: member_step_def handleDeleteRole_def split: sum.split dest: role_write_inv)
next
  case (DropUser i)
  then show "member_inv (cn_db c) \<Longrightarrow> ?thesis"
    by (auto simp: member_step_def handleDeleteUser_def split: sum.split dest: role_write_inv)
next
  case (PutPassword w i b)
  then show "member_inv (cn_db c) \<Longrightarrow> ?thesis"
    by (auto simp: member_step_def handleSetUserPassword_def split: sum.split option.split)
qed (auto simp: member_step_def create_user_handler_inv update_user_handler_inv set_roles_handler_inv)

interpretation member_machine: guarded_machine "member_step parse hashpw" "\<lambda>c. member_inv (cn_db c)" for parse hashpw
  by unfold_locales (rule member_step_inv)

subsection \<open>The cache stays exact\<close>

lemma concat_map_if: "concat (map (\<lambda>x. if P x then f x else []) xs) = concat (map f (filter P xs))"
  by (induction xs) auto

lemma EffectiveMask_cong:
  assumes "roles s' = roles s" "role_caps s' = role_caps s"
    "filter (\<lambda>m. rm_user_id m = u) (role_members s') = filter (\<lambda>m. rm_user_id m = u) (role_members s)"
  shows "EffectiveMask s' u = EffectiveMask s u"
proof -
  have "mask_rows s' u = mask_rows s u" by (simp add: mask_rows_def concat_map_if assms)
  then show ?thesis by (simp add: EffectiveMask_def)
qed

lemma same_but_mask:
  assumes "same_but uid s s'" "u \<noteq> uid"
  shows "EffectiveMask s' u = EffectiveMask s u"
proof (rule EffectiveMask_cong)
  have *: "filter (\<lambda>m. rm_user_id m = u) xs = filter (\<lambda>m. rm_user_id m = u) (filter (\<lambda>m. rm_user_id m \<noteq> uid) xs)" for xs
    using assms(2) by (induction xs) auto
  have "filter (\<lambda>m. rm_user_id m \<noteq> uid) (role_members s') = filter (\<lambda>m. rm_user_id m \<noteq> uid) (role_members s)"
    using assms(1) by (simp add: same_but_def)
  then show "filter (\<lambda>m. rm_user_id m = u) (role_members s') = filter (\<lambda>m. rm_user_id m = u) (role_members s)"
    by (subst (1 2) *) simp
qed (use assms(1) in \<open>simp_all add: same_but_def\<close>)

text \<open>Everything in the cache is what the store answers, and is about somebody who exists.\<close>

definition cache_sound :: "console \<Rightarrow> bool" where
  "cache_sound c \<longleftrightarrow> cache_exact EffectiveMask (cn_db c, cn_caps c) \<and> fst ` set (cn_caps c) \<subseteq> u_id ` set (users (cn_db c))"

lemma cache_sound_invalidated [simp]: "cache_sound (saved_invalidate c s)"
  by (simp add: cache_sound_def cache_exact_def)

lemma cache_sound_saved:
  assumes "cache_sound c" "u_id ` set (users (cn_db c)) \<subseteq> u_id ` set (users (ac_db s))"
    "\<And>u. u \<in> u_id ` set (users (cn_db c)) \<Longrightarrow> EffectiveMask (ac_db s) u = EffectiveMask (cn_db c) u"
  shows "cache_sound (saved c s)"
proof -
  have "u \<in> u_id ` set (users (cn_db c))" if "map_of (cn_caps c) u = Some m" for u m
    using assms(1) that by (force simp: cache_sound_def dest: map_of_SomeD)
  moreover have "fst ` set (cn_caps c) \<subseteq> u_id ` set (users (ac_db s))"
    using assms(1,2) unfolding cache_sound_def by (meson subset_trans)
  ultimately show ?thesis using assms(1,3) by (simp add: cache_sound_def cache_exact_def)
qed

lemma cache_sound_read:
  assumes "cache_sound c" "UserByID (cn_acc c) u = Some x"
  shows "cache_sound (c\<lparr>cn_caps := fst (cache_Of EffectiveMask (cn_db c) (cn_caps c) u)\<rparr>)"
proof -
  have "cache_exact EffectiveMask (cache_serve EffectiveMask (cn_db c, cn_caps c) (Read u))"
    using assms(1) by (intro cache_serve_exact) (simp add: cache_sound_def)
  moreover have "userOr404 c u = Inr x" using assms(2) by (simp add: userOr404_def)
  then have "u \<in> u_id ` set (users (cn_db c))" by (auto dest: userOr404_found)
  moreover have "fst ` set (fst (cache_Of EffectiveMask (cn_db c) (cn_caps c) u)) \<subseteq> insert u (fst ` set (cn_caps c))"
    by (auto simp: cache_Of_def gput_keys split: option.split sum.split)
  ultimately show ?thesis using assms(1) by (auto simp: cache_sound_def)
qed

lemma disabled_mask: "EffectiveMask (SetUserDisabled s uid b) u = EffectiveMask s u"
  by (rule EffectiveMask_cong) (simp_all add: SetUserDisabled_def)

lemma disabled_ids: "u_id ` set (users (SetUserDisabled s uid b)) = u_id ` set (users s)"
proof -
  have "map u_id (users (SetUserDisabled s uid b)) = map u_id (users s)" by (simp add: SetUserDisabled_def map_update_where)
  then show ?thesis by (metis set_map)
qed

lemma cache_sound_create_user:
  assumes "cache_sound c" shows "cache_sound (snd (handleCreateUser parse hashpw c b i))"
proof -
  have "cache_sound (saved c (s\<lparr>ac_db := d\<rparr>))"
    if s: "CreateUser (cn_acc c) kind f = Inr s" "pf_id f = i" and d: "run_until (grant_one i) (ac_db s) gs = (r, d)" for s kind f gs r d
  proof (rule cache_sound_saved[OF assms])
    have frame: "same_but i (ac_db s) d" by (rule grant_frame.run_keeps[OF same_but_refl d])
    have s': "roles (ac_db s) = roles (cn_db c)" "role_caps (ac_db s) = role_caps (cn_db c)"
      "role_members (ac_db s) = role_members (cn_db c)" "u_id ` set (users (ac_db s)) = insert i (u_id ` set (users (cn_db c)))"
      "i \<notin> u_id ` set (users (cn_db c))"
      using s by (auto simp: CreateUser_def profile_taken_def list_ex_iff split: if_split_asm)
    show "u_id ` set (users (cn_db c)) \<subseteq> u_id ` set (users (ac_db (s\<lparr>ac_db := d\<rparr>)))"
      using frame s' by (auto simp: same_but_def)
    fix u assume "u \<in> u_id ` set (users (cn_db c))"
    then have "EffectiveMask d u = EffectiveMask (ac_db s) u" using s'(5) by (intro same_but_mask[OF frame]) auto
    also have "\<dots> = EffectiveMask (cn_db c) u" by (rule EffectiveMask_cong) (simp_all add: s')
    finally show "EffectiveMask (ac_db (s\<lparr>ac_db := d\<rparr>)) u = EffectiveMask (cn_db c) u" by simp
  qed
  then show ?thesis
    using assms by (auto simp: handleCreateUser_def Let_def split: sum.split option.split prod.split)
qed

lemma cache_sound_update_user:
  assumes "cache_sound c" shows "cache_sound (snd (handleUpdateUser parse c i b))"
proof -
  have same: "cache_sound (saved c s)" if "ac_db s = cn_db c" for s
    using assms that by (intro cache_sound_saved) simp_all
  have off: "cache_sound (saved c (auditUser (s\<lparr>ac_db := d\<rparr>) a l))"
    if "SetUserDisabledGuarded (cn_db c) uid v = Inr d" for s uid v d a l
  proof -
    have "d = SetUserDisabled (cn_db c) uid v"
      using that by (auto simp: SetUserDisabledGuarded_def split: sum.split_asm if_split_asm)
    then show ?thesis using assms by (intro cache_sound_saved) (simp_all add: disabled_mask disabled_ids)
  qed
  show ?thesis
    using assms by (auto simp: handleUpdateUser_def same off dest!: update_email_db split: sum.split option.split)
qed

lemma cache_sound_password:
  "cache_sound c \<Longrightarrow> cache_sound (snd (handleSetUserPassword hashpw c w i b))"
  by (auto simp: handleSetUserPassword_def intro!: cache_sound_saved split: sum.split option.split)

lemma cache_sound_set_roles:
  "cache_sound c \<Longrightarrow> answered (fst (handleSetUserRoles c i b)) \<Longrightarrow> cache_sound (snd (handleSetUserRoles c i b))"
  by (auto simp: handleSetUserRoles_def grant_refusal_def answered_def Let_def
      split: sum.split option.split prod.split sum.split_asm option.split_asm prod.split_asm if_split_asm store_error.split_asm)

lemma cache_sound_role_writes:
  assumes "cache_sound c"
  shows "cache_sound (snd (handleCreateRole c rb i t))" "cache_sound (snd (handleUpdateRole c i rb))"
    "cache_sound (snd (handleDeleteRole c i))" "cache_sound (snd (handleDeleteUser c i))"
  using assms
  by (auto simp: handleCreateRole_def handleUpdateRole_def handleDeleteRole_def handleDeleteUser_def Let_def
      userOr404_def split: sum.split option.split)

section \<open>Properties\<close>

text \<open>C2: whatever the role and user handlers are asked, in whatever order and whatever they refuse halfway,
  somebody who can sign in still holds an administrator role everywhere, and no grant is in the table twice.\<close>

theorem requests_keep_an_administrator:
  assumes "member_inv (cn_db c)"
  shows "has_admin (cn_db (foldl (member_step parse hashpw) c rs)) \<and> members_key (cn_db (foldl (member_step parse hashpw) c rs))"
  using member_machine.run_inv[of c parse hashpw rs] assms by (simp add: member_inv_def roles_inv_def)

text \<open>C11: when the new roles of a user are accepted, the grants given here are exactly the ones asked for; a
  grant of the identity provider stays as it was unless the request names it, which turns it into one given
  here; and nobody else's grants change.\<close>

theorem roles_become_what_was_asked:
  assumes "handleSetUserRoles c uid (Inr req) = (Answered n v, c')" "members_ok (cn_db c)" "members_key (cn_db c)"
  shows "m \<in> set (role_members (cn_db c')) \<longleftrightarrow>
    (if rm_user_id m \<noteq> uid then m \<in> set (role_members (cn_db c))
     else if rm_source m = ''local'' then row_key m \<in> set (map grant_key req)
     else m \<in> set (role_members (cn_db c)) \<and> row_key m \<notin> set (map grant_key req))"
proof -
  let ?s = "cn_db c" and ?gs = "map grant_key req"
  obtain d d' where rev: "run_until (revoke_one uid) ?s (unwanted (set ?gs) (UserRoles ?s uid)) = (None, d)"
    and gr: "run_until (grant_one uid) d ?gs = (None, d')" and c': "cn_db c' = d'"
    using assms(1)
    by (auto simp: handleSetUserRoles_def grant_refusal_def Let_def dest!: userOr404_found
        split: sum.split_asm prod.split_asm option.split_asm if_split_asm store_error.split_asm)
  let ?U = "{x \<in> set (role_members ?s). rm_user_id x = uid \<and> rm_source x = ''local'' \<and> row_key x \<notin> set ?gs}"
  have "row_key m \<in> row_key ` ?U \<longleftrightarrow> rm_source m = ''local'' \<and> row_key m \<notin> set ?gs"
    if m: "m \<in> set (role_members ?s)" "rm_user_id m = uid" for m
  proof
    assume "row_key m \<in> row_key ` ?U"
    then obtain x where x: "x \<in> ?U" "row_key m = row_key x" by blast
    then have "m = x" using m by (intro members_keyD[OF assms(3) m(1)]) simp_all
    with x show "rm_source m = ''local'' \<and> row_key m \<notin> set ?gs" by blast
  next
    assume "rm_source m = ''local'' \<and> row_key m \<notin> set ?gs"
    with m show "row_key m \<in> row_key ` ?U" by (intro imageI) blast
  qed
  then have gone: "m \<in> set (role_members d) \<longleftrightarrow> m \<in> set (role_members ?s) \<and>
      \<not> (rm_user_id m = uid \<and> rm_source m = ''local'' \<and> row_key m \<notin> set ?gs)" for m
    unfolding revoke_loop_set[OF rev] set_unwanted[OF assms(2)] by blast
  have row: "m = grant_row uid (row_key m)" if "rm_user_id m = uid" "rm_source m = ''local''"
    using that by (cases m) (auto simp: grant_row_def row_key_def)
  have new: "m \<in> grant_row uid ` set ?gs \<longleftrightarrow> rm_user_id m = uid \<and> rm_source m = ''local'' \<and> row_key m \<in> set ?gs"
  proof
    assume "rm_user_id m = uid \<and> rm_source m = ''local'' \<and> row_key m \<in> set ?gs"
    then show "m \<in> grant_row uid ` set ?gs" using row by blast
  qed (auto simp del: set_map)
  show ?thesis unfolding c' grant_loop_set[OF gr] Un_iff mem_Collect_eq gone new by (cases "rm_user_id m = uid") (simp_all del: set_map)
qed


lemma grant_loop_sub:
  "run_until (grant_one uid) s gs = (r, s') \<Longrightarrow> set (role_members s') \<subseteq> set (role_members s) \<union> grant_row uid ` set gs"
proof (induction gs arbitrary: s)
  case (Cons g gs)
  then show ?case by (fastforce split: sum.split_asm dest: grant_one_set)
qed simp

text \<open>C39: a change of roles that is refused because one of the new roles cannot be limited to a host has
  already taken away every grant the request did not name. The cache is not told: the user keeps the
  capabilities it had, although none of the grants that gave them need be left.\<close>

theorem refused_change_keeps_powers:
  assumes "handleSetUserRoles c uid (Inr req) = (Refused n ''cannot_scope'', c')" "members_ok (cn_db c)"
    and "map_of (cn_caps c) uid = Some em"
  shows "snd (cache_Of EffectiveMask (cn_db c') (cn_caps c') uid) = Inr em \<and>
    (\<forall>m \<in> set (role_members (cn_db c')). rm_user_id m = uid \<and> rm_source m = ''local'' \<longrightarrow> row_key m \<in> set (map grant_key req))"
proof -
  let ?s = "cn_db c" and ?gs = "map grant_key req"
  obtain d d' r where rev: "run_until (revoke_one uid) ?s (unwanted (set ?gs) (UserRoles ?s uid)) = (None, d)"
    and gr: "run_until (grant_one uid) d ?gs = (r, d')" and c': "cn_db c' = d'" "cn_caps c' = cn_caps c"
    using assms(1)
    by (auto simp: handleSetUserRoles_def userOr404_not_scope Let_def dest!: userOr404_found
        split: sum.split_asm prod.split_asm option.split_asm if_split_asm)
  have "row_key m \<in> set ?gs" if "m \<in> set (role_members d)" "rm_user_id m = uid" "rm_source m = ''local''" for m
    using that unfolding revoke_loop_set[OF rev] set_unwanted[OF assms(2)] by blast
  moreover have "row_key m \<in> set ?gs" if "m \<in> grant_row uid ` set ?gs" for m
    using that by (auto simp del: set_map)
  ultimately have "\<forall>m \<in> set (role_members d'). rm_user_id m = uid \<and> rm_source m = ''local'' \<longrightarrow> row_key m \<in> set ?gs"
    using grant_loop_sub[OF gr] by blast
  then show ?thesis using assms(3) by (simp add: c' cache_Of_def)
qed

section \<open>The front desk again\<close>

text \<open>The capabilities of a role are not needed to find it.\<close>

lemma RoleByID_found:
  "RoleByID s rid =
     (case filter (\<lambda>r. ro_id r = rid) (roles s) of
        [] \<Rightarrow> Inl ErrNotFound
      | r # _ \<Rightarrow> Inr \<lparr>ro_id = ro_id r, ro_name = ro_name r, ro_description = ro_description r, ro_is_admin = ro_is_admin r,
                     ro_builtin = ro_builtin r, ro_created_at = ro_created_at r, ro_caps = gget [] (capsOf s [ro_id r]) (ro_id r)\<rparr>)"
  by (auto simp: RoleByID_def oneRole_def withCaps_def role_row.defs role.defs split: list.split)

definition ann_mask :: scoped_mask where
  "ann_mask = \<lparr>Global = [], Env = [(''h1'', [(NSDeploy, 3)])]\<rparr>"

definition desk_console :: console where
  "desk_console = \<lparr>cn_acc = desk, cn_caps = [(''ann'', ann_mask)]\<rparr>"

definition on_h1 :: "ident \<Rightarrow> grant_request" where
  "on_h1 rid = \<lparr>gq_role_id = rid, gq_env_id = ''h1''\<rparr>"

lemmas desk_facts = desk_console_def desk_def desk_db_def office_def

lemma desk_user: "userOr404 desk_console ''ann'' = Inr \<lparr>u_id = ''ann'', u_kind = ''human'', u_disabled = False\<rparr>"
  by (simp add: userOr404_def UserByID_def desk_facts)

lemma desk_revokes: "revoke_one ''ann'' (cn_db desk_console) (''dep'', OnEnv ''h1'') = Inr (revoke_apply (cn_db desk_console) ''ann'' ''dep'' (OnEnv ''h1''))"
  by (simp add: revoke_one_def RevokeRole_def revoke_check_def RoleByID_found desk_facts)

lemma desk_unwanted: "unwanted (set [(''admin'', OnEnv ''h1'')]) (UserRoles (cn_db desk_console) ''ann'') = [(''dep'', OnEnv ''h1'')]"
  by code_simp

lemma desk_cannot_scope:
  "\<exists>a b. grant_one ''ann'' (revoke_apply (cn_db desk_console) ''ann'' ''dep'' (OnEnv ''h1'')) (''admin'', OnEnv ''h1'') = Inl (ErrCannotScope a b)"
  using Everything_not_scopable
  by (simp add: grant_one_def GrantRole_def canGrant_def RoleByID_found revoke_apply_def Effective_def scope_Valid_def OnEnv_def IsGlobal_def Let_def desk_facts)

lemma desk_inv: "member_inv (cn_db desk_console)"
  unfolding member_inv_def by code_simp

theorem requests_keep_an_administrator_witness:
  "has_admin (cn_db (foldl (member_step (\<lambda>a. None) Some) desk_console [DropUser ''root'', DropUser ''bg'', PutRoles ''bg'' (Inr [])]))"
  using requests_keep_an_administrator[OF desk_inv] by blast

lemma desk_regrants:
  "\<exists>v c'. handleSetUserRoles desk_console ''ann'' (Inr [on_h1 ''dep'']) = (Answered 200 v, c')"
proof -
  let ?s = "cn_db desk_console"
  obtain r where r: "RoleByID office ''dep'' = Inr r" "Effective r = Normalize [(NSDeploy, 3)]" by (rule office_dep)
  have "RoleByID ?s ''dep'' = RoleByID office ''dep''"
    by (simp add: RoleByID_found desk_facts capsOf_def raw_caps_def)
  moreover have "set_IsZero (GlobalOnly (Normalize [(NSDeploy, 3)]))" by code_simp
  moreover have "''h1'' \<in> set (environments ?s)" "member_fk ?s ''ann'' ''dep''" by code_simp+
  ultimately have "\<exists>d. grant_one ''ann'' ?s (''dep'', OnEnv ''h1'') = Inr d"
    using r by (simp add: grant_one_def GrantRole_def canGrant_def scope_Valid_def OnEnv_def IsGlobal_def Let_def)
  moreover have "unwanted (set [(''dep'', OnEnv ''h1'')]) (UserRoles ?s ''ann'') = []" by code_simp
  ultimately show ?thesis
    by (auto simp: handleSetUserRoles_def desk_user grant_key_def grant_scope_def on_h1_def Let_def)
qed

theorem roles_become_what_was_asked_witness:
  "\<exists>v c'. handleSetUserRoles desk_console ''ann'' (Inr [on_h1 ''dep'']) = (Answered 200 v, c') \<and>
     grant_row ''ann'' (''dep'', OnEnv ''h1'') \<in> set (role_members (cn_db c'))"
proof -
  obtain v c' where r: "handleSetUserRoles desk_console ''ann'' (Inr [on_h1 ''dep'']) = (Answered 200 v, c')"
    using desk_regrants by blast
  have "members_ok (cn_db desk_console)" "members_key (cn_db desk_console)"
    using desk_inv by (simp_all add: member_inv_def roles_inv_def)
  from roles_become_what_was_asked[OF r this, of "grant_row ''ann'' (''dep'', OnEnv ''h1'')"] r show ?thesis
    by (auto simp: grant_key_def grant_scope_def on_h1_def)
qed


theorem refused_change_keeps_powers_witness:
  "fst (handleSetUserRoles desk_console ''ann'' (Inr [on_h1 ''admin''])) = Refused 409 ''cannot_scope'' \<and>
   snd (cache_Of EffectiveMask (cn_db (snd (handleSetUserRoles desk_console ''ann'' (Inr [on_h1 ''admin'']))))
     (cn_caps (snd (handleSetUserRoles desk_console ''ann'' (Inr [on_h1 ''admin''])))) ''ann'') = Inr ann_mask \<and>
   sm_Has ann_mask StacksEdit ''h1''"
proof -
  let ?r = "handleSetUserRoles desk_console ''ann'' (Inr [on_h1 ''admin''])"
  obtain a b where "grant_one ''ann'' (revoke_apply (cn_db desk_console) ''ann'' ''dep'' (OnEnv ''h1'')) (''admin'', OnEnv ''h1'') = Inl (ErrCannotScope a b)"
    using desk_cannot_scope by blast
  then have "fst ?r = Refused 409 ''cannot_scope''"
    using desk_unwanted
    by (simp add: handleSetUserRoles_def desk_user desk_revokes grant_key_def grant_scope_def on_h1_def grant_refusal_def Let_def)
  then have r: "?r = (Refused 409 ''cannot_scope'', snd ?r)" by (metis prod.collapse)
  have ok: "members_ok (cn_db desk_console)" by code_simp
  have held: "map_of (cn_caps desk_console) ''ann'' = Some ann_mask" by (simp add: desk_console_def)
  have "sm_Has ann_mask StacksEdit ''h1''" by code_simp
  then show ?thesis using refused_change_keeps_powers[OF r ok held] r by (metis fst_conv)
qed

end
