(* ===== verification/Spec2Isabelle.thy ===== *)
theory Spec2Isabelle
  imports Effective Deploys Alerting Access Mishaps Pushes KeyRotation Sweeps Outbox Powers
begin

text \<open>
  \<^bold>\<open>Daffa\<close> is a control panel for Docker hosts and Swarm clusters, written in Go. This development models its
  decision logic from the sources under \<^verbatim>\<open>src/\<close> and proves what makes it correct. The theories follow the
  program from the inside out; each opens with the files it models.

  \<^bold>\<open>The program.\<close> Every request enters through one route table (\<^verbatim>\<open>internal/api/server.go\<close>). It is checked for
  cross-site origin, resolved to a user by a session cookie or a bearer token (\<^verbatim>\<open>internal/auth\<close>), and guarded by a
  capability (\<^verbatim>\<open>internal/caps\<close>) on the cluster where the addressed object lives. What a user may do follows from the
  roles held globally or on a cluster (\<^verbatim>\<open>internal/store/roles.go\<close>). Stacks are compose files from git or the
  database; a deploy claims the stack, syncs the volumes it needs, runs its hooks and an engine container, and
  records a verdict (\<^verbatim>\<open>internal/api/deploy.go\<close>, \<^verbatim>\<open>internal/stacks\<close>). A push of a git server starts deploys and syncs
  through webhooks (\<^verbatim>\<open>internal/api/webhook_handlers.go\<close>). Volume sources, certificate deliveries and fleet deliveries
  keep named volumes equal to a desired state on every node (\<^verbatim>\<open>internal/volumes\<close>, \<^verbatim>\<open>internal/api/cert_delivery.go\<close> and its
  siblings). Monitors evaluate rules over stored samples, raise alerts and run actions (\<^verbatim>\<open>internal/monitor\<close>).

  \<^bold>\<open>State and effects.\<close> A database table is the list of its rows; an operation of the store is a function from the
  tables to the tables with the constraints of the schema (keys, unique and partial indexes, foreign keys)
  written as its error branches. A handler is the whole handler: its checks in the order of the code, its
  replies as values of a datatype, the new state beside the reply. Requests arrive decoded. What is outside the
  repository is a parameter: the Docker daemon (which calls fail, and after how many files), the git server,
  the identity provider, the clock, fresh identifiers, hashing, sealing and HMAC, URL parsing and JSON. Text
  is a list of bytes; Unicode case and white space outside ASCII are not modelled, except for the watch
  patterns, which decode UTF-8.

  \<^bold>\<open>Theories.\<close>
  \<^item> \<open>Prelude\<close>: tables, strings, paths, 64-bit durations, Go maps as association lists, and the lemmas on them.
  \<^item> \<open>Caps\<close>: the capability registry, sets of capabilities as 32-bit masks per namespace, normalisation, names,
    the cache of effective masks. \<open>Roles\<close>, \<open>Effective\<close>: roles, grants and the guards on administrators, and the mask
    a user ends up with. An administrator who can sign in always remains; the mask is exactly what the grants
    give; a host mask holds nothing that is global only.
  \<^item> \<open>Accounts\<close>, \<open>SignIn\<close>: users, sessions, API tokens, break-glass links, the login throttle, local and provider
    sign-in. A link works once and gives everything for an hour; guesses are bounded; a token admits its owner.
  \<^item> \<open>RouteTable\<close>, \<open>Routes\<close>, \<open>Access\<close>: every row of the route table, the cross-site check, the mux and the guards. No
    handler is reached without the capability where the object lives; a refusal does not tell whether an
    object exists; the choice of a route does not depend on the order of registration.
  \<^item> \<open>Stacks\<close>: registries, stacks, their variables and secrets, deployments. A stack never has two running
    deployments, and a claim is held until its verdict. \<open>Hooks\<close>: parsing of \<^verbatim>\<open>x-daffa\<close> blocks, the split of a compose
    file into hook services and the rest. \<open>Pipeline\<close>, \<open>Rollout\<close>, \<open>Deploys\<close>: deploys, hooks, rollback, teardown,
    cancelling and reaping; every deployment settles, a hooked deploy refines its specification, and only a
    success goes live.
  \<^item> \<open>Monitors\<close>, \<open>Alerts\<close>, \<open>Alerting\<close>: validation of rules, evaluation over a window, the alert rows, actions with
    their cooldown, saving a rule.
  \<^item> \<open>Volumes\<close>, \<open>Mirror\<close>: the writer of named volumes, its manifests and one round of a mirror on every node.
    \<open>Deliveries\<close>, \<open>Material\<close>, \<open>Mishaps\<close>: certificate and fleet deliveries. A round touches only its own files however the
    daemon fails; a delivery leaves exactly what it carries; keys stay in their cluster; and the cases in
    which a key is lost or stranded. \<open>Sources\<close>: volume sources from git or inline files.
  \<^item> \<open>Watch\<close>, \<open>Webhooks\<close>, \<open>Pushes\<close>: watch patterns, webhooks and their deliveries. Nothing happens without the
    secret, a push acts by the rules, and a pinned webhook acts only in its cluster.
  \<^item> \<open>Keyrings\<close>, \<open>KeyRotation\<close>: rings of versioned keys, their rotation by hand and by the hourly worker, and the
    document delivered into volumes. A ring always has one current key, the document holds exactly the live
    ones, and a rotation never takes an old key away.
  \<^item> \<open>Cleanup\<close>, \<open>Sweeps\<close>: policies for automatic disk cleanup, their schedule and the sweep of a host. A sweep takes
    only what the policy lets go and never a volume, and the schedule follows the policies.
  \<^item> \<open>Notify\<close>, \<open>Outbox\<close>: what is said about an event, to whom, and the outbox with its worker. No alert is lost, it
    arrives once and settles, exactly those the rules name are told; and mail that cannot be sent holds up
    the channels.
  \<^item> \<open>Members\<close>, \<open>Powers\<close>: the handlers that change roles, users and grants, with the capability cache. An administrator
    is left whatever is asked, grants become exactly what was asked for, and the cache stays exact except after
    a refused change of roles.
  \<^bold>\<open>Interfaces.\<close> The locale \<open>mirrored\<close> of \<open>Mirror\<close> states what a writer with a manifest needs (distinct plain names, a
  manifest that lists them) and proves once what its rounds leave behind; it is interpreted for the
  certificate and for the fleet deliveries. The other locales are interpreted in the theories of the
  components that provide their operations.

  \<^bold>\<open>Bounds.\<close> \<open>deploy n\<close> allows \<open>n\<close> nested deployments; two are enough, because a rollback never rolls back, so the
  model uses \<open>deploy 2\<close> and \<open>Deploys.rollback_never_rolls_back\<close> shows that it returns. Every other recursion is
  structural or has a measure. Durations wrap at 64 bits where the code multiplies them.

  \<^bold>\<open>Concurrency.\<close> Interleavings are sequences of store writes: the invariants hold for every sequence, a deploy
  lets other requests write between its own steps, and the races the code has are shown on concrete
  schedules. The goroutines of one webhook delivery run one after the other in the model.

  \<^bold>\<open>Not modelled.\<close> The Docker, SSH, agent and registry clients, the collector and the backup streams, and the mail
  protocol, which are calls into other programs; the X.509 code, which is calls into the standard library; the views
  and listings of most handlers; the import and export of whole instances (\<^verbatim>\<open>internal/api/manifest.go\<close>), whose plan
  and apply steps call the operations of every other part; the schema migrations, whose constraints are
  part of the modelled operations; the command line, the generators and the web interface.
\<close>

end
